(* ===== verification/Rds_Prelude.thy ===== *)
theory Rds_Prelude
  imports Main "HOL-Library.Word"
begin

text \<open>
  The vocabulary shared by every theory of the development: the machine integers of the C
  sources, C memory blocks as byte lists, the little-endian encodings the wire formats use, and
  the list lemmas the codec proofs rest on.

  \<^item> A C integer of a given width is a word of that width.  Signed and unsigned 32-bit fields are
    both \<open>32 word\<close>; a signed field is read with \<open>sint\<close> and an unsigned one with \<open>uint\<close>.
  \<^item> A pointer to bytes is modelled by the bytes it addresses, from the pointer to the end of its
    block, and the null pointer by \<open>None\<close>.
\<close>

unbundle bit_operations_syntax

named_theorems le_simps \<open>lengths and inverses of the little-endian encodings\<close>

type_synonym byte = "8 word"
type_synonym UINT16 = "16 word"
type_synonym UINT32 = "32 word"
type_synonym INT32 = "32 word"
type_synonym mem_ptr = "byte list option"

section \<open>Little-endian integers\<close>

definition le16 :: "UINT16 \<Rightarrow> byte list" where
  "le16 w = [ucast w, ucast (drop_bit 8 w)]"

definition le32 :: "UINT32 \<Rightarrow> byte list" where
  "le32 w = [ucast w, ucast (drop_bit 8 w), ucast (drop_bit 16 w), ucast (drop_bit 24 w)]"

fun of_le16 :: "byte list \<Rightarrow> UINT16" where
  "of_le16 (b0 # b1 # _) = ucast b0 OR push_bit 8 (ucast b1)"
| "of_le16 _ = 0"

fun of_le32 :: "byte list \<Rightarrow> UINT32" where
  "of_le32 (b0 # b1 # b2 # b3 # _) =
     ucast b0 OR push_bit 8 (ucast b1) OR push_bit 16 (ucast b2) OR push_bit 24 (ucast b3)"
| "of_le32 _ = 0"

section \<open>C strings\<close>

text \<open>\<open>strlen\<close> of a block: the bytes before its first NUL.\<close>

definition c_string :: "byte list \<Rightarrow> byte list" where
  "c_string bs = takeWhile (\<lambda>b. b \<noteq> 0) bs"

definition strlen :: "byte list \<Rightarrow> nat" where
  "strlen bs = length (c_string bs)"

section \<open>Lemmas\<close>

lemma length_le16 [simp, le_simps]: "length (le16 w) = 2"
  by (simp add: le16_def)

lemma length_le32 [simp, le_simps]: "length (le32 w) = 4"
  by (simp add: le32_def)

lemma of_le16_le16 [simp, le_simps]: "of_le16 (le16 w) = w"
  by (rule bit_word_eqI) (auto simp: le16_def bit_simps)

lemma of_le32_le32 [simp, le_simps]: "of_le32 (le32 w) = w"
proof (rule bit_word_eqI)
  fix n assume "n < LENGTH(32)"
  then show "bit (of_le32 (le32 w)) n = bit w n"
    by (cases "24 \<le> n"; cases "16 \<le> n") (auto simp: le32_def bit_simps)
qed

lemma of_le16_append [simp, le_simps]: "of_le16 (le16 w @ bs) = w"
  using of_le16_le16 [of w] by (simp add: le16_def)

lemma of_le32_append [simp, le_simps]: "of_le32 (le32 w @ bs) = w"
  using of_le32_le32 [of w] by (simp add: le32_def)

lemma c_string_append_nul [simp]: "c_string (c_string bs @ 0 # cs) = c_string bs"
proof -
  have "\<forall>b \<in> set (takeWhile (\<lambda>b. b \<noteq> 0) bs). b \<noteq> 0"
    by (auto dest: set_takeWhileD)
  then show ?thesis
    unfolding c_string_def by (subst takeWhile_append2) auto
qed

lemma take_strlen: "take (strlen bs) bs = c_string bs"
  by (simp add: strlen_def c_string_def takeWhile_eq_take [symmetric])

lemma strlen_le: "strlen bs \<le> length bs"
  by (simp add: strlen_def c_string_def length_takeWhile_le)

lemma length_c_string [simp]: "length (c_string bs) = strlen bs"
  by (simp add: strlen_def)

text \<open>Narrowing a 32-bit field to 16 bits on the wire and widening it again.\<close>

lemma ucast_16_32_id: "uint (w :: 32 word) < 65536 \<Longrightarrow> ucast (ucast w :: 16 word) = w"
proof -
  assume a: "uint w < 65536"
  have "uint (ucast (ucast w :: 16 word) :: 32 word) = uint w mod 65536"
    by (simp add: unsigned_ucast_eq take_bit_eq_mod uint_mod)
  also have "\<dots> = uint w" using a by simp
  finally show ?thesis by (rule word_uint_eq_iff [THEN iffD2])
qed

lemma uint_ucast_16: "uint (ucast (ucast (w :: 32 word) :: 16 word) :: 32 word) = uint w mod 65536"
  by (simp add: unsigned_ucast_eq take_bit_eq_mod uint_mod)

text \<open>A length below \<open>2 ^ 31\<close> is the same read as signed and as unsigned.\<close>

lemma sint_small:
  assumes "unat (w :: 32 word) < 2 ^ 31"
  shows "sint w = int (unat w)"
proof -
  have "int (unat w) < int (2 ^ 31)" using assms by (simp only: of_nat_less_iff)
  also have "int (2 ^ 31) = 2147483648" by simp
  finally have "uint w < 2147483648" by (simp only: uint_nat)
  moreover have "- 2147483648 \<le> uint w" by (rule order_trans [OF _ uint_ge_0]) simp
  ultimately have "signed_take_bit 31 (uint w) = uint w"
    by (intro signed_take_bit_int_eq_self) simp_all
  then show ?thesis by (simp add: sint_uint)
qed

text \<open>Sums and products that do not wrap, and a value that fits the 16 bits it is narrowed to.\<close>

lemma unat_plus_small: "unat (a :: UINT32) + unat b < 2 ^ 32 \<Longrightarrow> unat (a + b) = unat a + unat b"
  by (simp add: unat_word_ariths)

lemma unat_times_small: "unat (a :: UINT32) * unat b < 2 ^ 32 \<Longrightarrow> unat (a * b) = unat a * unat b"
  by (simp add: unat_word_ariths)

lemma unat_ucast_16_32: "unat (n :: UINT32) < 65536 \<Longrightarrow> unat (ucast (ucast n :: UINT16) :: UINT32) = unat n"
  by (simp add: unsigned_ucast_eq unsigned_take_bit_eq take_bit_nat_eq_self)

section \<open>Loads and stores through a byte pointer\<close>

text \<open>
  \<open>load_bytes p n\<close> is the \<open>n\<close> bytes a C routine reads at \<open>p\<close>, and \<open>store_bytes p bs\<close> the block after
  \<open>bs\<close> has been stored at \<open>p\<close>; both are \<open>None\<close> where the access leaves the block or goes through a null
  pointer, which is undefined in C.
\<close>

definition load_bytes :: "mem_ptr \<Rightarrow> nat \<Rightarrow> byte list option" where
  "load_bytes p n =
     (if n = 0 then Some []
      else case p of None \<Rightarrow> None | Some b \<Rightarrow> if n \<le> length b then Some (take n b) else None)"

definition store_bytes :: "mem_ptr \<Rightarrow> byte list \<Rightarrow> mem_ptr option" where
  "store_bytes p bs =
     (case p of
        None \<Rightarrow> None
      | Some b \<Rightarrow> if length bs \<le> length b then Some (Some (bs @ drop (length bs) b)) else None)"

lemma load_bytes_0 [simp]: "load_bytes p 0 = Some []"
  by (simp add: load_bytes_def)

lemma load_bytes_length: "load_bytes p n = Some bs \<Longrightarrow> length bs = n"
  by (auto simp: load_bytes_def split: if_splits option.splits)

lemma load_bytes_Some [simp]: "n \<le> length b \<Longrightarrow> load_bytes (Some b) n = Some (take n b)"
  by (simp add: load_bytes_def)

lemma load_bytes_append [simp]: "load_bytes (Some (bs @ cs)) (length bs) = Some bs"
  by (simp add: load_bytes_def)

lemma store_then_load:
  "store_bytes p bs = Some q \<Longrightarrow> load_bytes q (length bs) = Some bs"
  by (auto simp: store_bytes_def load_bytes_def split: if_splits option.splits)

end
