(* ===== verification/Rds_WStream.thy ===== *)
theory Rds_WStream
  imports Rds_Prelude
begin

text \<open>
  The byte stream \<open>wStream\<close> of the WinPR library, through which every message of the backend
  protocol is read and written.  WinPR is not part of the repository, so the stream is a parameter:
  the record \<open>wstream_ops\<close> holds the stream operations the sources call, on an abstract stream type
  \<open>'s\<close>, and every definition that touches a stream takes such a record.  The locale \<open>wstream\<close> states
  the documented behaviour the sources rely on, each operation only where the access is inside the
  stream's buffer (outside it the C macros are undefined).  The last section gives a buffer that has
  this behaviour, on which the theorems of the other theories are instantiated.
\<close>

named_theorems stream_simps \<open>the stream laws, as rewrite rules\<close>

section \<open>The operations\<close>

text \<open>
  \<open>Stream_Buffer\<close> is the whole buffer, so its length is the capacity; a stream operation that stores
  through the stream pointer returns the new stream, and a read returns the value and the stream.
\<close>

record 's wstream_ops =
  Stream_Buffer :: "'s \<Rightarrow> byte list"
  Stream_Length :: "'s \<Rightarrow> nat"
  Stream_GetPosition :: "'s \<Rightarrow> nat"
  Stream_SetPosition :: "'s \<Rightarrow> nat \<Rightarrow> 's"
  Stream_GetRemainingLength :: "'s \<Rightarrow> nat"
  Stream_Seek :: "'s \<Rightarrow> nat \<Rightarrow> 's"
  Stream_SealLength :: "'s \<Rightarrow> 's"
  Stream_EnsureRemainingCapacity :: "'s \<Rightarrow> nat \<Rightarrow> 's"
  Stream_Read :: "'s \<Rightarrow> nat \<Rightarrow> byte list \<times> 's"
  Stream_Read_UINT16 :: "'s \<Rightarrow> UINT16 \<times> 's"
  Stream_Read_UINT32 :: "'s \<Rightarrow> UINT32 \<times> 's"
  Stream_Write :: "'s \<Rightarrow> byte list \<Rightarrow> 's"
  Stream_Write_UINT16 :: "'s \<Rightarrow> UINT16 \<Rightarrow> 's"
  Stream_Write_UINT32 :: "'s \<Rightarrow> UINT32 \<Rightarrow> 's"
  Stream_New :: "nat \<Rightarrow> 's"

text \<open>The bytes the stream pointer addresses: those from the position to the end of the buffer.\<close>

definition Stream_Pointer :: "'s wstream_ops \<Rightarrow> 's \<Rightarrow> byte list" where
  "Stream_Pointer W s = drop (Stream_GetPosition W s) (Stream_Buffer W s)"

section \<open>Their documented behaviour\<close>

locale wstream =
  fixes W :: "'s wstream_ops"
  assumes Length_le_capacity: "Stream_Length W s \<le> length (Stream_Buffer W s)"
    and RemainingLength_eq:
      "Stream_GetRemainingLength W s = Stream_Length W s - Stream_GetPosition W s"
    and SetPosition_pos: "Stream_GetPosition W (Stream_SetPosition W s p) = p"
    and SetPosition_buf: "Stream_Buffer W (Stream_SetPosition W s p) = Stream_Buffer W s"
    and SetPosition_len: "Stream_Length W (Stream_SetPosition W s p) = Stream_Length W s"
    and SetPosition_SetPosition:
      "Stream_SetPosition W (Stream_SetPosition W s p) q = Stream_SetPosition W s q"
    and SetPosition_same: "Stream_SetPosition W s (Stream_GetPosition W s) = s"
    and Seek_eq: "Stream_Seek W s n = Stream_SetPosition W s (Stream_GetPosition W s + n)"
    and SealLength_buf: "Stream_Buffer W (Stream_SealLength W s) = Stream_Buffer W s"
    and SealLength_pos: "Stream_GetPosition W (Stream_SealLength W s) = Stream_GetPosition W s"
    and SealLength_len:
      "Stream_GetPosition W s \<le> length (Stream_Buffer W s) \<Longrightarrow>
       Stream_Length W (Stream_SealLength W s) = Stream_GetPosition W s"
    and Ensure_pos:
      "Stream_GetPosition W (Stream_EnsureRemainingCapacity W s n) = Stream_GetPosition W s"
    and Ensure_room: "n \<le> length (Stream_Pointer W (Stream_EnsureRemainingCapacity W s n))"
    and Ensure_keeps:
      "Stream_GetPosition W s \<le> length (Stream_Buffer W s) \<Longrightarrow>
       take (Stream_GetPosition W s) (Stream_Buffer W (Stream_EnsureRemainingCapacity W s n)) =
       take (Stream_GetPosition W s) (Stream_Buffer W s)"
    and Read_eq:
      "n \<le> length (Stream_Pointer W s) \<Longrightarrow>
       Stream_Read W s n = (take n (Stream_Pointer W s), Stream_Seek W s n)"
    and Read_UINT16_eq:
      "2 \<le> length (Stream_Pointer W s) \<Longrightarrow>
       Stream_Read_UINT16 W s = (of_le16 (take 2 (Stream_Pointer W s)), Stream_Seek W s 2)"
    and Read_UINT32_eq:
      "4 \<le> length (Stream_Pointer W s) \<Longrightarrow>
       Stream_Read_UINT32 W s = (of_le32 (take 4 (Stream_Pointer W s)), Stream_Seek W s 4)"
    and Write_pos:
      "length bs \<le> length (Stream_Pointer W s) \<Longrightarrow>
       Stream_GetPosition W (Stream_Write W s bs) = Stream_GetPosition W s + length bs"
    and Write_len:
      "length bs \<le> length (Stream_Pointer W s) \<Longrightarrow>
       Stream_Length W (Stream_Write W s bs) = Stream_Length W s"
    and Write_buf:
      "length bs \<le> length (Stream_Pointer W s) \<Longrightarrow>
       Stream_Buffer W (Stream_Write W s bs) =
         take (Stream_GetPosition W s) (Stream_Buffer W s) @ bs @ drop (length bs) (Stream_Pointer W s)"
    and Write_Write:
      "length as + length bs \<le> length (Stream_Pointer W s) \<Longrightarrow>
       Stream_Write W (Stream_Write W s as) bs = Stream_Write W s (as @ bs)"
    and Write_Nil: "Stream_Write W s [] = s"
    and Write_UINT16_eq: "Stream_Write_UINT16 W s v = Stream_Write W s (le16 v)"
    and Write_UINT32_eq: "Stream_Write_UINT32 W s w = Stream_Write W s (le32 w)"
    and New_pos: "Stream_GetPosition W (Stream_New W n) = 0"
    and New_buf: "length (Stream_Buffer W (Stream_New W n)) = n"
begin

lemmas SetPosition_laws [stream_simps] =
  SetPosition_pos SetPosition_buf SetPosition_len SetPosition_SetPosition SetPosition_same

text \<open>Moving the position forward drops bytes from what the pointer addresses.\<close>

lemma Seek_pos [stream_simps]:
  "Stream_GetPosition W (Stream_Seek W s n) = Stream_GetPosition W s + n"
  by (simp add: Seek_eq SetPosition_pos)

lemma Seek_buf [stream_simps]: "Stream_Buffer W (Stream_Seek W s n) = Stream_Buffer W s"
  by (simp add: Seek_eq SetPosition_buf)

lemma Seek_len [stream_simps]: "Stream_Length W (Stream_Seek W s n) = Stream_Length W s"
  by (simp add: Seek_eq SetPosition_len)

lemma Seek_Seek [stream_simps]:
  "Stream_Seek W (Stream_Seek W s m) n = Stream_Seek W s (m + n)"
  by (simp add: Seek_eq SetPosition_SetPosition SetPosition_pos add.assoc)

lemma Seek_0 [stream_simps]: "Stream_Seek W s 0 = s"
  by (simp add: Seek_eq SetPosition_same)

lemma Seek_pointer [stream_simps]:
  "Stream_Pointer W (Stream_Seek W s n) = drop n (Stream_Pointer W s)"
  by (simp add: Stream_Pointer_def Seek_pos Seek_buf add.commute)

lemma Seek_remaining [stream_simps]:
  "Stream_GetRemainingLength W (Stream_Seek W s n) = Stream_GetRemainingLength W s - n"
  by (simp add: RemainingLength_eq Seek_pos Seek_len)

lemma remaining_le_pointer: "Stream_GetRemainingLength W s \<le> length (Stream_Pointer W s)"
  using Length_le_capacity [of s] by (simp add: RemainingLength_eq Stream_Pointer_def)

text \<open>Consecutive writes are one write, and a written value is what the pointer then addresses.\<close>

lemmas Write_UINT_laws [stream_simps] = Write_UINT16_eq Write_UINT32_eq Write_Nil

lemmas Write_laws = Write_pos Write_len Write_buf

lemma Write_pointer:
  assumes "length bs \<le> length (Stream_Pointer W s)"
  shows "Stream_Pointer W (Stream_Write W s bs) = drop (length bs) (Stream_Pointer W s)"
proof -
  have "length (take (Stream_GetPosition W s) (Stream_Buffer W s)) = Stream_GetPosition W s"
    if "Stream_GetPosition W s \<le> length (Stream_Buffer W s)" using that by simp
  then show ?thesis
    using assms
    by (cases "Stream_GetPosition W s \<le> length (Stream_Buffer W s)")
       (auto simp: Stream_Pointer_def Write_pos Write_buf)
qed

lemma Write_rewind_pointer:
  assumes "length bs \<le> length (Stream_Pointer W s)"
    and "Stream_GetPosition W s \<le> length (Stream_Buffer W s)"
  shows "Stream_Pointer W (Stream_SetPosition W (Stream_Write W s bs) (Stream_GetPosition W s)) =
           bs @ drop (length bs) (Stream_Pointer W s)"
  using assms by (simp add: Stream_Pointer_def SetPosition_pos SetPosition_buf Write_buf)

lemma Write_UINT16_Write:
  "length as + 2 \<le> length (Stream_Pointer W s) \<Longrightarrow>
   Stream_Write_UINT16 W (Stream_Write W s as) v = Stream_Write W s (as @ le16 v)"
  by (simp add: Write_UINT16_eq Write_Write)

lemma Write_UINT32_Write:
  "length as + 4 \<le> length (Stream_Pointer W s) \<Longrightarrow>
   Stream_Write_UINT32 W (Stream_Write W s as) v = Stream_Write W s (as @ le32 v)"
  by (simp add: Write_UINT32_eq Write_Write)

end

section \<open>A buffer with this behaviour\<close>

record buffer_stream =
  bs_buffer :: "byte list"
  bs_position :: nat
  bs_length :: nat

definition buffer_stream_new :: "nat \<Rightarrow> buffer_stream" where
  "buffer_stream_new n = \<lparr>bs_buffer = replicate n 0, bs_position = 0, bs_length = n\<rparr>"

definition bs_pointer :: "buffer_stream \<Rightarrow> byte list" where
  "bs_pointer s = drop (bs_position s) (bs_buffer s)"

definition bs_seek :: "buffer_stream \<Rightarrow> nat \<Rightarrow> buffer_stream" where
  "bs_seek s n = s\<lparr>bs_position := bs_position s + n\<rparr>"

definition bs_write :: "buffer_stream \<Rightarrow> byte list \<Rightarrow> buffer_stream" where
  "bs_write s bs =
     s\<lparr>bs_buffer := take (bs_position s) (bs_buffer s) @ bs @ drop (length bs) (bs_pointer s),
       bs_position := bs_position s + length bs\<rparr>"

definition bs_ensure :: "buffer_stream \<Rightarrow> nat \<Rightarrow> buffer_stream" where
  "bs_ensure s n =
     (if n \<le> length (bs_pointer s) then s
      else s\<lparr>bs_buffer := bs_buffer s @ replicate (bs_position s + n - length (bs_buffer s)) 0,
             bs_length := bs_position s + n\<rparr>)"

definition buffer_ops :: "buffer_stream wstream_ops" where
  "buffer_ops =
     \<lparr>Stream_Buffer = bs_buffer,
      Stream_Length = (\<lambda>s. min (bs_length s) (length (bs_buffer s))),
      Stream_GetPosition = bs_position,
      Stream_SetPosition = (\<lambda>s p. s\<lparr>bs_position := p\<rparr>),
      Stream_GetRemainingLength = (\<lambda>s. min (bs_length s) (length (bs_buffer s)) - bs_position s),
      Stream_Seek = bs_seek,
      Stream_SealLength = (\<lambda>s. s\<lparr>bs_length := bs_position s\<rparr>),
      Stream_EnsureRemainingCapacity = bs_ensure,
      Stream_Read = (\<lambda>s n. (take n (bs_pointer s), bs_seek s n)),
      Stream_Read_UINT16 = (\<lambda>s. (of_le16 (take 2 (bs_pointer s)), bs_seek s 2)),
      Stream_Read_UINT32 = (\<lambda>s. (of_le32 (take 4 (bs_pointer s)), bs_seek s 4)),
      Stream_Write = bs_write,
      Stream_Write_UINT16 = (\<lambda>s v. bs_write s (le16 v)),
      Stream_Write_UINT32 = (\<lambda>s v. bs_write s (le32 v)),
      Stream_New = buffer_stream_new\<rparr>"

lemma buffer_pointer: "Stream_Pointer buffer_ops s = bs_pointer s"
  by (simp add: Stream_Pointer_def buffer_ops_def bs_pointer_def)

lemma buffer_write: "Stream_Write buffer_ops = bs_write"
  by (simp add: buffer_ops_def)

lemma bs_write_write:
  assumes "length as + length bs \<le> length (bs_pointer s)"
  shows "bs_write (bs_write s as) bs = bs_write s (as @ bs)"
proof (cases "bs_position s \<le> length (bs_buffer s)")
  case True
  then show ?thesis
    using assms by (simp add: bs_write_def bs_pointer_def add.commute add.left_commute)
next
  case False
  then have "as = []" and "bs = []" using assms by (simp_all add: bs_pointer_def)
  then show ?thesis using False by (simp add: bs_write_def bs_pointer_def)
qed

interpretation bs: wstream buffer_ops
proof (unfold_locales, goal_cases)
  case (13 n s)
  then show ?case by (simp add: buffer_pointer) (simp add: buffer_ops_def bs_ensure_def bs_pointer_def)
qed (simp_all add: buffer_pointer buffer_write bs_write_write,
     simp_all add: buffer_ops_def bs_seek_def bs_ensure_def bs_write_def bs_pointer_def buffer_stream_new_def)

end
