(* ===== verification/Rds_Messages.thy ===== *)
theory Rds_Messages
  imports Rds_Prelude
begin

text \<open>
  The message structures of the backend protocol, from \<open>include/freerds/backend.h\<close>: one record per
  C struct.  \<open>DEFINE_MSG_COMMON()\<close> puts the same fields in front of every message, and the sources
  cast any message pointer to \<open>RDS_MSG_COMMON*\<close>; here every message record extends the record
  \<open>RDS_MSG_COMMON\<close>, so a function on the common part takes any message.  Field names carry a short
  prefix for their struct, since record fields are global names.  The three structures of FreeRDP
  that messages embed (a rectangle, a brush, a counted string) have the fields the sources use.
\<close>

section \<open>Common data types\<close>

definition RDS_MSG_FLAG_RECT :: UINT32 where
  "RDS_MSG_FLAG_RECT = 1"

record RDS_RECT =
  rect_x :: INT32
  rect_y :: INT32
  rect_width :: UINT32
  rect_height :: UINT32

record RDS_MSG_COMMON =
  msg_type :: UINT32
  msg_length :: UINT32
  msgFlags :: UINT32
  rect :: RDS_RECT

record RDS_FRAMEBUFFER =
  fbWidth :: INT32
  fbHeight :: INT32
  fbAttached :: INT32
  fbScanline :: INT32
  fbSegmentId :: INT32
  fbBitsPerPixel :: INT32
  fbBytesPerPixel :: INT32
  fbSharedMemory :: mem_ptr

record RECTANGLE_16 =
  r16_left :: UINT16
  r16_top :: UINT16
  r16_right :: UINT16
  r16_bottom :: UINT16

record rdpBrush =
  brush_x :: UINT32
  brush_y :: UINT32
  brush_bpp :: UINT32
  brush_style :: UINT32
  brush_hatch :: UINT32
  brush_index :: UINT32
  brush_data :: mem_ptr

record RAIL_UNICODE_STRING =
  us_length :: UINT16
  us_string :: mem_ptr

section \<open>Client messages\<close>

record RDS_MSG_SYNCHRONIZE_KEYBOARD_EVENT = RDS_MSG_COMMON +
  sync_flags :: UINT32

record RDS_MSG_SCANCODE_KEYBOARD_EVENT = RDS_MSG_COMMON +
  scan_flags :: UINT32
  scan_code :: UINT32
  scan_keyboardType :: UINT32

record RDS_MSG_VIRTUAL_KEYBOARD_EVENT = RDS_MSG_COMMON +
  vkey_flags :: UINT32
  vkey_code :: UINT32

record RDS_MSG_UNICODE_KEYBOARD_EVENT = RDS_MSG_COMMON +
  ukey_flags :: UINT32
  ukey_code :: UINT32

record RDS_MSG_MOUSE_EVENT = RDS_MSG_COMMON +
  mouse_flags :: UINT32
  mouse_x :: UINT32
  mouse_y :: UINT32

record RDS_MSG_EXTENDED_MOUSE_EVENT = RDS_MSG_COMMON +
  xmouse_flags :: UINT32
  xmouse_x :: UINT32
  xmouse_y :: UINT32

record RDS_MSG_CAPABILITIES = RDS_MSG_COMMON +
  caps_Version :: UINT32
  caps_DesktopWidth :: UINT32
  caps_DesktopHeight :: UINT32
  caps_ColorDepth :: UINT32
  caps_KeyboardLayout :: UINT32
  caps_KeyboardType :: UINT32
  caps_KeyboardSubType :: UINT32

record RDS_MSG_REFRESH_RECT = RDS_MSG_COMMON +
  refresh_numberOfAreas :: UINT32
  refresh_areasToRefresh :: "RECTANGLE_16 list"

type_synonym RDS_MSG_VBLANK_EVENT = RDS_MSG_COMMON

record RDS_MSG_SUPPRESS_OUTPUT = RDS_MSG_COMMON +
  suppress_activeOutput :: UINT32

section \<open>Server messages\<close>

type_synonym RDS_MSG_BEGIN_UPDATE = RDS_MSG_COMMON
type_synonym RDS_MSG_END_UPDATE = RDS_MSG_COMMON
type_synonym RDS_MSG_BEEP = RDS_MSG_COMMON

record RDS_MSG_OPAQUE_RECT = RDS_MSG_COMMON +
  opaque_nLeftRect :: INT32
  opaque_nTopRect :: INT32
  opaque_nWidth :: INT32
  opaque_nHeight :: INT32
  opaque_color :: UINT32

record RDS_MSG_SCREEN_BLT = RDS_MSG_COMMON +
  scrblt_nLeftRect :: INT32
  scrblt_nTopRect :: INT32
  scrblt_nWidth :: INT32
  scrblt_nHeight :: INT32
  scrblt_bRop :: UINT32
  scrblt_nXSrc :: INT32
  scrblt_nYSrc :: INT32

record RDS_MSG_PAINT_RECT = RDS_MSG_COMMON +
  paint_nLeftRect :: INT32
  paint_nTopRect :: INT32
  paint_nWidth :: INT32
  paint_nHeight :: INT32
  paint_nXSrc :: INT32
  paint_nYSrc :: INT32
  paint_bitmapData :: mem_ptr
  paint_bitmapDataLength :: UINT32
  paint_fbSegmentId :: UINT32
  paint_framebuffer :: "RDS_FRAMEBUFFER option"

record RDS_MSG_DSTBLT = RDS_MSG_COMMON +
  dstblt_nLeftRect :: INT32
  dstblt_nTopRect :: INT32
  dstblt_nWidth :: INT32
  dstblt_nHeight :: INT32
  dstblt_bRop :: UINT32

record RDS_MSG_PATBLT = RDS_MSG_COMMON +
  patblt_nLeftRect :: INT32
  patblt_nTopRect :: INT32
  patblt_nWidth :: INT32
  patblt_nHeight :: INT32
  patblt_bRop :: UINT32
  patblt_backColor :: UINT32
  patblt_foreColor :: UINT32
  patblt_brush :: rdpBrush

record RDS_MSG_SET_CLIPPING_REGION = RDS_MSG_COMMON +
  clip_bNullRegion :: UINT32
  clip_nLeftRect :: INT32
  clip_nTopRect :: INT32
  clip_nWidth :: INT32
  clip_nHeight :: INT32

record RDS_MSG_LINE_TO = RDS_MSG_COMMON +
  line_backMode :: UINT32
  line_nXStart :: INT32
  line_nYStart :: INT32
  line_nXEnd :: INT32
  line_nYEnd :: INT32
  line_backColor :: UINT32
  line_bRop2 :: UINT32
  line_penStyle :: UINT32
  line_penWidth :: UINT32
  line_penColor :: UINT32

record RDS_MSG_SET_POINTER = RDS_MSG_COMMON +
  ptr_xorBpp :: UINT32
  ptr_xPos :: UINT32
  ptr_yPos :: UINT32
  ptr_width :: UINT32
  ptr_height :: UINT32
  ptr_lengthAndMask :: UINT32
  ptr_lengthXorMask :: UINT32
  ptr_xorMaskData :: mem_ptr
  ptr_andMaskData :: mem_ptr

record RDS_MSG_SET_SYSTEM_POINTER = RDS_MSG_COMMON +
  sysptr_ptrType :: UINT32

record RDS_MSG_SET_PALETTE = RDS_MSG_COMMON +
  palette_palette :: "UINT32 list option"

record RDS_MSG_CREATE_OFFSCREEN_SURFACE = RDS_MSG_COMMON +
  cos_cacheIndex :: UINT32
  cos_nWidth :: UINT32
  cos_nHeight :: UINT32

record RDS_MSG_SWITCH_OFFSCREEN_SURFACE = RDS_MSG_COMMON +
  sos_cacheIndex :: UINT32

record RDS_MSG_DELETE_OFFSCREEN_SURFACE = RDS_MSG_COMMON +
  dos_cacheIndex :: UINT32

record RDS_MSG_PAINT_OFFSCREEN_SURFACE = RDS_MSG_COMMON +
  pos_cacheIndex :: UINT32
  pos_nLeftRect :: INT32
  pos_nTopRect :: INT32
  pos_nWidth :: INT32
  pos_nHeight :: INT32
  pos_bRop :: UINT32
  pos_nXSrc :: INT32
  pos_nYSrc :: INT32

record RDS_GLYPH_DATA =
  glyph_cacheIndex :: UINT32
  glyph_x :: INT32
  glyph_y :: INT32
  glyph_cx :: UINT32
  glyph_cy :: UINT32
  glyph_cb :: UINT32
  glyph_aj :: mem_ptr

record RDS_MSG_CACHE_GLYPH = RDS_MSG_COMMON +
  cglyph_cacheId :: UINT32
  cglyph_flags :: UINT32
  cglyph_cGlyphs :: UINT32
  cglyph_glyphData :: "RDS_GLYPH_DATA list option"
  cglyph_unicodeCharacters :: mem_ptr

record RDS_MSG_GLYPH_INDEX = RDS_MSG_COMMON +
  gidx_cacheId :: UINT32
  gidx_flAccel :: UINT32
  gidx_ulCharInc :: UINT32
  gidx_fOpRedundant :: UINT32
  gidx_backColor :: UINT32
  gidx_foreColor :: UINT32
  gidx_bkLeft :: INT32
  gidx_bkTop :: INT32
  gidx_bkRight :: INT32
  gidx_bkBottom :: INT32
  gidx_opLeft :: INT32
  gidx_opTop :: INT32
  gidx_opRight :: INT32
  gidx_opBottom :: INT32
  gidx_brush :: rdpBrush
  gidx_x :: INT32
  gidx_y :: INT32
  gidx_cbData :: UINT32
  gidx_data :: mem_ptr

record RDS_MSG_RESET = RDS_MSG_COMMON +
  reset_DesktopWidth :: UINT32
  reset_DesktopHeight :: UINT32
  reset_ColorDepth :: UINT32

record RDS_MSG_WINDOW_NEW_UPDATE = RDS_MSG_COMMON +
  wnu_windowId :: UINT32
  wnu_ownerWindowId :: UINT32
  wnu_style :: UINT32
  wnu_extendedStyle :: UINT32
  wnu_showState :: UINT32
  wnu_titleInfo :: RAIL_UNICODE_STRING
  wnu_clientOffsetX :: UINT32
  wnu_clientOffsetY :: UINT32
  wnu_clientAreaWidth :: UINT32
  wnu_clientAreaHeight :: UINT32
  wnu_RPContent :: UINT32
  wnu_rootParentHandle :: UINT32
  wnu_windowOffsetX :: UINT32
  wnu_windowOffsetY :: UINT32
  wnu_windowClientDeltaX :: UINT32
  wnu_windowClientDeltaY :: UINT32
  wnu_windowWidth :: UINT32
  wnu_windowHeight :: UINT32
  wnu_numWindowRects :: UINT32
  wnu_windowRects :: "RECTANGLE_16 list"
  wnu_visibleOffsetX :: UINT32
  wnu_visibleOffsetY :: UINT32
  wnu_numVisibilityRects :: UINT32
  wnu_visibilityRects :: "RECTANGLE_16 list option"

record RDS_MSG_WINDOW_DELETE = RDS_MSG_COMMON +
  wdel_windowId :: UINT32

record RDS_MSG_SHARED_FRAMEBUFFER = RDS_MSG_COMMON +
  shfb_flags :: UINT32
  shfb_width :: INT32
  shfb_height :: INT32
  shfb_scanline :: INT32
  shfb_segmentId :: INT32
  shfb_bitsPerPixel :: INT32
  shfb_bytesPerPixel :: INT32

record RDS_MSG_LOGON_USER = RDS_MSG_COMMON +
  logon_Flags :: UINT32
  logon_UserLength :: UINT32
  logon_DomainLength :: UINT32
  logon_PasswordLength :: UINT32
  logon_User :: mem_ptr
  logon_Domain :: mem_ptr
  logon_Password :: mem_ptr

record RDS_MSG_LOGOFF_USER = RDS_MSG_COMMON +
  logoff_Flags :: UINT32

end
