(* ===== verification/Rds_Codec.thy ===== *)
theory Rds_Codec
  imports Rds_WStream Rds_Messages
begin

text \<open>
  The common message header of \<open>freerds/backend/protocol.c\<close> and the contract every message codec of
  that file follows.

  A C writer \<open>freerds_write_X(s, msg)\<close> is called twice: with a null stream it computes the message
  length, stores it in \<open>msg\<close> and returns it; with a stream it writes the frame.  The model of a writer
  therefore takes a stream option and returns the C result, the stream and the updated message.  A
  reader takes the stream and the message to fill and returns the C result, the stream and the message.

  The locale \<open>rds_codec\<close> states the contract on an abstract writer and reader: the bytes of a frame are
  the header and a body, the length field is the length of the frame, and reading a body back gives a
  message decoded from it.  It is interpreted for every message of the protocol in the next theories;
  its lemmas are what the transport relies on.
\<close>

section \<open>The common header\<close>

definition RDS_ORDER_HEADER_LENGTH :: nat where
  "RDS_ORDER_HEADER_LENGTH = 10"

definition freerds_peek_common_header_length :: "byte list \<Rightarrow> UINT32" where
  "freerds_peek_common_header_length data = of_le32 (drop 2 data)"

definition freerds_read_common_header ::
  "'s wstream_ops \<Rightarrow> 's \<Rightarrow> 'm RDS_MSG_COMMON_scheme \<Rightarrow> int \<times> 's \<times> 'm RDS_MSG_COMMON_scheme" where
  "freerds_read_common_header W s msg =
     (let (t, s) = Stream_Read_UINT16 W s; msg = msg\<lparr>msg_type := ucast t\<rparr>;
          (l, s) = Stream_Read_UINT32 W s; msg = msg\<lparr>msg_length := l\<rparr>;
          (f, s) = Stream_Read_UINT32 W s; msg = msg\<lparr>msgFlags := f\<rparr>
      in if msgFlags msg AND RDS_MSG_FLAG_RECT \<noteq> 0
         then let (x, s) = Stream_Read_UINT32 W s;
                  (y, s) = Stream_Read_UINT32 W s;
                  (w, s) = Stream_Read_UINT32 W s;
                  (h, s) = Stream_Read_UINT32 W s
              in (0, s, msg\<lparr>rect := \<lparr>rect_x = x, rect_y = y, rect_width = w, rect_height = h\<rparr>\<rparr>)
         else (0, s, msg))"

text \<open>The null-stream branch of \<open>freerds_write_common_header\<close>: the header's length.\<close>

definition freerds_common_header_length :: "'m RDS_MSG_COMMON_scheme \<Rightarrow> UINT32" where
  "freerds_common_header_length msg =
     of_nat RDS_ORDER_HEADER_LENGTH + (if msgFlags msg AND RDS_MSG_FLAG_RECT \<noteq> 0 then 16 else 0)"

text \<open>The branch with a stream.\<close>

definition freerds_write_common_header ::
  "'s wstream_ops \<Rightarrow> 's \<Rightarrow> 'm RDS_MSG_COMMON_scheme \<Rightarrow> 's" where
  "freerds_write_common_header W s msg =
     (let s = Stream_Write_UINT16 W s (ucast (msg_type msg));
          s = Stream_Write_UINT32 W s (msg_length msg);
          s = Stream_Write_UINT32 W s (msgFlags msg)
      in if msgFlags msg AND RDS_MSG_FLAG_RECT \<noteq> 0
         then let s = Stream_Write_UINT32 W s (rect_x (rect msg));
                  s = Stream_Write_UINT32 W s (rect_y (rect msg));
                  s = Stream_Write_UINT32 W s (rect_width (rect msg));
                  s = Stream_Write_UINT32 W s (rect_height (rect msg))
              in s
         else s)"

section \<open>The wire format of a header\<close>

definition rect_bytes :: "RDS_RECT \<Rightarrow> byte list" where
  "rect_bytes r = le32 (rect_x r) @ le32 (rect_y r) @ le32 (rect_width r) @ le32 (rect_height r)"

definition header_bytes :: "'m RDS_MSG_COMMON_scheme \<Rightarrow> byte list" where
  "header_bytes msg =
     le16 (ucast (msg_type msg)) @ le32 (msg_length msg) @ le32 (msgFlags msg) @
     (if msgFlags msg AND RDS_MSG_FLAG_RECT \<noteq> 0 then rect_bytes (rect msg) else [])"

text \<open>The header a reader leaves in \<open>msg\<close> when it reads the header of \<open>sent\<close>.\<close>

definition header_decode :: "'a RDS_MSG_COMMON_scheme \<Rightarrow> 'm RDS_MSG_COMMON_scheme \<Rightarrow> 'm RDS_MSG_COMMON_scheme"
where
  "header_decode sent msg =
     msg\<lparr>msg_type := ucast (ucast (msg_type sent) :: UINT16), msg_length := msg_length sent,
         msgFlags := msgFlags sent,
         rect := (if msgFlags sent AND RDS_MSG_FLAG_RECT \<noteq> 0 then rect sent else rect msg)\<rparr>"

lemma length_rect_bytes [simp]: "length (rect_bytes r) = 16"
  by (simp add: rect_bytes_def)

lemma length_header_bytes:
  "length (header_bytes msg) = 10 + (if msgFlags msg AND RDS_MSG_FLAG_RECT \<noteq> 0 then 16 else 0)"
  by (simp add: header_bytes_def)

lemma header_length_bounds:
  "10 \<le> length (header_bytes msg)" "length (header_bytes msg) \<le> 26"
  by (simp_all add: length_header_bytes)

lemma common_header_length_eq:
  "freerds_common_header_length msg = of_nat (length (header_bytes msg))"
  by (simp add: freerds_common_header_length_def length_header_bytes RDS_ORDER_HEADER_LENGTH_def)

lemma peek_header: "freerds_peek_common_header_length (header_bytes msg @ bs) = msg_length msg"
  by (simp add: freerds_peek_common_header_length_def header_bytes_def)

context wstream
begin

lemma write_common_header:
  assumes "length (header_bytes msg) \<le> length (Stream_Pointer W s)"
  shows "freerds_write_common_header W s msg = Stream_Write W s (header_bytes msg)"
  using assms
  by (simp add: freerds_write_common_header_def header_bytes_def rect_bytes_def Let_def
      Write_Write stream_simps split: if_splits)

lemma read_common_header:
  assumes "Stream_Pointer W s = header_bytes sent @ rest"
  shows "freerds_read_common_header W s msg =
           (0, Stream_Seek W s (length (header_bytes sent)), header_decode sent msg)"
  using assms
  by (simp add: freerds_read_common_header_def header_bytes_def rect_bytes_def header_decode_def
      Let_def Read_UINT16_eq Read_UINT32_eq stream_simps split: if_splits)

end

section \<open>Arrays of rectangles\<close>

text \<open>
  Three messages carry an array of \<open>RECTANGLE_16\<close>.  \<open>rects_at\<close> is a byte pointer seen as a pointer to
  such rectangles; \<open>read_rect16s\<close> and \<open>write_rect16s\<close> are the loops over the array, \<open>None\<close> when the
  loop leaves it.  A reader that points the array into the stream stores every value where it has just
  read it.
\<close>

fun rects_at :: "byte list \<Rightarrow> RECTANGLE_16 list" where
  "rects_at (a # b # c # d # e # f # g # h # bs) =
     \<lparr>r16_left = of_le16 [a, b], r16_top = of_le16 [c, d],
      r16_right = of_le16 [e, f], r16_bottom = of_le16 [g, h]\<rparr> # rects_at bs"
| "rects_at _ = []"

fun read_rect16s ::
  "'s wstream_ops \<Rightarrow> 's \<Rightarrow> RECTANGLE_16 list \<Rightarrow> nat \<Rightarrow> (RECTANGLE_16 list \<times> 's) option" where
  "read_rect16s W s rs 0 = Some (rs, s)"
| "read_rect16s W s [] (Suc n) = None"
| "read_rect16s W s (r # rs) (Suc n) =
     (let (v, s) = Stream_Read_UINT16 W s; r = r\<lparr>r16_left := v\<rparr>;
          (v, s) = Stream_Read_UINT16 W s; r = r\<lparr>r16_top := v\<rparr>;
          (v, s) = Stream_Read_UINT16 W s; r = r\<lparr>r16_right := v\<rparr>;
          (v, s) = Stream_Read_UINT16 W s; r = r\<lparr>r16_bottom := v\<rparr>
      in map_option (apfst (Cons r)) (read_rect16s W s rs n))"

fun write_rect16s :: "'s wstream_ops \<Rightarrow> 's \<Rightarrow> RECTANGLE_16 list \<Rightarrow> nat \<Rightarrow> 's option" where
  "write_rect16s W s rs 0 = Some s"
| "write_rect16s W s [] (Suc n) = None"
| "write_rect16s W s (r # rs) (Suc n) =
     (let s = Stream_Write_UINT16 W s (r16_left r);
          s = Stream_Write_UINT16 W s (r16_top r);
          s = Stream_Write_UINT16 W s (r16_right r);
          s = Stream_Write_UINT16 W s (r16_bottom r)
      in write_rect16s W s rs n)"

definition rect16_bytes :: "RECTANGLE_16 \<Rightarrow> byte list" where
  "rect16_bytes r = le16 (r16_left r) @ le16 (r16_top r) @ le16 (r16_right r) @ le16 (r16_bottom r)"

definition rects_bytes :: "RECTANGLE_16 list \<Rightarrow> byte list" where
  "rects_bytes rs = concat (map rect16_bytes rs)"

lemma rects_bytes_simps [simp]:
  "rects_bytes [] = []"
  "rects_bytes (r # rs) = rect16_bytes r @ rects_bytes rs"
  by (simp_all add: rects_bytes_def)

lemma length_rect16_bytes [simp]: "length (rect16_bytes r) = 8"
  by (simp add: rect16_bytes_def)

lemma length_rects_bytes [simp]: "length (rects_bytes rs) = 8 * length rs"
  by (induction rs) simp_all

lemma rects_at_rect16_bytes: "rects_at (rect16_bytes r @ bs) = r # rects_at bs"
proof -
  have two: "of_le16 (le16 w) = w" for w by (rule of_le16_le16)
  show ?thesis
    using two by (cases r) (simp add: rect16_bytes_def le16_def)
qed

lemma rects_at_rects_bytes: "rects_at (rects_bytes rs @ bs) = rs @ rects_at bs"
  by (induction rs) (simp_all add: rects_at_rect16_bytes)

context wstream
begin

lemma write_rect16s_eq:
  "n \<le> length rs \<Longrightarrow> 8 * n \<le> length (Stream_Pointer W s) \<Longrightarrow>
   write_rect16s W s rs n = Some (Stream_Write W s (rects_bytes (take n rs)))"
proof (induction n arbitrary: s rs)
  case (Suc n)
  then obtain r rs' where rs: "rs = r # rs'" by (cases rs) auto
  have "Stream_Write_UINT16 W (Stream_Write_UINT16 W (Stream_Write_UINT16 W
            (Stream_Write_UINT16 W s (r16_left r)) (r16_top r)) (r16_right r)) (r16_bottom r) =
        Stream_Write W s (rect16_bytes r)"
    using Suc.prems by (simp add: rect16_bytes_def stream_simps Write_Write)
  then show ?case
    using Suc.prems Suc.IH [of rs' "Stream_Write W s (rect16_bytes r)"]
    by (simp add: rs Let_def Write_pointer Write_Write)
qed (simp add: Write_Nil)

lemma read_rect16s_eq:
  "Stream_Pointer W s = rects_bytes rs @ rest \<Longrightarrow> length rs \<le> length areas \<Longrightarrow>
   read_rect16s W s areas (length rs) =
     Some (rs @ drop (length rs) areas, Stream_Seek W s (8 * length rs))"
proof (induction rs arbitrary: s areas)
  case (Cons r rs)
  then obtain a areas' where areas: "areas = a # areas'" by (cases areas) auto
  show ?case
    using Cons.prems Cons.IH [of "Stream_Seek W s 8" areas']
    by (simp add: areas rect16_bytes_def Let_def Read_UINT16_eq stream_simps)
qed (simp add: stream_simps)

end

section \<open>Copies of messages\<close>

text \<open>
  A copy routine returns the duplicate and the list of heap blocks it allocated for it, a free routine
  the list of blocks it releases.  A block is named by the field that points to it.
\<close>

datatype heap_block =
  MsgBlock | BitmapDataBlock | AndMaskBlock | XorMaskBlock | UserBlock | DomainBlock | PasswordBlock

named_theorems copy_defs \<open>the copy and free routines\<close>

section \<open>The contract of a message codec\<close>

text \<open>
  The wire carries some 32-bit fields in 16 bits: \<open>wire16 v\<close> is what is left of \<open>v\<close> on the other side.
\<close>

definition wire16 :: "UINT32 \<Rightarrow> UINT32" where
  "wire16 v = ucast (ucast v :: UINT16)"

lemma wire16_id: "uint v < 65536 \<Longrightarrow> wire16 v = v"
  by (simp add: wire16_def ucast_16_32_id)

lemma uint_wire16: "uint (wire16 v) = uint v mod 65536"
  by (simp add: wire16_def uint_ucast_16)

text \<open>
  The header fields a writer stores: \<open>n\<close> body bytes, with or without the rectangle.
\<close>

definition set_header :: "UINT32 \<Rightarrow> UINT32 \<Rightarrow> 'm RDS_MSG_COMMON_scheme \<Rightarrow> 'm RDS_MSG_COMMON_scheme" where
  "set_header flags n m =
     m\<lparr>msgFlags := flags, msg_length := (if flags AND RDS_MSG_FLAG_RECT \<noteq> 0 then 26 else 10) + n\<rparr>"

named_theorems codec_defs \<open>the readers, writers and wire formats of the messages\<close>

named_theorems codec_simps \<open>the rules that discharge the codec contract\<close>

lemma rect_fill [codec_simps]:
  "(r :: RDS_RECT)\<lparr>rect_x := a, rect_y := b, rect_width := c, rect_height := d\<rparr> =
   \<lparr>rect_x = a, rect_y = b, rect_width = c, rect_height = d\<rparr>"
  by (cases r) simp

lemmas header_codec_simps [codec_simps] =
  Let_def wire16_def set_header_def length_header_bytes common_header_length_eq RDS_MSG_FLAG_RECT_def

text \<open>
  A writer: \<open>sized m\<close> is the message after the length call, \<open>final m\<close> after the writing call, \<open>body\<close> the
  bytes after the header and \<open>ok\<close> what the writer needs of the message.
\<close>

type_synonym ('s, 'm) msg_reader = "'s \<Rightarrow> 'm \<Rightarrow> int \<times> 's \<times> 'm"
type_synonym ('s, 'm) msg_writer = "'s option \<Rightarrow> 'm \<Rightarrow> int \<times> 's option \<times> 'm"

context wstream
begin

lemmas stream_codec_simps [codec_simps] =
  write_common_header Write_Write Read_eq Read_UINT16_eq Read_UINT32_eq

end

locale rds_writer = wstream W for W :: "'s wstream_ops" +
  fixes wr :: "'s option \<Rightarrow> 'm RDS_MSG_COMMON_scheme \<Rightarrow> (int \<times> 's option \<times> 'm RDS_MSG_COMMON_scheme) option"
    and sized :: "'m RDS_MSG_COMMON_scheme \<Rightarrow> 'm RDS_MSG_COMMON_scheme"
    and final :: "'m RDS_MSG_COMMON_scheme \<Rightarrow> 'm RDS_MSG_COMMON_scheme"
    and body :: "'m RDS_MSG_COMMON_scheme \<Rightarrow> byte list"
    and ok :: "'m RDS_MSG_COMMON_scheme \<Rightarrow> bool"
  assumes wr_size: "wr None m = Some (sint (msg_length (sized m)), None, sized m)"
    and wr_frame:
      "ok m \<Longrightarrow> length (header_bytes (final m)) + length (body (final m)) \<le> length (Stream_Pointer W s) \<Longrightarrow>
       wr (Some s) m = Some (0, Some (Stream_Write W s (header_bytes (final m) @ body (final m))), final m)"
    and length_field:
      "ok m \<Longrightarrow> unat (msg_length (final m)) = length (header_bytes (final m)) + length (body (final m))"
    and sized_length: "msg_length (sized m) = msg_length (final m)"
    and sized_ok: "ok m \<Longrightarrow> ok (sized m)"
    and final_sized: "final (sized m) = final m"
    and final_type: "msg_type (final m) = msg_type m"
begin

abbreviation frame :: "'m RDS_MSG_COMMON_scheme \<Rightarrow> byte list" where
  "frame m \<equiv> header_bytes (final m) @ body (final m)"

lemma length_frame: "ok m \<Longrightarrow> length (frame m) = unat (msg_length (final m))"
  by (simp add: length_field)

text \<open>The two calls of a sender: the first gives the number of bytes the second writes.\<close>

lemma write_two_phase:
  assumes "ok m" and "length (frame m) < 2 ^ 31"
    and "length (frame m) \<le> length (Stream_Pointer W s)"
  shows "\<exists>m1. wr None m = Some (int (length (frame m)), None, m1) \<and>
              wr (Some s) m1 = Some (0, Some (Stream_Write W s (frame m)), final m)"
proof -
  have "sint (msg_length (final m)) = int (length (frame m))"
    using assms(1, 2) length_frame [of m]
    by (simp add: sint_small del: length_append)
  then show ?thesis
    using assms by (simp add: wr_size sized_length wr_frame sized_ok final_sized)
qed

text \<open>A receiver that peeks at the length field sees the length of the frame.\<close>

lemma peek_frame:
  "ok m \<Longrightarrow> unat (freerds_peek_common_header_length (frame m @ rest)) = length (frame m)"
  by (simp add: peek_header length_field)

end

text \<open>A codec has a reader too, which fills in \<open>msg\<close> what \<open>decode\<close> says.  A reader may leave
  pointers into the stream in the message, so \<open>decode\<close> also takes the bytes that follow the frame.\<close>

locale rds_codec = rds_writer W wr sized final body ok
  for W :: "'s wstream_ops"
    and wr :: "'s option \<Rightarrow> 'm RDS_MSG_COMMON_scheme \<Rightarrow> (int \<times> 's option \<times> 'm RDS_MSG_COMMON_scheme) option"
    and sized final body ok +
  fixes rd :: "'s \<Rightarrow> 'm RDS_MSG_COMMON_scheme \<Rightarrow> (int \<times> 's \<times> 'm RDS_MSG_COMMON_scheme) option"
    and decode :: "'m RDS_MSG_COMMON_scheme \<Rightarrow> byte list \<Rightarrow> 'm RDS_MSG_COMMON_scheme \<Rightarrow> 'm RDS_MSG_COMMON_scheme"
  assumes rd_body:
      "ok m \<Longrightarrow> Stream_Pointer W s = body (final m) @ rest \<Longrightarrow>
       length (body (final m)) \<le> Stream_GetRemainingLength W s \<Longrightarrow>
       rd s msg = Some (0, Stream_Seek W s (length (body (final m))), decode (final m) rest msg)"
begin

text \<open>Reading a frame consumes exactly the bytes its length field announces.\<close>

lemma read_frame:
  assumes "ok m" and "Stream_Pointer W s = frame m @ rest"
    and "length (frame m) \<le> Stream_GetRemainingLength W s"
  shows "\<exists>s1 m1. freerds_read_common_header W s msg = (0, s1, m1) \<and>
           rd s1 m1 = Some (0, Stream_Seek W s (unat (msg_length (final m))),
                            decode (final m) rest (header_decode (final m) msg))"
  using assms
  by (simp add: read_common_header [where rest = "body (final m) @ rest"] rd_body [where rest = rest]
      length_field stream_simps)

text \<open>The frame one side writes is the frame the other side reads.\<close>

lemma write_then_read:
  assumes "ok m" and "length (frame m) \<le> length (Stream_Pointer W s)"
    and "Stream_GetPosition W s + length (frame m) \<le> Stream_Length W s"
  shows "\<exists>t s1 m1. wr (Some s) m = Some (0, Some t, final m) \<and>
           freerds_read_common_header W (Stream_SetPosition W t (Stream_GetPosition W s)) msg = (0, s1, m1) \<and>
           rd s1 m1 = Some (0, t,
                            decode (final m) (drop (length (frame m)) (Stream_Pointer W s))
                               (header_decode (final m) msg))"
proof -
  let ?rest = "drop (length (frame m)) (Stream_Pointer W s)"
  let ?t = "Stream_Write W s (frame m)"
  let ?s = "Stream_SetPosition W ?t (Stream_GetPosition W s)"
  have pos: "Stream_GetPosition W s \<le> length (Stream_Buffer W s)"
    using assms(2) header_length_bounds(1) [of "final m"] by (simp add: Stream_Pointer_def)
  have "Stream_Pointer W ?s = frame m @ ?rest"
    using Write_rewind_pointer [OF assms(2) pos] by simp
  moreover have "length (frame m) \<le> Stream_GetRemainingLength W ?s"
    using assms(2, 3) by (simp add: RemainingLength_eq SetPosition_laws Write_len)
  ultimately obtain s1 m1 where
    "freerds_read_common_header W ?s msg = (0, s1, m1)"
    "rd s1 m1 = Some (0, Stream_Seek W ?s (unat (msg_length (final m))),
                      decode (final m) ?rest (header_decode (final m) msg))"
    using read_frame [OF assms(1)] by metis
  moreover have "wr (Some s) m = Some (0, Some ?t, final m)"
    using assms(1, 2) by (simp add: wr_frame)
  moreover have "Stream_Seek W ?s (unat (msg_length (final m))) = ?t"
    using assms(1, 2) SetPosition_same [of ?t]
    by (simp add: Seek_eq SetPosition_laws Write_pos length_field)
  ultimately show ?thesis by metis
qed

end

text \<open>A codec of fixed-size bodies rejects a stream that does not hold one, and leaves it alone.\<close>

locale rds_fixed_codec = rds_codec W wr sized final body ok rd decode
  for W :: "'s wstream_ops"
    and wr :: "'s option \<Rightarrow> 'm RDS_MSG_COMMON_scheme \<Rightarrow> (int \<times> 's option \<times> 'm RDS_MSG_COMMON_scheme) option"
    and sized final body ok
    and rd :: "'s \<Rightarrow> 'm RDS_MSG_COMMON_scheme \<Rightarrow> (int \<times> 's \<times> 'm RDS_MSG_COMMON_scheme) option"
    and decode +
  fixes body_len :: nat
  assumes body_size: "length (body m) = body_len"
    and rd_short: "Stream_GetRemainingLength W s < body_len \<Longrightarrow> rd s msg = Some (-1, s, msg)"
    and always_ok: "ok m"
begin

lemma rd_iff_room:
  "(\<exists>s' m'. rd s msg = Some (0, s', m')) \<longleftrightarrow> body_len \<le> Stream_GetRemainingLength W s"
  if "Stream_Pointer W s = body (final m) @ rest"
  using that rd_body [OF always_ok that] rd_short [of s msg] body_size by fastforce

end

end
