(* ===== verification/Rds_Client_Protocol.thy ===== *)
theory Rds_Client_Protocol
  imports Rds_Codec
begin

text \<open>
  The messages a client (the FreeRDS server process acting for a remote user) sends to a session
  backend: their readers and writers, from \<open>freerds/backend/protocol.c\<close>, with the wire format of
  each message and the proof that reader, writer and wire format keep the codec contract.
\<close>

subsection \<open>Synchronize Keyboard Event\<close>

definition freerds_read_synchronize_keyboard_event ::
  "'s wstream_ops \<Rightarrow> ('s, RDS_MSG_SYNCHRONIZE_KEYBOARD_EVENT) msg_reader" where
  [codec_defs]: "freerds_read_synchronize_keyboard_event W s msg =
     (if Stream_GetRemainingLength W s < 4 then (-1, s, msg)
      else let (v, s) = Stream_Read_UINT32 W s; msg = msg\<lparr>sync_flags := v\<rparr>
           in (0, s, msg))"

definition freerds_write_synchronize_keyboard_event ::
  "'s wstream_ops \<Rightarrow> ('s, RDS_MSG_SYNCHRONIZE_KEYBOARD_EVENT) msg_writer" where
  [codec_defs]: "freerds_write_synchronize_keyboard_event W s msg =
     (let msg = msg\<lparr>msgFlags := 0\<rparr>;
          msg = msg\<lparr>msg_length := freerds_common_header_length msg + 4\<rparr>
      in case s of
           None \<Rightarrow> (sint (msg_length msg), None, msg)
         | Some s \<Rightarrow>
             let s = freerds_write_common_header W s msg;
                 s = Stream_Write_UINT32 W s (sync_flags msg)
             in (0, Some s, msg))"

definition synchronize_keyboard_event_body :: "RDS_MSG_SYNCHRONIZE_KEYBOARD_EVENT \<Rightarrow> byte list" where
  [codec_defs]: "synchronize_keyboard_event_body m =
     le32 (sync_flags m)"

definition synchronize_keyboard_event_decode :: "RDS_MSG_SYNCHRONIZE_KEYBOARD_EVENT \<Rightarrow> byte list \<Rightarrow> RDS_MSG_SYNCHRONIZE_KEYBOARD_EVENT \<Rightarrow> RDS_MSG_SYNCHRONIZE_KEYBOARD_EVENT" where
  [codec_defs]: "synchronize_keyboard_event_decode sent rest m =
     m\<lparr>sync_flags := sync_flags sent\<rparr>"

definition synchronize_keyboard_event_final :: "RDS_MSG_SYNCHRONIZE_KEYBOARD_EVENT \<Rightarrow> RDS_MSG_SYNCHRONIZE_KEYBOARD_EVENT" where
  [codec_defs]: "synchronize_keyboard_event_final = set_header 0 4"

sublocale wstream \<subseteq> sync: rds_fixed_codec W
  "\<lambda>s m. Some (freerds_write_synchronize_keyboard_event W s m)" synchronize_keyboard_event_final synchronize_keyboard_event_final
  synchronize_keyboard_event_body "\<lambda>m. True" "\<lambda>s m. Some (freerds_read_synchronize_keyboard_event W s m)"
  synchronize_keyboard_event_decode 4
  by unfold_locales (simp_all add: codec_defs codec_simps stream_simps)

subsection \<open>Scancode Keyboard Event\<close>

definition freerds_read_scancode_keyboard_event ::
  "'s wstream_ops \<Rightarrow> ('s, RDS_MSG_SCANCODE_KEYBOARD_EVENT) msg_reader" where
  [codec_defs]: "freerds_read_scancode_keyboard_event W s msg =
     (if Stream_GetRemainingLength W s < 12 then (-1, s, msg)
      else let (v, s) = Stream_Read_UINT32 W s; msg = msg\<lparr>scan_flags := v\<rparr>;
               (v, s) = Stream_Read_UINT32 W s; msg = msg\<lparr>scan_code := v\<rparr>;
               (v, s) = Stream_Read_UINT32 W s; msg = msg\<lparr>scan_keyboardType := v\<rparr>
           in (0, s, msg))"

definition freerds_write_scancode_keyboard_event ::
  "'s wstream_ops \<Rightarrow> ('s, RDS_MSG_SCANCODE_KEYBOARD_EVENT) msg_writer" where
  [codec_defs]: "freerds_write_scancode_keyboard_event W s msg =
     (let msg = msg\<lparr>msgFlags := 0\<rparr>;
          msg = msg\<lparr>msg_length := freerds_common_header_length msg + 12\<rparr>
      in case s of
           None \<Rightarrow> (sint (msg_length msg), None, msg)
         | Some s \<Rightarrow>
             let s = freerds_write_common_header W s msg;
                 s = Stream_Write_UINT32 W s (scan_flags msg);
                 s = Stream_Write_UINT32 W s (scan_code msg);
                 s = Stream_Write_UINT32 W s (scan_keyboardType msg)
             in (0, Some s, msg))"

definition scancode_keyboard_event_body :: "RDS_MSG_SCANCODE_KEYBOARD_EVENT \<Rightarrow> byte list" where
  [codec_defs]: "scancode_keyboard_event_body m =
     le32 (scan_flags m) @ le32 (scan_code m) @ le32 (scan_keyboardType m)"

definition scancode_keyboard_event_decode :: "RDS_MSG_SCANCODE_KEYBOARD_EVENT \<Rightarrow> byte list \<Rightarrow> RDS_MSG_SCANCODE_KEYBOARD_EVENT \<Rightarrow> RDS_MSG_SCANCODE_KEYBOARD_EVENT" where
  [codec_defs]: "scancode_keyboard_event_decode sent rest m =
     m\<lparr>scan_flags := scan_flags sent, scan_code := scan_code sent,
       scan_keyboardType := scan_keyboardType sent\<rparr>"

definition scancode_keyboard_event_final :: "RDS_MSG_SCANCODE_KEYBOARD_EVENT \<Rightarrow> RDS_MSG_SCANCODE_KEYBOARD_EVENT" where
  [codec_defs]: "scancode_keyboard_event_final = set_header 0 12"

sublocale wstream \<subseteq> scan: rds_fixed_codec W
  "\<lambda>s m. Some (freerds_write_scancode_keyboard_event W s m)" scancode_keyboard_event_final scancode_keyboard_event_final
  scancode_keyboard_event_body "\<lambda>m. True" "\<lambda>s m. Some (freerds_read_scancode_keyboard_event W s m)"
  scancode_keyboard_event_decode 12
  by unfold_locales (simp_all add: codec_defs codec_simps stream_simps)

subsection \<open>Virtual Keyboard Event\<close>

definition freerds_read_virtual_keyboard_event ::
  "'s wstream_ops \<Rightarrow> ('s, RDS_MSG_VIRTUAL_KEYBOARD_EVENT) msg_reader" where
  [codec_defs]: "freerds_read_virtual_keyboard_event W s msg =
     (if Stream_GetRemainingLength W s < 8 then (-1, s, msg)
      else let (v, s) = Stream_Read_UINT32 W s; msg = msg\<lparr>vkey_flags := v\<rparr>;
               (v, s) = Stream_Read_UINT32 W s; msg = msg\<lparr>vkey_code := v\<rparr>
           in (0, s, msg))"

definition freerds_write_virtual_keyboard_event ::
  "'s wstream_ops \<Rightarrow> ('s, RDS_MSG_VIRTUAL_KEYBOARD_EVENT) msg_writer" where
  [codec_defs]: "freerds_write_virtual_keyboard_event W s msg =
     (let msg = msg\<lparr>msgFlags := 0\<rparr>;
          msg = msg\<lparr>msg_length := freerds_common_header_length msg + 8\<rparr>
      in case s of
           None \<Rightarrow> (sint (msg_length msg), None, msg)
         | Some s \<Rightarrow>
             let s = freerds_write_common_header W s msg;
                 s = Stream_Write_UINT32 W s (vkey_flags msg);
                 s = Stream_Write_UINT32 W s (vkey_code msg)
             in (0, Some s, msg))"

definition virtual_keyboard_event_body :: "RDS_MSG_VIRTUAL_KEYBOARD_EVENT \<Rightarrow> byte list" where
  [codec_defs]: "virtual_keyboard_event_body m =
     le32 (vkey_flags m) @ le32 (vkey_code m)"

definition virtual_keyboard_event_decode :: "RDS_MSG_VIRTUAL_KEYBOARD_EVENT \<Rightarrow> byte list \<Rightarrow> RDS_MSG_VIRTUAL_KEYBOARD_EVENT \<Rightarrow> RDS_MSG_VIRTUAL_KEYBOARD_EVENT" where
  [codec_defs]: "virtual_keyboard_event_decode sent rest m =
     m\<lparr>vkey_flags := vkey_flags sent, vkey_code := vkey_code sent\<rparr>"

definition virtual_keyboard_event_final :: "RDS_MSG_VIRTUAL_KEYBOARD_EVENT \<Rightarrow> RDS_MSG_VIRTUAL_KEYBOARD_EVENT" where
  [codec_defs]: "virtual_keyboard_event_final = set_header 0 8"

sublocale wstream \<subseteq> vkey: rds_fixed_codec W
  "\<lambda>s m. Some (freerds_write_virtual_keyboard_event W s m)" virtual_keyboard_event_final virtual_keyboard_event_final
  virtual_keyboard_event_body "\<lambda>m. True" "\<lambda>s m. Some (freerds_read_virtual_keyboard_event W s m)"
  virtual_keyboard_event_decode 8
  by unfold_locales (simp_all add: codec_defs codec_simps stream_simps)

subsection \<open>Unicode Keyboard Event\<close>

definition freerds_read_unicode_keyboard_event ::
  "'s wstream_ops \<Rightarrow> ('s, RDS_MSG_UNICODE_KEYBOARD_EVENT) msg_reader" where
  [codec_defs]: "freerds_read_unicode_keyboard_event W s msg =
     (if Stream_GetRemainingLength W s < 8 then (-1, s, msg)
      else let (v, s) = Stream_Read_UINT32 W s; msg = msg\<lparr>ukey_flags := v\<rparr>;
               (v, s) = Stream_Read_UINT32 W s; msg = msg\<lparr>ukey_code := v\<rparr>
           in (0, s, msg))"

definition freerds_write_unicode_keyboard_event ::
  "'s wstream_ops \<Rightarrow> ('s, RDS_MSG_UNICODE_KEYBOARD_EVENT) msg_writer" where
  [codec_defs]: "freerds_write_unicode_keyboard_event W s msg =
     (let msg = msg\<lparr>msgFlags := 0\<rparr>;
          msg = msg\<lparr>msg_length := freerds_common_header_length msg + 8\<rparr>
      in case s of
           None \<Rightarrow> (sint (msg_length msg), None, msg)
         | Some s \<Rightarrow>
             let s = freerds_write_common_header W s msg;
                 s = Stream_Write_UINT32 W s (ukey_flags msg);
                 s = Stream_Write_UINT32 W s (ukey_code msg)
             in (0, Some s, msg))"

definition unicode_keyboard_event_body :: "RDS_MSG_UNICODE_KEYBOARD_EVENT \<Rightarrow> byte list" where
  [codec_defs]: "unicode_keyboard_event_body m =
     le32 (ukey_flags m) @ le32 (ukey_code m)"

definition unicode_keyboard_event_decode :: "RDS_MSG_UNICODE_KEYBOARD_EVENT \<Rightarrow> byte list \<Rightarrow> RDS_MSG_UNICODE_KEYBOARD_EVENT \<Rightarrow> RDS_MSG_UNICODE_KEYBOARD_EVENT" where
  [codec_defs]: "unicode_keyboard_event_decode sent rest m =
     m\<lparr>ukey_flags := ukey_flags sent, ukey_code := ukey_code sent\<rparr>"

definition unicode_keyboard_event_final :: "RDS_MSG_UNICODE_KEYBOARD_EVENT \<Rightarrow> RDS_MSG_UNICODE_KEYBOARD_EVENT" where
  [codec_defs]: "unicode_keyboard_event_final = set_header 0 8"

sublocale wstream \<subseteq> ukey: rds_fixed_codec W
  "\<lambda>s m. Some (freerds_write_unicode_keyboard_event W s m)" unicode_keyboard_event_final unicode_keyboard_event_final
  unicode_keyboard_event_body "\<lambda>m. True" "\<lambda>s m. Some (freerds_read_unicode_keyboard_event W s m)"
  unicode_keyboard_event_decode 8
  by unfold_locales (simp_all add: codec_defs codec_simps stream_simps)

subsection \<open>Mouse Event\<close>

definition freerds_read_mouse_event ::
  "'s wstream_ops \<Rightarrow> ('s, RDS_MSG_MOUSE_EVENT) msg_reader" where
  [codec_defs]: "freerds_read_mouse_event W s msg =
     (if Stream_GetRemainingLength W s < 12 then (-1, s, msg)
      else let (v, s) = Stream_Read_UINT32 W s; msg = msg\<lparr>mouse_flags := v\<rparr>;
               (v, s) = Stream_Read_UINT32 W s; msg = msg\<lparr>mouse_x := v\<rparr>;
               (v, s) = Stream_Read_UINT32 W s; msg = msg\<lparr>mouse_y := v\<rparr>
           in (0, s, msg))"

definition freerds_write_mouse_event ::
  "'s wstream_ops \<Rightarrow> ('s, RDS_MSG_MOUSE_EVENT) msg_writer" where
  [codec_defs]: "freerds_write_mouse_event W s msg =
     (let msg = msg\<lparr>msgFlags := 0\<rparr>;
          msg = msg\<lparr>msg_length := freerds_common_header_length msg + 12\<rparr>
      in case s of
           None \<Rightarrow> (sint (msg_length msg), None, msg)
         | Some s \<Rightarrow>
             let s = freerds_write_common_header W s msg;
                 s = Stream_Write_UINT32 W s (mouse_flags msg);
                 s = Stream_Write_UINT32 W s (mouse_x msg);
                 s = Stream_Write_UINT32 W s (mouse_y msg)
             in (0, Some s, msg))"

definition mouse_event_body :: "RDS_MSG_MOUSE_EVENT \<Rightarrow> byte list" where
  [codec_defs]: "mouse_event_body m =
     le32 (mouse_flags m) @ le32 (mouse_x m) @ le32 (mouse_y m)"

definition mouse_event_decode :: "RDS_MSG_MOUSE_EVENT \<Rightarrow> byte list \<Rightarrow> RDS_MSG_MOUSE_EVENT \<Rightarrow> RDS_MSG_MOUSE_EVENT" where
  [codec_defs]: "mouse_event_decode sent rest m =
     m\<lparr>mouse_flags := mouse_flags sent, mouse_x := mouse_x sent, mouse_y := mouse_y sent\<rparr>"

definition mouse_event_final :: "RDS_MSG_MOUSE_EVENT \<Rightarrow> RDS_MSG_MOUSE_EVENT" where
  [codec_defs]: "mouse_event_final = set_header 0 12"

sublocale wstream \<subseteq> mouse: rds_fixed_codec W
  "\<lambda>s m. Some (freerds_write_mouse_event W s m)" mouse_event_final mouse_event_final
  mouse_event_body "\<lambda>m. True" "\<lambda>s m. Some (freerds_read_mouse_event W s m)"
  mouse_event_decode 12
  by unfold_locales (simp_all add: codec_defs codec_simps stream_simps)

subsection \<open>Extended Mouse Event\<close>

definition freerds_read_extended_mouse_event ::
  "'s wstream_ops \<Rightarrow> ('s, RDS_MSG_EXTENDED_MOUSE_EVENT) msg_reader" where
  [codec_defs]: "freerds_read_extended_mouse_event W s msg =
     (if Stream_GetRemainingLength W s < 12 then (-1, s, msg)
      else let (v, s) = Stream_Read_UINT32 W s; msg = msg\<lparr>xmouse_flags := v\<rparr>;
               (v, s) = Stream_Read_UINT32 W s; msg = msg\<lparr>xmouse_x := v\<rparr>;
               (v, s) = Stream_Read_UINT32 W s; msg = msg\<lparr>xmouse_y := v\<rparr>
           in (0, s, msg))"

definition freerds_write_extended_mouse_event ::
  "'s wstream_ops \<Rightarrow> ('s, RDS_MSG_EXTENDED_MOUSE_EVENT) msg_writer" where
  [codec_defs]: "freerds_write_extended_mouse_event W s msg =
     (let msg = msg\<lparr>msgFlags := 0\<rparr>;
          msg = msg\<lparr>msg_length := freerds_common_header_length msg + 12\<rparr>
      in case s of
           None \<Rightarrow> (sint (msg_length msg), None, msg)
         | Some s \<Rightarrow>
             let s = freerds_write_common_header W s msg;
                 s = Stream_Write_UINT32 W s (xmouse_flags msg);
                 s = Stream_Write_UINT32 W s (xmouse_x msg);
                 s = Stream_Write_UINT32 W s (xmouse_y msg)
             in (0, Some s, msg))"

definition extended_mouse_event_body :: "RDS_MSG_EXTENDED_MOUSE_EVENT \<Rightarrow> byte list" where
  [codec_defs]: "extended_mouse_event_body m =
     le32 (xmouse_flags m) @ le32 (xmouse_x m) @ le32 (xmouse_y m)"

definition extended_mouse_event_decode :: "RDS_MSG_EXTENDED_MOUSE_EVENT \<Rightarrow> byte list \<Rightarrow> RDS_MSG_EXTENDED_MOUSE_EVENT \<Rightarrow> RDS_MSG_EXTENDED_MOUSE_EVENT" where
  [codec_defs]: "extended_mouse_event_decode sent rest m =
     m\<lparr>xmouse_flags := xmouse_flags sent, xmouse_x := xmouse_x sent, xmouse_y := xmouse_y sent\<rparr>"

definition extended_mouse_event_final :: "RDS_MSG_EXTENDED_MOUSE_EVENT \<Rightarrow> RDS_MSG_EXTENDED_MOUSE_EVENT" where
  [codec_defs]: "extended_mouse_event_final = set_header 0 12"

sublocale wstream \<subseteq> xmouse: rds_fixed_codec W
  "\<lambda>s m. Some (freerds_write_extended_mouse_event W s m)" extended_mouse_event_final extended_mouse_event_final
  extended_mouse_event_body "\<lambda>m. True" "\<lambda>s m. Some (freerds_read_extended_mouse_event W s m)"
  extended_mouse_event_decode 12
  by unfold_locales (simp_all add: codec_defs codec_simps stream_simps)

subsection \<open>Vblank Event\<close>

definition freerds_read_vblank_event ::
  "'s wstream_ops \<Rightarrow> ('s, RDS_MSG_VBLANK_EVENT) msg_reader" where
  [codec_defs]: "freerds_read_vblank_event W s msg = (0, s, msg)"

definition freerds_write_vblank_event ::
  "'s wstream_ops \<Rightarrow> ('s, RDS_MSG_VBLANK_EVENT) msg_writer" where
  [codec_defs]: "freerds_write_vblank_event W s msg =
     (let msg = msg\<lparr>msgFlags := 0\<rparr>;
          msg = msg\<lparr>msg_length := freerds_common_header_length msg\<rparr>
      in case s of
           None \<Rightarrow> (sint (msg_length msg), None, msg)
         | Some s \<Rightarrow>
             let s = freerds_write_common_header W s msg
             in (0, Some s, msg))"

definition vblank_event_body :: "RDS_MSG_VBLANK_EVENT \<Rightarrow> byte list" where
  [codec_defs]: "vblank_event_body m =
     []"

definition vblank_event_final :: "RDS_MSG_VBLANK_EVENT \<Rightarrow> RDS_MSG_VBLANK_EVENT" where
  [codec_defs]: "vblank_event_final = set_header 0 0"

sublocale wstream \<subseteq> vblank: rds_fixed_codec W
  "\<lambda>s m. Some (freerds_write_vblank_event W s m)" vblank_event_final vblank_event_final
  vblank_event_body "\<lambda>m. True" "\<lambda>s m. Some (freerds_read_vblank_event W s m)"
  "\<lambda>sent rest m. m" 0
  by unfold_locales (simp_all add: codec_defs codec_simps stream_simps)

subsection \<open>Capabilities\<close>

definition freerds_read_capabilities ::
  "'s wstream_ops \<Rightarrow> ('s, RDS_MSG_CAPABILITIES) msg_reader" where
  [codec_defs]: "freerds_read_capabilities W s msg =
     (if Stream_GetRemainingLength W s < 28 then (-1, s, msg)
      else let (v, s) = Stream_Read_UINT32 W s; msg = msg\<lparr>caps_Version := v\<rparr>;
               (v, s) = Stream_Read_UINT32 W s; msg = msg\<lparr>caps_DesktopWidth := v\<rparr>;
               (v, s) = Stream_Read_UINT32 W s; msg = msg\<lparr>caps_DesktopHeight := v\<rparr>;
               (v, s) = Stream_Read_UINT32 W s; msg = msg\<lparr>caps_ColorDepth := v\<rparr>;
               (v, s) = Stream_Read_UINT32 W s; msg = msg\<lparr>caps_KeyboardLayout := v\<rparr>;
               (v, s) = Stream_Read_UINT32 W s; msg = msg\<lparr>caps_KeyboardType := v\<rparr>;
               (v, s) = Stream_Read_UINT32 W s; msg = msg\<lparr>caps_KeyboardSubType := v\<rparr>
           in (0, s, msg))"

definition freerds_write_capabilities ::
  "'s wstream_ops \<Rightarrow> ('s, RDS_MSG_CAPABILITIES) msg_writer" where
  [codec_defs]: "freerds_write_capabilities W s msg =
     (let msg = msg\<lparr>msgFlags := 0\<rparr>;
          msg = msg\<lparr>msg_length := freerds_common_header_length msg + 28\<rparr>
      in case s of
           None \<Rightarrow> (sint (msg_length msg), None, msg)
         | Some s \<Rightarrow>
             let s = freerds_write_common_header W s msg;
                 s = Stream_Write_UINT32 W s (caps_Version msg);
                 s = Stream_Write_UINT32 W s (caps_DesktopWidth msg);
                 s = Stream_Write_UINT32 W s (caps_DesktopHeight msg);
                 s = Stream_Write_UINT32 W s (caps_ColorDepth msg);
                 s = Stream_Write_UINT32 W s (caps_KeyboardLayout msg);
                 s = Stream_Write_UINT32 W s (caps_KeyboardType msg);
                 s = Stream_Write_UINT32 W s (caps_KeyboardSubType msg)
             in (0, Some s, msg))"

definition capabilities_body :: "RDS_MSG_CAPABILITIES \<Rightarrow> byte list" where
  [codec_defs]: "capabilities_body m =
     le32 (caps_Version m) @ le32 (caps_DesktopWidth m) @ le32 (caps_DesktopHeight m) @
     le32 (caps_ColorDepth m) @ le32 (caps_KeyboardLayout m) @ le32 (caps_KeyboardType m) @
     le32 (caps_KeyboardSubType m)"

definition capabilities_decode :: "RDS_MSG_CAPABILITIES \<Rightarrow> byte list \<Rightarrow> RDS_MSG_CAPABILITIES \<Rightarrow> RDS_MSG_CAPABILITIES" where
  [codec_defs]: "capabilities_decode sent rest m =
     m\<lparr>caps_Version := caps_Version sent, caps_DesktopWidth := caps_DesktopWidth sent,
       caps_DesktopHeight := caps_DesktopHeight sent, caps_ColorDepth := caps_ColorDepth sent,
       caps_KeyboardLayout := caps_KeyboardLayout sent,
       caps_KeyboardType := caps_KeyboardType sent,
       caps_KeyboardSubType := caps_KeyboardSubType sent\<rparr>"

definition capabilities_final :: "RDS_MSG_CAPABILITIES \<Rightarrow> RDS_MSG_CAPABILITIES" where
  [codec_defs]: "capabilities_final = set_header 0 28"

sublocale wstream \<subseteq> caps: rds_fixed_codec W
  "\<lambda>s m. Some (freerds_write_capabilities W s m)" capabilities_final capabilities_final
  capabilities_body "\<lambda>m. True" "\<lambda>s m. Some (freerds_read_capabilities W s m)"
  capabilities_decode 28
  by unfold_locales (simp_all add: codec_defs codec_simps stream_simps)

subsection \<open>Refresh rect\<close>

definition freerds_read_refresh_rect ::
  "'s wstream_ops \<Rightarrow> 's \<Rightarrow> RDS_MSG_REFRESH_RECT \<Rightarrow> (int \<times> 's \<times> RDS_MSG_REFRESH_RECT) option" where
  [codec_defs]: "freerds_read_refresh_rect W s msg =
     (if Stream_GetRemainingLength W s < 2 then Some (-1, s, msg)
      else let (v, s) = Stream_Read_UINT16 W s; msg = msg\<lparr>refresh_numberOfAreas := ucast v\<rparr>;
               msg = msg\<lparr>refresh_areasToRefresh := rects_at (Stream_Pointer W s)\<rparr>
           in if Stream_GetRemainingLength W s < unat (8 * refresh_numberOfAreas msg) then Some (-1, s, msg)
              else case read_rect16s W s (refresh_areasToRefresh msg) (unat (refresh_numberOfAreas msg)) of
                     None \<Rightarrow> None
                   | Some (areas, s) \<Rightarrow> Some (0, s, msg\<lparr>refresh_areasToRefresh := areas\<rparr>))"

definition freerds_write_refresh_rect ::
  "'s wstream_ops \<Rightarrow> 's option \<Rightarrow> RDS_MSG_REFRESH_RECT \<Rightarrow> (int \<times> 's option \<times> RDS_MSG_REFRESH_RECT) option"
where
  [codec_defs]: "freerds_write_refresh_rect W s msg =
     (let msg = msg\<lparr>msgFlags := 0\<rparr>;
          msg = msg\<lparr>msg_length := freerds_common_header_length msg + 2 + refresh_numberOfAreas msg * 8\<rparr>
      in case s of
           None \<Rightarrow> Some (sint (msg_length msg), None, msg)
         | Some s \<Rightarrow>
             let s = freerds_write_common_header W s msg;
                 s = Stream_Write_UINT16 W s (ucast (refresh_numberOfAreas msg))
             in case write_rect16s W s (refresh_areasToRefresh msg) (unat (refresh_numberOfAreas msg)) of
                  None \<Rightarrow> None
                | Some s \<Rightarrow> Some (0, Some s, msg))"

definition refresh_rect_body :: "RDS_MSG_REFRESH_RECT \<Rightarrow> byte list" where
  [codec_defs]: "refresh_rect_body m =
     le16 (ucast (refresh_numberOfAreas m)) @
     rects_bytes (take (unat (refresh_numberOfAreas m)) (refresh_areasToRefresh m))"

definition refresh_rect_decode :: "RDS_MSG_REFRESH_RECT \<Rightarrow> byte list \<Rightarrow> RDS_MSG_REFRESH_RECT \<Rightarrow> RDS_MSG_REFRESH_RECT"
where
  [codec_defs]: "refresh_rect_decode sent rest m =
     m\<lparr>refresh_numberOfAreas := wire16 (refresh_numberOfAreas sent),
       refresh_areasToRefresh :=
         take (unat (refresh_numberOfAreas sent)) (refresh_areasToRefresh sent) @ rects_at rest\<rparr>"

text \<open>The count goes through 16 bits, so the writer needs it below 65536, and an array of that size.\<close>

definition refresh_rect_ok :: "RDS_MSG_REFRESH_RECT \<Rightarrow> bool" where
  [codec_defs]: "refresh_rect_ok m \<longleftrightarrow>
     unat (refresh_numberOfAreas m) < 65536 \<and>
     unat (refresh_numberOfAreas m) \<le> length (refresh_areasToRefresh m)"

definition refresh_rect_final :: "RDS_MSG_REFRESH_RECT \<Rightarrow> RDS_MSG_REFRESH_RECT" where
  [codec_defs]: "refresh_rect_final m = set_header 0 (2 + refresh_numberOfAreas m * 8) m"

sublocale wstream \<subseteq> refresh: rds_codec W "freerds_write_refresh_rect W" refresh_rect_final refresh_rect_final
  refresh_rect_body refresh_rect_ok "freerds_read_refresh_rect W" refresh_rect_decode
proof (unfold_locales, goal_cases)
  case (2 m s)
  let ?n = "unat (refresh_numberOfAreas m)"
  have n: "min (length (refresh_areasToRefresh m)) ?n = ?n"
    using 2(1) by (simp add: refresh_rect_ok_def)
  show ?case
    using 2 n by (simp add: codec_defs codec_simps stream_simps write_rect16s_eq Write_pointer)
next
  case (3 m)
  then show ?case
    by (simp add: codec_defs codec_simps min_def unat_plus_small unat_times_small)
next
  case (8 m s rest msg)
  let ?rs = "take (unat (refresh_numberOfAreas m)) (refresh_areasToRefresh m)"
  have n: "unat (wire16 (refresh_numberOfAreas m)) = length ?rs" "unat (refresh_numberOfAreas m) < 65536"
    using 8(1) by (simp_all add: refresh_rect_ok_def wire16_def unat_ucast_16_32)
  have ptr: "Stream_Pointer W (Stream_Seek W s 2) = rects_bytes ?rs @ rest"
    using 8(2) by (simp add: codec_defs codec_simps stream_simps)
  show ?case
    using 8 n read_rect16s_eq [OF ptr, of "rects_at (rects_bytes ?rs @ rest)"] 
    by (simp add: codec_defs codec_simps stream_simps unat_times_small rects_at_rects_bytes)
qed (simp_all add: codec_defs codec_simps)

subsection \<open>Suppress output\<close>

definition freerds_read_suppress_output ::
  "'s wstream_ops \<Rightarrow> ('s, RDS_MSG_SUPPRESS_OUTPUT) msg_reader" where
  [codec_defs]: "freerds_read_suppress_output W s msg =
     (if Stream_GetRemainingLength W s < 4 then (-1, s, msg)
      else let (v, s) = Stream_Read_UINT32 W s; msg = msg\<lparr>suppress_activeOutput := v\<rparr>
           in (0, s, msg))"

definition freerds_write_suppress_output ::
  "'s wstream_ops \<Rightarrow> ('s, RDS_MSG_SUPPRESS_OUTPUT) msg_writer" where
  [codec_defs]: "freerds_write_suppress_output W s msg =
     (let msg = msg\<lparr>msgFlags := 0\<rparr>;
          msg = msg\<lparr>msg_length := freerds_common_header_length msg + 4\<rparr>
      in case s of
           None \<Rightarrow> (sint (msg_length msg), None, msg)
         | Some s \<Rightarrow>
             let s = freerds_write_common_header W s msg;
                 s = Stream_Write_UINT32 W s (suppress_activeOutput msg)
             in (0, Some s, msg))"

definition suppress_output_body :: "RDS_MSG_SUPPRESS_OUTPUT \<Rightarrow> byte list" where
  [codec_defs]: "suppress_output_body m =
     le32 (suppress_activeOutput m)"

definition suppress_output_decode :: "RDS_MSG_SUPPRESS_OUTPUT \<Rightarrow> byte list \<Rightarrow> RDS_MSG_SUPPRESS_OUTPUT \<Rightarrow> RDS_MSG_SUPPRESS_OUTPUT" where
  [codec_defs]: "suppress_output_decode sent rest m =
     m\<lparr>suppress_activeOutput := suppress_activeOutput sent\<rparr>"

definition suppress_output_final :: "RDS_MSG_SUPPRESS_OUTPUT \<Rightarrow> RDS_MSG_SUPPRESS_OUTPUT" where
  [codec_defs]: "suppress_output_final = set_header 0 4"

sublocale wstream \<subseteq> suppress: rds_fixed_codec W
  "\<lambda>s m. Some (freerds_write_suppress_output W s m)" suppress_output_final suppress_output_final
  suppress_output_body "\<lambda>m. True" "\<lambda>s m. Some (freerds_read_suppress_output W s m)"
  suppress_output_decode 4
  by unfold_locales (simp_all add: codec_defs codec_simps stream_simps)

definition freerds_suppress_output_copy :: "RDS_MSG_SUPPRESS_OUTPUT \<Rightarrow> RDS_MSG_SUPPRESS_OUTPUT \<times> heap_block list" where
  [copy_defs]: "freerds_suppress_output_copy msg = (let dup = msg in (dup, [MsgBlock]))"

definition freerds_suppress_output_free :: "RDS_MSG_SUPPRESS_OUTPUT \<Rightarrow> heap_block list" where
  [copy_defs]: "freerds_suppress_output_free msg = [MsgBlock]"

end
