(* ===== verification/Rds_Drawing_Protocol.thy ===== *)
theory Rds_Drawing_Protocol
  imports Rds_Codec
begin

text \<open>
  The drawing orders a session backend sends to its client, in the order of
  \<open>freerds/backend/protocol.c\<close>: their readers, writers, copy and free routines, with the wire format
  of each order and the proof that reader, writer and wire format keep the codec contract.
\<close>

subsection \<open>Begin Update\<close>

definition freerds_read_begin_update ::
  "'s wstream_ops \<Rightarrow> ('s, RDS_MSG_BEGIN_UPDATE) msg_reader" where
  [codec_defs]: "freerds_read_begin_update W s msg = (0, s, msg)"

definition freerds_write_begin_update ::
  "'s wstream_ops \<Rightarrow> ('s, RDS_MSG_BEGIN_UPDATE) msg_writer" where
  [codec_defs]: "freerds_write_begin_update W s msg =
     (let msg = msg\<lparr>msgFlags := 0\<rparr>;
          msg = msg\<lparr>msg_length := freerds_common_header_length msg\<rparr>
      in case s of
           None \<Rightarrow> (sint (msg_length msg), None, msg)
         | Some s \<Rightarrow>
             let s = freerds_write_common_header W s msg
             in (0, Some s, msg))"

definition begin_update_body :: "RDS_MSG_BEGIN_UPDATE \<Rightarrow> byte list" where
  [codec_defs]: "begin_update_body m =
     []"

definition begin_update_final :: "RDS_MSG_BEGIN_UPDATE \<Rightarrow> RDS_MSG_BEGIN_UPDATE" where
  [codec_defs]: "begin_update_final = set_header 0 0"

sublocale wstream \<subseteq> bupd: rds_fixed_codec W
  "\<lambda>s m. Some (freerds_write_begin_update W s m)" begin_update_final begin_update_final
  begin_update_body "\<lambda>m. True" "\<lambda>s m. Some (freerds_read_begin_update W s m)"
  "\<lambda>sent rest m. m" 0
  by unfold_locales (simp_all add: codec_defs codec_simps stream_simps)

definition freerds_begin_update_copy :: "RDS_MSG_BEGIN_UPDATE \<Rightarrow> RDS_MSG_BEGIN_UPDATE \<times> heap_block list" where
  [copy_defs]: "freerds_begin_update_copy msg = (let dup = msg in (dup, [MsgBlock]))"

definition freerds_begin_update_free :: "RDS_MSG_BEGIN_UPDATE \<Rightarrow> heap_block list" where
  [copy_defs]: "freerds_begin_update_free msg = [MsgBlock]"

subsection \<open>End Update\<close>

definition freerds_read_end_update ::
  "'s wstream_ops \<Rightarrow> ('s, RDS_MSG_END_UPDATE) msg_reader" where
  [codec_defs]: "freerds_read_end_update W s msg = (0, s, msg)"

definition freerds_write_end_update ::
  "'s wstream_ops \<Rightarrow> ('s, RDS_MSG_END_UPDATE) msg_writer" where
  [codec_defs]: "freerds_write_end_update W s msg =
     (let msg = msg\<lparr>msgFlags := 0\<rparr>;
          msg = msg\<lparr>msg_length := freerds_common_header_length msg\<rparr>
      in case s of
           None \<Rightarrow> (sint (msg_length msg), None, msg)
         | Some s \<Rightarrow>
             let s = freerds_write_common_header W s msg
             in (0, Some s, msg))"

definition end_update_body :: "RDS_MSG_END_UPDATE \<Rightarrow> byte list" where
  [codec_defs]: "end_update_body m =
     []"

definition end_update_final :: "RDS_MSG_END_UPDATE \<Rightarrow> RDS_MSG_END_UPDATE" where
  [codec_defs]: "end_update_final = set_header 0 0"

sublocale wstream \<subseteq> eupd: rds_fixed_codec W
  "\<lambda>s m. Some (freerds_write_end_update W s m)" end_update_final end_update_final
  end_update_body "\<lambda>m. True" "\<lambda>s m. Some (freerds_read_end_update W s m)"
  "\<lambda>sent rest m. m" 0
  by unfold_locales (simp_all add: codec_defs codec_simps stream_simps)

definition freerds_end_update_copy :: "RDS_MSG_END_UPDATE \<Rightarrow> RDS_MSG_END_UPDATE \<times> heap_block list" where
  [copy_defs]: "freerds_end_update_copy msg = (let dup = msg in (dup, [MsgBlock]))"

definition freerds_end_update_free :: "RDS_MSG_END_UPDATE \<Rightarrow> heap_block list" where
  [copy_defs]: "freerds_end_update_free msg = [MsgBlock]"

subsection \<open>Set Clipping Region\<close>

definition freerds_read_set_clipping_region ::
  "'s wstream_ops \<Rightarrow> ('s, RDS_MSG_SET_CLIPPING_REGION) msg_reader" where
  [codec_defs]: "freerds_read_set_clipping_region W s msg =
     (if Stream_GetRemainingLength W s < 10 then (-1, s, msg)
      else let (v, s) = Stream_Read_UINT16 W s; msg = msg\<lparr>clip_bNullRegion := ucast v\<rparr>;
               (v, s) = Stream_Read_UINT16 W s; msg = msg\<lparr>clip_nLeftRect := ucast v\<rparr>;
               (v, s) = Stream_Read_UINT16 W s; msg = msg\<lparr>clip_nTopRect := ucast v\<rparr>;
               (v, s) = Stream_Read_UINT16 W s; msg = msg\<lparr>clip_nWidth := ucast v\<rparr>;
               (v, s) = Stream_Read_UINT16 W s; msg = msg\<lparr>clip_nHeight := ucast v\<rparr>
           in (0, s, msg))"

definition freerds_write_set_clipping_region ::
  "'s wstream_ops \<Rightarrow> ('s, RDS_MSG_SET_CLIPPING_REGION) msg_writer" where
  [codec_defs]: "freerds_write_set_clipping_region W s msg =
     (let msg = msg\<lparr>msgFlags := 0\<rparr>;
          msg = msg\<lparr>msg_length := freerds_common_header_length msg + 10\<rparr>
      in case s of
           None \<Rightarrow> (sint (msg_length msg), None, msg)
         | Some s \<Rightarrow>
             let s = freerds_write_common_header W s msg;
                 s = Stream_Write_UINT16 W s (ucast (clip_bNullRegion msg));
                 s = Stream_Write_UINT16 W s (ucast (clip_nLeftRect msg));
                 s = Stream_Write_UINT16 W s (ucast (clip_nTopRect msg));
                 s = Stream_Write_UINT16 W s (ucast (clip_nWidth msg));
                 s = Stream_Write_UINT16 W s (ucast (clip_nHeight msg))
             in (0, Some s, msg))"

definition set_clipping_region_body :: "RDS_MSG_SET_CLIPPING_REGION \<Rightarrow> byte list" where
  [codec_defs]: "set_clipping_region_body m =
     le16 (ucast (clip_bNullRegion m)) @ le16 (ucast (clip_nLeftRect m)) @
     le16 (ucast (clip_nTopRect m)) @ le16 (ucast (clip_nWidth m)) @
     le16 (ucast (clip_nHeight m))"

definition set_clipping_region_decode :: "RDS_MSG_SET_CLIPPING_REGION \<Rightarrow> byte list \<Rightarrow> RDS_MSG_SET_CLIPPING_REGION \<Rightarrow> RDS_MSG_SET_CLIPPING_REGION" where
  [codec_defs]: "set_clipping_region_decode sent rest m =
     m\<lparr>clip_bNullRegion := wire16 (clip_bNullRegion sent),
       clip_nLeftRect := wire16 (clip_nLeftRect sent),
       clip_nTopRect := wire16 (clip_nTopRect sent), clip_nWidth := wire16 (clip_nWidth sent),
       clip_nHeight := wire16 (clip_nHeight sent)\<rparr>"

definition set_clipping_region_final :: "RDS_MSG_SET_CLIPPING_REGION \<Rightarrow> RDS_MSG_SET_CLIPPING_REGION" where
  [codec_defs]: "set_clipping_region_final = set_header 0 10"

sublocale wstream \<subseteq> clip: rds_fixed_codec W
  "\<lambda>s m. Some (freerds_write_set_clipping_region W s m)" set_clipping_region_final set_clipping_region_final
  set_clipping_region_body "\<lambda>m. True" "\<lambda>s m. Some (freerds_read_set_clipping_region W s m)"
  set_clipping_region_decode 10
  by unfold_locales (simp_all add: codec_defs codec_simps stream_simps)

definition freerds_set_clipping_region_copy :: "RDS_MSG_SET_CLIPPING_REGION \<Rightarrow> RDS_MSG_SET_CLIPPING_REGION \<times> heap_block list" where
  [copy_defs]: "freerds_set_clipping_region_copy msg = (let dup = msg in (dup, [MsgBlock]))"

definition freerds_set_clipping_region_free :: "RDS_MSG_SET_CLIPPING_REGION \<Rightarrow> heap_block list" where
  [copy_defs]: "freerds_set_clipping_region_free msg = [MsgBlock]"

subsection \<open>Opaque Rect\<close>

definition freerds_read_opaque_rect ::
  "'s wstream_ops \<Rightarrow> ('s, RDS_MSG_OPAQUE_RECT) msg_reader" where
  [codec_defs]: "freerds_read_opaque_rect W s msg =
     (if Stream_GetRemainingLength W s < 12 then (-1, s, msg)
      else let (v, s) = Stream_Read_UINT16 W s; msg = msg\<lparr>opaque_nLeftRect := ucast v\<rparr>;
               (v, s) = Stream_Read_UINT16 W s; msg = msg\<lparr>opaque_nTopRect := ucast v\<rparr>;
               (v, s) = Stream_Read_UINT16 W s; msg = msg\<lparr>opaque_nWidth := ucast v\<rparr>;
               (v, s) = Stream_Read_UINT16 W s; msg = msg\<lparr>opaque_nHeight := ucast v\<rparr>;
               (v, s) = Stream_Read_UINT32 W s; msg = msg\<lparr>opaque_color := v\<rparr>
           in (0, s, msg))"

definition freerds_write_opaque_rect ::
  "'s wstream_ops \<Rightarrow> ('s, RDS_MSG_OPAQUE_RECT) msg_writer" where
  [codec_defs]: "freerds_write_opaque_rect W s msg =
     (let msg = msg\<lparr>msgFlags := RDS_MSG_FLAG_RECT\<rparr>;
          msg = msg\<lparr>msg_length := freerds_common_header_length msg + 12\<rparr>
      in case s of
           None \<Rightarrow> (sint (msg_length msg), None, msg)
         | Some s \<Rightarrow>
             let msg = msg\<lparr>rect := (rect msg)\<lparr>rect_x := opaque_nLeftRect msg\<rparr>\<rparr>;
                 msg = msg\<lparr>rect := (rect msg)\<lparr>rect_y := opaque_nTopRect msg\<rparr>\<rparr>;
                 msg = msg\<lparr>rect := (rect msg)\<lparr>rect_width := opaque_nWidth msg\<rparr>\<rparr>;
                 msg = msg\<lparr>rect := (rect msg)\<lparr>rect_height := opaque_nHeight msg\<rparr>\<rparr>;
                 s = freerds_write_common_header W s msg;
                 s = Stream_Write_UINT16 W s (ucast (opaque_nLeftRect msg));
                 s = Stream_Write_UINT16 W s (ucast (opaque_nTopRect msg));
                 s = Stream_Write_UINT16 W s (ucast (opaque_nWidth msg));
                 s = Stream_Write_UINT16 W s (ucast (opaque_nHeight msg));
                 s = Stream_Write_UINT32 W s (opaque_color msg)
             in (0, Some s, msg))"

definition opaque_rect_body :: "RDS_MSG_OPAQUE_RECT \<Rightarrow> byte list" where
  [codec_defs]: "opaque_rect_body m =
     le16 (ucast (opaque_nLeftRect m)) @ le16 (ucast (opaque_nTopRect m)) @
     le16 (ucast (opaque_nWidth m)) @ le16 (ucast (opaque_nHeight m)) @ le32 (opaque_color m)"

definition opaque_rect_decode :: "RDS_MSG_OPAQUE_RECT \<Rightarrow> byte list \<Rightarrow> RDS_MSG_OPAQUE_RECT \<Rightarrow> RDS_MSG_OPAQUE_RECT" where
  [codec_defs]: "opaque_rect_decode sent rest m =
     m\<lparr>opaque_nLeftRect := wire16 (opaque_nLeftRect sent),
       opaque_nTopRect := wire16 (opaque_nTopRect sent),
       opaque_nWidth := wire16 (opaque_nWidth sent),
       opaque_nHeight := wire16 (opaque_nHeight sent), opaque_color := opaque_color sent\<rparr>"

definition opaque_rect_sized :: "RDS_MSG_OPAQUE_RECT \<Rightarrow> RDS_MSG_OPAQUE_RECT" where
  [codec_defs]: "opaque_rect_sized = set_header RDS_MSG_FLAG_RECT 12"

definition opaque_rect_final :: "RDS_MSG_OPAQUE_RECT \<Rightarrow> RDS_MSG_OPAQUE_RECT" where
  [codec_defs]: "opaque_rect_final m = (set_header RDS_MSG_FLAG_RECT 12 m)
     \<lparr>rect := \<lparr>rect_x = opaque_nLeftRect m, rect_y = opaque_nTopRect m,
               rect_width = opaque_nWidth m, rect_height = opaque_nHeight m\<rparr>\<rparr>"

sublocale wstream \<subseteq> opaque: rds_fixed_codec W
  "\<lambda>s m. Some (freerds_write_opaque_rect W s m)" opaque_rect_sized opaque_rect_final
  opaque_rect_body "\<lambda>m. True" "\<lambda>s m. Some (freerds_read_opaque_rect W s m)"
  opaque_rect_decode 12
  by unfold_locales (simp_all add: codec_defs codec_simps stream_simps)

definition freerds_opaque_rect_copy :: "RDS_MSG_OPAQUE_RECT \<Rightarrow> RDS_MSG_OPAQUE_RECT \<times> heap_block list" where
  [copy_defs]: "freerds_opaque_rect_copy msg = (let dup = msg in (dup, [MsgBlock]))"

definition freerds_opaque_rect_free :: "RDS_MSG_OPAQUE_RECT \<Rightarrow> heap_block list" where
  [copy_defs]: "freerds_opaque_rect_free msg = [MsgBlock]"

subsection \<open>Screen Blt\<close>

definition freerds_read_screen_blt ::
  "'s wstream_ops \<Rightarrow> ('s, RDS_MSG_SCREEN_BLT) msg_reader" where
  [codec_defs]: "freerds_read_screen_blt W s msg =
     (if Stream_GetRemainingLength W s < 12 then (-1, s, msg)
      else let (v, s) = Stream_Read_UINT16 W s; msg = msg\<lparr>scrblt_nLeftRect := ucast v\<rparr>;
               (v, s) = Stream_Read_UINT16 W s; msg = msg\<lparr>scrblt_nTopRect := ucast v\<rparr>;
               (v, s) = Stream_Read_UINT16 W s; msg = msg\<lparr>scrblt_nWidth := ucast v\<rparr>;
               (v, s) = Stream_Read_UINT16 W s; msg = msg\<lparr>scrblt_nHeight := ucast v\<rparr>;
               (v, s) = Stream_Read_UINT16 W s; msg = msg\<lparr>scrblt_nXSrc := ucast v\<rparr>;
               (v, s) = Stream_Read_UINT16 W s; msg = msg\<lparr>scrblt_nYSrc := ucast v\<rparr>
           in (0, s, msg))"

definition freerds_write_screen_blt ::
  "'s wstream_ops \<Rightarrow> ('s, RDS_MSG_SCREEN_BLT) msg_writer" where
  [codec_defs]: "freerds_write_screen_blt W s msg =
     (let msg = msg\<lparr>msgFlags := RDS_MSG_FLAG_RECT\<rparr>;
          msg = msg\<lparr>msg_length := freerds_common_header_length msg + 12\<rparr>
      in case s of
           None \<Rightarrow> (sint (msg_length msg), None, msg)
         | Some s \<Rightarrow>
             let msg = msg\<lparr>rect := (rect msg)\<lparr>rect_x := scrblt_nLeftRect msg\<rparr>\<rparr>;
                 msg = msg\<lparr>rect := (rect msg)\<lparr>rect_y := scrblt_nTopRect msg\<rparr>\<rparr>;
                 msg = msg\<lparr>rect := (rect msg)\<lparr>rect_width := scrblt_nWidth msg\<rparr>\<rparr>;
                 msg = msg\<lparr>rect := (rect msg)\<lparr>rect_height := scrblt_nHeight msg\<rparr>\<rparr>;
                 s = freerds_write_common_header W s msg;
                 s = Stream_Write_UINT16 W s (ucast (scrblt_nLeftRect msg));
                 s = Stream_Write_UINT16 W s (ucast (scrblt_nTopRect msg));
                 s = Stream_Write_UINT16 W s (ucast (scrblt_nWidth msg));
                 s = Stream_Write_UINT16 W s (ucast (scrblt_nHeight msg));
                 s = Stream_Write_UINT16 W s (ucast (scrblt_nXSrc msg));
                 s = Stream_Write_UINT16 W s (ucast (scrblt_nYSrc msg))
             in (0, Some s, msg))"

definition screen_blt_body :: "RDS_MSG_SCREEN_BLT \<Rightarrow> byte list" where
  [codec_defs]: "screen_blt_body m =
     le16 (ucast (scrblt_nLeftRect m)) @ le16 (ucast (scrblt_nTopRect m)) @
     le16 (ucast (scrblt_nWidth m)) @ le16 (ucast (scrblt_nHeight m)) @
     le16 (ucast (scrblt_nXSrc m)) @ le16 (ucast (scrblt_nYSrc m))"

definition screen_blt_decode :: "RDS_MSG_SCREEN_BLT \<Rightarrow> byte list \<Rightarrow> RDS_MSG_SCREEN_BLT \<Rightarrow> RDS_MSG_SCREEN_BLT" where
  [codec_defs]: "screen_blt_decode sent rest m =
     m\<lparr>scrblt_nLeftRect := wire16 (scrblt_nLeftRect sent),
       scrblt_nTopRect := wire16 (scrblt_nTopRect sent),
       scrblt_nWidth := wire16 (scrblt_nWidth sent),
       scrblt_nHeight := wire16 (scrblt_nHeight sent),
       scrblt_nXSrc := wire16 (scrblt_nXSrc sent), scrblt_nYSrc := wire16 (scrblt_nYSrc sent)\<rparr>"

definition screen_blt_sized :: "RDS_MSG_SCREEN_BLT \<Rightarrow> RDS_MSG_SCREEN_BLT" where
  [codec_defs]: "screen_blt_sized = set_header RDS_MSG_FLAG_RECT 12"

definition screen_blt_final :: "RDS_MSG_SCREEN_BLT \<Rightarrow> RDS_MSG_SCREEN_BLT" where
  [codec_defs]: "screen_blt_final m = (set_header RDS_MSG_FLAG_RECT 12 m)
     \<lparr>rect := \<lparr>rect_x = scrblt_nLeftRect m, rect_y = scrblt_nTopRect m,
               rect_width = scrblt_nWidth m, rect_height = scrblt_nHeight m\<rparr>\<rparr>"

sublocale wstream \<subseteq> scrblt: rds_fixed_codec W
  "\<lambda>s m. Some (freerds_write_screen_blt W s m)" screen_blt_sized screen_blt_final
  screen_blt_body "\<lambda>m. True" "\<lambda>s m. Some (freerds_read_screen_blt W s m)"
  screen_blt_decode 12
  by unfold_locales (simp_all add: codec_defs codec_simps stream_simps)

definition freerds_screen_blt_copy :: "RDS_MSG_SCREEN_BLT \<Rightarrow> RDS_MSG_SCREEN_BLT \<times> heap_block list" where
  [copy_defs]: "freerds_screen_blt_copy msg = (let dup = msg in (dup, [MsgBlock]))"

definition freerds_screen_blt_free :: "RDS_MSG_SCREEN_BLT \<Rightarrow> heap_block list" where
  [copy_defs]: "freerds_screen_blt_free msg = [MsgBlock]"

subsection \<open>Paint rect\<close>

definition freerds_read_paint_rect ::
  "'s wstream_ops \<Rightarrow> ('s, RDS_MSG_PAINT_RECT) msg_reader" where
  [codec_defs]: "freerds_read_paint_rect W s msg =
     (if Stream_GetRemainingLength W s < 12 then (-1, s, msg)
      else let (v, s) = Stream_Read_UINT16 W s; msg = msg\<lparr>paint_nLeftRect := ucast v\<rparr>;
               (v, s) = Stream_Read_UINT16 W s; msg = msg\<lparr>paint_nTopRect := ucast v\<rparr>;
               (v, s) = Stream_Read_UINT16 W s; msg = msg\<lparr>paint_nWidth := ucast v\<rparr>;
               (v, s) = Stream_Read_UINT16 W s; msg = msg\<lparr>paint_nHeight := ucast v\<rparr>;
               (v, s) = Stream_Read_UINT32 W s; msg = msg\<lparr>paint_bitmapDataLength := v\<rparr>;
               (status, s, msg) =
                 (if paint_bitmapDataLength msg \<noteq> 0
                  then if Stream_GetRemainingLength W s < unat (paint_bitmapDataLength msg) then (-1, s, msg)
                       else (0, Stream_Seek W s (unat (paint_bitmapDataLength msg)),
                             msg\<lparr>paint_bitmapData := Some (Stream_Pointer W s)\<rparr>)
                  else if Stream_GetRemainingLength W s < 4 then (-1, s, msg)
                       else let (v, s) = Stream_Read_UINT32 W s in (0, s, msg\<lparr>paint_fbSegmentId := v\<rparr>))
           in if status < 0 then (status, s, msg)
              else if Stream_GetRemainingLength W s < 8 then (-1, s, msg)
              else let (v, s) = Stream_Read_UINT16 W s; msg = msg\<lparr>paint_nWidth := ucast v\<rparr>;
                       (v, s) = Stream_Read_UINT16 W s; msg = msg\<lparr>paint_nHeight := ucast v\<rparr>;
                       (v, s) = Stream_Read_UINT16 W s; msg = msg\<lparr>paint_nXSrc := ucast v\<rparr>;
                       (v, s) = Stream_Read_UINT16 W s; msg = msg\<lparr>paint_nYSrc := ucast v\<rparr>
                   in (0, s, msg))"

definition freerds_write_paint_rect ::
  "'s wstream_ops \<Rightarrow> 's option \<Rightarrow> RDS_MSG_PAINT_RECT \<Rightarrow> (int \<times> 's option \<times> RDS_MSG_PAINT_RECT) option"
where
  [codec_defs]: "freerds_write_paint_rect W s msg =
     (let msg = msg\<lparr>msgFlags := RDS_MSG_FLAG_RECT\<rparr>;
          msg = msg\<lparr>msg_length := freerds_common_header_length msg + 20\<rparr>;
          msg = (if paint_fbSegmentId msg \<noteq> 0
                 then msg\<lparr>msg_length := msg_length msg + 4\<rparr>
                 else msg\<lparr>msg_length := msg_length msg + paint_bitmapDataLength msg\<rparr>)
      in case s of
           None \<Rightarrow> Some (sint (msg_length msg), None, msg)
         | Some s \<Rightarrow>
             let msg = msg\<lparr>rect := (rect msg)\<lparr>rect_x := paint_nLeftRect msg\<rparr>\<rparr>;
                 msg = msg\<lparr>rect := (rect msg)\<lparr>rect_y := paint_nTopRect msg\<rparr>\<rparr>;
                 msg = msg\<lparr>rect := (rect msg)\<lparr>rect_width := paint_nWidth msg\<rparr>\<rparr>;
                 msg = msg\<lparr>rect := (rect msg)\<lparr>rect_height := paint_nHeight msg\<rparr>\<rparr>;
                 s = freerds_write_common_header W s msg;
                 s = Stream_Write_UINT16 W s (ucast (paint_nLeftRect msg));
                 s = Stream_Write_UINT16 W s (ucast (paint_nTopRect msg));
                 s = Stream_Write_UINT16 W s (ucast (paint_nWidth msg));
                 s = Stream_Write_UINT16 W s (ucast (paint_nHeight msg));
                 written =
                   (if paint_fbSegmentId msg \<noteq> 0
                    then let s = Stream_Write_UINT32 W s 0;
                             s = Stream_Write_UINT32 W s (paint_fbSegmentId msg)
                         in Some s
                    else let s = Stream_Write_UINT32 W s (paint_bitmapDataLength msg)
                         in map_option (Stream_Write W s)
                              (load_bytes (paint_bitmapData msg) (unat (paint_bitmapDataLength msg))))
             in case written of
                  None \<Rightarrow> None
                | Some s \<Rightarrow>
                    let s = Stream_Write_UINT16 W s (ucast (paint_nWidth msg));
                        s = Stream_Write_UINT16 W s (ucast (paint_nHeight msg));
                        s = Stream_Write_UINT16 W s (ucast (paint_nXSrc msg));
                        s = Stream_Write_UINT16 W s (ucast (paint_nYSrc msg))
                    in Some (0, Some s, msg))"

text \<open>
  The body of a paint order holds either a bitmap or, after a zero length, the identifier of a shared
  memory segment.  A sender therefore has to give one of the two.
\<close>

definition paint_rect_ok :: "RDS_MSG_PAINT_RECT \<Rightarrow> bool" where
  [codec_defs]: "paint_rect_ok m \<longleftrightarrow>
     paint_fbSegmentId m \<noteq> 0 \<or>
     (paint_bitmapDataLength m \<noteq> 0 \<and> unat (paint_bitmapDataLength m) < 2 ^ 32 - 46 \<and>
      load_bytes (paint_bitmapData m) (unat (paint_bitmapDataLength m)) \<noteq> None)"

definition paint_rect_bitmap :: "RDS_MSG_PAINT_RECT \<Rightarrow> byte list" where
  "paint_rect_bitmap m = the (load_bytes (paint_bitmapData m) (unat (paint_bitmapDataLength m)))"

definition paint_rect_tail :: "RDS_MSG_PAINT_RECT \<Rightarrow> byte list" where
  [codec_defs]: "paint_rect_tail m =
     le16 (ucast (paint_nWidth m)) @ le16 (ucast (paint_nHeight m)) @
     le16 (ucast (paint_nXSrc m)) @ le16 (ucast (paint_nYSrc m))"

definition paint_rect_body :: "RDS_MSG_PAINT_RECT \<Rightarrow> byte list" where
  [codec_defs]: "paint_rect_body m =
     le16 (ucast (paint_nLeftRect m)) @ le16 (ucast (paint_nTopRect m)) @
     le16 (ucast (paint_nWidth m)) @ le16 (ucast (paint_nHeight m)) @
     (if paint_fbSegmentId m \<noteq> 0 then le32 0 @ le32 (paint_fbSegmentId m)
      else le32 (paint_bitmapDataLength m) @ paint_rect_bitmap m) @
     paint_rect_tail m"

definition paint_rect_decode :: "RDS_MSG_PAINT_RECT \<Rightarrow> byte list \<Rightarrow> RDS_MSG_PAINT_RECT \<Rightarrow> RDS_MSG_PAINT_RECT" where
  [codec_defs]: "paint_rect_decode sent rest m =
     (let m = m\<lparr>paint_nLeftRect := wire16 (paint_nLeftRect sent), paint_nTopRect := wire16 (paint_nTopRect sent),
                paint_nWidth := wire16 (paint_nWidth sent), paint_nHeight := wire16 (paint_nHeight sent),
                paint_nXSrc := wire16 (paint_nXSrc sent), paint_nYSrc := wire16 (paint_nYSrc sent)\<rparr>
      in if paint_fbSegmentId sent \<noteq> 0
         then m\<lparr>paint_bitmapDataLength := 0, paint_fbSegmentId := paint_fbSegmentId sent\<rparr>
         else m\<lparr>paint_bitmapDataLength := paint_bitmapDataLength sent,
                paint_bitmapData := Some (paint_rect_bitmap sent @ paint_rect_tail sent @ rest)\<rparr>)"

definition paint_rect_sized :: "RDS_MSG_PAINT_RECT \<Rightarrow> RDS_MSG_PAINT_RECT" where
  [codec_defs]: "paint_rect_sized m =
     set_header RDS_MSG_FLAG_RECT
       (20 + (if paint_fbSegmentId m \<noteq> 0 then 4 else paint_bitmapDataLength m)) m"

definition paint_rect_final :: "RDS_MSG_PAINT_RECT \<Rightarrow> RDS_MSG_PAINT_RECT" where
  [codec_defs]: "paint_rect_final m = (paint_rect_sized m)
     \<lparr>rect := \<lparr>rect_x = paint_nLeftRect m, rect_y = paint_nTopRect m,
               rect_width = paint_nWidth m, rect_height = paint_nHeight m\<rparr>\<rparr>"

lemma paint_rect_bitmap_frame [simp]:
  "paint_rect_bitmap (m\<lparr>msgFlags := f\<rparr>) = paint_rect_bitmap m"
  "paint_rect_bitmap (m\<lparr>msg_length := l\<rparr>) = paint_rect_bitmap m"
  "paint_rect_bitmap (m\<lparr>rect := r\<rparr>) = paint_rect_bitmap m"
  by (simp_all add: paint_rect_bitmap_def)

lemma paint_rect_bitmap_load:
  assumes "paint_rect_ok m" and "paint_fbSegmentId m = 0"
  shows "load_bytes (paint_bitmapData m) (unat (paint_bitmapDataLength m)) = Some (paint_rect_bitmap m)"
    and "length (paint_rect_bitmap m) = unat (paint_bitmapDataLength m)"
  using assms load_bytes_length by (auto simp: paint_rect_ok_def paint_rect_bitmap_def)

sublocale wstream \<subseteq> paint: rds_codec W "freerds_write_paint_rect W" paint_rect_sized paint_rect_final
  paint_rect_body paint_rect_ok "\<lambda>s m. Some (freerds_read_paint_rect W s m)" paint_rect_decode
proof (unfold_locales, goal_cases)
  case (2 m s)
  then show ?case
    using paint_rect_bitmap_load [of m]
    by (cases "paint_fbSegmentId m = 0")
       (simp_all add: codec_defs codec_simps stream_simps add.commute)
next
  case (3 m)
  then show ?case
    using paint_rect_bitmap_load [of m]
    by (cases "paint_fbSegmentId m = 0") (simp_all add: codec_defs codec_simps unat_plus_small)
next
  case (8 m s rest msg)
  then show ?case
    using paint_rect_bitmap_load [of m]
    by (cases "paint_fbSegmentId m = 0")
       (simp_all add: codec_defs codec_simps stream_simps, linarith+)
qed (simp_all add: codec_defs codec_simps add.commute)

text \<open>A copy owns its bitmap, and freeing it releases what the copy allocated.\<close>

definition freerds_paint_rect_copy :: "RDS_MSG_PAINT_RECT \<Rightarrow> (RDS_MSG_PAINT_RECT \<times> heap_block list) option" where
  [copy_defs]: "freerds_paint_rect_copy msg =
     (let dup = msg
      in if paint_bitmapDataLength msg \<noteq> 0
         then case load_bytes (paint_bitmapData msg) (unat (paint_bitmapDataLength msg)) of
                None \<Rightarrow> None
              | Some bs \<Rightarrow> Some (dup\<lparr>paint_bitmapData := Some bs\<rparr>, [MsgBlock, BitmapDataBlock])
         else Some (dup, [MsgBlock]))"

definition freerds_paint_rect_free :: "RDS_MSG_PAINT_RECT \<Rightarrow> heap_block list" where
  [copy_defs]: "freerds_paint_rect_free msg =
     (if paint_bitmapDataLength msg \<noteq> 0 then [BitmapDataBlock] else []) @ [MsgBlock]"

subsection \<open>Pattern blt\<close>

definition freerds_read_patblt ::
  "'s wstream_ops \<Rightarrow> 's \<Rightarrow> RDS_MSG_PATBLT \<Rightarrow> (int \<times> 's \<times> RDS_MSG_PATBLT) option" where
  [codec_defs]: "freerds_read_patblt W s msg =
     (if Stream_GetRemainingLength W s < 60 then Some (-1, s, msg)
      else let (v, s) = Stream_Read_UINT32 W s; msg = msg\<lparr>patblt_nLeftRect := v\<rparr>;
               (v, s) = Stream_Read_UINT32 W s; msg = msg\<lparr>patblt_nTopRect := v\<rparr>;
               (v, s) = Stream_Read_UINT32 W s; msg = msg\<lparr>patblt_nWidth := v\<rparr>;
               (v, s) = Stream_Read_UINT32 W s; msg = msg\<lparr>patblt_nHeight := v\<rparr>;
               (v, s) = Stream_Read_UINT32 W s; msg = msg\<lparr>patblt_bRop := v\<rparr>;
               (v, s) = Stream_Read_UINT32 W s; msg = msg\<lparr>patblt_backColor := v\<rparr>;
               (v, s) = Stream_Read_UINT32 W s; msg = msg\<lparr>patblt_foreColor := v\<rparr>;
               (v, s) = Stream_Read_UINT32 W s; brush = (patblt_brush msg)\<lparr>brush_x := v\<rparr>;
               (v, s) = Stream_Read_UINT32 W s; brush = brush\<lparr>brush_y := v\<rparr>;
               (v, s) = Stream_Read_UINT32 W s; brush = brush\<lparr>brush_bpp := v\<rparr>;
               (v, s) = Stream_Read_UINT32 W s; brush = brush\<lparr>brush_style := v\<rparr>;
               (v, s) = Stream_Read_UINT32 W s; brush = brush\<lparr>brush_hatch := v\<rparr>;
               (v, s) = Stream_Read_UINT32 W s; brush = brush\<lparr>brush_index := v\<rparr>;
               (bs, s) = Stream_Read W s 8
           in case store_bytes (brush_data brush) bs of
                None \<Rightarrow> None
              | Some p \<Rightarrow> Some (0, s, msg\<lparr>patblt_brush := brush\<lparr>brush_data := p\<rparr>\<rparr>))"

definition freerds_write_patblt ::
  "'s wstream_ops \<Rightarrow> 's option \<Rightarrow> RDS_MSG_PATBLT \<Rightarrow> (int \<times> 's option \<times> RDS_MSG_PATBLT) option" where
  [codec_defs]: "freerds_write_patblt W s msg =
     (let msg = msg\<lparr>msgFlags := RDS_MSG_FLAG_RECT\<rparr>;
          msg = msg\<lparr>msg_length := freerds_common_header_length msg + 60\<rparr>
      in case s of
           None \<Rightarrow> Some (sint (msg_length msg), None, msg)
         | Some s \<Rightarrow>
             let msg = msg\<lparr>rect := (rect msg)\<lparr>rect_x := patblt_nLeftRect msg\<rparr>\<rparr>;
                 msg = msg\<lparr>rect := (rect msg)\<lparr>rect_y := patblt_nTopRect msg\<rparr>\<rparr>;
                 msg = msg\<lparr>rect := (rect msg)\<lparr>rect_width := patblt_nWidth msg\<rparr>\<rparr>;
                 msg = msg\<lparr>rect := (rect msg)\<lparr>rect_height := patblt_nHeight msg\<rparr>\<rparr>;
                 s = freerds_write_common_header W s msg;
                 s = Stream_Write_UINT32 W s (patblt_nLeftRect msg);
                 s = Stream_Write_UINT32 W s (patblt_nTopRect msg);
                 s = Stream_Write_UINT32 W s (patblt_nWidth msg);
                 s = Stream_Write_UINT32 W s (patblt_nHeight msg);
                 s = Stream_Write_UINT32 W s (patblt_bRop msg);
                 s = Stream_Write_UINT32 W s (patblt_backColor msg);
                 s = Stream_Write_UINT32 W s (patblt_foreColor msg);
                 s = Stream_Write_UINT32 W s (brush_x (patblt_brush msg));
                 s = Stream_Write_UINT32 W s (brush_y (patblt_brush msg));
                 s = Stream_Write_UINT32 W s (brush_bpp (patblt_brush msg));
                 s = Stream_Write_UINT32 W s (brush_style (patblt_brush msg));
                 s = Stream_Write_UINT32 W s (brush_hatch (patblt_brush msg));
                 s = Stream_Write_UINT32 W s (brush_index (patblt_brush msg))
             in case load_bytes (brush_data (patblt_brush msg)) 8 of
                  None \<Rightarrow> None
                | Some bs \<Rightarrow> Some (0, Some (Stream_Write W s bs), msg))"

definition patblt_ok :: "RDS_MSG_PATBLT \<Rightarrow> bool" where
  [codec_defs]: "patblt_ok m \<longleftrightarrow> load_bytes (brush_data (patblt_brush m)) 8 \<noteq> None"

definition patblt_body :: "RDS_MSG_PATBLT \<Rightarrow> byte list" where
  [codec_defs]: "patblt_body m =
     le32 (patblt_nLeftRect m) @ le32 (patblt_nTopRect m) @ le32 (patblt_nWidth m) @
     le32 (patblt_nHeight m) @ le32 (patblt_bRop m) @ le32 (patblt_backColor m) @
     le32 (patblt_foreColor m) @
     le32 (brush_x (patblt_brush m)) @ le32 (brush_y (patblt_brush m)) @
     le32 (brush_bpp (patblt_brush m)) @ le32 (brush_style (patblt_brush m)) @
     le32 (brush_hatch (patblt_brush m)) @ le32 (brush_index (patblt_brush m)) @
     the (load_bytes (brush_data (patblt_brush m)) 8)"

definition patblt_decode :: "RDS_MSG_PATBLT \<Rightarrow> mem_ptr \<Rightarrow> RDS_MSG_PATBLT \<Rightarrow> RDS_MSG_PATBLT" where
  [codec_defs]: "patblt_decode sent p m =
     m\<lparr>patblt_nLeftRect := patblt_nLeftRect sent, patblt_nTopRect := patblt_nTopRect sent,
       patblt_nWidth := patblt_nWidth sent, patblt_nHeight := patblt_nHeight sent,
       patblt_bRop := patblt_bRop sent, patblt_backColor := patblt_backColor sent,
       patblt_foreColor := patblt_foreColor sent, patblt_brush := (patblt_brush sent)\<lparr>brush_data := p\<rparr>\<rparr>"

definition patblt_sized :: "RDS_MSG_PATBLT \<Rightarrow> RDS_MSG_PATBLT" where
  [codec_defs]: "patblt_sized = set_header RDS_MSG_FLAG_RECT 60"

definition patblt_final :: "RDS_MSG_PATBLT \<Rightarrow> RDS_MSG_PATBLT" where
  [codec_defs]: "patblt_final m = (set_header RDS_MSG_FLAG_RECT 60 m)
     \<lparr>rect := \<lparr>rect_x = patblt_nLeftRect m, rect_y = patblt_nTopRect m,
               rect_width = patblt_nWidth m, rect_height = patblt_nHeight m\<rparr>\<rparr>"

sublocale wstream \<subseteq> patblt: rds_writer W "freerds_write_patblt W" patblt_sized
  patblt_final patblt_body patblt_ok
proof (unfold_locales, goal_cases)
  case (2 m s)
  then show ?case
    using load_bytes_length [of "brush_data (patblt_brush m)" 8]
    by (auto simp: codec_defs codec_simps stream_simps)
next
  case (3 m)
  then show ?case
    using load_bytes_length [of "brush_data (patblt_brush m)" 8]
    by (auto simp: codec_defs codec_simps)
qed (simp_all add: codec_defs codec_simps)

text \<open>
  The reader stores the eight pattern bytes through \<open>brush.data\<close> of the message it fills, so it needs
  that pointer to be valid before the call; with a null pointer its behaviour is undefined.
\<close>

context wstream
begin

lemma read_patblt:
  assumes "patblt_ok m" and "Stream_Pointer W s = patblt_body m @ rest"
    and "60 \<le> Stream_GetRemainingLength W s"
  shows "freerds_read_patblt W s msg =
           (case store_bytes (brush_data (patblt_brush msg)) (the (load_bytes (brush_data (patblt_brush m)) 8)) of
              None \<Rightarrow> None
            | Some p \<Rightarrow> Some (0, Stream_Seek W s 60, patblt_decode m p msg))"
  using assms load_bytes_length [of "brush_data (patblt_brush m)" 8]
  by (auto simp: codec_defs codec_simps stream_simps split: option.split)

end

definition freerds_patblt_copy :: "RDS_MSG_PATBLT \<Rightarrow> RDS_MSG_PATBLT \<times> heap_block list" where
  [copy_defs]: "freerds_patblt_copy msg = (let dup = msg in (dup, [MsgBlock]))"

definition freerds_patblt_free :: "RDS_MSG_PATBLT \<Rightarrow> heap_block list" where
  [copy_defs]: "freerds_patblt_free msg = [MsgBlock]"

subsection \<open>Dstblt\<close>

definition freerds_read_dstblt ::
  "'s wstream_ops \<Rightarrow> ('s, RDS_MSG_DSTBLT) msg_reader" where
  [codec_defs]: "freerds_read_dstblt W s msg =
     (if Stream_GetRemainingLength W s < 20 then (-1, s, msg)
      else let (v, s) = Stream_Read_UINT32 W s; msg = msg\<lparr>dstblt_nLeftRect := v\<rparr>;
               (v, s) = Stream_Read_UINT32 W s; msg = msg\<lparr>dstblt_nTopRect := v\<rparr>;
               (v, s) = Stream_Read_UINT32 W s; msg = msg\<lparr>dstblt_nWidth := v\<rparr>;
               (v, s) = Stream_Read_UINT32 W s; msg = msg\<lparr>dstblt_nHeight := v\<rparr>;
               (v, s) = Stream_Read_UINT32 W s; msg = msg\<lparr>dstblt_bRop := v\<rparr>
           in (0, s, msg))"

definition freerds_write_dstblt ::
  "'s wstream_ops \<Rightarrow> ('s, RDS_MSG_DSTBLT) msg_writer" where
  [codec_defs]: "freerds_write_dstblt W s msg =
     (let msg = msg\<lparr>msgFlags := RDS_MSG_FLAG_RECT\<rparr>;
          msg = msg\<lparr>msg_length := freerds_common_header_length msg + 20\<rparr>
      in case s of
           None \<Rightarrow> (sint (msg_length msg), None, msg)
         | Some s \<Rightarrow>
             let msg = msg\<lparr>rect := (rect msg)\<lparr>rect_x := dstblt_nLeftRect msg\<rparr>\<rparr>;
                 msg = msg\<lparr>rect := (rect msg)\<lparr>rect_y := dstblt_nTopRect msg\<rparr>\<rparr>;
                 msg = msg\<lparr>rect := (rect msg)\<lparr>rect_width := dstblt_nWidth msg\<rparr>\<rparr>;
                 msg = msg\<lparr>rect := (rect msg)\<lparr>rect_height := dstblt_nHeight msg\<rparr>\<rparr>;
                 s = freerds_write_common_header W s msg;
                 s = Stream_Write_UINT32 W s (dstblt_nLeftRect msg);
                 s = Stream_Write_UINT32 W s (dstblt_nTopRect msg);
                 s = Stream_Write_UINT32 W s (dstblt_nWidth msg);
                 s = Stream_Write_UINT32 W s (dstblt_nHeight msg);
                 s = Stream_Write_UINT32 W s (dstblt_bRop msg)
             in (0, Some s, msg))"

definition dstblt_body :: "RDS_MSG_DSTBLT \<Rightarrow> byte list" where
  [codec_defs]: "dstblt_body m =
     le32 (dstblt_nLeftRect m) @ le32 (dstblt_nTopRect m) @ le32 (dstblt_nWidth m) @
     le32 (dstblt_nHeight m) @ le32 (dstblt_bRop m)"

definition dstblt_decode :: "RDS_MSG_DSTBLT \<Rightarrow> byte list \<Rightarrow> RDS_MSG_DSTBLT \<Rightarrow> RDS_MSG_DSTBLT" where
  [codec_defs]: "dstblt_decode sent rest m =
     m\<lparr>dstblt_nLeftRect := dstblt_nLeftRect sent, dstblt_nTopRect := dstblt_nTopRect sent,
       dstblt_nWidth := dstblt_nWidth sent, dstblt_nHeight := dstblt_nHeight sent,
       dstblt_bRop := dstblt_bRop sent\<rparr>"

definition dstblt_sized :: "RDS_MSG_DSTBLT \<Rightarrow> RDS_MSG_DSTBLT" where
  [codec_defs]: "dstblt_sized = set_header RDS_MSG_FLAG_RECT 20"

definition dstblt_final :: "RDS_MSG_DSTBLT \<Rightarrow> RDS_MSG_DSTBLT" where
  [codec_defs]: "dstblt_final m = (set_header RDS_MSG_FLAG_RECT 20 m)
     \<lparr>rect := \<lparr>rect_x = dstblt_nLeftRect m, rect_y = dstblt_nTopRect m,
               rect_width = dstblt_nWidth m, rect_height = dstblt_nHeight m\<rparr>\<rparr>"

sublocale wstream \<subseteq> dstblt: rds_fixed_codec W
  "\<lambda>s m. Some (freerds_write_dstblt W s m)" dstblt_sized dstblt_final
  dstblt_body "\<lambda>m. True" "\<lambda>s m. Some (freerds_read_dstblt W s m)"
  dstblt_decode 20
  by unfold_locales (simp_all add: codec_defs codec_simps stream_simps)

definition freerds_dstblt_copy :: "RDS_MSG_DSTBLT \<Rightarrow> RDS_MSG_DSTBLT \<times> heap_block list" where
  [copy_defs]: "freerds_dstblt_copy msg = (let dup = msg in (dup, [MsgBlock]))"

definition freerds_dstblt_free :: "RDS_MSG_DSTBLT \<Rightarrow> heap_block list" where
  [copy_defs]: "freerds_dstblt_free msg = [MsgBlock]"

subsection \<open>Line To\<close>

definition freerds_read_line_to ::
  "'s wstream_ops \<Rightarrow> ('s, RDS_MSG_LINE_TO) msg_reader" where
  [codec_defs]: "freerds_read_line_to W s msg =
     (if Stream_GetRemainingLength W s < 32 then (-1, s, msg)
      else let (v, s) = Stream_Read_UINT32 W s; msg = msg\<lparr>line_nXStart := v\<rparr>;
               (v, s) = Stream_Read_UINT32 W s; msg = msg\<lparr>line_nYStart := v\<rparr>;
               (v, s) = Stream_Read_UINT32 W s; msg = msg\<lparr>line_nXEnd := v\<rparr>;
               (v, s) = Stream_Read_UINT32 W s; msg = msg\<lparr>line_nYEnd := v\<rparr>;
               (v, s) = Stream_Read_UINT32 W s; msg = msg\<lparr>line_bRop2 := v\<rparr>;
               (v, s) = Stream_Read_UINT32 W s; msg = msg\<lparr>line_penStyle := v\<rparr>;
               (v, s) = Stream_Read_UINT32 W s; msg = msg\<lparr>line_penWidth := v\<rparr>;
               (v, s) = Stream_Read_UINT32 W s; msg = msg\<lparr>line_penColor := v\<rparr>
           in (0, s, msg))"

definition freerds_write_line_to ::
  "'s wstream_ops \<Rightarrow> ('s, RDS_MSG_LINE_TO) msg_writer" where
  [codec_defs]: "freerds_write_line_to W s msg =
     (let msg = msg\<lparr>msgFlags := 0\<rparr>;
          msg = msg\<lparr>msg_length := freerds_common_header_length msg + 32\<rparr>
      in case s of
           None \<Rightarrow> (sint (msg_length msg), None, msg)
         | Some s \<Rightarrow>
             let s = freerds_write_common_header W s msg;
                 s = Stream_Write_UINT32 W s (line_nXStart msg);
                 s = Stream_Write_UINT32 W s (line_nYStart msg);
                 s = Stream_Write_UINT32 W s (line_nXEnd msg);
                 s = Stream_Write_UINT32 W s (line_nYEnd msg);
                 s = Stream_Write_UINT32 W s (line_bRop2 msg);
                 s = Stream_Write_UINT32 W s (line_penStyle msg);
                 s = Stream_Write_UINT32 W s (line_penWidth msg);
                 s = Stream_Write_UINT32 W s (line_penColor msg)
             in (0, Some s, msg))"

definition line_to_body :: "RDS_MSG_LINE_TO \<Rightarrow> byte list" where
  [codec_defs]: "line_to_body m =
     le32 (line_nXStart m) @ le32 (line_nYStart m) @ le32 (line_nXEnd m) @ le32 (line_nYEnd m) @
     le32 (line_bRop2 m) @ le32 (line_penStyle m) @ le32 (line_penWidth m) @
     le32 (line_penColor m)"

definition line_to_decode :: "RDS_MSG_LINE_TO \<Rightarrow> byte list \<Rightarrow> RDS_MSG_LINE_TO \<Rightarrow> RDS_MSG_LINE_TO" where
  [codec_defs]: "line_to_decode sent rest m =
     m\<lparr>line_nXStart := line_nXStart sent, line_nYStart := line_nYStart sent,
       line_nXEnd := line_nXEnd sent, line_nYEnd := line_nYEnd sent,
       line_bRop2 := line_bRop2 sent, line_penStyle := line_penStyle sent,
       line_penWidth := line_penWidth sent, line_penColor := line_penColor sent\<rparr>"

definition line_to_final :: "RDS_MSG_LINE_TO \<Rightarrow> RDS_MSG_LINE_TO" where
  [codec_defs]: "line_to_final = set_header 0 32"

sublocale wstream \<subseteq> line: rds_fixed_codec W
  "\<lambda>s m. Some (freerds_write_line_to W s m)" line_to_final line_to_final
  line_to_body "\<lambda>m. True" "\<lambda>s m. Some (freerds_read_line_to W s m)"
  line_to_decode 32
  by unfold_locales (simp_all add: codec_defs codec_simps stream_simps)

definition freerds_line_to_copy :: "RDS_MSG_LINE_TO \<Rightarrow> RDS_MSG_LINE_TO \<times> heap_block list" where
  [copy_defs]: "freerds_line_to_copy msg = (let dup = msg in (dup, [MsgBlock]))"

definition freerds_line_to_free :: "RDS_MSG_LINE_TO \<Rightarrow> heap_block list" where
  [copy_defs]: "freerds_line_to_free msg = [MsgBlock]"

subsection \<open>Create Offscreen Surface\<close>

definition freerds_read_create_offscreen_surface ::
  "'s wstream_ops \<Rightarrow> ('s, RDS_MSG_CREATE_OFFSCREEN_SURFACE) msg_reader" where
  [codec_defs]: "freerds_read_create_offscreen_surface W s msg =
     (if Stream_GetRemainingLength W s < 8 then (-1, s, msg)
      else let (v, s) = Stream_Read_UINT32 W s; msg = msg\<lparr>cos_cacheIndex := v\<rparr>;
               (v, s) = Stream_Read_UINT16 W s; msg = msg\<lparr>cos_nWidth := ucast v\<rparr>;
               (v, s) = Stream_Read_UINT16 W s; msg = msg\<lparr>cos_nHeight := ucast v\<rparr>
           in (0, s, msg))"

definition freerds_write_create_offscreen_surface ::
  "'s wstream_ops \<Rightarrow> ('s, RDS_MSG_CREATE_OFFSCREEN_SURFACE) msg_writer" where
  [codec_defs]: "freerds_write_create_offscreen_surface W s msg =
     (let msg = msg\<lparr>msgFlags := 0\<rparr>;
          msg = msg\<lparr>msg_length := freerds_common_header_length msg + 8\<rparr>
      in case s of
           None \<Rightarrow> (sint (msg_length msg), None, msg)
         | Some s \<Rightarrow>
             let s = freerds_write_common_header W s msg;
                 s = Stream_Write_UINT32 W s (cos_cacheIndex msg);
                 s = Stream_Write_UINT16 W s (ucast (cos_nWidth msg));
                 s = Stream_Write_UINT16 W s (ucast (cos_nHeight msg))
             in (0, Some s, msg))"

definition create_offscreen_surface_body :: "RDS_MSG_CREATE_OFFSCREEN_SURFACE \<Rightarrow> byte list" where
  [codec_defs]: "create_offscreen_surface_body m =
     le32 (cos_cacheIndex m) @ le16 (ucast (cos_nWidth m)) @ le16 (ucast (cos_nHeight m))"

definition create_offscreen_surface_decode :: "RDS_MSG_CREATE_OFFSCREEN_SURFACE \<Rightarrow> byte list \<Rightarrow> RDS_MSG_CREATE_OFFSCREEN_SURFACE \<Rightarrow> RDS_MSG_CREATE_OFFSCREEN_SURFACE" where
  [codec_defs]: "create_offscreen_surface_decode sent rest m =
     m\<lparr>cos_cacheIndex := cos_cacheIndex sent, cos_nWidth := wire16 (cos_nWidth sent),
       cos_nHeight := wire16 (cos_nHeight sent)\<rparr>"

definition create_offscreen_surface_final :: "RDS_MSG_CREATE_OFFSCREEN_SURFACE \<Rightarrow> RDS_MSG_CREATE_OFFSCREEN_SURFACE" where
  [codec_defs]: "create_offscreen_surface_final = set_header 0 8"

sublocale wstream \<subseteq> cos: rds_fixed_codec W
  "\<lambda>s m. Some (freerds_write_create_offscreen_surface W s m)" create_offscreen_surface_final create_offscreen_surface_final
  create_offscreen_surface_body "\<lambda>m. True" "\<lambda>s m. Some (freerds_read_create_offscreen_surface W s m)"
  create_offscreen_surface_decode 8
  by unfold_locales (simp_all add: codec_defs codec_simps stream_simps)

definition freerds_create_offscreen_surface_copy :: "RDS_MSG_CREATE_OFFSCREEN_SURFACE \<Rightarrow> RDS_MSG_CREATE_OFFSCREEN_SURFACE \<times> heap_block list" where
  [copy_defs]: "freerds_create_offscreen_surface_copy msg = (let dup = msg in (dup, [MsgBlock]))"

definition freerds_create_offscreen_surface_free :: "RDS_MSG_CREATE_OFFSCREEN_SURFACE \<Rightarrow> heap_block list" where
  [copy_defs]: "freerds_create_offscreen_surface_free msg = [MsgBlock]"

subsection \<open>Switch Offscreen Surface\<close>

definition freerds_read_switch_offscreen_surface ::
  "'s wstream_ops \<Rightarrow> ('s, RDS_MSG_SWITCH_OFFSCREEN_SURFACE) msg_reader" where
  [codec_defs]: "freerds_read_switch_offscreen_surface W s msg =
     (if Stream_GetRemainingLength W s < 4 then (-1, s, msg)
      else let (v, s) = Stream_Read_UINT32 W s; msg = msg\<lparr>sos_cacheIndex := v\<rparr>
           in (0, s, msg))"

definition freerds_write_switch_offscreen_surface ::
  "'s wstream_ops \<Rightarrow> ('s, RDS_MSG_SWITCH_OFFSCREEN_SURFACE) msg_writer" where
  [codec_defs]: "freerds_write_switch_offscreen_surface W s msg =
     (let msg = msg\<lparr>msgFlags := 0\<rparr>;
          msg = msg\<lparr>msg_length := freerds_common_header_length msg + 4\<rparr>
      in case s of
           None \<Rightarrow> (sint (msg_length msg), None, msg)
         | Some s \<Rightarrow>
             let s = freerds_write_common_header W s msg;
                 s = Stream_Write_UINT32 W s (sos_cacheIndex msg)
             in (0, Some s, msg))"

definition switch_offscreen_surface_body :: "RDS_MSG_SWITCH_OFFSCREEN_SURFACE \<Rightarrow> byte list" where
  [codec_defs]: "switch_offscreen_surface_body m =
     le32 (sos_cacheIndex m)"

definition switch_offscreen_surface_decode :: "RDS_MSG_SWITCH_OFFSCREEN_SURFACE \<Rightarrow> byte list \<Rightarrow> RDS_MSG_SWITCH_OFFSCREEN_SURFACE \<Rightarrow> RDS_MSG_SWITCH_OFFSCREEN_SURFACE" where
  [codec_defs]: "switch_offscreen_surface_decode sent rest m =
     m\<lparr>sos_cacheIndex := sos_cacheIndex sent\<rparr>"

definition switch_offscreen_surface_final :: "RDS_MSG_SWITCH_OFFSCREEN_SURFACE \<Rightarrow> RDS_MSG_SWITCH_OFFSCREEN_SURFACE" where
  [codec_defs]: "switch_offscreen_surface_final = set_header 0 4"

sublocale wstream \<subseteq> sos: rds_fixed_codec W
  "\<lambda>s m. Some (freerds_write_switch_offscreen_surface W s m)" switch_offscreen_surface_final switch_offscreen_surface_final
  switch_offscreen_surface_body "\<lambda>m. True" "\<lambda>s m. Some (freerds_read_switch_offscreen_surface W s m)"
  switch_offscreen_surface_decode 4
  by unfold_locales (simp_all add: codec_defs codec_simps stream_simps)

definition freerds_switch_offscreen_surface_copy :: "RDS_MSG_SWITCH_OFFSCREEN_SURFACE \<Rightarrow> RDS_MSG_SWITCH_OFFSCREEN_SURFACE \<times> heap_block list" where
  [copy_defs]: "freerds_switch_offscreen_surface_copy msg = (let dup = msg in (dup, [MsgBlock]))"

definition freerds_switch_offscreen_surface_free :: "RDS_MSG_SWITCH_OFFSCREEN_SURFACE \<Rightarrow> heap_block list" where
  [copy_defs]: "freerds_switch_offscreen_surface_free msg = [MsgBlock]"

subsection \<open>Delete Offscreen Surface\<close>

definition freerds_read_delete_offscreen_surface ::
  "'s wstream_ops \<Rightarrow> ('s, RDS_MSG_DELETE_OFFSCREEN_SURFACE) msg_reader" where
  [codec_defs]: "freerds_read_delete_offscreen_surface W s msg =
     (if Stream_GetRemainingLength W s < 4 then (-1, s, msg)
      else let (v, s) = Stream_Read_UINT32 W s; msg = msg\<lparr>dos_cacheIndex := v\<rparr>
           in (0, s, msg))"

definition freerds_write_delete_offscreen_surface ::
  "'s wstream_ops \<Rightarrow> ('s, RDS_MSG_DELETE_OFFSCREEN_SURFACE) msg_writer" where
  [codec_defs]: "freerds_write_delete_offscreen_surface W s msg =
     (let msg = msg\<lparr>msgFlags := 0\<rparr>;
          msg = msg\<lparr>msg_length := freerds_common_header_length msg + 4\<rparr>
      in case s of
           None \<Rightarrow> (sint (msg_length msg), None, msg)
         | Some s \<Rightarrow>
             let s = freerds_write_common_header W s msg;
                 s = Stream_Write_UINT32 W s (dos_cacheIndex msg)
             in (0, Some s, msg))"

definition delete_offscreen_surface_body :: "RDS_MSG_DELETE_OFFSCREEN_SURFACE \<Rightarrow> byte list" where
  [codec_defs]: "delete_offscreen_surface_body m =
     le32 (dos_cacheIndex m)"

definition delete_offscreen_surface_decode :: "RDS_MSG_DELETE_OFFSCREEN_SURFACE \<Rightarrow> byte list \<Rightarrow> RDS_MSG_DELETE_OFFSCREEN_SURFACE \<Rightarrow> RDS_MSG_DELETE_OFFSCREEN_SURFACE" where
  [codec_defs]: "delete_offscreen_surface_decode sent rest m =
     m\<lparr>dos_cacheIndex := dos_cacheIndex sent\<rparr>"

definition delete_offscreen_surface_final :: "RDS_MSG_DELETE_OFFSCREEN_SURFACE \<Rightarrow> RDS_MSG_DELETE_OFFSCREEN_SURFACE" where
  [codec_defs]: "delete_offscreen_surface_final = set_header 0 4"

sublocale wstream \<subseteq> dos: rds_fixed_codec W
  "\<lambda>s m. Some (freerds_write_delete_offscreen_surface W s m)" delete_offscreen_surface_final delete_offscreen_surface_final
  delete_offscreen_surface_body "\<lambda>m. True" "\<lambda>s m. Some (freerds_read_delete_offscreen_surface W s m)"
  delete_offscreen_surface_decode 4
  by unfold_locales (simp_all add: codec_defs codec_simps stream_simps)

definition freerds_delete_offscreen_surface_copy :: "RDS_MSG_DELETE_OFFSCREEN_SURFACE \<Rightarrow> RDS_MSG_DELETE_OFFSCREEN_SURFACE \<times> heap_block list" where
  [copy_defs]: "freerds_delete_offscreen_surface_copy msg = (let dup = msg in (dup, [MsgBlock]))"

definition freerds_delete_offscreen_surface_free :: "RDS_MSG_DELETE_OFFSCREEN_SURFACE \<Rightarrow> heap_block list" where
  [copy_defs]: "freerds_delete_offscreen_surface_free msg = [MsgBlock]"

subsection \<open>Paint Offscreen Surface\<close>

definition freerds_read_paint_offscreen_surface ::
  "'s wstream_ops \<Rightarrow> ('s, RDS_MSG_PAINT_OFFSCREEN_SURFACE) msg_reader" where
  [codec_defs]: "freerds_read_paint_offscreen_surface W s msg =
     (if Stream_GetRemainingLength W s < 32 then (-1, s, msg)
      else let (v, s) = Stream_Read_UINT32 W s; msg = msg\<lparr>pos_cacheIndex := v\<rparr>;
               (v, s) = Stream_Read_UINT32 W s; msg = msg\<lparr>pos_nLeftRect := v\<rparr>;
               (v, s) = Stream_Read_UINT32 W s; msg = msg\<lparr>pos_nTopRect := v\<rparr>;
               (v, s) = Stream_Read_UINT32 W s; msg = msg\<lparr>pos_nWidth := v\<rparr>;
               (v, s) = Stream_Read_UINT32 W s; msg = msg\<lparr>pos_nHeight := v\<rparr>;
               (v, s) = Stream_Read_UINT32 W s; msg = msg\<lparr>pos_nXSrc := v\<rparr>;
               (v, s) = Stream_Read_UINT32 W s; msg = msg\<lparr>pos_nYSrc := v\<rparr>;
               (v, s) = Stream_Read_UINT32 W s; msg = msg\<lparr>pos_bRop := v\<rparr>
           in (0, s, msg))"

definition freerds_write_paint_offscreen_surface ::
  "'s wstream_ops \<Rightarrow> ('s, RDS_MSG_PAINT_OFFSCREEN_SURFACE) msg_writer" where
  [codec_defs]: "freerds_write_paint_offscreen_surface W s msg =
     (let msg = msg\<lparr>msgFlags := 0\<rparr>;
          msg = msg\<lparr>msg_length := freerds_common_header_length msg + 32\<rparr>
      in case s of
           None \<Rightarrow> (sint (msg_length msg), None, msg)
         | Some s \<Rightarrow>
             let s = freerds_write_common_header W s msg;
                 s = Stream_Write_UINT32 W s (pos_cacheIndex msg);
                 s = Stream_Write_UINT32 W s (pos_nLeftRect msg);
                 s = Stream_Write_UINT32 W s (pos_nTopRect msg);
                 s = Stream_Write_UINT32 W s (pos_nWidth msg);
                 s = Stream_Write_UINT32 W s (pos_nHeight msg);
                 s = Stream_Write_UINT32 W s (pos_nXSrc msg);
                 s = Stream_Write_UINT32 W s (pos_nYSrc msg);
                 s = Stream_Write_UINT32 W s (pos_bRop msg)
             in (0, Some s, msg))"

definition paint_offscreen_surface_body :: "RDS_MSG_PAINT_OFFSCREEN_SURFACE \<Rightarrow> byte list" where
  [codec_defs]: "paint_offscreen_surface_body m =
     le32 (pos_cacheIndex m) @ le32 (pos_nLeftRect m) @ le32 (pos_nTopRect m) @
     le32 (pos_nWidth m) @ le32 (pos_nHeight m) @ le32 (pos_nXSrc m) @ le32 (pos_nYSrc m) @
     le32 (pos_bRop m)"

definition paint_offscreen_surface_decode :: "RDS_MSG_PAINT_OFFSCREEN_SURFACE \<Rightarrow> byte list \<Rightarrow> RDS_MSG_PAINT_OFFSCREEN_SURFACE \<Rightarrow> RDS_MSG_PAINT_OFFSCREEN_SURFACE" where
  [codec_defs]: "paint_offscreen_surface_decode sent rest m =
     m\<lparr>pos_cacheIndex := pos_cacheIndex sent, pos_nLeftRect := pos_nLeftRect sent,
       pos_nTopRect := pos_nTopRect sent, pos_nWidth := pos_nWidth sent,
       pos_nHeight := pos_nHeight sent, pos_nXSrc := pos_nXSrc sent,
       pos_nYSrc := pos_nYSrc sent, pos_bRop := pos_bRop sent\<rparr>"

definition paint_offscreen_surface_final :: "RDS_MSG_PAINT_OFFSCREEN_SURFACE \<Rightarrow> RDS_MSG_PAINT_OFFSCREEN_SURFACE" where
  [codec_defs]: "paint_offscreen_surface_final = set_header 0 32"

sublocale wstream \<subseteq> pos: rds_fixed_codec W
  "\<lambda>s m. Some (freerds_write_paint_offscreen_surface W s m)" paint_offscreen_surface_final paint_offscreen_surface_final
  paint_offscreen_surface_body "\<lambda>m. True" "\<lambda>s m. Some (freerds_read_paint_offscreen_surface W s m)"
  paint_offscreen_surface_decode 32
  by unfold_locales (simp_all add: codec_defs codec_simps stream_simps)

definition freerds_paint_offscreen_surface_copy :: "RDS_MSG_PAINT_OFFSCREEN_SURFACE \<Rightarrow> RDS_MSG_PAINT_OFFSCREEN_SURFACE \<times> heap_block list" where
  [copy_defs]: "freerds_paint_offscreen_surface_copy msg = (let dup = msg in (dup, [MsgBlock]))"

definition freerds_paint_offscreen_surface_free :: "RDS_MSG_PAINT_OFFSCREEN_SURFACE \<Rightarrow> heap_block list" where
  [copy_defs]: "freerds_paint_offscreen_surface_free msg = [MsgBlock]"

context wstream
begin

lemmas opaque_roundtrip = opaque.write_then_read

end

end
