(* ===== verification/Rds_Session_Protocol.thy ===== *)
theory Rds_Session_Protocol
  imports Rds_Codec "HOL-Library.Monad_Syntax"
begin

text \<open>
  The other messages of a session backend, in the order of \<open>freerds/backend/protocol.c\<close>: pointers,
  the shared framebuffer, windows, and the logon and logoff messages of a client.
\<close>

text \<open>
  Five messages have readers and writers that only return: they write no header and set no length.
\<close>

subsection \<open>Set Palette\<close>

definition freerds_read_set_palette ::
  "'s wstream_ops \<Rightarrow> ('s, RDS_MSG_SET_PALETTE) msg_reader" where
  [codec_defs]: "freerds_read_set_palette W s msg = (0, s, msg)"

definition freerds_write_set_palette ::
  "'s wstream_ops \<Rightarrow> ('s, RDS_MSG_SET_PALETTE) msg_writer" where
  [codec_defs]: "freerds_write_set_palette W s msg = (0, s, msg)"

definition freerds_set_palette_copy :: "RDS_MSG_SET_PALETTE \<Rightarrow> RDS_MSG_SET_PALETTE \<times> heap_block list" where
  [copy_defs]: "freerds_set_palette_copy msg = (let dup = msg in (dup, [MsgBlock]))"

definition freerds_set_palette_free :: "RDS_MSG_SET_PALETTE \<Rightarrow> heap_block list" where
  [copy_defs]: "freerds_set_palette_free msg = [MsgBlock]"

subsection \<open>Cache Glyph\<close>

definition freerds_read_cache_glyph ::
  "'s wstream_ops \<Rightarrow> ('s, RDS_MSG_CACHE_GLYPH) msg_reader" where
  [codec_defs]: "freerds_read_cache_glyph W s msg = (0, s, msg)"

definition freerds_write_cache_glyph ::
  "'s wstream_ops \<Rightarrow> ('s, RDS_MSG_CACHE_GLYPH) msg_writer" where
  [codec_defs]: "freerds_write_cache_glyph W s msg = (0, s, msg)"

definition freerds_cache_glyph_copy :: "RDS_MSG_CACHE_GLYPH \<Rightarrow> RDS_MSG_CACHE_GLYPH \<times> heap_block list" where
  [copy_defs]: "freerds_cache_glyph_copy msg = (let dup = msg in (dup, [MsgBlock]))"

definition freerds_cache_glyph_free :: "RDS_MSG_CACHE_GLYPH \<Rightarrow> heap_block list" where
  [copy_defs]: "freerds_cache_glyph_free msg = [MsgBlock]"

subsection \<open>Glyph Index\<close>

definition freerds_read_glyph_index ::
  "'s wstream_ops \<Rightarrow> ('s, RDS_MSG_GLYPH_INDEX) msg_reader" where
  [codec_defs]: "freerds_read_glyph_index W s msg = (0, s, msg)"

definition freerds_write_glyph_index ::
  "'s wstream_ops \<Rightarrow> ('s, RDS_MSG_GLYPH_INDEX) msg_writer" where
  [codec_defs]: "freerds_write_glyph_index W s msg = (0, s, msg)"

definition freerds_glyph_index_copy :: "RDS_MSG_GLYPH_INDEX \<Rightarrow> RDS_MSG_GLYPH_INDEX \<times> heap_block list" where
  [copy_defs]: "freerds_glyph_index_copy msg = (let dup = msg in (dup, [MsgBlock]))"

definition freerds_glyph_index_free :: "RDS_MSG_GLYPH_INDEX \<Rightarrow> heap_block list" where
  [copy_defs]: "freerds_glyph_index_free msg = [MsgBlock]"

subsection \<open>Set pointer\<close>

definition freerds_read_set_pointer ::
  "'s wstream_ops \<Rightarrow> ('s, RDS_MSG_SET_POINTER) msg_reader" where
  [codec_defs]: "freerds_read_set_pointer W s msg =
     (if Stream_GetRemainingLength W s < 10 then (-1, s, msg)
      else let (v, s) = Stream_Read_UINT16 W s; msg = msg\<lparr>ptr_xPos := ucast v\<rparr>;
               (v, s) = Stream_Read_UINT16 W s; msg = msg\<lparr>ptr_yPos := ucast v\<rparr>;
               (v, s) = Stream_Read_UINT16 W s; msg = msg\<lparr>ptr_xorBpp := ucast v\<rparr>;
               (v, s) = Stream_Read_UINT16 W s; msg = msg\<lparr>ptr_lengthXorMask := ucast v\<rparr>;
               (v, s) = Stream_Read_UINT16 W s; msg = msg\<lparr>ptr_lengthAndMask := ucast v\<rparr>
           in if Stream_GetRemainingLength W s < unat (ptr_lengthXorMask msg) then (-1, s, msg)
              else let msg = msg\<lparr>ptr_xorMaskData := Some (Stream_Pointer W s)\<rparr>;
                       s = Stream_Seek W s (unat (ptr_lengthXorMask msg))
                   in if Stream_GetRemainingLength W s < unat (ptr_lengthAndMask msg) then (-1, s, msg)
                      else let msg = msg\<lparr>ptr_andMaskData := Some (Stream_Pointer W s)\<rparr>;
                               s = Stream_Seek W s (unat (ptr_lengthAndMask msg))
                           in (0, s, msg))"

definition freerds_write_set_pointer ::
  "'s wstream_ops \<Rightarrow> 's option \<Rightarrow> RDS_MSG_SET_POINTER \<Rightarrow> (int \<times> 's option \<times> RDS_MSG_SET_POINTER) option"
where
  [codec_defs]: "freerds_write_set_pointer W s msg =
     (let msg = (if ptr_xorBpp msg = 0 then msg\<lparr>ptr_xorBpp := 24\<rparr> else msg);
          msg = (if ptr_lengthXorMask msg = 0
                 then msg\<lparr>ptr_lengthXorMask := ((ptr_xorBpp msg + 7) div 8) * 32 * 32\<rparr> else msg);
          msg = (if ptr_lengthAndMask msg = 0 then msg\<lparr>ptr_lengthAndMask := 32 * (32 div 8)\<rparr> else msg);
          msg = msg\<lparr>msgFlags := 0\<rparr>;
          msg = msg\<lparr>msg_length := freerds_common_header_length msg +
                      10 + ptr_lengthXorMask msg + ptr_lengthAndMask msg\<rparr>
      in case s of
           None \<Rightarrow> Some (sint (msg_length msg), None, msg)
         | Some s \<Rightarrow>
             let msg = (if ptr_xPos msg < 0 then msg\<lparr>ptr_xPos := 0\<rparr> else msg);
                 msg = (if ptr_xPos msg > 31 then msg\<lparr>ptr_xPos := 31\<rparr> else msg);
                 msg = (if ptr_yPos msg < 0 then msg\<lparr>ptr_yPos := 0\<rparr> else msg);
                 msg = (if ptr_yPos msg > 31 then msg\<lparr>ptr_yPos := 31\<rparr> else msg);
                 s = freerds_write_common_header W s msg;
                 s = Stream_Write_UINT16 W s (ucast (ptr_xPos msg));
                 s = Stream_Write_UINT16 W s (ucast (ptr_yPos msg));
                 s = Stream_Write_UINT16 W s (ucast (ptr_xorBpp msg));
                 s = Stream_Write_UINT16 W s (ucast (ptr_lengthXorMask msg));
                 s = Stream_Write_UINT16 W s (ucast (ptr_lengthAndMask msg))
             in case load_bytes (ptr_xorMaskData msg) (unat (ptr_lengthXorMask msg)) of
                  None \<Rightarrow> None
                | Some xor_mask \<Rightarrow>
                    let s = Stream_Write W s xor_mask
                    in case load_bytes (ptr_andMaskData msg) (unat (ptr_lengthAndMask msg)) of
                         None \<Rightarrow> None
                       | Some and_mask \<Rightarrow> Some (0, Some (Stream_Write W s and_mask), msg))"

text \<open>
  The writer completes the message before it sizes it: \<open>set_pointer_fill\<close> is the message with the
  defaults of a 32 by 32 pointer in place of the zero fields.
\<close>

definition set_pointer_fill :: "RDS_MSG_SET_POINTER \<Rightarrow> RDS_MSG_SET_POINTER" where
  "set_pointer_fill m =
     (let bpp = (if ptr_xorBpp m = 0 then 24 else ptr_xorBpp m)
      in m\<lparr>ptr_xorBpp := bpp,
           ptr_lengthXorMask :=
             (if ptr_lengthXorMask m = 0 then ((bpp + 7) div 8) * 32 * 32 else ptr_lengthXorMask m),
           ptr_lengthAndMask := (if ptr_lengthAndMask m = 0 then 128 else ptr_lengthAndMask m)\<rparr>)"

definition set_pointer_sized :: "RDS_MSG_SET_POINTER \<Rightarrow> RDS_MSG_SET_POINTER" where
  "set_pointer_sized m =
     (let m = set_pointer_fill m in set_header 0 (10 + ptr_lengthXorMask m + ptr_lengthAndMask m) m)"

definition set_pointer_final :: "RDS_MSG_SET_POINTER \<Rightarrow> RDS_MSG_SET_POINTER" where
  "set_pointer_final m =
     (set_pointer_sized m)\<lparr>ptr_xPos := min 31 (ptr_xPos m), ptr_yPos := min 31 (ptr_yPos m)\<rparr>"

text \<open>The lengths go through 16 bits, and both masks have to be there at their full length.\<close>

definition set_pointer_ok :: "RDS_MSG_SET_POINTER \<Rightarrow> bool" where
  "set_pointer_ok m \<longleftrightarrow>
     (let m = set_pointer_fill m
      in unat (ptr_lengthXorMask m) < 65536 \<and> unat (ptr_lengthAndMask m) < 65536 \<and>
         load_bytes (ptr_xorMaskData m) (unat (ptr_lengthXorMask m)) \<noteq> None \<and>
         load_bytes (ptr_andMaskData m) (unat (ptr_lengthAndMask m)) \<noteq> None)"

definition set_pointer_xor :: "RDS_MSG_SET_POINTER \<Rightarrow> byte list" where
  "set_pointer_xor m = the (load_bytes (ptr_xorMaskData m) (unat (ptr_lengthXorMask m)))"

definition set_pointer_and :: "RDS_MSG_SET_POINTER \<Rightarrow> byte list" where
  "set_pointer_and m = the (load_bytes (ptr_andMaskData m) (unat (ptr_lengthAndMask m)))"

definition set_pointer_body :: "RDS_MSG_SET_POINTER \<Rightarrow> byte list" where
  "set_pointer_body m =
     le16 (ucast (ptr_xPos m)) @ le16 (ucast (ptr_yPos m)) @ le16 (ucast (ptr_xorBpp m)) @
     le16 (ucast (ptr_lengthXorMask m)) @ le16 (ucast (ptr_lengthAndMask m)) @
     set_pointer_xor m @ set_pointer_and m"

definition set_pointer_decode :: "RDS_MSG_SET_POINTER \<Rightarrow> byte list \<Rightarrow> RDS_MSG_SET_POINTER \<Rightarrow> RDS_MSG_SET_POINTER"
where
  "set_pointer_decode sent rest m =
     m\<lparr>ptr_xPos := wire16 (ptr_xPos sent), ptr_yPos := wire16 (ptr_yPos sent),
       ptr_xorBpp := wire16 (ptr_xorBpp sent), ptr_lengthXorMask := ptr_lengthXorMask sent,
       ptr_lengthAndMask := ptr_lengthAndMask sent,
       ptr_xorMaskData := Some (set_pointer_xor sent @ set_pointer_and sent @ rest),
       ptr_andMaskData := Some (set_pointer_and sent @ rest)\<rparr>"

lemma set_pointer_masks:
  assumes "set_pointer_ok m"
  shows "load_bytes (ptr_xorMaskData m) (unat (ptr_lengthXorMask (set_pointer_fill m))) =
           Some (set_pointer_xor (set_pointer_final m))"
    and "load_bytes (ptr_andMaskData m) (unat (ptr_lengthAndMask (set_pointer_fill m))) =
           Some (set_pointer_and (set_pointer_final m))"
    and "length (set_pointer_xor (set_pointer_final m)) = unat (ptr_lengthXorMask (set_pointer_fill m))"
    and "length (set_pointer_and (set_pointer_final m)) = unat (ptr_lengthAndMask (set_pointer_fill m))"
  using assms load_bytes_length
  by (auto simp: set_pointer_ok_def set_pointer_xor_def set_pointer_and_def set_pointer_final_def
      set_pointer_sized_def set_pointer_fill_def set_header_def Let_def)

text \<open>The first half of the writer is the fill, the second the clamping of the hot spot.\<close>

lemma write_set_pointer_None:
  "freerds_write_set_pointer W None m = Some (sint (msg_length (set_pointer_sized m)), None, set_pointer_sized m)"
  by (simp add: freerds_write_set_pointer_def set_pointer_sized_def set_pointer_fill_def
      freerds_common_header_length_def RDS_ORDER_HEADER_LENGTH_def set_header_def Let_def add.assoc)

lemma length_header_set_pointer: "length (header_bytes (set_pointer_final m)) = 10"
  by (simp add: set_pointer_final_def set_pointer_sized_def codec_simps)

lemma set_pointer_final_lengths:
  "ptr_lengthXorMask (set_pointer_final m) = ptr_lengthXorMask (set_pointer_fill m)"
  "ptr_lengthAndMask (set_pointer_final m) = ptr_lengthAndMask (set_pointer_fill m)"
  by (simp_all add: set_pointer_final_def set_pointer_sized_def codec_simps)

lemma set_pointer_wire_lengths:
  assumes "set_pointer_ok m"
  shows "ucast (ucast (ptr_lengthXorMask (set_pointer_fill m)) :: UINT16) = ptr_lengthXorMask (set_pointer_fill m)"
    and "ucast (ucast (ptr_lengthAndMask (set_pointer_fill m)) :: UINT16) = ptr_lengthAndMask (set_pointer_fill m)"
  using assms by (simp_all add: set_pointer_ok_def Let_def word_unat_eq_iff unat_ucast_16_32)

lemma clamp_pos:
  "(if ptr_xPos m > 31 then m\<lparr>ptr_xPos := 31\<rparr> else m) = m\<lparr>ptr_xPos := min 31 (ptr_xPos m)\<rparr>"
  "(if ptr_yPos m > 31 then m\<lparr>ptr_yPos := 31\<rparr> else m) = m\<lparr>ptr_yPos := min 31 (ptr_yPos m)\<rparr>"
  by (simp_all add: min_def not_less)

context wstream
begin

lemma write_set_pointer_Some:
  assumes "set_pointer_ok m"
    and "10 + length (set_pointer_body (set_pointer_final m)) \<le> length (Stream_Pointer W s)"
  shows "freerds_write_set_pointer W (Some s) m =
           Some (0, Some (Stream_Write W s (header_bytes (set_pointer_final m) @
                                            set_pointer_body (set_pointer_final m))),
                 set_pointer_final m)"
proof -
  have fill: "(let msg = (if ptr_xorBpp m = 0 then m\<lparr>ptr_xorBpp := 24\<rparr> else m);
          msg = (if ptr_lengthXorMask msg = 0
                 then msg\<lparr>ptr_lengthXorMask := ((ptr_xorBpp msg + 7) div 8) * 32 * 32\<rparr> else msg);
          msg = (if ptr_lengthAndMask msg = 0 then msg\<lparr>ptr_lengthAndMask := 32 * (32 div 8)\<rparr> else msg)
      in f msg) = f (set_pointer_fill m)" for f :: "RDS_MSG_SET_POINTER \<Rightarrow> 'z"
    by (simp add: set_pointer_fill_def Let_def)
  have keep: "ptr_xorMaskData (set_pointer_fill m) = ptr_xorMaskData m"
    "ptr_andMaskData (set_pointer_fill m) = ptr_andMaskData m"
    "ptr_xPos (set_pointer_fill m) = ptr_xPos m" "ptr_yPos (set_pointer_fill m) = ptr_yPos m"
    by (simp_all add: set_pointer_fill_def Let_def)
  show ?thesis
    using assms set_pointer_masks [OF assms(1)]
    unfolding freerds_write_set_pointer_def fill
    by (simp add: clamp_pos keep codec_simps stream_simps set_pointer_body_def set_pointer_final_def
        set_pointer_sized_def add.assoc)
qed

end

sublocale wstream \<subseteq> ptr: rds_codec W "freerds_write_set_pointer W" set_pointer_sized set_pointer_final
  set_pointer_body set_pointer_ok "\<lambda>s m. Some (freerds_read_set_pointer W s m)" set_pointer_decode
proof (unfold_locales, goal_cases)
  case (2 m s)
  then show ?case
    by (simp add: write_set_pointer_Some length_header_set_pointer)
next
  case (3 m)
  then show ?case
    using set_pointer_masks [of m]
    by (simp add: codec_simps set_pointer_body_def set_pointer_final_def set_pointer_sized_def
       set_pointer_ok_def unat_plus_small)
next
  case (8 m s rest msg)
  note masks = set_pointer_masks [OF 8(1)] and lengths = set_pointer_wire_lengths [OF 8(1)]
  have len: "length (set_pointer_body (set_pointer_final m)) =
      10 + unat (ptr_lengthXorMask (set_pointer_fill m)) + unat (ptr_lengthAndMask (set_pointer_fill m))"
    by (simp add: set_pointer_body_def masks)
  show ?case
    using 8(3) 8(2) [unfolded set_pointer_body_def]
    by (simp add: codec_simps stream_simps freerds_read_set_pointer_def set_pointer_decode_def
        len masks lengths set_pointer_final_lengths) linarith
qed (simp_all add: codec_simps set_pointer_ok_def set_pointer_fill_def set_pointer_final_def set_pointer_sized_def
     write_set_pointer_None)

text \<open>A copy owns both masks, and freeing it releases what the copy allocated.\<close>

definition freerds_set_pointer_copy :: "RDS_MSG_SET_POINTER \<Rightarrow> (RDS_MSG_SET_POINTER \<times> heap_block list) option" where
  [copy_defs]: "freerds_set_pointer_copy msg =
     (let dup = msg;
          masked =
            (if ptr_andMaskData dup \<noteq> None
             then map_option (\<lambda>bs. (dup\<lparr>ptr_andMaskData := Some bs\<rparr>, [MsgBlock, AndMaskBlock]))
                    (load_bytes (ptr_andMaskData msg) (unat (ptr_lengthAndMask dup)))
             else Some (dup, [MsgBlock]))
      in case masked of
           None \<Rightarrow> None
         | Some (dup, blocks) \<Rightarrow>
             if ptr_xorMaskData dup \<noteq> None
             then map_option (\<lambda>bs. (dup\<lparr>ptr_xorMaskData := Some bs\<rparr>, blocks @ [XorMaskBlock]))
                    (load_bytes (ptr_xorMaskData msg) (unat (ptr_lengthXorMask dup)))
             else Some (dup, blocks))"

definition freerds_set_pointer_free :: "RDS_MSG_SET_POINTER \<Rightarrow> heap_block list" where
  [copy_defs]: "freerds_set_pointer_free msg =
     (if ptr_andMaskData msg \<noteq> None then [AndMaskBlock] else []) @
     (if ptr_xorMaskData msg \<noteq> None then [XorMaskBlock] else []) @ [MsgBlock]"

subsection \<open>Set System Pointer\<close>

definition freerds_read_set_system_pointer ::
  "'s wstream_ops \<Rightarrow> ('s, RDS_MSG_SET_SYSTEM_POINTER) msg_reader" where
  [codec_defs]: "freerds_read_set_system_pointer W s msg =
     (if Stream_GetRemainingLength W s < 4 then (-1, s, msg)
      else let (v, s) = Stream_Read_UINT32 W s; msg = msg\<lparr>sysptr_ptrType := v\<rparr>
           in (0, s, msg))"

definition freerds_write_set_system_pointer ::
  "'s wstream_ops \<Rightarrow> ('s, RDS_MSG_SET_SYSTEM_POINTER) msg_writer" where
  [codec_defs]: "freerds_write_set_system_pointer W s msg =
     (let msg = msg\<lparr>msgFlags := 0\<rparr>;
          msg = msg\<lparr>msg_length := freerds_common_header_length msg + 4\<rparr>
      in case s of
           None \<Rightarrow> (sint (msg_length msg), None, msg)
         | Some s \<Rightarrow>
             let s = freerds_write_common_header W s msg;
                 s = Stream_Write_UINT32 W s (sysptr_ptrType msg)
             in (0, Some s, msg))"

definition set_system_pointer_body :: "RDS_MSG_SET_SYSTEM_POINTER \<Rightarrow> byte list" where
  [codec_defs]: "set_system_pointer_body m =
     le32 (sysptr_ptrType m)"

definition set_system_pointer_decode :: "RDS_MSG_SET_SYSTEM_POINTER \<Rightarrow> byte list \<Rightarrow> RDS_MSG_SET_SYSTEM_POINTER \<Rightarrow> RDS_MSG_SET_SYSTEM_POINTER" where
  [codec_defs]: "set_system_pointer_decode sent rest m =
     m\<lparr>sysptr_ptrType := sysptr_ptrType sent\<rparr>"

definition set_system_pointer_final :: "RDS_MSG_SET_SYSTEM_POINTER \<Rightarrow> RDS_MSG_SET_SYSTEM_POINTER" where
  [codec_defs]: "set_system_pointer_final = set_header 0 4"

sublocale wstream \<subseteq> sysptr: rds_fixed_codec W
  "\<lambda>s m. Some (freerds_write_set_system_pointer W s m)" set_system_pointer_final set_system_pointer_final
  set_system_pointer_body "\<lambda>m. True" "\<lambda>s m. Some (freerds_read_set_system_pointer W s m)"
  set_system_pointer_decode 4
  by unfold_locales (simp_all add: codec_defs codec_simps stream_simps)

definition freerds_set_system_pointer_copy :: "RDS_MSG_SET_SYSTEM_POINTER \<Rightarrow> RDS_MSG_SET_SYSTEM_POINTER \<times> heap_block list" where
  [copy_defs]: "freerds_set_system_pointer_copy msg = (let dup = msg in (dup, [MsgBlock]))"

definition freerds_set_system_pointer_free :: "RDS_MSG_SET_SYSTEM_POINTER \<Rightarrow> heap_block list" where
  [copy_defs]: "freerds_set_system_pointer_free msg = [MsgBlock]"

subsection \<open>Shared Framebuffer\<close>

definition freerds_read_shared_framebuffer ::
  "'s wstream_ops \<Rightarrow> ('s, RDS_MSG_SHARED_FRAMEBUFFER) msg_reader" where
  [codec_defs]: "freerds_read_shared_framebuffer W s msg =
     (if Stream_GetRemainingLength W s < 28 then (-1, s, msg)
      else let (v, s) = Stream_Read_UINT32 W s; msg = msg\<lparr>shfb_flags := v\<rparr>;
               (v, s) = Stream_Read_UINT32 W s; msg = msg\<lparr>shfb_width := v\<rparr>;
               (v, s) = Stream_Read_UINT32 W s; msg = msg\<lparr>shfb_height := v\<rparr>;
               (v, s) = Stream_Read_UINT32 W s; msg = msg\<lparr>shfb_scanline := v\<rparr>;
               (v, s) = Stream_Read_UINT32 W s; msg = msg\<lparr>shfb_segmentId := v\<rparr>;
               (v, s) = Stream_Read_UINT32 W s; msg = msg\<lparr>shfb_bitsPerPixel := v\<rparr>;
               (v, s) = Stream_Read_UINT32 W s; msg = msg\<lparr>shfb_bytesPerPixel := v\<rparr>
           in (0, s, msg))"

definition freerds_write_shared_framebuffer ::
  "'s wstream_ops \<Rightarrow> ('s, RDS_MSG_SHARED_FRAMEBUFFER) msg_writer" where
  [codec_defs]: "freerds_write_shared_framebuffer W s msg =
     (let msg = msg\<lparr>msgFlags := 0\<rparr>;
          msg = msg\<lparr>msg_length := freerds_common_header_length msg + 28\<rparr>
      in case s of
           None \<Rightarrow> (sint (msg_length msg), None, msg)
         | Some s \<Rightarrow>
             let s = freerds_write_common_header W s msg;
                 s = Stream_Write_UINT32 W s (shfb_flags msg);
                 s = Stream_Write_UINT32 W s (shfb_width msg);
                 s = Stream_Write_UINT32 W s (shfb_height msg);
                 s = Stream_Write_UINT32 W s (shfb_scanline msg);
                 s = Stream_Write_UINT32 W s (shfb_segmentId msg);
                 s = Stream_Write_UINT32 W s (shfb_bitsPerPixel msg);
                 s = Stream_Write_UINT32 W s (shfb_bytesPerPixel msg)
             in (0, Some s, msg))"

definition shared_framebuffer_body :: "RDS_MSG_SHARED_FRAMEBUFFER \<Rightarrow> byte list" where
  [codec_defs]: "shared_framebuffer_body m =
     le32 (shfb_flags m) @ le32 (shfb_width m) @ le32 (shfb_height m) @ le32 (shfb_scanline m) @
     le32 (shfb_segmentId m) @ le32 (shfb_bitsPerPixel m) @ le32 (shfb_bytesPerPixel m)"

definition shared_framebuffer_decode :: "RDS_MSG_SHARED_FRAMEBUFFER \<Rightarrow> byte list \<Rightarrow> RDS_MSG_SHARED_FRAMEBUFFER \<Rightarrow> RDS_MSG_SHARED_FRAMEBUFFER" where
  [codec_defs]: "shared_framebuffer_decode sent rest m =
     m\<lparr>shfb_flags := shfb_flags sent, shfb_width := shfb_width sent,
       shfb_height := shfb_height sent, shfb_scanline := shfb_scanline sent,
       shfb_segmentId := shfb_segmentId sent, shfb_bitsPerPixel := shfb_bitsPerPixel sent,
       shfb_bytesPerPixel := shfb_bytesPerPixel sent\<rparr>"

definition shared_framebuffer_final :: "RDS_MSG_SHARED_FRAMEBUFFER \<Rightarrow> RDS_MSG_SHARED_FRAMEBUFFER" where
  [codec_defs]: "shared_framebuffer_final = set_header 0 28"

sublocale wstream \<subseteq> shfb: rds_fixed_codec W
  "\<lambda>s m. Some (freerds_write_shared_framebuffer W s m)" shared_framebuffer_final shared_framebuffer_final
  shared_framebuffer_body "\<lambda>m. True" "\<lambda>s m. Some (freerds_read_shared_framebuffer W s m)"
  shared_framebuffer_decode 28
  by unfold_locales (simp_all add: codec_defs codec_simps stream_simps)

definition freerds_shared_framebuffer_copy :: "RDS_MSG_SHARED_FRAMEBUFFER \<Rightarrow> RDS_MSG_SHARED_FRAMEBUFFER \<times> heap_block list" where
  [copy_defs]: "freerds_shared_framebuffer_copy msg = (let dup = msg in (dup, [MsgBlock]))"

definition freerds_shared_framebuffer_free :: "RDS_MSG_SHARED_FRAMEBUFFER \<Rightarrow> heap_block list" where
  [copy_defs]: "freerds_shared_framebuffer_free msg = [MsgBlock]"

subsection \<open>Beep\<close>

definition freerds_read_beep ::
  "'s wstream_ops \<Rightarrow> ('s, RDS_MSG_BEEP) msg_reader" where
  [codec_defs]: "freerds_read_beep W s msg = (0, s, msg)"

definition freerds_write_beep ::
  "'s wstream_ops \<Rightarrow> ('s, RDS_MSG_BEEP) msg_writer" where
  [codec_defs]: "freerds_write_beep W s msg = (0, s, msg)"

definition freerds_beep_copy :: "RDS_MSG_BEEP \<Rightarrow> RDS_MSG_BEEP \<times> heap_block list" where
  [copy_defs]: "freerds_beep_copy msg = (let dup = msg in (dup, [MsgBlock]))"

definition freerds_beep_free :: "RDS_MSG_BEEP \<Rightarrow> heap_block list" where
  [copy_defs]: "freerds_beep_free msg = [MsgBlock]"

subsection \<open>Reset\<close>

definition freerds_read_reset ::
  "'s wstream_ops \<Rightarrow> ('s, RDS_MSG_RESET) msg_reader" where
  [codec_defs]: "freerds_read_reset W s msg = (0, s, msg)"

definition freerds_write_reset ::
  "'s wstream_ops \<Rightarrow> ('s, RDS_MSG_RESET) msg_writer" where
  [codec_defs]: "freerds_write_reset W s msg = (0, s, msg)"

definition freerds_reset_copy :: "RDS_MSG_RESET \<Rightarrow> RDS_MSG_RESET \<times> heap_block list" where
  [copy_defs]: "freerds_reset_copy msg = (let dup = msg in (dup, [MsgBlock]))"

definition freerds_reset_free :: "RDS_MSG_RESET \<Rightarrow> heap_block list" where
  [copy_defs]: "freerds_reset_free msg = [MsgBlock]"

subsection \<open>Window new update\<close>

text \<open>
  The field flags of a window order are constants of FreeRDP, so they are a parameter \<open>K\<close>; the code relies
  on them being distinct bits.
\<close>

record window_order_flags =
  WINDOW_ORDER_TYPE_WINDOW :: UINT32
  WINDOW_ORDER_STATE_NEW :: UINT32
  WINDOW_ORDER_FIELD_OWNER :: UINT32
  WINDOW_ORDER_FIELD_STYLE :: UINT32
  WINDOW_ORDER_FIELD_SHOW :: UINT32
  WINDOW_ORDER_FIELD_TITLE :: UINT32
  WINDOW_ORDER_FIELD_CLIENT_AREA_OFFSET :: UINT32
  WINDOW_ORDER_FIELD_CLIENT_AREA_SIZE :: UINT32
  WINDOW_ORDER_FIELD_ROOT_PARENT :: UINT32
  WINDOW_ORDER_FIELD_WND_OFFSET :: UINT32
  WINDOW_ORDER_FIELD_WND_CLIENT_DELTA :: UINT32
  WINDOW_ORDER_FIELD_WND_SIZE :: UINT32
  WINDOW_ORDER_FIELD_WND_RECTS :: UINT32
  WINDOW_ORDER_FIELD_VIS_OFFSET :: UINT32
  WINDOW_ORDER_FIELD_VISIBILITY :: UINT32

definition window_order_list :: "window_order_flags \<Rightarrow> UINT32 list" where
  "window_order_list K =
     [WINDOW_ORDER_TYPE_WINDOW K, WINDOW_ORDER_STATE_NEW K, WINDOW_ORDER_FIELD_OWNER K,
      WINDOW_ORDER_FIELD_STYLE K, WINDOW_ORDER_FIELD_SHOW K, WINDOW_ORDER_FIELD_TITLE K,
      WINDOW_ORDER_FIELD_CLIENT_AREA_OFFSET K, WINDOW_ORDER_FIELD_CLIENT_AREA_SIZE K, WINDOW_ORDER_FIELD_ROOT_PARENT K,
      WINDOW_ORDER_FIELD_WND_OFFSET K, WINDOW_ORDER_FIELD_WND_CLIENT_DELTA K, WINDOW_ORDER_FIELD_WND_SIZE K,
      WINDOW_ORDER_FIELD_WND_RECTS K, WINDOW_ORDER_FIELD_VIS_OFFSET K, WINDOW_ORDER_FIELD_VISIBILITY K]"

definition distinct_flags :: "window_order_flags \<Rightarrow> bool" where
  "distinct_flags K \<longleftrightarrow>
     0 \<notin> set (window_order_list K) \<and> sorted_wrt (\<lambda>a b. a AND b = 0) (window_order_list K)"

definition window_read_flags :: "window_order_flags \<Rightarrow> UINT32" where
  "window_read_flags K =
     (let flags = WINDOW_ORDER_TYPE_WINDOW K OR WINDOW_ORDER_STATE_NEW K;
          flags = flags OR WINDOW_ORDER_FIELD_OWNER K;
          flags = flags OR WINDOW_ORDER_FIELD_STYLE K;
          flags = flags OR WINDOW_ORDER_FIELD_SHOW K;
          flags = flags OR WINDOW_ORDER_FIELD_TITLE K;
          flags = flags OR WINDOW_ORDER_FIELD_CLIENT_AREA_OFFSET K;
          flags = flags OR WINDOW_ORDER_FIELD_CLIENT_AREA_SIZE K;
          flags = flags OR WINDOW_ORDER_FIELD_ROOT_PARENT K;
          flags = flags OR WINDOW_ORDER_FIELD_WND_RECTS K;
          flags = flags OR WINDOW_ORDER_FIELD_VIS_OFFSET K;
          flags = flags OR WINDOW_ORDER_FIELD_VISIBILITY K
      in flags)"

text \<open>
  The two array loops of the reader.  \<open>windowRects\<close> is pointed into the stream; \<open>visibilityRects\<close> is used
  as the caller left it.
\<close>

definition freerds_read_window_new_update ::
  "'s wstream_ops \<Rightarrow> window_order_flags \<Rightarrow> 's \<Rightarrow> RDS_MSG_WINDOW_NEW_UPDATE \<Rightarrow>
   (int \<times> 's \<times> RDS_MSG_WINDOW_NEW_UPDATE) option" where
  "freerds_read_window_new_update W K s msg =
     do {
       let flags = window_read_flags K;
       let (s, msg) = (if flags AND WINDOW_ORDER_FIELD_OWNER K \<noteq> 0
                       then let (v, s) = Stream_Read_UINT32 W s; msg = msg\<lparr>wnu_windowId := v\<rparr>;
                               (v, s) = Stream_Read_UINT32 W s; msg = msg\<lparr>wnu_ownerWindowId := v\<rparr>
                            in (s, msg)
                       else (s, msg));
       let (s, msg) = (if flags AND WINDOW_ORDER_FIELD_STYLE K \<noteq> 0
                       then let (v, s) = Stream_Read_UINT32 W s; msg = msg\<lparr>wnu_style := v\<rparr>;
                               (v, s) = Stream_Read_UINT32 W s; msg = msg\<lparr>wnu_extendedStyle := v\<rparr>
                            in (s, msg)
                       else (s, msg));
       let (s, msg) = (if flags AND WINDOW_ORDER_FIELD_SHOW K \<noteq> 0
                       then let (v, s) = Stream_Read_UINT32 W s; msg = msg\<lparr>wnu_showState := v\<rparr>
                            in (s, msg)
                       else (s, msg));
       (s, msg) \<leftarrow> (if flags AND WINDOW_ORDER_FIELD_TITLE K \<noteq> 0
                    then let (v, s) = Stream_Read_UINT16 W s;
                             msg = msg\<lparr>wnu_titleInfo := (wnu_titleInfo msg)\<lparr>us_length := v\<rparr>\<rparr>
                         in map_option (\<lambda>bs. (Stream_Write W s bs, msg))
                              (load_bytes (us_string (wnu_titleInfo msg)) (unat (us_length (wnu_titleInfo msg))))
                    else Some (s, msg));
       let (s, msg) = (if flags AND WINDOW_ORDER_FIELD_CLIENT_AREA_OFFSET K \<noteq> 0
                       then let (v, s) = Stream_Read_UINT32 W s; msg = msg\<lparr>wnu_clientOffsetX := v\<rparr>;
                               (v, s) = Stream_Read_UINT32 W s; msg = msg\<lparr>wnu_clientOffsetY := v\<rparr>
                            in (s, msg)
                       else (s, msg));
       let (s, msg) = (if flags AND WINDOW_ORDER_FIELD_CLIENT_AREA_SIZE K \<noteq> 0
                       then let (v, s) = Stream_Read_UINT32 W s; msg = msg\<lparr>wnu_clientAreaWidth := v\<rparr>;
                               (v, s) = Stream_Read_UINT32 W s; msg = msg\<lparr>wnu_clientAreaHeight := v\<rparr>
                            in (s, msg)
                       else (s, msg));
       let (s, msg) = (if flags AND WINDOW_ORDER_FIELD_ROOT_PARENT K \<noteq> 0
                       then let (v, s) = Stream_Read_UINT32 W s; msg = msg\<lparr>wnu_RPContent := v\<rparr>;
                               (v, s) = Stream_Read_UINT32 W s; msg = msg\<lparr>wnu_rootParentHandle := v\<rparr>
                            in (s, msg)
                       else (s, msg));
       let (s, msg) = (if flags AND WINDOW_ORDER_FIELD_WND_OFFSET K \<noteq> 0
                       then let (v, s) = Stream_Read_UINT32 W s; msg = msg\<lparr>wnu_windowOffsetX := v\<rparr>;
                               (v, s) = Stream_Read_UINT32 W s; msg = msg\<lparr>wnu_windowOffsetY := v\<rparr>
                            in (s, msg)
                       else (s, msg));
       let (s, msg) = (if flags AND WINDOW_ORDER_FIELD_WND_CLIENT_DELTA K \<noteq> 0
                       then let (v, s) = Stream_Read_UINT32 W s; msg = msg\<lparr>wnu_windowClientDeltaX := v\<rparr>;
                               (v, s) = Stream_Read_UINT32 W s; msg = msg\<lparr>wnu_windowClientDeltaY := v\<rparr>
                            in (s, msg)
                       else (s, msg));
       let (s, msg) = (if flags AND WINDOW_ORDER_FIELD_WND_SIZE K \<noteq> 0
                       then let (v, s) = Stream_Read_UINT32 W s; msg = msg\<lparr>wnu_windowWidth := v\<rparr>;
                               (v, s) = Stream_Read_UINT32 W s; msg = msg\<lparr>wnu_windowHeight := v\<rparr>
                            in (s, msg)
                       else (s, msg));
       (s, msg) \<leftarrow> (if flags AND WINDOW_ORDER_FIELD_WND_RECTS K \<noteq> 0
                    then let (v, s) = Stream_Read_UINT16 W s; msg = msg\<lparr>wnu_numWindowRects := ucast v\<rparr>;
                             msg = msg\<lparr>wnu_windowRects := rects_at (Stream_Pointer W s)\<rparr>
                         in map_option (\<lambda>(rs, s). (s, msg\<lparr>wnu_windowRects := rs\<rparr>))
                              (read_rect16s W s (wnu_windowRects msg) (unat (wnu_numWindowRects msg)))
                    else Some (s, msg));
       let (s, msg) = (if flags AND WINDOW_ORDER_FIELD_VIS_OFFSET K \<noteq> 0
                       then let (v, s) = Stream_Read_UINT32 W s; msg = msg\<lparr>wnu_visibleOffsetX := v\<rparr>;
                               (v, s) = Stream_Read_UINT32 W s; msg = msg\<lparr>wnu_visibleOffsetY := v\<rparr>
                            in (s, msg)
                       else (s, msg));
       (s, msg) \<leftarrow> (if flags AND WINDOW_ORDER_FIELD_VISIBILITY K \<noteq> 0
                    then let (v, s) = Stream_Read_UINT16 W s; msg = msg\<lparr>wnu_numVisibilityRects := ucast v\<rparr>
                         in case wnu_visibilityRects msg of
                              None \<Rightarrow> if wnu_numVisibilityRects msg = 0 then Some (s, msg) else None
                            | Some rs \<Rightarrow>
                                map_option (\<lambda>(rs, s). (s, msg\<lparr>wnu_visibilityRects := Some rs\<rparr>))
                                  (read_rect16s W s rs (unat (wnu_numVisibilityRects msg)))
                    else Some (s, msg));
       let (flags, s) = Stream_Read_UINT32 W s;
       Some (0, s, msg)
     }"

text \<open>The part of the writer after the header.\<close>

definition write_window_fields ::
  "'s wstream_ops \<Rightarrow> window_order_flags \<Rightarrow> 's \<Rightarrow> RDS_MSG_WINDOW_NEW_UPDATE \<Rightarrow> 's option" where
  "write_window_fields W K s msg =
     (let flags = WINDOW_ORDER_TYPE_WINDOW K OR WINDOW_ORDER_STATE_NEW K;
          s = Stream_Write_UINT32 W s (wnu_windowId msg);
          s = Stream_Write_UINT32 W s (wnu_ownerWindowId msg);
          flags = flags OR WINDOW_ORDER_FIELD_OWNER K;
          s = Stream_Write_UINT32 W s (wnu_style msg);
          s = Stream_Write_UINT32 W s (wnu_extendedStyle msg);
          flags = flags OR WINDOW_ORDER_FIELD_STYLE K;
          s = Stream_Write_UINT32 W s (wnu_showState msg);
          flags = flags OR WINDOW_ORDER_FIELD_SHOW K;
          s = Stream_Write_UINT16 W s (us_length (wnu_titleInfo msg))
      in do {
        bs \<leftarrow> load_bytes (us_string (wnu_titleInfo msg)) (unat (us_length (wnu_titleInfo msg)));
        let s = Stream_Write W s bs;
        let flags = flags OR WINDOW_ORDER_FIELD_TITLE K;
        let s = Stream_Write_UINT32 W s (wnu_clientOffsetX msg);
        let s = Stream_Write_UINT32 W s (wnu_clientOffsetY msg);
        let flags = flags OR WINDOW_ORDER_FIELD_CLIENT_AREA_OFFSET K;
        let s = Stream_Write_UINT32 W s (wnu_clientAreaWidth msg);
        let s = Stream_Write_UINT32 W s (wnu_clientAreaHeight msg);
        let flags = flags OR WINDOW_ORDER_FIELD_CLIENT_AREA_SIZE K;
        let s = Stream_Write_UINT32 W s (wnu_RPContent msg);
        let s = Stream_Write_UINT32 W s (wnu_rootParentHandle msg);
        let flags = flags OR WINDOW_ORDER_FIELD_ROOT_PARENT K;
        let s = Stream_Write_UINT32 W s (wnu_windowOffsetX msg);
        let s = Stream_Write_UINT32 W s (wnu_windowOffsetY msg);
        let flags = flags OR WINDOW_ORDER_FIELD_WND_OFFSET K;
        let s = Stream_Write_UINT32 W s (wnu_windowClientDeltaX msg);
        let s = Stream_Write_UINT32 W s (wnu_windowClientDeltaY msg);
        let flags = flags OR WINDOW_ORDER_FIELD_WND_CLIENT_DELTA K;
        let s = Stream_Write_UINT32 W s (wnu_windowWidth msg);
        let s = Stream_Write_UINT32 W s (wnu_windowHeight msg);
        let flags = flags OR WINDOW_ORDER_FIELD_WND_SIZE K;
        let s = Stream_Write_UINT16 W s (ucast (wnu_numWindowRects msg));
        s \<leftarrow> write_rect16s W s (wnu_windowRects msg) (unat (wnu_numWindowRects msg));
        let flags = flags OR WINDOW_ORDER_FIELD_WND_RECTS K;
        let s = Stream_Write_UINT32 W s (wnu_visibleOffsetX msg);
        let s = Stream_Write_UINT32 W s (wnu_visibleOffsetY msg);
        let flags = flags OR WINDOW_ORDER_FIELD_VIS_OFFSET K;
        let s = Stream_Write_UINT16 W s (ucast (wnu_numVisibilityRects msg));
        s \<leftarrow> (case wnu_visibilityRects msg of
                None \<Rightarrow> if wnu_numVisibilityRects msg = 0 then Some s else None
              | Some rs \<Rightarrow> write_rect16s W s rs (unat (wnu_numVisibilityRects msg)));
        let flags = flags OR WINDOW_ORDER_FIELD_VISIBILITY K;
        let s = Stream_Write_UINT32 W s flags;
        Some s
      })"

definition freerds_write_window_new_update ::
  "'s wstream_ops \<Rightarrow> window_order_flags \<Rightarrow> 's option \<Rightarrow> RDS_MSG_WINDOW_NEW_UPDATE \<Rightarrow>
   (int \<times> 's option \<times> RDS_MSG_WINDOW_NEW_UPDATE) option" where
  "freerds_write_window_new_update W K s msg =
     (let msg = msg\<lparr>msgFlags := 0\<rparr>;
          msg = msg\<lparr>msg_length := freerds_common_header_length msg +
                      (5 * 4) + (2 + ucast (us_length (wnu_titleInfo msg))) + (12 * 4) +
                      (2 + wnu_numWindowRects msg * 8) + (4 + 4) +
                      (2 + wnu_numVisibilityRects msg * 8) + 4\<rparr>
      in case s of
           None \<Rightarrow> Some (sint (msg_length msg), None, msg)
         | Some s \<Rightarrow>
             let s = freerds_write_common_header W s msg
             in case write_window_fields W K s msg of
                  None \<Rightarrow> None
                | Some s \<Rightarrow> Some (0, Some s, msg))"

text \<open>The wire format, with the fields a reader has to skip or use in the middle.\<close>

definition window_title :: "RDS_MSG_WINDOW_NEW_UPDATE \<Rightarrow> byte list" where
  "window_title m = the (load_bytes (us_string (wnu_titleInfo m)) (unat (us_length (wnu_titleInfo m))))"

definition window_vis_rects :: "RDS_MSG_WINDOW_NEW_UPDATE \<Rightarrow> RECTANGLE_16 list" where
  "window_vis_rects m = (case wnu_visibilityRects m of None \<Rightarrow> [] | Some rs \<Rightarrow> rs)"

definition window_all_flags :: "window_order_flags \<Rightarrow> UINT32" where
  "window_all_flags K = fold (\<lambda>a b. b OR a) (window_order_list K) 0"

definition window_head :: "RDS_MSG_WINDOW_NEW_UPDATE \<Rightarrow> byte list" where
  "window_head m =
     le32 (wnu_windowId m) @ le32 (wnu_ownerWindowId m) @ le32 (wnu_style m) @ le32 (wnu_extendedStyle m) @
     le32 (wnu_showState m) @ le16 (us_length (wnu_titleInfo m)) @ window_title m"

definition window_middle :: "RDS_MSG_WINDOW_NEW_UPDATE \<Rightarrow> byte list" where
  "window_middle m =
     le32 (wnu_clientOffsetX m) @ le32 (wnu_clientOffsetY m) @ le32 (wnu_clientAreaWidth m) @
     le32 (wnu_clientAreaHeight m) @ le32 (wnu_RPContent m) @ le32 (wnu_rootParentHandle m) @
     le32 (wnu_windowOffsetX m) @ le32 (wnu_windowOffsetY m) @ le32 (wnu_windowClientDeltaX m) @
     le32 (wnu_windowClientDeltaY m) @ le32 (wnu_windowWidth m) @ le32 (wnu_windowHeight m) @
     le16 (ucast (wnu_numWindowRects m))"

definition window_visible :: "RDS_MSG_WINDOW_NEW_UPDATE \<Rightarrow> byte list" where
  "window_visible m =
     le32 (wnu_visibleOffsetX m) @ le32 (wnu_visibleOffsetY m) @ le16 (ucast (wnu_numVisibilityRects m))"

definition window_new_update_body :: "window_order_flags \<Rightarrow> RDS_MSG_WINDOW_NEW_UPDATE \<Rightarrow> byte list" where
  "window_new_update_body K m =
     window_head m @ window_middle m @
     rects_bytes (take (unat (wnu_numWindowRects m)) (wnu_windowRects m)) @ window_visible m @
     rects_bytes (take (unat (wnu_numVisibilityRects m)) (window_vis_rects m)) @
     le32 (window_all_flags K)"

definition window_new_update_ok :: "RDS_MSG_WINDOW_NEW_UPDATE \<Rightarrow> bool" where
  "window_new_update_ok m \<longleftrightarrow>
     load_bytes (us_string (wnu_titleInfo m)) (unat (us_length (wnu_titleInfo m))) \<noteq> None \<and>
     unat (wnu_numWindowRects m) < 65536 \<and> unat (wnu_numWindowRects m) \<le> length (wnu_windowRects m) \<and>
     unat (wnu_numVisibilityRects m) < 65536 \<and>
     unat (wnu_numVisibilityRects m) \<le> length (window_vis_rects m)"

definition window_new_update_final :: "RDS_MSG_WINDOW_NEW_UPDATE \<Rightarrow> RDS_MSG_WINDOW_NEW_UPDATE" where
  "window_new_update_final m =
     set_header 0 (86 + (ucast (us_length (wnu_titleInfo m)) + (wnu_numWindowRects m * 8 +
                   wnu_numVisibilityRects m * 8))) m"

lemma window_frame_invariant [simp]:
  "window_title (m\<lparr>msgFlags := f\<rparr>) = window_title m"
  "window_title (m\<lparr>msg_length := l\<rparr>) = window_title m"
  "window_vis_rects (m\<lparr>msgFlags := f\<rparr>) = window_vis_rects m"
  "window_vis_rects (m\<lparr>msg_length := l\<rparr>) = window_vis_rects m"
  by (simp_all add: window_title_def window_vis_rects_def)

lemma window_new_update_body_header [simp]:
  "window_new_update_body K (window_new_update_final m) = window_new_update_body K m"
  "window_new_update_ok (window_new_update_final m) = window_new_update_ok m"
  by (simp_all add: window_new_update_body_def window_head_def window_middle_def window_visible_def
      window_new_update_ok_def window_new_update_final_def set_header_def)

lemma window_title_load:
  assumes "window_new_update_ok m"
  shows "load_bytes (us_string (wnu_titleInfo m)) (unat (us_length (wnu_titleInfo m))) = Some (window_title m)"
    and "length (window_title m) = unat (us_length (wnu_titleInfo m))"
  using assms load_bytes_length by (auto simp: window_new_update_ok_def window_title_def)

lemma window_rects_lengths:
  assumes "window_new_update_ok m"
  shows "min (length (wnu_windowRects m)) (unat (wnu_numWindowRects m)) = unat (wnu_numWindowRects m)"
    and "min (length (window_vis_rects m)) (unat (wnu_numVisibilityRects m)) = unat (wnu_numVisibilityRects m)"
  using assms by (simp_all add: window_new_update_ok_def)

lemma length_window_parts [simp]:
  "window_new_update_ok m \<Longrightarrow> length (window_head m) = 22 + unat (us_length (wnu_titleInfo m))"
  "length (window_middle m) = 50"
  "length (window_visible m) = 10"
  by (simp_all add: window_head_def window_middle_def window_visible_def window_title_load)

lemma length_window_body:
  assumes "window_new_update_ok m"
  shows "length (window_new_update_body K m) =
           86 + unat (us_length (wnu_titleInfo m)) + 8 * unat (wnu_numWindowRects m) +
           8 * unat (wnu_numVisibilityRects m)"
  using assms by (simp add: window_new_update_body_def window_rects_lengths)

lemma window_length_field:
  assumes "window_new_update_ok m"
  shows "unat (msg_length (window_new_update_final m)) =
           96 + unat (us_length (wnu_titleInfo m)) + 8 * unat (wnu_numWindowRects m) +
           8 * unat (wnu_numVisibilityRects m)"
proof -
  have "unat (ucast (us_length (wnu_titleInfo m)) :: UINT32) = unat (us_length (wnu_titleInfo m))"
    by (simp add: unsigned_ucast_eq take_bit_nat_eq_self less_le_trans [OF unsigned_less])
  moreover have "unat (us_length (wnu_titleInfo m)) < 65536"
    using unsigned_less [of "us_length (wnu_titleInfo m)"] by simp
  ultimately show ?thesis
    using assms
    by (simp add: window_new_update_ok_def window_new_update_final_def set_header_def unat_plus_small unat_times_small)
qed

context wstream
begin

lemma write_vis_rects:
  assumes "window_new_update_ok m"
    and "8 * unat (wnu_numVisibilityRects m) \<le> length (Stream_Pointer W s)"
  shows "(case wnu_visibilityRects m of
            None \<Rightarrow> if wnu_numVisibilityRects m = 0 then Some s else None
          | Some rs \<Rightarrow> write_rect16s W s rs (unat (wnu_numVisibilityRects m))) =
         Some (Stream_Write W s (rects_bytes (take (unat (wnu_numVisibilityRects m)) (window_vis_rects m))))"
  using assms
  by (auto simp: window_new_update_ok_def window_vis_rects_def write_rect16s_eq unat_eq_zero Write_Nil
      split: option.splits)

lemma write_window_head:
  assumes "window_new_update_ok m"
    and "22 + unat (us_length (wnu_titleInfo m)) \<le> length (Stream_Pointer W s)"
  shows "Stream_Write W (Stream_Write_UINT16 W (Stream_Write_UINT32 W (Stream_Write_UINT32 W
     (Stream_Write_UINT32 W (Stream_Write_UINT32 W (Stream_Write_UINT32 W s (wnu_windowId m))
     (wnu_ownerWindowId m)) (wnu_style m)) (wnu_extendedStyle m)) (wnu_showState m))
     (us_length (wnu_titleInfo m))) (window_title m) = Stream_Write W s (window_head m)"
  using assms(2)
  by (simp add: window_head_def Write_UINT16_eq Write_UINT32_eq Write_Write window_title_load [OF assms(1)])

lemma write_window_middle:
  assumes "50 \<le> length (Stream_Pointer W s)"
  shows "Stream_Write_UINT16 W (Stream_Write_UINT32 W (Stream_Write_UINT32 W (Stream_Write_UINT32 W
    (Stream_Write_UINT32 W (Stream_Write_UINT32 W (Stream_Write_UINT32 W (Stream_Write_UINT32 W
    (Stream_Write_UINT32 W (Stream_Write_UINT32 W (Stream_Write_UINT32 W (Stream_Write_UINT32 W
    (Stream_Write_UINT32 W s (wnu_clientOffsetX m)) (wnu_clientOffsetY m)) (wnu_clientAreaWidth m))
    (wnu_clientAreaHeight m)) (wnu_RPContent m)) (wnu_rootParentHandle m)) (wnu_windowOffsetX m))
    (wnu_windowOffsetY m)) (wnu_windowClientDeltaX m)) (wnu_windowClientDeltaY m)) (wnu_windowWidth m))
    (wnu_windowHeight m)) (ucast (wnu_numWindowRects m)) = Stream_Write W s (window_middle m)"
  using assms by (simp add: window_middle_def Write_UINT16_eq Write_UINT32_eq Write_Write)

lemma write_window_visible:
  assumes "10 \<le> length (Stream_Pointer W s)"
  shows "Stream_Write_UINT16 W (Stream_Write_UINT32 W (Stream_Write_UINT32 W s (wnu_visibleOffsetX m))
    (wnu_visibleOffsetY m)) (ucast (wnu_numVisibilityRects m)) = Stream_Write W s (window_visible m)"
  using assms by (simp add: window_visible_def Write_UINT16_eq Write_UINT32_eq Write_Write)

lemma write_window_fields_eq:
  assumes ok: "window_new_update_ok m"
    and room: "length (window_new_update_body K m) \<le> length (Stream_Pointer W s)"
  shows "write_window_fields W K s m = Some (Stream_Write W s (window_new_update_body K m))"
proof -
  note len = length_window_body [OF ok, of K] and parts = length_window_parts(1) [OF ok]
  define s1 where "s1 = Stream_Write W s (window_head m)"
  have p1: "Stream_Pointer W s1 = drop (length (window_head m)) (Stream_Pointer W s)"
    using room len by (simp add: s1_def Write_pointer parts)
  define s2 where "s2 = Stream_Write W s1 (window_middle m)"
  have p2: "Stream_Pointer W s2 = drop 50 (Stream_Pointer W s1)"
    using room len by (simp add: s2_def Write_pointer p1 parts)
  define s3 where
    "s3 = Stream_Write W s2 (rects_bytes (take (unat (wnu_numWindowRects m)) (wnu_windowRects m)))"
  have r3: "write_rect16s W s2 (wnu_windowRects m) (unat (wnu_numWindowRects m)) = Some s3"
    using room len ok by (simp add: s3_def write_rect16s_eq p2 p1 parts window_new_update_ok_def)
  have p3: "Stream_Pointer W s3 = drop (8 * unat (wnu_numWindowRects m)) (Stream_Pointer W s2)"
    using room len by (simp add: s3_def Write_pointer p2 p1 parts window_rects_lengths [OF ok])
  define s4 where "s4 = Stream_Write W s3 (window_visible m)"
  have p4: "Stream_Pointer W s4 = drop 10 (Stream_Pointer W s3)"
    using room len by (simp add: s4_def Write_pointer p3 p2 p1 parts)
  have w1: "22 + unat (us_length (wnu_titleInfo m)) \<le> length (Stream_Pointer W s)"
    using room len by simp
  have w2: "50 \<le> length (Stream_Pointer W s1)" and w4: "10 \<le> length (Stream_Pointer W s3)"
    and w5: "8 * unat (wnu_numVisibilityRects m) \<le> length (Stream_Pointer W s4)"
    using room len by (simp_all add: p4 p3 p2 p1 parts)
  have "write_window_fields W K s m =
      Some (Stream_Write_UINT32 W (Stream_Write W s4 (rects_bytes (take (unat (wnu_numVisibilityRects m))
        (window_vis_rects m)))) (window_all_flags K))"
    unfolding write_window_fields_def Let_def window_title_load(1) [OF ok] Option.bind.bind_lunit
      write_window_head [OF ok w1, folded s1_def] write_window_middle [OF w2, of m, folded s2_def] r3
      write_window_visible [OF w4, of m, folded s4_def] write_vis_rects [OF ok w5]
    by (simp add: window_all_flags_def window_order_list_def or.assoc)
  also have "\<dots> = Some (Stream_Write W s (window_new_update_body K m))"
    using room len
    by (simp add: s4_def s3_def s2_def s1_def Write_UINT32_eq Write_Write window_new_update_body_def
        parts window_rects_lengths [OF ok])
  finally show ?thesis .
qed

end

lemma write_window_Some:
  "freerds_write_window_new_update W K (Some s) m =
     map_option (\<lambda>s. (0, Some s, window_new_update_final m))
       (write_window_fields W K (freerds_write_common_header W s (window_new_update_final m))
          (window_new_update_final m))"
  by (simp add: freerds_write_window_new_update_def window_new_update_final_def codec_simps freerds_common_header_length_def
      RDS_ORDER_HEADER_LENGTH_def add.assoc map_option_case split: option.split)

sublocale wstream \<subseteq> wnu: rds_writer W "freerds_write_window_new_update W K" window_new_update_final
  window_new_update_final "window_new_update_body K" window_new_update_ok for K
proof (unfold_locales, goal_cases)
  case (2 m s)
  then show ?case
    by (simp add: write_window_Some write_common_header write_window_fields_eq Write_pointer Write_Write)
next
  case (3 m)
  then show ?case
    by (simp add: window_length_field length_window_body) (simp add: window_new_update_final_def codec_simps)
qed (simp_all add: freerds_write_window_new_update_def window_new_update_final_def codec_simps
     window_new_update_ok_def add.assoc)

text \<open>
  The flags the reader computes name neither the window offset nor the client delta nor the window
  size, though the writer always sends the three; so the reader takes the bytes of the window offset
  for the number of window rectangles.  The lemma follows it on a window without title at the origin.
\<close>

lemma window_read_flags_bits:
  assumes "distinct_flags K"
  shows "window_read_flags K AND WINDOW_ORDER_FIELD_WND_OFFSET K = 0"
    and "window_read_flags K AND WINDOW_ORDER_FIELD_WND_CLIENT_DELTA K = 0"
    and "window_read_flags K AND WINDOW_ORDER_FIELD_WND_SIZE K = 0"
  using assms
  by (simp_all add: distinct_flags_def window_order_list_def window_read_flags_def Let_def
      bit.conj_disj_distrib bit.conj_disj_distrib2 and.commute)

lemma window_read_flags_set:
  assumes "distinct_flags K" and "k \<in> {WINDOW_ORDER_FIELD_OWNER K, WINDOW_ORDER_FIELD_STYLE K,
    WINDOW_ORDER_FIELD_SHOW K, WINDOW_ORDER_FIELD_TITLE K, WINDOW_ORDER_FIELD_CLIENT_AREA_OFFSET K,
    WINDOW_ORDER_FIELD_CLIENT_AREA_SIZE K, WINDOW_ORDER_FIELD_ROOT_PARENT K, WINDOW_ORDER_FIELD_WND_RECTS K,
    WINDOW_ORDER_FIELD_VIS_OFFSET K, WINDOW_ORDER_FIELD_VISIBILITY K}"
  shows "window_read_flags K AND k \<noteq> 0"
proof -
  have "window_read_flags K AND k = k"
    using assms(2)
    by (auto simp: window_read_flags_def Let_def bit_eq_iff bit_simps)
  moreover have "k \<noteq> 0"
    using assms by (auto simp: distinct_flags_def window_order_list_def)
  ultimately show ?thesis by simp
qed

context wstream
begin

lemma read_window_new_update_misaligned:
  assumes K: "distinct_flags K"
    and ptr: "Stream_Pointer W s = window_new_update_body K m @ rest"
    and title: "us_length (wnu_titleInfo m) = 0"
    and origin: "wnu_windowOffsetX m = 0" "wnu_windowOffsetY m = 0" "wnu_windowClientDeltaX m = 0"
  shows "\<exists>m'. freerds_read_window_new_update W K s msg = Some (0, Stream_Seek W s 62, m') \<and>
              wnu_numWindowRects m' = 0 \<and> wnu_windowWidth m' = wnu_windowWidth msg"
proof -
  note on = window_read_flags_set [OF K] and off = window_read_flags_bits [OF K]
  have no_title: "window_title m = []"
    using title by (simp add: window_title_def)
  have zeros: "le32 0 = [0, 0, 0, 0]" by (simp add: le32_def)
  show ?thesis
    using ptr title origin
    by (simp add: freerds_read_window_new_update_def on off Let_def window_new_update_body_def window_head_def
        window_middle_def no_title zeros codec_simps stream_simps split: option.split)
qed

end

definition freerds_window_new_update_copy :: "RDS_MSG_WINDOW_NEW_UPDATE \<Rightarrow> RDS_MSG_WINDOW_NEW_UPDATE \<times> heap_block list" where
  [copy_defs]: "freerds_window_new_update_copy msg = (let dup = msg in (dup, [MsgBlock]))"

definition freerds_window_new_update_free :: "RDS_MSG_WINDOW_NEW_UPDATE \<Rightarrow> heap_block list" where
  [copy_defs]: "freerds_window_new_update_free msg = [MsgBlock]"

subsection \<open>Window Delete\<close>

definition freerds_read_window_delete ::
  "'s wstream_ops \<Rightarrow> ('s, RDS_MSG_WINDOW_DELETE) msg_reader" where
  [codec_defs]: "freerds_read_window_delete W s msg =
     (if Stream_GetRemainingLength W s < 4 then (-1, s, msg)
      else let (v, s) = Stream_Read_UINT32 W s; msg = msg\<lparr>wdel_windowId := v\<rparr>
           in (0, s, msg))"

definition freerds_write_window_delete ::
  "'s wstream_ops \<Rightarrow> ('s, RDS_MSG_WINDOW_DELETE) msg_writer" where
  [codec_defs]: "freerds_write_window_delete W s msg =
     (let msg = msg\<lparr>msgFlags := 0\<rparr>;
          msg = msg\<lparr>msg_length := freerds_common_header_length msg + 4\<rparr>
      in case s of
           None \<Rightarrow> (sint (msg_length msg), None, msg)
         | Some s \<Rightarrow>
             let s = freerds_write_common_header W s msg;
                 s = Stream_Write_UINT32 W s (wdel_windowId msg)
             in (0, Some s, msg))"

definition window_delete_body :: "RDS_MSG_WINDOW_DELETE \<Rightarrow> byte list" where
  [codec_defs]: "window_delete_body m =
     le32 (wdel_windowId m)"

definition window_delete_decode :: "RDS_MSG_WINDOW_DELETE \<Rightarrow> byte list \<Rightarrow> RDS_MSG_WINDOW_DELETE \<Rightarrow> RDS_MSG_WINDOW_DELETE" where
  [codec_defs]: "window_delete_decode sent rest m =
     m\<lparr>wdel_windowId := wdel_windowId sent\<rparr>"

definition window_delete_final :: "RDS_MSG_WINDOW_DELETE \<Rightarrow> RDS_MSG_WINDOW_DELETE" where
  [codec_defs]: "window_delete_final = set_header 0 4"

sublocale wstream \<subseteq> wdel: rds_fixed_codec W
  "\<lambda>s m. Some (freerds_write_window_delete W s m)" window_delete_final window_delete_final
  window_delete_body "\<lambda>m. True" "\<lambda>s m. Some (freerds_read_window_delete W s m)"
  window_delete_decode 4
  by unfold_locales (simp_all add: codec_defs codec_simps stream_simps)

definition freerds_window_delete_copy :: "RDS_MSG_WINDOW_DELETE \<Rightarrow> RDS_MSG_WINDOW_DELETE \<times> heap_block list" where
  [copy_defs]: "freerds_window_delete_copy msg = (let dup = msg in (dup, [MsgBlock]))"

definition freerds_window_delete_free :: "RDS_MSG_WINDOW_DELETE \<Rightarrow> heap_block list" where
  [copy_defs]: "freerds_window_delete_free msg = [MsgBlock]"

subsection \<open>Logon user\<close>

text \<open>
  The three strings of a logon message are read in the same way: \<open>read_logon_string\<close> is one of the three
  blocks of the reader, \<open>None\<close> when the \<open>malloc\<close> size wraps around to zero.
\<close>

definition read_logon_string :: "'s wstream_ops \<Rightarrow> 's \<Rightarrow> UINT32 \<Rightarrow> (mem_ptr \<times> 's) option" where
  "read_logon_string W s n =
     (if n = 0 then Some (None, s)
      else if n + 1 = 0 then None
      else let (bs, s) = Stream_Read W s (unat n) in Some (Some (bs @ [0]), s))"

definition freerds_read_logon_user ::
  "'s wstream_ops \<Rightarrow> 's \<Rightarrow> RDS_MSG_LOGON_USER \<Rightarrow> (int \<times> 's \<times> RDS_MSG_LOGON_USER) option" where
  [codec_defs]: "freerds_read_logon_user W s msg =
     (if Stream_GetRemainingLength W s < 16 then Some (-1, s, msg)
      else let (v, s) = Stream_Read_UINT32 W s; msg = msg\<lparr>logon_Flags := v\<rparr>;
               (v, s) = Stream_Read_UINT32 W s; msg = msg\<lparr>logon_UserLength := v\<rparr>;
               (v, s) = Stream_Read_UINT32 W s; msg = msg\<lparr>logon_DomainLength := v\<rparr>;
               (v, s) = Stream_Read_UINT32 W s; msg = msg\<lparr>logon_PasswordLength := v\<rparr>;
               msg = msg\<lparr>logon_User := None, logon_Domain := None, logon_Password := None\<rparr>
           in do {
             (p, s) \<leftarrow> read_logon_string W s (logon_UserLength msg);
             let msg = msg\<lparr>logon_User := p\<rparr>;
             (p, s) \<leftarrow> read_logon_string W s (logon_DomainLength msg);
             let msg = msg\<lparr>logon_Domain := p\<rparr>;
             (p, s) \<leftarrow> read_logon_string W s (logon_PasswordLength msg);
             let msg = msg\<lparr>logon_Password := p\<rparr>;
             Some (0, s, msg)
           })"

text \<open>The writer measures the strings itself, \<open>logon_string_length\<close> being one such assignment.\<close>

definition logon_string_length :: "mem_ptr \<Rightarrow> UINT32" where
  "logon_string_length p = (case p of None \<Rightarrow> 0 | Some bs \<Rightarrow> of_nat (strlen bs))"

definition freerds_write_logon_user ::
  "'s wstream_ops \<Rightarrow> 's option \<Rightarrow> RDS_MSG_LOGON_USER \<Rightarrow> (int \<times> 's option \<times> RDS_MSG_LOGON_USER) option"
where
  [codec_defs]: "freerds_write_logon_user W s msg =
     (let msg = msg\<lparr>msgFlags := 0\<rparr>;
          msg = msg\<lparr>logon_UserLength := logon_string_length (logon_User msg),
                    logon_DomainLength := logon_string_length (logon_Domain msg),
                    logon_PasswordLength := logon_string_length (logon_Password msg)\<rparr>;
          msg = msg\<lparr>msg_length := freerds_common_header_length msg + 16 +
                      logon_UserLength msg + logon_DomainLength msg + logon_PasswordLength msg\<rparr>
      in case s of
           None \<Rightarrow> Some (sint (msg_length msg), None, msg)
         | Some s \<Rightarrow>
             let s = freerds_write_common_header W s msg;
                 s = Stream_Write_UINT32 W s (logon_Flags msg);
                 s = Stream_Write_UINT32 W s (logon_UserLength msg);
                 s = Stream_Write_UINT32 W s (logon_DomainLength msg);
                 s = Stream_Write_UINT32 W s (logon_PasswordLength msg)
             in do {
               bs \<leftarrow> load_bytes (logon_User msg) (unat (logon_UserLength msg));
               let s = (if logon_UserLength msg \<noteq> 0 then Stream_Write W s bs else s);
               bs \<leftarrow> load_bytes (logon_Domain msg) (unat (logon_DomainLength msg));
               let s = (if logon_DomainLength msg \<noteq> 0 then Stream_Write W s bs else s);
               bs \<leftarrow> load_bytes (logon_Password msg) (unat (logon_PasswordLength msg));
               let s = (if logon_PasswordLength msg \<noteq> 0 then Stream_Write W s bs else s);
               Some (0, Some s, msg)
             })"

text \<open>The string on the wire, and the string a reader makes of it.\<close>

definition logon_string :: "mem_ptr \<Rightarrow> byte list" where
  "logon_string p = (case p of None \<Rightarrow> [] | Some bs \<Rightarrow> c_string bs)"

definition logon_string_decode :: "mem_ptr \<Rightarrow> mem_ptr" where
  "logon_string_decode p = (if logon_string p = [] then None else Some (logon_string p @ [0]))"

definition logon_user_body :: "RDS_MSG_LOGON_USER \<Rightarrow> byte list" where
  [codec_defs]: "logon_user_body m =
     le32 (logon_Flags m) @ le32 (logon_UserLength m) @ le32 (logon_DomainLength m) @
     le32 (logon_PasswordLength m) @
     logon_string (logon_User m) @ logon_string (logon_Domain m) @ logon_string (logon_Password m)"

definition logon_user_ok :: "RDS_MSG_LOGON_USER \<Rightarrow> bool" where
  [codec_defs]: "logon_user_ok m \<longleftrightarrow>
     length (logon_string (logon_User m)) + length (logon_string (logon_Domain m)) +
     length (logon_string (logon_Password m)) < 2 ^ 32 - 26"

definition logon_user_decode :: "RDS_MSG_LOGON_USER \<Rightarrow> byte list \<Rightarrow> RDS_MSG_LOGON_USER \<Rightarrow> RDS_MSG_LOGON_USER" where
  [codec_defs]: "logon_user_decode sent rest m =
     m\<lparr>logon_Flags := logon_Flags sent, logon_UserLength := logon_UserLength sent,
       logon_DomainLength := logon_DomainLength sent, logon_PasswordLength := logon_PasswordLength sent,
       logon_User := logon_string_decode (logon_User sent),
       logon_Domain := logon_string_decode (logon_Domain sent),
       logon_Password := logon_string_decode (logon_Password sent)\<rparr>"

definition logon_user_final :: "RDS_MSG_LOGON_USER \<Rightarrow> RDS_MSG_LOGON_USER" where
  [codec_defs]: "logon_user_final m =
     (let u = logon_string_length (logon_User m); d = logon_string_length (logon_Domain m);
          p = logon_string_length (logon_Password m)
      in m\<lparr>msgFlags := 0, logon_UserLength := u, logon_DomainLength := d, logon_PasswordLength := p,
           msg_length := 26 + u + d + p\<rparr>)"

lemma unat_logon_string_length:
  assumes "length (logon_string p) < 2 ^ 32 - 26"
  shows "unat (logon_string_length p) = length (logon_string p)"
proof -
  have "strlen bs < 2 ^ 32 - 26" if "p = Some bs" for bs
    using assms that by (simp add: logon_string_def)
  then show ?thesis
    by (auto simp: logon_string_length_def logon_string_def unat_of_nat split: option.split)
qed

lemma load_logon_string: "load_bytes p (length (logon_string p)) = Some (logon_string p)"
  using strlen_le take_strlen [symmetric]
  by (cases p) (simp_all add: logon_string_def load_bytes_def)

lemma logon_string_length_0:
  assumes "length (logon_string p) < 2 ^ 32 - 26"
  shows "logon_string_length p = 0 \<longleftrightarrow> logon_string p = []"
  using unat_logon_string_length [OF assms] by (simp add: unat_eq_0 [symmetric] del: unat_eq_0)

lemmas logon_string_laws = unat_logon_string_length load_logon_string logon_string_length_0

context wstream
begin

lemma read_logon_string_eq:
  assumes "take (length (logon_string p)) (Stream_Pointer W s) = logon_string p"
    and "length (logon_string p) \<le> length (Stream_Pointer W s)"
    and "length (logon_string p) < 2 ^ 32 - 26"
  shows "read_logon_string W s (logon_string_length p) =
           Some (logon_string_decode p, Stream_Seek W s (length (logon_string p)))"
proof -
  have "logon_string_length p + 1 \<noteq> 0"
  proof
    assume "logon_string_length p + 1 = 0"
    then have "logon_string_length p = - 1" by (simp add: add_eq_0_iff2)
    then have "unat (logon_string_length p) = 2 ^ 32 - 1" by (simp add: unsigned_minus_1_eq_mask mask_eq_exp_minus_1)
    then show False using unat_logon_string_length [OF assms(3)] assms(3) by simp
  qed
  then show ?thesis
    using assms unat_logon_string_length [OF assms(3)] logon_string_length_0 [OF assms(3)]
    by (simp add: read_logon_string_def logon_string_decode_def Read_eq Seek_0)
qed

end

sublocale wstream \<subseteq> logon: rds_codec W "freerds_write_logon_user W" logon_user_final logon_user_final
  logon_user_body logon_user_ok "freerds_read_logon_user W" logon_user_decode
proof (unfold_locales, goal_cases)
  case (2 m s)
  then show ?case
    by (simp add: codec_defs codec_simps stream_simps logon_string_laws Write_Nil)
next
  case (3 m)
  then show ?case
    by (simp add: codec_defs codec_simps unat_plus_small unat_logon_string_length)
next
  case (8 m s rest msg)
  then show ?case
    by (simp add: codec_defs codec_simps stream_simps read_logon_string_eq add.assoc)
qed (simp_all add: codec_defs codec_simps)

text \<open>A copy owns the three strings; the free routine releases only the message.\<close>

definition freerds_logon_user_copy :: "RDS_MSG_LOGON_USER \<Rightarrow> (RDS_MSG_LOGON_USER \<times> heap_block list) option" where
  [copy_defs]: "freerds_logon_user_copy msg =
     do {
       let dup = msg;
       bs \<leftarrow> load_bytes (logon_User msg) (unat (logon_UserLength msg));
       let (dup, blocks) = (if logon_UserLength msg \<noteq> 0
                            then (dup\<lparr>logon_User := Some (bs @ [0])\<rparr>, [MsgBlock, UserBlock])
                            else (dup, [MsgBlock]));
       bs \<leftarrow> load_bytes (logon_Domain msg) (unat (logon_DomainLength msg));
       let (dup, blocks) = (if logon_DomainLength msg \<noteq> 0
                            then (dup\<lparr>logon_Domain := Some (bs @ [0])\<rparr>, blocks @ [DomainBlock])
                            else (dup, blocks));
       bs \<leftarrow> load_bytes (logon_Password msg) (unat (logon_PasswordLength msg));
       let (dup, blocks) = (if logon_PasswordLength msg \<noteq> 0
                            then (dup\<lparr>logon_Password := Some (bs @ [0])\<rparr>, blocks @ [PasswordBlock])
                            else (dup, blocks));
       Some (dup, blocks)
     }"

definition freerds_logon_user_free :: "RDS_MSG_LOGON_USER \<Rightarrow> heap_block list" where
  [copy_defs]: "freerds_logon_user_free msg = [MsgBlock]"

subsection \<open>Logoff User\<close>

definition freerds_read_logoff_user ::
  "'s wstream_ops \<Rightarrow> ('s, RDS_MSG_LOGOFF_USER) msg_reader" where
  [codec_defs]: "freerds_read_logoff_user W s msg =
     (if Stream_GetRemainingLength W s < 4 then (-1, s, msg)
      else let (v, s) = Stream_Read_UINT32 W s; msg = msg\<lparr>logoff_Flags := v\<rparr>
           in (0, s, msg))"

definition freerds_write_logoff_user ::
  "'s wstream_ops \<Rightarrow> ('s, RDS_MSG_LOGOFF_USER) msg_writer" where
  [codec_defs]: "freerds_write_logoff_user W s msg =
     (let msg = msg\<lparr>msgFlags := 0\<rparr>;
          msg = msg\<lparr>msg_length := freerds_common_header_length msg + 4\<rparr>
      in case s of
           None \<Rightarrow> (sint (msg_length msg), None, msg)
         | Some s \<Rightarrow>
             let s = freerds_write_common_header W s msg;
                 s = Stream_Write_UINT32 W s (logoff_Flags msg)
             in (0, Some s, msg))"

definition logoff_user_body :: "RDS_MSG_LOGOFF_USER \<Rightarrow> byte list" where
  [codec_defs]: "logoff_user_body m =
     le32 (logoff_Flags m)"

definition logoff_user_decode :: "RDS_MSG_LOGOFF_USER \<Rightarrow> byte list \<Rightarrow> RDS_MSG_LOGOFF_USER \<Rightarrow> RDS_MSG_LOGOFF_USER" where
  [codec_defs]: "logoff_user_decode sent rest m =
     m\<lparr>logoff_Flags := logoff_Flags sent\<rparr>"

definition logoff_user_final :: "RDS_MSG_LOGOFF_USER \<Rightarrow> RDS_MSG_LOGOFF_USER" where
  [codec_defs]: "logoff_user_final = set_header 0 4"

sublocale wstream \<subseteq> logoff: rds_fixed_codec W
  "\<lambda>s m. Some (freerds_write_logoff_user W s m)" logoff_user_final logoff_user_final
  logoff_user_body "\<lambda>m. True" "\<lambda>s m. Some (freerds_read_logoff_user W s m)"
  logoff_user_decode 4
  by unfold_locales (simp_all add: codec_defs codec_simps stream_simps)

definition freerds_logoff_user_copy :: "RDS_MSG_LOGOFF_USER \<Rightarrow> RDS_MSG_LOGOFF_USER \<times> heap_block list" where
  [copy_defs]: "freerds_logoff_user_copy msg = (let dup = msg in (dup, [MsgBlock]))"

definition freerds_logoff_user_free :: "RDS_MSG_LOGOFF_USER \<Rightarrow> heap_block list" where
  [copy_defs]: "freerds_logoff_user_free msg = [MsgBlock]"

end
