(* ===== verification/Rds_Dispatch.thy ===== *)
theory Rds_Dispatch
  imports Rds_Client_Protocol Rds_Drawing_Protocol Rds_Session_Protocol "HOL-Library.Multiset"
begin

text \<open>
  The dispatch tables of \<open>freerds/backend/protocol.c\<close> and the generic routines over them: read, write,
  copy or free a message by the type in its header.  The theory gives every message of the tables one
  wire format and shows that the generic writer and reader implement it, by the codec contracts of the
  message theories.
\<close>

section \<open>Messages of any type\<close>

text \<open>
  A message of unknown type is reached through a pointer to its common part; here it is a value of a
  datatype with one constructor per structure that the two tables name.
\<close>

datatype RDS_MSG =
    is_BeginUpdate: BeginUpdate (un_BeginUpdate: RDS_MSG_BEGIN_UPDATE)
  | is_EndUpdate: EndUpdate (un_EndUpdate: RDS_MSG_END_UPDATE)
  | is_SetClippingRegion: SetClippingRegion (un_SetClippingRegion: RDS_MSG_SET_CLIPPING_REGION)
  | is_OpaqueRect: OpaqueRect (un_OpaqueRect: RDS_MSG_OPAQUE_RECT)
  | is_ScreenBlt: ScreenBlt (un_ScreenBlt: RDS_MSG_SCREEN_BLT)
  | is_PaintRect: PaintRect (un_PaintRect: RDS_MSG_PAINT_RECT)
  | is_PatBlt: PatBlt (un_PatBlt: RDS_MSG_PATBLT)
  | is_DstBlt: DstBlt (un_DstBlt: RDS_MSG_DSTBLT)
  | is_LineTo: LineTo (un_LineTo: RDS_MSG_LINE_TO)
  | is_CreateOffscreenSurface: CreateOffscreenSurface (un_CreateOffscreenSurface: RDS_MSG_CREATE_OFFSCREEN_SURFACE)
  | is_SwitchOffscreenSurface: SwitchOffscreenSurface (un_SwitchOffscreenSurface: RDS_MSG_SWITCH_OFFSCREEN_SURFACE)
  | is_DeleteOffscreenSurface: DeleteOffscreenSurface (un_DeleteOffscreenSurface: RDS_MSG_DELETE_OFFSCREEN_SURFACE)
  | is_PaintOffscreenSurface: PaintOffscreenSurface (un_PaintOffscreenSurface: RDS_MSG_PAINT_OFFSCREEN_SURFACE)
  | is_SetPalette: SetPalette (un_SetPalette: RDS_MSG_SET_PALETTE)
  | is_CacheGlyph: CacheGlyph (un_CacheGlyph: RDS_MSG_CACHE_GLYPH)
  | is_GlyphIndex: GlyphIndex (un_GlyphIndex: RDS_MSG_GLYPH_INDEX)
  | is_SetPointer: SetPointer (un_SetPointer: RDS_MSG_SET_POINTER)
  | is_SharedFramebuffer: SharedFramebuffer (un_SharedFramebuffer: RDS_MSG_SHARED_FRAMEBUFFER)
  | is_Beep: Beep (un_Beep: RDS_MSG_BEEP)
  | is_Reset: Reset (un_Reset: RDS_MSG_RESET)
  | is_WindowNewUpdate: WindowNewUpdate (un_WindowNewUpdate: RDS_MSG_WINDOW_NEW_UPDATE)
  | is_WindowDelete: WindowDelete (un_WindowDelete: RDS_MSG_WINDOW_DELETE)
  | is_SetSystemPointer: SetSystemPointer (un_SetSystemPointer: RDS_MSG_SET_SYSTEM_POINTER)
  | is_LogonUser: LogonUser (un_LogonUser: RDS_MSG_LOGON_USER)
  | is_LogoffUser: LogoffUser (un_LogoffUser: RDS_MSG_LOGOFF_USER)
  | is_SuppressOutput: SuppressOutput (un_SuppressOutput: RDS_MSG_SUPPRESS_OUTPUT)

text \<open>The cast \<open>(RDS_MSG_COMMON*) msg\<close>.\<close>

fun msg_common :: "RDS_MSG \<Rightarrow> RDS_MSG_COMMON" where
  "msg_common (BeginUpdate m) = RDS_MSG_COMMON.truncate m"
| "msg_common (EndUpdate m) = RDS_MSG_COMMON.truncate m"
| "msg_common (SetClippingRegion m) = RDS_MSG_COMMON.truncate m"
| "msg_common (OpaqueRect m) = RDS_MSG_COMMON.truncate m"
| "msg_common (ScreenBlt m) = RDS_MSG_COMMON.truncate m"
| "msg_common (PaintRect m) = RDS_MSG_COMMON.truncate m"
| "msg_common (PatBlt m) = RDS_MSG_COMMON.truncate m"
| "msg_common (DstBlt m) = RDS_MSG_COMMON.truncate m"
| "msg_common (LineTo m) = RDS_MSG_COMMON.truncate m"
| "msg_common (CreateOffscreenSurface m) = RDS_MSG_COMMON.truncate m"
| "msg_common (SwitchOffscreenSurface m) = RDS_MSG_COMMON.truncate m"
| "msg_common (DeleteOffscreenSurface m) = RDS_MSG_COMMON.truncate m"
| "msg_common (PaintOffscreenSurface m) = RDS_MSG_COMMON.truncate m"
| "msg_common (SetPalette m) = RDS_MSG_COMMON.truncate m"
| "msg_common (CacheGlyph m) = RDS_MSG_COMMON.truncate m"
| "msg_common (GlyphIndex m) = RDS_MSG_COMMON.truncate m"
| "msg_common (SetPointer m) = RDS_MSG_COMMON.truncate m"
| "msg_common (SharedFramebuffer m) = RDS_MSG_COMMON.truncate m"
| "msg_common (Beep m) = RDS_MSG_COMMON.truncate m"
| "msg_common (Reset m) = RDS_MSG_COMMON.truncate m"
| "msg_common (WindowNewUpdate m) = RDS_MSG_COMMON.truncate m"
| "msg_common (WindowDelete m) = RDS_MSG_COMMON.truncate m"
| "msg_common (SetSystemPointer m) = RDS_MSG_COMMON.truncate m"
| "msg_common (LogonUser m) = RDS_MSG_COMMON.truncate m"
| "msg_common (LogoffUser m) = RDS_MSG_COMMON.truncate m"
| "msg_common (SuppressOutput m) = RDS_MSG_COMMON.truncate m"

text \<open>
  An entry of a table.  A routine called on a message of another structure would be undefined, hence the
  checks in \<open>cast_read\<close>, \<open>cast_write\<close>, \<open>cast_copy\<close> and \<open>cast_free\<close>.
\<close>

record 's RDS_MSG_DEFINITION =
  Name :: string
  Read :: "'s \<Rightarrow> RDS_MSG \<Rightarrow> (int \<times> 's \<times> RDS_MSG) option"
  Write :: "'s option \<Rightarrow> RDS_MSG \<Rightarrow> (int \<times> 's option \<times> RDS_MSG) option"
  Copy :: "RDS_MSG \<Rightarrow> (RDS_MSG \<times> heap_block list) option"
  Free :: "RDS_MSG \<Rightarrow> heap_block list option"

named_theorems dispatch_defs \<open>table entries and casts\<close>

definition cast_read ::
  "(RDS_MSG \<Rightarrow> bool) \<Rightarrow> (RDS_MSG \<Rightarrow> 'm) \<Rightarrow> ('m \<Rightarrow> RDS_MSG) \<Rightarrow> ('s \<Rightarrow> 'm \<Rightarrow> (int \<times> 's \<times> 'm) option) \<Rightarrow>
   's \<Rightarrow> RDS_MSG \<Rightarrow> (int \<times> 's \<times> RDS_MSG) option" where
  [dispatch_defs]: "cast_read is un mk f s msg =
     (if is msg then map_option (\<lambda>(status, s, m). (status, s, mk m)) (f s (un msg)) else None)"

definition cast_write ::
  "(RDS_MSG \<Rightarrow> bool) \<Rightarrow> (RDS_MSG \<Rightarrow> 'm) \<Rightarrow> ('m \<Rightarrow> RDS_MSG) \<Rightarrow>
   ('s option \<Rightarrow> 'm \<Rightarrow> (int \<times> 's option \<times> 'm) option) \<Rightarrow>
   's option \<Rightarrow> RDS_MSG \<Rightarrow> (int \<times> 's option \<times> RDS_MSG) option" where
  [dispatch_defs]: "cast_write is un mk f s msg =
     (if is msg then map_option (\<lambda>(status, s, m). (status, s, mk m)) (f s (un msg)) else None)"

definition cast_copy ::
  "(RDS_MSG \<Rightarrow> bool) \<Rightarrow> (RDS_MSG \<Rightarrow> 'm) \<Rightarrow> ('m \<Rightarrow> RDS_MSG) \<Rightarrow> ('m \<Rightarrow> ('m \<times> heap_block list) option) \<Rightarrow>
   RDS_MSG \<Rightarrow> (RDS_MSG \<times> heap_block list) option" where
  [dispatch_defs]: "cast_copy is un mk f msg =
     (if is msg then map_option (\<lambda>(m, blocks). (mk m, blocks)) (f (un msg)) else None)"

definition cast_free ::
  "(RDS_MSG \<Rightarrow> bool) \<Rightarrow> (RDS_MSG \<Rightarrow> 'm) \<Rightarrow> ('m \<Rightarrow> heap_block list) \<Rightarrow> RDS_MSG \<Rightarrow> heap_block list option" where
  [dispatch_defs]: "cast_free is un f msg = (if is msg then Some (f (un msg)) else None)"

definition RDS_MSG_BEGIN_UPDATE_DEFINITION :: "'s wstream_ops \<Rightarrow> 's RDS_MSG_DEFINITION" where
  [dispatch_defs]: "RDS_MSG_BEGIN_UPDATE_DEFINITION W =
     \<lparr>Name = ''BeginUpdate'',
      Read = cast_read is_BeginUpdate un_BeginUpdate BeginUpdate (\<lambda>s m. Some (freerds_read_begin_update W s m)),
      Write = cast_write is_BeginUpdate un_BeginUpdate BeginUpdate (\<lambda>s m. Some (freerds_write_begin_update W s m)),
      Copy = cast_copy is_BeginUpdate un_BeginUpdate BeginUpdate (\<lambda>m. Some (freerds_begin_update_copy m)),
      Free = cast_free is_BeginUpdate un_BeginUpdate freerds_begin_update_free\<rparr>"

definition RDS_MSG_END_UPDATE_DEFINITION :: "'s wstream_ops \<Rightarrow> 's RDS_MSG_DEFINITION" where
  [dispatch_defs]: "RDS_MSG_END_UPDATE_DEFINITION W =
     \<lparr>Name = ''EndUpdate'',
      Read = cast_read is_EndUpdate un_EndUpdate EndUpdate (\<lambda>s m. Some (freerds_read_end_update W s m)),
      Write = cast_write is_EndUpdate un_EndUpdate EndUpdate (\<lambda>s m. Some (freerds_write_end_update W s m)),
      Copy = cast_copy is_EndUpdate un_EndUpdate EndUpdate (\<lambda>m. Some (freerds_end_update_copy m)),
      Free = cast_free is_EndUpdate un_EndUpdate freerds_end_update_free\<rparr>"

definition RDS_MSG_SET_CLIPPING_REGION_DEFINITION :: "'s wstream_ops \<Rightarrow> 's RDS_MSG_DEFINITION" where
  [dispatch_defs]: "RDS_MSG_SET_CLIPPING_REGION_DEFINITION W =
     \<lparr>Name = ''SetClippingRegion'',
      Read = cast_read is_SetClippingRegion un_SetClippingRegion SetClippingRegion (\<lambda>s m. Some (freerds_read_set_clipping_region W s m)),
      Write = cast_write is_SetClippingRegion un_SetClippingRegion SetClippingRegion (\<lambda>s m. Some (freerds_write_set_clipping_region W s m)),
      Copy = cast_copy is_SetClippingRegion un_SetClippingRegion SetClippingRegion (\<lambda>m. Some (freerds_set_clipping_region_copy m)),
      Free = cast_free is_SetClippingRegion un_SetClippingRegion freerds_set_clipping_region_free\<rparr>"

definition RDS_MSG_OPAQUE_RECT_DEFINITION :: "'s wstream_ops \<Rightarrow> 's RDS_MSG_DEFINITION" where
  [dispatch_defs]: "RDS_MSG_OPAQUE_RECT_DEFINITION W =
     \<lparr>Name = ''OpaqueRect'',
      Read = cast_read is_OpaqueRect un_OpaqueRect OpaqueRect (\<lambda>s m. Some (freerds_read_opaque_rect W s m)),
      Write = cast_write is_OpaqueRect un_OpaqueRect OpaqueRect (\<lambda>s m. Some (freerds_write_opaque_rect W s m)),
      Copy = cast_copy is_OpaqueRect un_OpaqueRect OpaqueRect (\<lambda>m. Some (freerds_opaque_rect_copy m)),
      Free = cast_free is_OpaqueRect un_OpaqueRect freerds_opaque_rect_free\<rparr>"

definition RDS_MSG_SCREEN_BLT_DEFINITION :: "'s wstream_ops \<Rightarrow> 's RDS_MSG_DEFINITION" where
  [dispatch_defs]: "RDS_MSG_SCREEN_BLT_DEFINITION W =
     \<lparr>Name = ''ScreenBlt'',
      Read = cast_read is_ScreenBlt un_ScreenBlt ScreenBlt (\<lambda>s m. Some (freerds_read_screen_blt W s m)),
      Write = cast_write is_ScreenBlt un_ScreenBlt ScreenBlt (\<lambda>s m. Some (freerds_write_screen_blt W s m)),
      Copy = cast_copy is_ScreenBlt un_ScreenBlt ScreenBlt (\<lambda>m. Some (freerds_screen_blt_copy m)),
      Free = cast_free is_ScreenBlt un_ScreenBlt freerds_screen_blt_free\<rparr>"

definition RDS_MSG_PAINT_RECT_DEFINITION :: "'s wstream_ops \<Rightarrow> 's RDS_MSG_DEFINITION" where
  [dispatch_defs]: "RDS_MSG_PAINT_RECT_DEFINITION W =
     \<lparr>Name = ''PaintRect'',
      Read = cast_read is_PaintRect un_PaintRect PaintRect (\<lambda>s m. Some (freerds_read_paint_rect W s m)),
      Write = cast_write is_PaintRect un_PaintRect PaintRect (freerds_write_paint_rect W),
      Copy = cast_copy is_PaintRect un_PaintRect PaintRect freerds_paint_rect_copy,
      Free = cast_free is_PaintRect un_PaintRect freerds_paint_rect_free\<rparr>"

definition RDS_MSG_PATBLT_DEFINITION :: "'s wstream_ops \<Rightarrow> 's RDS_MSG_DEFINITION" where
  [dispatch_defs]: "RDS_MSG_PATBLT_DEFINITION W =
     \<lparr>Name = ''PatBlt'',
      Read = cast_read is_PatBlt un_PatBlt PatBlt (freerds_read_patblt W),
      Write = cast_write is_PatBlt un_PatBlt PatBlt (freerds_write_patblt W),
      Copy = cast_copy is_PatBlt un_PatBlt PatBlt (\<lambda>m. Some (freerds_patblt_copy m)),
      Free = cast_free is_PatBlt un_PatBlt freerds_patblt_free\<rparr>"

definition RDS_MSG_DSTBLT_DEFINITION :: "'s wstream_ops \<Rightarrow> 's RDS_MSG_DEFINITION" where
  [dispatch_defs]: "RDS_MSG_DSTBLT_DEFINITION W =
     \<lparr>Name = ''DstBlt'',
      Read = cast_read is_DstBlt un_DstBlt DstBlt (\<lambda>s m. Some (freerds_read_dstblt W s m)),
      Write = cast_write is_DstBlt un_DstBlt DstBlt (\<lambda>s m. Some (freerds_write_dstblt W s m)),
      Copy = cast_copy is_DstBlt un_DstBlt DstBlt (\<lambda>m. Some (freerds_dstblt_copy m)),
      Free = cast_free is_DstBlt un_DstBlt freerds_dstblt_free\<rparr>"

definition RDS_MSG_LINE_TO_DEFINITION :: "'s wstream_ops \<Rightarrow> 's RDS_MSG_DEFINITION" where
  [dispatch_defs]: "RDS_MSG_LINE_TO_DEFINITION W =
     \<lparr>Name = ''LineTo'',
      Read = cast_read is_LineTo un_LineTo LineTo (\<lambda>s m. Some (freerds_read_line_to W s m)),
      Write = cast_write is_LineTo un_LineTo LineTo (\<lambda>s m. Some (freerds_write_line_to W s m)),
      Copy = cast_copy is_LineTo un_LineTo LineTo (\<lambda>m. Some (freerds_line_to_copy m)),
      Free = cast_free is_LineTo un_LineTo freerds_line_to_free\<rparr>"

definition RDS_MSG_CREATE_OFFSCREEN_SURFACE_DEFINITION :: "'s wstream_ops \<Rightarrow> 's RDS_MSG_DEFINITION" where
  [dispatch_defs]: "RDS_MSG_CREATE_OFFSCREEN_SURFACE_DEFINITION W =
     \<lparr>Name = ''CreateOffscreenSurface'',
      Read = cast_read is_CreateOffscreenSurface un_CreateOffscreenSurface CreateOffscreenSurface (\<lambda>s m. Some (freerds_read_create_offscreen_surface W s m)),
      Write = cast_write is_CreateOffscreenSurface un_CreateOffscreenSurface CreateOffscreenSurface (\<lambda>s m. Some (freerds_write_create_offscreen_surface W s m)),
      Copy = cast_copy is_CreateOffscreenSurface un_CreateOffscreenSurface CreateOffscreenSurface (\<lambda>m. Some (freerds_create_offscreen_surface_copy m)),
      Free = cast_free is_CreateOffscreenSurface un_CreateOffscreenSurface freerds_create_offscreen_surface_free\<rparr>"

definition RDS_MSG_SWITCH_OFFSCREEN_SURFACE_DEFINITION :: "'s wstream_ops \<Rightarrow> 's RDS_MSG_DEFINITION" where
  [dispatch_defs]: "RDS_MSG_SWITCH_OFFSCREEN_SURFACE_DEFINITION W =
     \<lparr>Name = ''SwitchOffscreenSurface'',
      Read = cast_read is_SwitchOffscreenSurface un_SwitchOffscreenSurface SwitchOffscreenSurface (\<lambda>s m. Some (freerds_read_switch_offscreen_surface W s m)),
      Write = cast_write is_SwitchOffscreenSurface un_SwitchOffscreenSurface SwitchOffscreenSurface (\<lambda>s m. Some (freerds_write_switch_offscreen_surface W s m)),
      Copy = cast_copy is_SwitchOffscreenSurface un_SwitchOffscreenSurface SwitchOffscreenSurface (\<lambda>m. Some (freerds_switch_offscreen_surface_copy m)),
      Free = cast_free is_SwitchOffscreenSurface un_SwitchOffscreenSurface freerds_switch_offscreen_surface_free\<rparr>"

definition RDS_MSG_DELETE_OFFSCREEN_SURFACE_DEFINITION :: "'s wstream_ops \<Rightarrow> 's RDS_MSG_DEFINITION" where
  [dispatch_defs]: "RDS_MSG_DELETE_OFFSCREEN_SURFACE_DEFINITION W =
     \<lparr>Name = ''DeleteOffscreenSurface'',
      Read = cast_read is_DeleteOffscreenSurface un_DeleteOffscreenSurface DeleteOffscreenSurface (\<lambda>s m. Some (freerds_read_delete_offscreen_surface W s m)),
      Write = cast_write is_DeleteOffscreenSurface un_DeleteOffscreenSurface DeleteOffscreenSurface (\<lambda>s m. Some (freerds_write_delete_offscreen_surface W s m)),
      Copy = cast_copy is_DeleteOffscreenSurface un_DeleteOffscreenSurface DeleteOffscreenSurface (\<lambda>m. Some (freerds_delete_offscreen_surface_copy m)),
      Free = cast_free is_DeleteOffscreenSurface un_DeleteOffscreenSurface freerds_delete_offscreen_surface_free\<rparr>"

definition RDS_MSG_PAINT_OFFSCREEN_SURFACE_DEFINITION :: "'s wstream_ops \<Rightarrow> 's RDS_MSG_DEFINITION" where
  [dispatch_defs]: "RDS_MSG_PAINT_OFFSCREEN_SURFACE_DEFINITION W =
     \<lparr>Name = ''PaintOffscreenSurface'',
      Read = cast_read is_PaintOffscreenSurface un_PaintOffscreenSurface PaintOffscreenSurface (\<lambda>s m. Some (freerds_read_paint_offscreen_surface W s m)),
      Write = cast_write is_PaintOffscreenSurface un_PaintOffscreenSurface PaintOffscreenSurface (\<lambda>s m. Some (freerds_write_paint_offscreen_surface W s m)),
      Copy = cast_copy is_PaintOffscreenSurface un_PaintOffscreenSurface PaintOffscreenSurface (\<lambda>m. Some (freerds_paint_offscreen_surface_copy m)),
      Free = cast_free is_PaintOffscreenSurface un_PaintOffscreenSurface freerds_paint_offscreen_surface_free\<rparr>"

definition RDS_MSG_SET_PALETTE_DEFINITION :: "'s wstream_ops \<Rightarrow> 's RDS_MSG_DEFINITION" where
  [dispatch_defs]: "RDS_MSG_SET_PALETTE_DEFINITION W =
     \<lparr>Name = ''SetPalette'',
      Read = cast_read is_SetPalette un_SetPalette SetPalette (\<lambda>s m. Some (freerds_read_set_palette W s m)),
      Write = cast_write is_SetPalette un_SetPalette SetPalette (\<lambda>s m. Some (freerds_write_set_palette W s m)),
      Copy = cast_copy is_SetPalette un_SetPalette SetPalette (\<lambda>m. Some (freerds_set_palette_copy m)),
      Free = cast_free is_SetPalette un_SetPalette freerds_set_palette_free\<rparr>"

definition RDS_MSG_CACHE_GLYPH_DEFINITION :: "'s wstream_ops \<Rightarrow> 's RDS_MSG_DEFINITION" where
  [dispatch_defs]: "RDS_MSG_CACHE_GLYPH_DEFINITION W =
     \<lparr>Name = ''CacheGlyph'',
      Read = cast_read is_CacheGlyph un_CacheGlyph CacheGlyph (\<lambda>s m. Some (freerds_read_cache_glyph W s m)),
      Write = cast_write is_CacheGlyph un_CacheGlyph CacheGlyph (\<lambda>s m. Some (freerds_write_cache_glyph W s m)),
      Copy = cast_copy is_CacheGlyph un_CacheGlyph CacheGlyph (\<lambda>m. Some (freerds_cache_glyph_copy m)),
      Free = cast_free is_CacheGlyph un_CacheGlyph freerds_cache_glyph_free\<rparr>"

definition RDS_MSG_GLYPH_INDEX_DEFINITION :: "'s wstream_ops \<Rightarrow> 's RDS_MSG_DEFINITION" where
  [dispatch_defs]: "RDS_MSG_GLYPH_INDEX_DEFINITION W =
     \<lparr>Name = ''GlyphIndex'',
      Read = cast_read is_GlyphIndex un_GlyphIndex GlyphIndex (\<lambda>s m. Some (freerds_read_glyph_index W s m)),
      Write = cast_write is_GlyphIndex un_GlyphIndex GlyphIndex (\<lambda>s m. Some (freerds_write_glyph_index W s m)),
      Copy = cast_copy is_GlyphIndex un_GlyphIndex GlyphIndex (\<lambda>m. Some (freerds_glyph_index_copy m)),
      Free = cast_free is_GlyphIndex un_GlyphIndex freerds_glyph_index_free\<rparr>"

definition RDS_MSG_SET_POINTER_DEFINITION :: "'s wstream_ops \<Rightarrow> 's RDS_MSG_DEFINITION" where
  [dispatch_defs]: "RDS_MSG_SET_POINTER_DEFINITION W =
     \<lparr>Name = ''SetPointer'',
      Read = cast_read is_SetPointer un_SetPointer SetPointer (\<lambda>s m. Some (freerds_read_set_pointer W s m)),
      Write = cast_write is_SetPointer un_SetPointer SetPointer (freerds_write_set_pointer W),
      Copy = cast_copy is_SetPointer un_SetPointer SetPointer freerds_set_pointer_copy,
      Free = cast_free is_SetPointer un_SetPointer freerds_set_pointer_free\<rparr>"

definition RDS_MSG_SHARED_FRAMEBUFFER_DEFINITION :: "'s wstream_ops \<Rightarrow> 's RDS_MSG_DEFINITION" where
  [dispatch_defs]: "RDS_MSG_SHARED_FRAMEBUFFER_DEFINITION W =
     \<lparr>Name = ''SharedFramebuffer'',
      Read = cast_read is_SharedFramebuffer un_SharedFramebuffer SharedFramebuffer (\<lambda>s m. Some (freerds_read_shared_framebuffer W s m)),
      Write = cast_write is_SharedFramebuffer un_SharedFramebuffer SharedFramebuffer (\<lambda>s m. Some (freerds_write_shared_framebuffer W s m)),
      Copy = cast_copy is_SharedFramebuffer un_SharedFramebuffer SharedFramebuffer (\<lambda>m. Some (freerds_shared_framebuffer_copy m)),
      Free = cast_free is_SharedFramebuffer un_SharedFramebuffer freerds_shared_framebuffer_free\<rparr>"

definition RDS_MSG_BEEP_DEFINITION :: "'s wstream_ops \<Rightarrow> 's RDS_MSG_DEFINITION" where
  [dispatch_defs]: "RDS_MSG_BEEP_DEFINITION W =
     \<lparr>Name = ''Beep'',
      Read = cast_read is_Beep un_Beep Beep (\<lambda>s m. Some (freerds_read_beep W s m)),
      Write = cast_write is_Beep un_Beep Beep (\<lambda>s m. Some (freerds_write_beep W s m)),
      Copy = cast_copy is_Beep un_Beep Beep (\<lambda>m. Some (freerds_beep_copy m)),
      Free = cast_free is_Beep un_Beep freerds_beep_free\<rparr>"

definition RDS_MSG_RESET_DEFINITION :: "'s wstream_ops \<Rightarrow> 's RDS_MSG_DEFINITION" where
  [dispatch_defs]: "RDS_MSG_RESET_DEFINITION W =
     \<lparr>Name = ''Reset'',
      Read = cast_read is_Reset un_Reset Reset (\<lambda>s m. Some (freerds_read_reset W s m)),
      Write = cast_write is_Reset un_Reset Reset (\<lambda>s m. Some (freerds_write_reset W s m)),
      Copy = cast_copy is_Reset un_Reset Reset (\<lambda>m. Some (freerds_reset_copy m)),
      Free = cast_free is_Reset un_Reset freerds_reset_free\<rparr>"

definition RDS_MSG_WINDOW_NEW_UPDATE_DEFINITION :: "'s wstream_ops \<Rightarrow> window_order_flags \<Rightarrow> 's RDS_MSG_DEFINITION" where
  [dispatch_defs]: "RDS_MSG_WINDOW_NEW_UPDATE_DEFINITION W K =
     \<lparr>Name = ''WindowNewUpdate'',
      Read = cast_read is_WindowNewUpdate un_WindowNewUpdate WindowNewUpdate (freerds_read_window_new_update W K),
      Write = cast_write is_WindowNewUpdate un_WindowNewUpdate WindowNewUpdate (freerds_write_window_new_update W K),
      Copy = cast_copy is_WindowNewUpdate un_WindowNewUpdate WindowNewUpdate (\<lambda>m. Some (freerds_window_new_update_copy m)),
      Free = cast_free is_WindowNewUpdate un_WindowNewUpdate freerds_window_new_update_free\<rparr>"

definition RDS_MSG_WINDOW_DELETE_DEFINITION :: "'s wstream_ops \<Rightarrow> 's RDS_MSG_DEFINITION" where
  [dispatch_defs]: "RDS_MSG_WINDOW_DELETE_DEFINITION W =
     \<lparr>Name = ''WindowDelete'',
      Read = cast_read is_WindowDelete un_WindowDelete WindowDelete (\<lambda>s m. Some (freerds_read_window_delete W s m)),
      Write = cast_write is_WindowDelete un_WindowDelete WindowDelete (\<lambda>s m. Some (freerds_write_window_delete W s m)),
      Copy = cast_copy is_WindowDelete un_WindowDelete WindowDelete (\<lambda>m. Some (freerds_window_delete_copy m)),
      Free = cast_free is_WindowDelete un_WindowDelete freerds_window_delete_free\<rparr>"

definition RDS_MSG_SET_SYSTEM_POINTER_DEFINITION :: "'s wstream_ops \<Rightarrow> 's RDS_MSG_DEFINITION" where
  [dispatch_defs]: "RDS_MSG_SET_SYSTEM_POINTER_DEFINITION W =
     \<lparr>Name = ''SetSystemPointer'',
      Read = cast_read is_SetSystemPointer un_SetSystemPointer SetSystemPointer (\<lambda>s m. Some (freerds_read_set_system_pointer W s m)),
      Write = cast_write is_SetSystemPointer un_SetSystemPointer SetSystemPointer (\<lambda>s m. Some (freerds_write_set_system_pointer W s m)),
      Copy = cast_copy is_SetSystemPointer un_SetSystemPointer SetSystemPointer (\<lambda>m. Some (freerds_set_system_pointer_copy m)),
      Free = cast_free is_SetSystemPointer un_SetSystemPointer freerds_set_system_pointer_free\<rparr>"

definition RDS_MSG_LOGON_USER_DEFINITION :: "'s wstream_ops \<Rightarrow> 's RDS_MSG_DEFINITION" where
  [dispatch_defs]: "RDS_MSG_LOGON_USER_DEFINITION W =
     \<lparr>Name = ''LogonUser'',
      Read = cast_read is_LogonUser un_LogonUser LogonUser (freerds_read_logon_user W),
      Write = cast_write is_LogonUser un_LogonUser LogonUser (freerds_write_logon_user W),
      Copy = cast_copy is_LogonUser un_LogonUser LogonUser freerds_logon_user_copy,
      Free = cast_free is_LogonUser un_LogonUser freerds_logon_user_free\<rparr>"

definition RDS_MSG_LOGOFF_USER_DEFINITION :: "'s wstream_ops \<Rightarrow> 's RDS_MSG_DEFINITION" where
  [dispatch_defs]: "RDS_MSG_LOGOFF_USER_DEFINITION W =
     \<lparr>Name = ''LogoffUser'',
      Read = cast_read is_LogoffUser un_LogoffUser LogoffUser (\<lambda>s m. Some (freerds_read_logoff_user W s m)),
      Write = cast_write is_LogoffUser un_LogoffUser LogoffUser (\<lambda>s m. Some (freerds_write_logoff_user W s m)),
      Copy = cast_copy is_LogoffUser un_LogoffUser LogoffUser (\<lambda>m. Some (freerds_logoff_user_copy m)),
      Free = cast_free is_LogoffUser un_LogoffUser freerds_logoff_user_free\<rparr>"

definition RDS_MSG_SUPPRESS_OUTPUT_DEFINITION :: "'s wstream_ops \<Rightarrow> 's RDS_MSG_DEFINITION" where
  [dispatch_defs]: "RDS_MSG_SUPPRESS_OUTPUT_DEFINITION W =
     \<lparr>Name = ''Suppress output'',
      Read = cast_read is_SuppressOutput un_SuppressOutput SuppressOutput (\<lambda>s m. Some (freerds_read_suppress_output W s m)),
      Write = cast_write is_SuppressOutput un_SuppressOutput SuppressOutput (\<lambda>s m. Some (freerds_write_suppress_output W s m)),
      Copy = cast_copy is_SuppressOutput un_SuppressOutput SuppressOutput (\<lambda>m. Some (freerds_suppress_output_copy m)),
      Free = cast_free is_SuppressOutput un_SuppressOutput freerds_suppress_output_free\<rparr>"

section \<open>The tables\<close>

definition RDS_CLIENT_MSG_DEFINITIONS :: "'s wstream_ops \<Rightarrow> 's RDS_MSG_DEFINITION option list" where
  "RDS_CLIENT_MSG_DEFINITIONS W =
     [None, None, None, None, None, None, None, None, None, None, None,
      Some (RDS_MSG_LOGON_USER_DEFINITION W), Some (RDS_MSG_LOGOFF_USER_DEFINITION W), None,
      Some (RDS_MSG_SUPPRESS_OUTPUT_DEFINITION W), None, None, None, None, None, None, None,
      None, None, None, None, None, None, None, None, None, None]"

definition RDS_SERVER_MSG_DEFINITIONS ::
  "'s wstream_ops \<Rightarrow> window_order_flags \<Rightarrow> 's RDS_MSG_DEFINITION option list" where
  "RDS_SERVER_MSG_DEFINITIONS W K =
     [None, Some (RDS_MSG_BEGIN_UPDATE_DEFINITION W), Some (RDS_MSG_END_UPDATE_DEFINITION W),
      Some (RDS_MSG_SET_CLIPPING_REGION_DEFINITION W), Some (RDS_MSG_OPAQUE_RECT_DEFINITION W),
      Some (RDS_MSG_SCREEN_BLT_DEFINITION W), Some (RDS_MSG_PAINT_RECT_DEFINITION W),
      Some (RDS_MSG_PATBLT_DEFINITION W), Some (RDS_MSG_DSTBLT_DEFINITION W),
      Some (RDS_MSG_LINE_TO_DEFINITION W), Some (RDS_MSG_CREATE_OFFSCREEN_SURFACE_DEFINITION W),
      Some (RDS_MSG_SWITCH_OFFSCREEN_SURFACE_DEFINITION W),
      Some (RDS_MSG_DELETE_OFFSCREEN_SURFACE_DEFINITION W),
      Some (RDS_MSG_PAINT_OFFSCREEN_SURFACE_DEFINITION W),
      Some (RDS_MSG_SET_PALETTE_DEFINITION W), Some (RDS_MSG_CACHE_GLYPH_DEFINITION W),
      Some (RDS_MSG_GLYPH_INDEX_DEFINITION W), Some (RDS_MSG_SET_POINTER_DEFINITION W),
      Some (RDS_MSG_SHARED_FRAMEBUFFER_DEFINITION W), Some (RDS_MSG_BEEP_DEFINITION W),
      Some (RDS_MSG_RESET_DEFINITION W), Some (RDS_MSG_WINDOW_NEW_UPDATE_DEFINITION W K),
      Some (RDS_MSG_WINDOW_DELETE_DEFINITION W), Some (RDS_MSG_SET_SYSTEM_POINTER_DEFINITION W),
      Some (RDS_MSG_LOGON_USER_DEFINITION W), Some (RDS_MSG_LOGOFF_USER_DEFINITION W), None,
      None, None, None, None, None]"

text \<open>An access to a table of 32 entries; outside the table it is undefined.\<close>

definition table_at :: "'a list \<Rightarrow> int \<Rightarrow> 'a option" where
  "table_at tab i = (if 0 \<le> i \<and> i < int (length tab) then Some (tab ! nat i) else None)"

section \<open>The client messages\<close>

text \<open>\<open>type = msg->type - 100\<close>, computed in 32 bits and read as signed.\<close>

definition client_index :: "RDS_MSG \<Rightarrow> int" where
  "client_index msg = sint (msg_type (msg_common msg) - 100)"

definition freerds_client_message_name :: "'s wstream_ops \<Rightarrow> UINT32 \<Rightarrow> string option" where
  "freerds_client_message_name W type =
     (let type = type - 100
      in case table_at (RDS_CLIENT_MSG_DEFINITIONS W) (uint type) of
           None \<Rightarrow> None
         | Some (Some msgDef) \<Rightarrow> Some (Name msgDef)
         | Some None \<Rightarrow> Some ''Unknown'')"

definition freerds_client_message_read ::
  "'s wstream_ops \<Rightarrow> 's \<Rightarrow> RDS_MSG \<Rightarrow> (int \<times> 's \<times> RDS_MSG) option" where
  "freerds_client_message_read W s msg =
     (case table_at (RDS_CLIENT_MSG_DEFINITIONS W) (client_index msg) of
        None \<Rightarrow> None
      | Some (Some msgDef) \<Rightarrow> Read msgDef s msg
      | Some None \<Rightarrow> Some (0, s, msg))"

definition freerds_client_message_write ::
  "'s wstream_ops \<Rightarrow> 's option \<Rightarrow> RDS_MSG \<Rightarrow> (int \<times> 's option \<times> RDS_MSG) option" where
  "freerds_client_message_write W s msg =
     (if client_index msg > 31 then Some (0, s, msg)
      else case table_at (RDS_CLIENT_MSG_DEFINITIONS W) (client_index msg) of
             None \<Rightarrow> None
           | Some (Some msgDef) \<Rightarrow>
               map_option (\<lambda>(status, s, msg). (sint (msg_length (msg_common msg)), s, msg)) (Write msgDef s msg)
           | Some None \<Rightarrow> Some (sint (msg_length (msg_common msg)), s, msg))"

text \<open>A copy returns \<open>Some None\<close> for a null pointer.\<close>

definition freerds_client_message_copy ::
  "'s wstream_ops \<Rightarrow> RDS_MSG \<Rightarrow> (RDS_MSG \<times> heap_block list) option option" where
  "freerds_client_message_copy W msg =
     (case table_at (RDS_CLIENT_MSG_DEFINITIONS W) (client_index msg) of
        None \<Rightarrow> None
      | Some (Some msgDef) \<Rightarrow> map_option Some (Copy msgDef msg)
      | Some None \<Rightarrow> Some None)"

text \<open>The free routine computes the index too, but looks up \<open>msg->type\<close>.\<close>

definition freerds_client_message_free :: "'s wstream_ops \<Rightarrow> RDS_MSG \<Rightarrow> heap_block list option" where
  "freerds_client_message_free W msg =
     (case table_at (RDS_CLIENT_MSG_DEFINITIONS W) (uint (msg_type (msg_common msg))) of
        None \<Rightarrow> None
      | Some (Some msgDef) \<Rightarrow> Free msgDef msg
      | Some None \<Rightarrow> Some [])"

section \<open>The server messages\<close>

definition freerds_server_message_name :: "'s wstream_ops \<Rightarrow> window_order_flags \<Rightarrow> UINT32 \<Rightarrow> string option" where
  "freerds_server_message_name W K type =
     (case table_at (RDS_SERVER_MSG_DEFINITIONS W K) (uint type) of
        None \<Rightarrow> None
      | Some (Some msgDef) \<Rightarrow> Some (Name msgDef)
      | Some None \<Rightarrow> Some ''Unknown'')"

definition freerds_server_message_read ::
  "'s wstream_ops \<Rightarrow> window_order_flags \<Rightarrow> 's \<Rightarrow> RDS_MSG \<Rightarrow> (int \<times> 's \<times> RDS_MSG) option" where
  "freerds_server_message_read W K s msg =
     (case table_at (RDS_SERVER_MSG_DEFINITIONS W K) (uint (msg_type (msg_common msg))) of
        None \<Rightarrow> None
      | Some (Some msgDef) \<Rightarrow> Read msgDef s msg
      | Some None \<Rightarrow> Some (-1, s, msg))"

definition freerds_server_message_write ::
  "'s wstream_ops \<Rightarrow> window_order_flags \<Rightarrow> 's option \<Rightarrow> RDS_MSG \<Rightarrow> (int \<times> 's option \<times> RDS_MSG) option" where
  "freerds_server_message_write W K s msg =
     (if msg_type (msg_common msg) > 31 then Some (0, s, msg)
      else case table_at (RDS_SERVER_MSG_DEFINITIONS W K) (uint (msg_type (msg_common msg))) of
             None \<Rightarrow> None
           | Some (Some msgDef) \<Rightarrow>
               map_option (\<lambda>(status, s, msg). (sint (msg_length (msg_common msg)), s, msg)) (Write msgDef s msg)
           | Some None \<Rightarrow> Some (sint (msg_length (msg_common msg)), s, msg))"

definition freerds_server_message_copy ::
  "'s wstream_ops \<Rightarrow> window_order_flags \<Rightarrow> RDS_MSG \<Rightarrow> (RDS_MSG \<times> heap_block list) option option" where
  "freerds_server_message_copy W K msg =
     (case table_at (RDS_SERVER_MSG_DEFINITIONS W K) (uint (msg_type (msg_common msg))) of
        None \<Rightarrow> None
      | Some (Some msgDef) \<Rightarrow> map_option Some (Copy msgDef msg)
      | Some None \<Rightarrow> Some None)"

definition freerds_server_message_free ::
  "'s wstream_ops \<Rightarrow> window_order_flags \<Rightarrow> RDS_MSG \<Rightarrow> heap_block list option" where
  "freerds_server_message_free W K msg =
     (case table_at (RDS_SERVER_MSG_DEFINITIONS W K) (uint (msg_type (msg_common msg))) of
        None \<Rightarrow> None
      | Some (Some msgDef) \<Rightarrow> Free msgDef msg
      | Some None \<Rightarrow> Some [])"

section \<open>The tables, entry by entry\<close>

lemma length_tables [simp]:
  "length (RDS_CLIENT_MSG_DEFINITIONS W) = 32" "length (RDS_SERVER_MSG_DEFINITIONS W K) = 32"
  by (simp_all add: RDS_CLIENT_MSG_DEFINITIONS_def RDS_SERVER_MSG_DEFINITIONS_def)

lemma server_table [simp]:
  "RDS_SERVER_MSG_DEFINITIONS W K ! Suc 0 = Some (RDS_MSG_BEGIN_UPDATE_DEFINITION W)"
  "RDS_SERVER_MSG_DEFINITIONS W K ! 2 = Some (RDS_MSG_END_UPDATE_DEFINITION W)"
  "RDS_SERVER_MSG_DEFINITIONS W K ! 3 = Some (RDS_MSG_SET_CLIPPING_REGION_DEFINITION W)"
  "RDS_SERVER_MSG_DEFINITIONS W K ! 4 = Some (RDS_MSG_OPAQUE_RECT_DEFINITION W)"
  "RDS_SERVER_MSG_DEFINITIONS W K ! 5 = Some (RDS_MSG_SCREEN_BLT_DEFINITION W)"
  "RDS_SERVER_MSG_DEFINITIONS W K ! 6 = Some (RDS_MSG_PAINT_RECT_DEFINITION W)"
  "RDS_SERVER_MSG_DEFINITIONS W K ! 7 = Some (RDS_MSG_PATBLT_DEFINITION W)"
  "RDS_SERVER_MSG_DEFINITIONS W K ! 8 = Some (RDS_MSG_DSTBLT_DEFINITION W)"
  "RDS_SERVER_MSG_DEFINITIONS W K ! 9 = Some (RDS_MSG_LINE_TO_DEFINITION W)"
  "RDS_SERVER_MSG_DEFINITIONS W K ! 10 = Some (RDS_MSG_CREATE_OFFSCREEN_SURFACE_DEFINITION W)"
  "RDS_SERVER_MSG_DEFINITIONS W K ! 11 = Some (RDS_MSG_SWITCH_OFFSCREEN_SURFACE_DEFINITION W)"
  "RDS_SERVER_MSG_DEFINITIONS W K ! 12 = Some (RDS_MSG_DELETE_OFFSCREEN_SURFACE_DEFINITION W)"
  "RDS_SERVER_MSG_DEFINITIONS W K ! 13 = Some (RDS_MSG_PAINT_OFFSCREEN_SURFACE_DEFINITION W)"
  "RDS_SERVER_MSG_DEFINITIONS W K ! 14 = Some (RDS_MSG_SET_PALETTE_DEFINITION W)"
  "RDS_SERVER_MSG_DEFINITIONS W K ! 15 = Some (RDS_MSG_CACHE_GLYPH_DEFINITION W)"
  "RDS_SERVER_MSG_DEFINITIONS W K ! 16 = Some (RDS_MSG_GLYPH_INDEX_DEFINITION W)"
  "RDS_SERVER_MSG_DEFINITIONS W K ! 17 = Some (RDS_MSG_SET_POINTER_DEFINITION W)"
  "RDS_SERVER_MSG_DEFINITIONS W K ! 18 = Some (RDS_MSG_SHARED_FRAMEBUFFER_DEFINITION W)"
  "RDS_SERVER_MSG_DEFINITIONS W K ! 19 = Some (RDS_MSG_BEEP_DEFINITION W)"
  "RDS_SERVER_MSG_DEFINITIONS W K ! 20 = Some (RDS_MSG_RESET_DEFINITION W)"
  "RDS_SERVER_MSG_DEFINITIONS W K ! 21 = Some (RDS_MSG_WINDOW_NEW_UPDATE_DEFINITION W K)"
  "RDS_SERVER_MSG_DEFINITIONS W K ! 22 = Some (RDS_MSG_WINDOW_DELETE_DEFINITION W)"
  "RDS_SERVER_MSG_DEFINITIONS W K ! 23 = Some (RDS_MSG_SET_SYSTEM_POINTER_DEFINITION W)"
  "RDS_SERVER_MSG_DEFINITIONS W K ! 24 = Some (RDS_MSG_LOGON_USER_DEFINITION W)"
  "RDS_SERVER_MSG_DEFINITIONS W K ! 25 = Some (RDS_MSG_LOGOFF_USER_DEFINITION W)"
  by (simp_all add: RDS_SERVER_MSG_DEFINITIONS_def)

lemma client_table [simp]:
  "RDS_CLIENT_MSG_DEFINITIONS W ! 11 = Some (RDS_MSG_LOGON_USER_DEFINITION W)"
  "RDS_CLIENT_MSG_DEFINITIONS W ! 12 = Some (RDS_MSG_LOGOFF_USER_DEFINITION W)"
  "RDS_CLIENT_MSG_DEFINITIONS W ! 14 = Some (RDS_MSG_SUPPRESS_OUTPUT_DEFINITION W)"
  by (simp_all add: RDS_CLIENT_MSG_DEFINITIONS_def)

text \<open>The identifiers under which a table holds the structures.\<close>

fun server_type :: "RDS_MSG \<Rightarrow> UINT32" where
  "server_type (BeginUpdate m) = 1"
| "server_type (EndUpdate m) = 2"
| "server_type (SetClippingRegion m) = 3"
| "server_type (OpaqueRect m) = 4"
| "server_type (ScreenBlt m) = 5"
| "server_type (PaintRect m) = 6"
| "server_type (PatBlt m) = 7"
| "server_type (DstBlt m) = 8"
| "server_type (LineTo m) = 9"
| "server_type (CreateOffscreenSurface m) = 10"
| "server_type (SwitchOffscreenSurface m) = 11"
| "server_type (DeleteOffscreenSurface m) = 12"
| "server_type (PaintOffscreenSurface m) = 13"
| "server_type (SetPalette m) = 14"
| "server_type (CacheGlyph m) = 15"
| "server_type (GlyphIndex m) = 16"
| "server_type (SetPointer m) = 17"
| "server_type (SharedFramebuffer m) = 18"
| "server_type (Beep m) = 19"
| "server_type (Reset m) = 20"
| "server_type (WindowNewUpdate m) = 21"
| "server_type (WindowDelete m) = 22"
| "server_type (SetSystemPointer m) = 23"
| "server_type (LogonUser m) = 24"
| "server_type (LogoffUser m) = 25"
| "server_type (SuppressOutput m) = 0"

definition server_typed :: "RDS_MSG \<Rightarrow> bool" where
  "server_typed msg \<longleftrightarrow> \<not> is_SuppressOutput msg \<and> msg_type (msg_common msg) = server_type msg"

fun client_type :: "RDS_MSG \<Rightarrow> UINT32" where
  "client_type (LogonUser m) = 111"
| "client_type (LogoffUser m) = 112"
| "client_type (SuppressOutput m) = 114"
| "client_type _ = 0"

definition client_typed :: "RDS_MSG \<Rightarrow> bool" where
  "client_typed msg \<longleftrightarrow> client_type msg \<noteq> 0 \<and> msg_type (msg_common msg) = client_type msg"

section \<open>The wire format of any message\<close>

text \<open>
  \<open>msg_sized\<close> and \<open>msg_final\<close> are the message after the length call and after the writing call,
  \<open>msg_frame\<close> the bytes the latter writes, and \<open>msg_ok\<close> what it needs of the message.  The five
  messages without a wire format are not sendable.
\<close>

fun msg_sized :: "RDS_MSG \<Rightarrow> RDS_MSG" where
  "msg_sized (BeginUpdate m) = BeginUpdate (begin_update_final m)"
| "msg_sized (EndUpdate m) = EndUpdate (end_update_final m)"
| "msg_sized (SetClippingRegion m) = SetClippingRegion (set_clipping_region_final m)"
| "msg_sized (OpaqueRect m) = OpaqueRect (opaque_rect_sized m)"
| "msg_sized (ScreenBlt m) = ScreenBlt (screen_blt_sized m)"
| "msg_sized (PaintRect m) = PaintRect (paint_rect_sized m)"
| "msg_sized (PatBlt m) = PatBlt (patblt_sized m)"
| "msg_sized (DstBlt m) = DstBlt (dstblt_sized m)"
| "msg_sized (LineTo m) = LineTo (line_to_final m)"
| "msg_sized (CreateOffscreenSurface m) = CreateOffscreenSurface (create_offscreen_surface_final m)"
| "msg_sized (SwitchOffscreenSurface m) = SwitchOffscreenSurface (switch_offscreen_surface_final m)"
| "msg_sized (DeleteOffscreenSurface m) = DeleteOffscreenSurface (delete_offscreen_surface_final m)"
| "msg_sized (PaintOffscreenSurface m) = PaintOffscreenSurface (paint_offscreen_surface_final m)"
| "msg_sized (SetPointer m) = SetPointer (set_pointer_sized m)"
| "msg_sized (SharedFramebuffer m) = SharedFramebuffer (shared_framebuffer_final m)"
| "msg_sized (WindowNewUpdate m) = WindowNewUpdate (window_new_update_final m)"
| "msg_sized (WindowDelete m) = WindowDelete (window_delete_final m)"
| "msg_sized (SetSystemPointer m) = SetSystemPointer (set_system_pointer_final m)"
| "msg_sized (LogonUser m) = LogonUser (logon_user_final m)"
| "msg_sized (LogoffUser m) = LogoffUser (logoff_user_final m)"
| "msg_sized (SuppressOutput m) = SuppressOutput (suppress_output_final m)"
| "msg_sized m = m"

fun msg_final :: "RDS_MSG \<Rightarrow> RDS_MSG" where
  "msg_final (BeginUpdate m) = BeginUpdate (begin_update_final m)"
| "msg_final (EndUpdate m) = EndUpdate (end_update_final m)"
| "msg_final (SetClippingRegion m) = SetClippingRegion (set_clipping_region_final m)"
| "msg_final (OpaqueRect m) = OpaqueRect (opaque_rect_final m)"
| "msg_final (ScreenBlt m) = ScreenBlt (screen_blt_final m)"
| "msg_final (PaintRect m) = PaintRect (paint_rect_final m)"
| "msg_final (PatBlt m) = PatBlt (patblt_final m)"
| "msg_final (DstBlt m) = DstBlt (dstblt_final m)"
| "msg_final (LineTo m) = LineTo (line_to_final m)"
| "msg_final (CreateOffscreenSurface m) = CreateOffscreenSurface (create_offscreen_surface_final m)"
| "msg_final (SwitchOffscreenSurface m) = SwitchOffscreenSurface (switch_offscreen_surface_final m)"
| "msg_final (DeleteOffscreenSurface m) = DeleteOffscreenSurface (delete_offscreen_surface_final m)"
| "msg_final (PaintOffscreenSurface m) = PaintOffscreenSurface (paint_offscreen_surface_final m)"
| "msg_final (SetPointer m) = SetPointer (set_pointer_final m)"
| "msg_final (SharedFramebuffer m) = SharedFramebuffer (shared_framebuffer_final m)"
| "msg_final (WindowNewUpdate m) = WindowNewUpdate (window_new_update_final m)"
| "msg_final (WindowDelete m) = WindowDelete (window_delete_final m)"
| "msg_final (SetSystemPointer m) = SetSystemPointer (set_system_pointer_final m)"
| "msg_final (LogonUser m) = LogonUser (logon_user_final m)"
| "msg_final (LogoffUser m) = LogoffUser (logoff_user_final m)"
| "msg_final (SuppressOutput m) = SuppressOutput (suppress_output_final m)"
| "msg_final m = m"

fun msg_body :: "window_order_flags \<Rightarrow> RDS_MSG \<Rightarrow> byte list" where
  "msg_body K (BeginUpdate m) = begin_update_body m"
| "msg_body K (EndUpdate m) = end_update_body m"
| "msg_body K (SetClippingRegion m) = set_clipping_region_body m"
| "msg_body K (OpaqueRect m) = opaque_rect_body m"
| "msg_body K (ScreenBlt m) = screen_blt_body m"
| "msg_body K (PaintRect m) = paint_rect_body m"
| "msg_body K (PatBlt m) = patblt_body m"
| "msg_body K (DstBlt m) = dstblt_body m"
| "msg_body K (LineTo m) = line_to_body m"
| "msg_body K (CreateOffscreenSurface m) = create_offscreen_surface_body m"
| "msg_body K (SwitchOffscreenSurface m) = switch_offscreen_surface_body m"
| "msg_body K (DeleteOffscreenSurface m) = delete_offscreen_surface_body m"
| "msg_body K (PaintOffscreenSurface m) = paint_offscreen_surface_body m"
| "msg_body K (SetPointer m) = set_pointer_body m"
| "msg_body K (SharedFramebuffer m) = shared_framebuffer_body m"
| "msg_body K (WindowNewUpdate m) = window_new_update_body K m"
| "msg_body K (WindowDelete m) = window_delete_body m"
| "msg_body K (SetSystemPointer m) = set_system_pointer_body m"
| "msg_body K (LogonUser m) = logon_user_body m"
| "msg_body K (LogoffUser m) = logoff_user_body m"
| "msg_body K (SuppressOutput m) = suppress_output_body m"
| "msg_body K m = []"

fun msg_ok :: "RDS_MSG \<Rightarrow> bool" where
  "msg_ok (BeginUpdate m) = True"
| "msg_ok (EndUpdate m) = True"
| "msg_ok (SetClippingRegion m) = True"
| "msg_ok (OpaqueRect m) = True"
| "msg_ok (ScreenBlt m) = True"
| "msg_ok (PaintRect m) = paint_rect_ok m"
| "msg_ok (PatBlt m) = patblt_ok m"
| "msg_ok (DstBlt m) = True"
| "msg_ok (LineTo m) = True"
| "msg_ok (CreateOffscreenSurface m) = True"
| "msg_ok (SwitchOffscreenSurface m) = True"
| "msg_ok (DeleteOffscreenSurface m) = True"
| "msg_ok (PaintOffscreenSurface m) = True"
| "msg_ok (SetPointer m) = set_pointer_ok m"
| "msg_ok (SharedFramebuffer m) = True"
| "msg_ok (WindowNewUpdate m) = window_new_update_ok m"
| "msg_ok (WindowDelete m) = True"
| "msg_ok (SetSystemPointer m) = True"
| "msg_ok (LogonUser m) = logon_user_ok m"
| "msg_ok (LogoffUser m) = True"
| "msg_ok (SuppressOutput m) = True"
| "msg_ok m = False"

definition msg_frame :: "window_order_flags \<Rightarrow> RDS_MSG \<Rightarrow> byte list" where
  "msg_frame K msg = header_bytes (msg_common (msg_final msg)) @ msg_body K (msg_final msg)"

text \<open>
  What a reader makes of a frame, given the message it fills.  Pattern blts and window orders have no
  entry: their readers are treated with their codecs.
\<close>

fun msg_decode :: "RDS_MSG \<Rightarrow> byte list \<Rightarrow> RDS_MSG \<Rightarrow> RDS_MSG" where
  "msg_decode (BeginUpdate sent) rest m = BeginUpdate ((\<lambda>sent rest m. m) sent rest (un_BeginUpdate m))"
| "msg_decode (EndUpdate sent) rest m = EndUpdate ((\<lambda>sent rest m. m) sent rest (un_EndUpdate m))"
| "msg_decode (SetClippingRegion sent) rest m = SetClippingRegion (set_clipping_region_decode sent rest (un_SetClippingRegion m))"
| "msg_decode (OpaqueRect sent) rest m = OpaqueRect (opaque_rect_decode sent rest (un_OpaqueRect m))"
| "msg_decode (ScreenBlt sent) rest m = ScreenBlt (screen_blt_decode sent rest (un_ScreenBlt m))"
| "msg_decode (PaintRect sent) rest m = PaintRect (paint_rect_decode sent rest (un_PaintRect m))"
| "msg_decode (DstBlt sent) rest m = DstBlt (dstblt_decode sent rest (un_DstBlt m))"
| "msg_decode (LineTo sent) rest m = LineTo (line_to_decode sent rest (un_LineTo m))"
| "msg_decode (CreateOffscreenSurface sent) rest m = CreateOffscreenSurface (create_offscreen_surface_decode sent rest (un_CreateOffscreenSurface m))"
| "msg_decode (SwitchOffscreenSurface sent) rest m = SwitchOffscreenSurface (switch_offscreen_surface_decode sent rest (un_SwitchOffscreenSurface m))"
| "msg_decode (DeleteOffscreenSurface sent) rest m = DeleteOffscreenSurface (delete_offscreen_surface_decode sent rest (un_DeleteOffscreenSurface m))"
| "msg_decode (PaintOffscreenSurface sent) rest m = PaintOffscreenSurface (paint_offscreen_surface_decode sent rest (un_PaintOffscreenSurface m))"
| "msg_decode (SetPointer sent) rest m = SetPointer (set_pointer_decode sent rest (un_SetPointer m))"
| "msg_decode (SharedFramebuffer sent) rest m = SharedFramebuffer (shared_framebuffer_decode sent rest (un_SharedFramebuffer m))"
| "msg_decode (WindowDelete sent) rest m = WindowDelete (window_delete_decode sent rest (un_WindowDelete m))"
| "msg_decode (SetSystemPointer sent) rest m = SetSystemPointer (set_system_pointer_decode sent rest (un_SetSystemPointer m))"
| "msg_decode (LogonUser sent) rest m = LogonUser (logon_user_decode sent rest (un_LogonUser m))"
| "msg_decode (LogoffUser sent) rest m = LogoffUser (logoff_user_decode sent rest (un_LogoffUser m))"
| "msg_decode (SuppressOutput sent) rest m = SuppressOutput (suppress_output_decode sent rest (un_SuppressOutput m))"
| "msg_decode sent rest m = m"

definition readable :: "RDS_MSG \<Rightarrow> bool" where
  "readable msg \<longleftrightarrow> msg_ok msg \<and> \<not> is_PatBlt msg \<and> \<not> is_WindowNewUpdate msg"

section \<open>The generic routines implement the wire format\<close>

lemma truncate_simps [simp]:
  "msg_type (RDS_MSG_COMMON.truncate m) = msg_type m"
  "msg_length (RDS_MSG_COMMON.truncate m) = msg_length m"
  "msgFlags (RDS_MSG_COMMON.truncate m) = msgFlags m"
  "rect (RDS_MSG_COMMON.truncate m) = rect m"
  by (simp_all add: RDS_MSG_COMMON.truncate_def)

lemma header_bytes_truncate [simp]: "header_bytes (RDS_MSG_COMMON.truncate m) = header_bytes m"
  by (simp add: header_bytes_def)

lemma server_type_is:
  "server_type m = 1 \<longleftrightarrow> is_BeginUpdate m"
  "server_type m = 2 \<longleftrightarrow> is_EndUpdate m"
  "server_type m = 3 \<longleftrightarrow> is_SetClippingRegion m"
  "server_type m = 4 \<longleftrightarrow> is_OpaqueRect m"
  "server_type m = 5 \<longleftrightarrow> is_ScreenBlt m"
  "server_type m = 6 \<longleftrightarrow> is_PaintRect m"
  "server_type m = 7 \<longleftrightarrow> is_PatBlt m"
  "server_type m = 8 \<longleftrightarrow> is_DstBlt m"
  "server_type m = 9 \<longleftrightarrow> is_LineTo m"
  "server_type m = 10 \<longleftrightarrow> is_CreateOffscreenSurface m"
  "server_type m = 11 \<longleftrightarrow> is_SwitchOffscreenSurface m"
  "server_type m = 12 \<longleftrightarrow> is_DeleteOffscreenSurface m"
  "server_type m = 13 \<longleftrightarrow> is_PaintOffscreenSurface m"
  "server_type m = 14 \<longleftrightarrow> is_SetPalette m"
  "server_type m = 15 \<longleftrightarrow> is_CacheGlyph m"
  "server_type m = 16 \<longleftrightarrow> is_GlyphIndex m"
  "server_type m = 17 \<longleftrightarrow> is_SetPointer m"
  "server_type m = 18 \<longleftrightarrow> is_SharedFramebuffer m"
  "server_type m = 19 \<longleftrightarrow> is_Beep m"
  "server_type m = 20 \<longleftrightarrow> is_Reset m"
  "server_type m = 21 \<longleftrightarrow> is_WindowNewUpdate m"
  "server_type m = 22 \<longleftrightarrow> is_WindowDelete m"
  "server_type m = 23 \<longleftrightarrow> is_SetSystemPointer m"
  "server_type m = 24 \<longleftrightarrow> is_LogonUser m"
  "server_type m = 25 \<longleftrightarrow> is_LogoffUser m"
  by (cases m; simp)+

lemma table_at_type [simp]: "table_at tab (numeral n) = (if numeral n < length tab then Some (tab ! numeral n) else None)"
  by (simp add: table_at_def)

lemma table_at_1 [simp]: "table_at tab 1 = (if 1 < length tab then Some (tab ! 1) else None)"
  by (simp add: table_at_def)

context wstream
begin

lemmas all_wr_size =
  bupd.wr_size eupd.wr_size clip.wr_size opaque.wr_size scrblt.wr_size paint.wr_size
  patblt.wr_size dstblt.wr_size line.wr_size cos.wr_size sos.wr_size dos.wr_size pos.wr_size
  ptr.wr_size shfb.wr_size wnu.wr_size wdel.wr_size sysptr.wr_size logon.wr_size logoff.wr_size
  suppress.wr_size

lemmas all_wr_frame =
  bupd.wr_frame eupd.wr_frame clip.wr_frame opaque.wr_frame scrblt.wr_frame paint.wr_frame
  patblt.wr_frame dstblt.wr_frame line.wr_frame cos.wr_frame sos.wr_frame dos.wr_frame
  pos.wr_frame ptr.wr_frame shfb.wr_frame wnu.wr_frame wdel.wr_frame sysptr.wr_frame
  logon.wr_frame logoff.wr_frame suppress.wr_frame

lemmas all_length_field =
  bupd.length_field eupd.length_field clip.length_field opaque.length_field scrblt.length_field
  paint.length_field patblt.length_field dstblt.length_field line.length_field cos.length_field
  sos.length_field dos.length_field pos.length_field ptr.length_field shfb.length_field
  wnu.length_field wdel.length_field sysptr.length_field logon.length_field logoff.length_field
  suppress.length_field

lemmas all_sized_length =
  opaque.sized_length scrblt.sized_length paint.sized_length patblt.sized_length
  dstblt.sized_length ptr.sized_length

lemmas all_final_type =
  bupd.final_type eupd.final_type clip.final_type opaque.final_type scrblt.final_type
  paint.final_type patblt.final_type dstblt.final_type line.final_type cos.final_type
  sos.final_type dos.final_type pos.final_type ptr.final_type shfb.final_type wnu.final_type
  wdel.final_type sysptr.final_type logon.final_type logoff.final_type suppress.final_type

lemmas all_rd_body =
  bupd.rd_body eupd.rd_body clip.rd_body opaque.rd_body scrblt.rd_body paint.rd_body
  dstblt.rd_body line.rd_body cos.rd_body sos.rd_body dos.rd_body pos.rd_body ptr.rd_body
  shfb.rd_body wdel.rd_body sysptr.rd_body logon.rd_body logoff.rd_body suppress.rd_body

lemma msg_length_field:
  "msg_ok msg \<Longrightarrow> unat (msg_length (msg_common (msg_final msg))) = length (msg_frame K msg)"
  by (cases msg) (simp_all add: msg_frame_def all_length_field wnu.length_field [where K = K])

lemma msg_final_type: "msg_type (msg_common (msg_final msg)) = msg_type (msg_common msg)"
  by (cases msg) (simp_all add: all_final_type)

lemma server_write_size:
  assumes "server_typed msg" and "msg_ok msg"
  shows "freerds_server_message_write W K None msg =
           Some (sint (msg_length (msg_common (msg_final msg))), None, msg_sized msg)"
  using assms
  by (cases msg) (simp_all add: server_typed_def freerds_server_message_write_def dispatch_defs
      all_wr_size all_sized_length)

lemma server_write_frame:
  assumes "server_typed msg" and "msg_ok msg"
    and "length (msg_frame K msg) \<le> length (Stream_Pointer W s)"
  shows "freerds_server_message_write W K (Some s) msg =
           Some (sint (msg_length (msg_common (msg_final msg))), Some (Stream_Write W s (msg_frame K msg)),
                 msg_final msg)"
  using assms
  by (cases msg) (simp_all add: server_typed_def freerds_server_message_write_def dispatch_defs
      msg_frame_def all_wr_frame)

lemma server_read_frame:
  assumes "server_typed msg" and "readable msg"
    and "Stream_Pointer W s = msg_body K (msg_final msg) @ rest"
    and "length (msg_body K (msg_final msg)) \<le> Stream_GetRemainingLength W s"
    and "server_typed dst" and "server_type dst = server_type msg"
  shows "freerds_server_message_read W K s dst =
           Some (0, Stream_Seek W s (length (msg_body K (msg_final msg))), msg_decode (msg_final msg) rest dst)"
  using assms
  by (cases msg) (simp_all add: server_typed_def freerds_server_message_read_def dispatch_defs readable_def
      server_type_is all_rd_body)

lemmas all_sized_ok = paint.sized_ok patblt.sized_ok ptr.sized_ok wnu.sized_ok logon.sized_ok

lemmas all_final_sized =
  bupd.final_sized eupd.final_sized clip.final_sized opaque.final_sized scrblt.final_sized
  paint.final_sized patblt.final_sized dstblt.final_sized line.final_sized cos.final_sized
  sos.final_sized dos.final_sized pos.final_sized ptr.final_sized shfb.final_sized
  wdel.final_sized sysptr.final_sized logon.final_sized logoff.final_sized suppress.final_sized
  wnu.final_sized

lemma msg_sized_ok: "msg_ok msg \<Longrightarrow> msg_ok (msg_sized msg)"
  by (cases msg) (simp_all add: all_sized_ok)

lemma msg_final_sized: "msg_final (msg_sized msg) = msg_final msg"
  by (cases msg) (simp_all add: all_final_sized)

lemma msg_frame_sized: "msg_frame K (msg_sized msg) = msg_frame K msg"
  by (simp add: msg_frame_def msg_final_sized)

lemma msg_sized_type: "msg_type (msg_common (msg_sized msg)) = msg_type (msg_common msg)"
  using msg_final_type [of "msg_sized msg"] msg_final_type [of msg] by (simp add: msg_final_sized)

lemma msg_sized_length:
  "msg_ok msg \<Longrightarrow> msg_length (msg_common (msg_sized msg)) = msg_length (msg_common (msg_final msg))"
  by (cases msg) (simp_all add: all_sized_length)

lemma server_typed_sized: "server_typed msg \<Longrightarrow> server_typed (msg_sized msg)"
  using msg_sized_type [of msg] by (cases msg) (simp_all add: server_typed_def)

lemma client_typed_sized: "client_typed msg \<Longrightarrow> client_typed (msg_sized msg)"
  using msg_sized_type [of msg] by (cases msg) (simp_all add: client_typed_def)

lemma client_write_size:
  assumes "client_typed msg" and "msg_ok msg"
  shows "freerds_client_message_write W None msg =
           Some (sint (msg_length (msg_common (msg_final msg))), None, msg_sized msg)"
  using assms
  by (cases msg) (simp_all add: client_typed_def freerds_client_message_write_def client_index_def
      dispatch_defs all_wr_size all_sized_length)

lemma client_write_frame:
  assumes "client_typed msg" and "msg_ok msg"
    and "length (msg_frame K msg) \<le> length (Stream_Pointer W s)"
  shows "freerds_client_message_write W (Some s) msg =
           Some (sint (msg_length (msg_common (msg_final msg))), Some (Stream_Write W s (msg_frame K msg)),
                 msg_final msg)"
  using assms
  by (cases msg) (simp_all add: client_typed_def freerds_client_message_write_def client_index_def
      dispatch_defs msg_frame_def all_wr_frame)

lemma client_read_frame:
  assumes "client_typed msg" and "msg_ok msg"
    and "Stream_Pointer W s = msg_body K (msg_final msg) @ rest"
    and "length (msg_body K (msg_final msg)) \<le> Stream_GetRemainingLength W s"
    and "client_typed dst" and "client_type dst = client_type msg"
  shows "freerds_client_message_read W s dst =
           Some (0, Stream_Seek W s (length (msg_body K (msg_final msg))), msg_decode (msg_final msg) rest dst)"
  using assms
  by (cases msg; cases dst) (simp_all add: client_typed_def freerds_client_message_read_def client_index_def
      dispatch_defs all_rd_body)

end

section \<open>What a sender relies on\<close>

text \<open>
  The contract of a generic message writer: the first call sizes the message, the second writes its
  frame.  Both tables meet it.
\<close>

locale msg_sender = wstream W for W :: "'s wstream_ops" +
  fixes K :: window_order_flags
    and wr :: "'s option \<Rightarrow> RDS_MSG \<Rightarrow> (int \<times> 's option \<times> RDS_MSG) option"
    and typed :: "RDS_MSG \<Rightarrow> bool"
  assumes sender_size:
      "typed msg \<Longrightarrow> msg_ok msg \<Longrightarrow>
       wr None msg = Some (sint (msg_length (msg_common (msg_final msg))), None, msg_sized msg)"
    and sender_frame:
      "typed msg \<Longrightarrow> msg_ok msg \<Longrightarrow> length (msg_frame K msg) \<le> length (Stream_Pointer W s) \<Longrightarrow>
       wr (Some s) msg = Some (sint (msg_length (msg_common (msg_final msg))),
                               Some (Stream_Write W s (msg_frame K msg)), msg_final msg)"
    and typed_sized: "typed msg \<Longrightarrow> typed (msg_sized msg)"
begin

lemma sender_two_phase:
  assumes "typed msg" and "msg_ok msg" and "length (msg_frame K msg) \<le> length (Stream_Pointer W s)"
  shows "\<exists>n m1. wr None msg = Some (n, None, m1) \<and> unat (msg_length (msg_common m1)) = length (msg_frame K msg) \<and>
                wr (Some s) m1 = Some (n, Some (Stream_Write W s (msg_frame K msg)), msg_final msg)"
  using assms
  by (simp add: sender_size sender_frame typed_sized msg_sized_ok msg_final_sized msg_frame_sized
      msg_sized_length msg_length_field)

end

sublocale wstream \<subseteq> server_sender: msg_sender W K "freerds_server_message_write W K" server_typed for K
  by unfold_locales (simp_all add: server_write_size server_write_frame server_typed_sized)

sublocale wstream \<subseteq> client_sender: msg_sender W K "freerds_client_message_write W" client_typed for K
  by unfold_locales (simp_all add: client_write_size client_write_frame client_typed_sized)

context wstream
begin

lemmas server_is_sender = server_sender.msg_sender_axioms

lemmas client_is_sender = client_sender.msg_sender_axioms

end

section \<open>Copies\<close>

text \<open>
  The duplicate carries the message: it has the same wire format, and unless the message is a logon the
  free routine releases exactly the blocks the copy routine allocated.
\<close>

lemma paint_copy_frame:
  assumes "freerds_paint_rect_copy m = Some (dup, blocks)"
  shows "msg_frame K (PaintRect dup) = msg_frame K (PaintRect m)"
proof (cases "paint_bitmapDataLength m = 0")
  case True
  then show ?thesis using assms by (simp add: freerds_paint_rect_copy_def)
next
  case False
  then obtain bs where bs: "load_bytes (paint_bitmapData m) (unat (paint_bitmapDataLength m)) = Some bs"
    and dup: "dup = m\<lparr>paint_bitmapData := Some bs\<rparr>"
    using assms by (auto simp: freerds_paint_rect_copy_def split: option.splits)
  have "paint_rect_bitmap dup = paint_rect_bitmap m"
    using load_bytes_length [OF bs] bs load_bytes_append [of bs "[]"] by (simp add: paint_rect_bitmap_def dup)
  then show ?thesis
    by (simp add: msg_frame_def codec_defs codec_simps header_bytes_def dup)
qed

lemma server_copy_typed:
  assumes "server_typed msg" and "freerds_server_message_copy W K msg = Some copy"
  shows "\<exists>dup blocks. copy = Some (dup, blocks) \<and> msg_common dup = msg_common msg \<and>
                      server_type dup = server_type msg"
  using assms
  by (cases msg)
     (auto simp: server_typed_def freerds_server_message_copy_def dispatch_defs copy_defs Let_def
        RDS_MSG_COMMON.truncate_def Option.bind_eq_Some_conv split: if_splits option.splits)

lemma server_copy_free:
  assumes "server_typed msg" and "freerds_server_message_copy W K msg = Some (Some (dup, blocks))"
  shows "\<exists>freed. freerds_server_message_free W K dup = Some freed \<and> mset freed \<subseteq># mset blocks \<and>
                 (\<not> is_LogonUser msg \<longrightarrow> mset freed = mset blocks)"
  using assms
  by (cases msg)
     (auto simp: server_typed_def freerds_server_message_copy_def freerds_server_message_free_def
        dispatch_defs copy_defs Let_def Option.bind_eq_Some_conv split: if_splits option.splits)

end
