(* ===== verification/Rds_Pipe.thy ===== *)
theory Rds_Pipe
  imports Rds_Prelude
begin

text \<open>
  The named pipe between a session backend and its client, and the read and write routines of
  \<open>freerds/backend/transport.c\<close> over it.  The pipe is an object of WinPR, so its two operations are a
  parameter: \<open>ReadFile\<close> returns the success flag, the bytes it stored and the pipe, \<open>WriteFile\<close> the flag,
  the number of bytes taken and the pipe.  The locale \<open>named_pipe\<close> states their documented behaviour with
  two observations of a pipe, the bytes that are still to arrive and the bytes that have been sent;
  \<open>connected_pipe\<close> adds that the peer is there.
\<close>

section \<open>The operations\<close>

record 'p pipe_ops =
  ReadFile :: "'p \<Rightarrow> UINT32 \<Rightarrow> bool \<times> byte list \<times> 'p"
  WriteFile :: "'p \<Rightarrow> byte list \<Rightarrow> bool \<times> UINT32 \<times> 'p"

text \<open>\<open>freerds_named_pipe_read\<close>: the status, the bytes stored at \<open>data\<close> and the pipe.\<close>

definition freerds_named_pipe_read :: "'p pipe_ops \<Rightarrow> 'p \<Rightarrow> UINT32 \<Rightarrow> int \<times> byte list \<times> 'p" where
  "freerds_named_pipe_read P hNamedPipe len =
     (let (fSuccess, bs, hNamedPipe) = ReadFile P hNamedPipe len;
          NumberOfBytesRead = (of_nat (length bs) :: UINT32)
      in if \<not> fSuccess \<or> NumberOfBytesRead = 0 then (-1, bs, hNamedPipe)
         else (sint NumberOfBytesRead, bs, hNamedPipe))"

text \<open>
  The loop of \<open>freerds_named_pipe_write\<close>; \<open>None\<close> is a loop that does not end.  \<open>data\<close> is the memory from
  the pointer on.
\<close>

partial_function (option) named_pipe_write_loop ::
  "'p pipe_ops \<Rightarrow> 'p \<Rightarrow> byte list \<Rightarrow> UINT32 \<Rightarrow> UINT32 \<Rightarrow> (int \<times> 'p) option" where
  "named_pipe_write_loop P hNamedPipe data len TotalNumberOfBytesWritten =
     (if len > 0
      then let (fSuccess, NumberOfBytesWritten, hNamedPipe) = WriteFile P hNamedPipe (take (unat len) data)
           in if \<not> fSuccess \<or> NumberOfBytesWritten = 0 then Some (-1, hNamedPipe)
              else named_pipe_write_loop P hNamedPipe (drop (unat NumberOfBytesWritten) data)
                     (len - NumberOfBytesWritten) (TotalNumberOfBytesWritten + NumberOfBytesWritten)
      else Some (sint TotalNumberOfBytesWritten, hNamedPipe))"

definition freerds_named_pipe_write :: "'p pipe_ops \<Rightarrow> 'p \<Rightarrow> byte list \<Rightarrow> UINT32 \<Rightarrow> (int \<times> 'p) option" where
  "freerds_named_pipe_write P hNamedPipe data len = named_pipe_write_loop P hNamedPipe data len 0"

section \<open>The documented behaviour of a pipe\<close>

locale named_pipe =
  fixes P :: "'p pipe_ops"
    and incoming :: "'p \<Rightarrow> byte list"
    and sent :: "'p \<Rightarrow> byte list"
  assumes ReadFile_law:
      "ReadFile P p n = (ok, bs, p') \<Longrightarrow>
       length bs \<le> unat n \<and> incoming p = bs @ incoming p' \<and> sent p' = sent p"
    and WriteFile_law:
      "WriteFile P p data = (ok, k, p') \<Longrightarrow>
       unat k \<le> length data \<and> sent p' = sent p @ take (unat k) data \<and> incoming p' = incoming p"
begin

lemma pipe_read:
  assumes "freerds_named_pipe_read P p n = (status, bs, p')" and "unat n < 2 ^ 31"
  shows "incoming p = bs @ incoming p'" and "sent p' = sent p" and "length bs \<le> unat n"
    and "status < 0 \<or> status = int (length bs) \<and> bs \<noteq> []"
proof -
  obtain ok p1 where rd: "ReadFile P p n = (ok, bs, p1)" and p1: "p1 = p'"
    using assms(1) by (auto simp: freerds_named_pipe_read_def Let_def split: prod.splits if_splits)
  show len: "length bs \<le> unat n" and "incoming p = bs @ incoming p'" and "sent p' = sent p"
    using ReadFile_law [OF rd] p1 by auto
  have w: "unat (of_nat (length bs) :: UINT32) = length bs"
    using len assms(2) by (simp add: unat_of_nat)
  have "sint (of_nat (length bs) :: UINT32) = int (length bs)"
    using len assms(2) sint_small [of "of_nat (length bs)"] by (simp only: w)
  then show "status < 0 \<or> status = int (length bs) \<and> bs \<noteq> []"
    using assms(1) rd by (auto simp: freerds_named_pipe_read_def Let_def split: if_splits)
qed

text \<open>The write loop ends, and what it reports is what the peer gets.\<close>

lemma pipe_write_loop:
  assumes "unat len \<le> length data" and "unat tot + unat len < 2 ^ 31"
  shows "\<exists>status p' k. named_pipe_write_loop P p data len tot = Some (status, p') \<and>
           sent p' = sent p @ take k data \<and> incoming p' = incoming p \<and> k \<le> unat len \<and>
           (status = -1 \<or> status = int (unat tot + unat len) \<and> k = unat len)"
  using assms
proof (induction "unat len" arbitrary: len data p tot rule: less_induct)
  case less
  obtain ok k p1 where wr: "WriteFile P p (take (unat len) data) = (ok, k, p1)"
    by (cases "WriteFile P p (take (unat len) data)") auto
  note law = WriteFile_law [OF wr]
  have k: "unat k \<le> unat len" using law by simp
  consider "len = 0" | "len \<noteq> 0" "\<not> ok \<or> k = 0" | "len \<noteq> 0" "ok" "k \<noteq> 0" by blast
  then show ?case
  proof cases
    case 1
    then show ?thesis
      using less.prems sint_small [of tot]
      by (subst named_pipe_write_loop.simps) (auto intro: exI [of _ 0])
  next
    case 2
    then show ?thesis
      using wr law k
      by (subst named_pipe_write_loop.simps) (auto simp: word_neq_0_conv min_def intro!: exI [of _ "unat k"])
  next
    case 3
    have "k \<le> len" using k by (simp add: word_le_nat_alt)
    then have sub: "unat (len - k) = unat len - unat k" by (simp add: unat_sub)
    have add: "unat (tot + k) = unat tot + unat k"
      using less.prems(2) k by (simp add: unat_plus_small)
    have "0 < unat k" using 3(3) by (simp add: unat_gt_0)
    then have smaller: "unat (len - k) < unat len" using sub k by linarith
    have room: "unat (len - k) \<le> length (drop (unat k) data)"
      using less.prems(1) by (simp add: sub diff_le_mono)
    have sum: "unat (tot + k) + unat (len - k) < 2 ^ 31"
      using less.prems(2) k by (simp add: sub add)
    from less.hyps [OF smaller room sum, of p1] obtain status p' j where
      rec: "named_pipe_write_loop P p1 (drop (unat k) data) (len - k) (tot + k) = Some (status, p')"
      and p': "sent p' = sent p1 @ take j (drop (unat k) data)" "incoming p' = incoming p1"
      and j: "j \<le> unat (len - k)"
        "status = -1 \<or> status = int (unat (tot + k) + unat (len - k)) \<and> j = unat (len - k)"
      by blast
    have "sent p' = sent p @ take (unat k + j) data"
      using p'(1) law k by (simp add: take_add min_def)
    moreover have "named_pipe_write_loop P p data len tot = Some (status, p')"
      using 3 wr rec by (subst named_pipe_write_loop.simps) (auto simp: word_neq_0_conv)
    ultimately show ?thesis
      using p'(2) law j k by (intro exI [of _ status] exI [of _ p'] exI [of _ "unat k + j"]) (auto simp: sub add)
  qed
qed

lemma pipe_write:
  assumes "unat len \<le> length data" and "unat len < 2 ^ 31"
  shows "\<exists>status p' k. freerds_named_pipe_write P p data len = Some (status, p') \<and>
           sent p' = sent p @ take k data \<and> incoming p' = incoming p \<and> k \<le> unat len \<and>
           (status = -1 \<or> status = int (unat len) \<and> k = unat len)"
  using pipe_write_loop [of len data 0 p] assms by (simp add: freerds_named_pipe_write_def)

end

text \<open>A pipe whose peer is there: a read with bytes on the way gets some, a write passes some on.\<close>

locale connected_pipe = named_pipe P incoming sent
  for P :: "'p pipe_ops" and incoming sent +
  assumes ReadFile_progress:
      "incoming p \<noteq> [] \<Longrightarrow> n \<noteq> 0 \<Longrightarrow> ReadFile P p n = (ok, bs, p') \<Longrightarrow> ok \<and> bs \<noteq> []"
    and WriteFile_progress:
      "data \<noteq> [] \<Longrightarrow> WriteFile P p data = (ok, k, p') \<Longrightarrow> ok \<and> k \<noteq> 0"
begin

lemma pipe_read_progress:
  assumes "incoming p \<noteq> []" and "n \<noteq> 0" and "unat n < 2 ^ 31"
    and "freerds_named_pipe_read P p n = (status, bs, p')"
  shows "status = int (length bs)" and "bs \<noteq> []"
proof -
  obtain ok where rd: "ReadFile P p n = (ok, bs, p')"
    using assms(4) by (auto simp: freerds_named_pipe_read_def Let_def split: prod.splits if_splits)
  have ok: "ok" "bs \<noteq> []" using ReadFile_progress [OF assms(1, 2) rd] by auto
  have "length bs < 2 ^ 31" using pipe_read(3) [OF assms(4, 3)] assms(3) by linarith
  then have "unat (of_nat (length bs) :: UINT32) = length bs" by (simp add: unat_of_nat)
  then have "(of_nat (length bs) :: UINT32) \<noteq> 0" using ok by (metis length_0_conv unat_0)
  then have "\<not> status < 0"
    using assms(4) rd ok sint_small [of "of_nat (length bs)"] \<open>length bs < 2 ^ 31\<close>
    by (auto simp: freerds_named_pipe_read_def unat_of_nat)
  then show "status = int (length bs)" and "bs \<noteq> []"
    using pipe_read(4) [OF assms(4, 3)] ok by auto
qed

text \<open>On such a pipe every byte goes through.\<close>

lemma pipe_write_loop_all:
  assumes "unat len \<le> length data" and "unat tot + unat len < 2 ^ 31"
  shows "\<exists>p'. named_pipe_write_loop P p data len tot = Some (int (unat tot + unat len), p') \<and>
              sent p' = sent p @ take (unat len) data \<and> incoming p' = incoming p"
  using assms
proof (induction "unat len" arbitrary: len data p tot rule: less_induct)
  case less
  show ?case
  proof (cases "len = 0")
    case True
    then show ?thesis
      using less.prems sint_small [of tot] by (subst named_pipe_write_loop.simps) auto
  next
    case False
    obtain ok k p1 where wr: "WriteFile P p (take (unat len) data) = (ok, k, p1)"
      by (cases "WriteFile P p (take (unat len) data)") auto
    note law = WriteFile_law [OF wr]
    have "take (unat len) data \<noteq> []"
      using False less.prems(1) by (auto simp: unat_eq_0 [symmetric] simp del: unat_eq_0)
    then have ok: "ok" "k \<noteq> 0" using WriteFile_progress [OF _ wr] by auto
    have k: "unat k \<le> unat len" using law by simp
    have "k \<le> len" using k by (simp add: word_le_nat_alt)
    then have sub: "unat (len - k) = unat len - unat k" by (simp add: unat_sub)
    have add: "unat (tot + k) = unat tot + unat k"
      using less.prems(2) k by (simp add: unat_plus_small)
    have "0 < unat k" using ok by (simp add: unat_gt_0)
    then have smaller: "unat (len - k) < unat len" using sub k by linarith
    have room: "unat (len - k) \<le> length (drop (unat k) data)"
      using less.prems(1) by (simp add: sub diff_le_mono)
    have sum: "unat (tot + k) + unat (len - k) < 2 ^ 31"
      using less.prems(2) k by (simp add: sub add)
    from less.hyps [OF smaller room sum, of p1] obtain p' where
      rec: "named_pipe_write_loop P p1 (drop (unat k) data) (len - k) (tot + k) =
              Some (int (unat (tot + k) + unat (len - k)), p')"
      and p': "sent p' = sent p1 @ take (unat (len - k)) (drop (unat k) data)" "incoming p' = incoming p1"
      by blast
    have "sent p' = sent p @ take (unat len) data"
      using p'(1) law k take_add [of "unat k" "unat len - unat k" data] by (simp add: sub min_def)
    then show ?thesis
      using False wr rec ok p'(2) law k
      by (subst named_pipe_write_loop.simps) (auto simp: word_neq_0_conv sub add)
  qed
qed

lemma pipe_write_all:
  assumes "unat len \<le> length data" and "unat len < 2 ^ 31"
  shows "\<exists>p'. freerds_named_pipe_write P p data len = Some (int (unat len), p') \<and>
              sent p' = sent p @ take (unat len) data \<and> incoming p' = incoming p"
  using pipe_write_loop_all [of len data 0 p] assms by (simp add: freerds_named_pipe_write_def)

end

section \<open>A pipe with this behaviour\<close>

text \<open>A byte queue in each direction; one operation moves at most \<open>cp_chunk + 1\<close> bytes.\<close>

record chunk_pipe =
  cp_in :: "byte list"
  cp_out :: "byte list"
  cp_chunk :: UINT16

definition cp_limit :: "chunk_pipe \<Rightarrow> nat" where
  "cp_limit p = unat (cp_chunk p) + 1"

definition cp_take :: "chunk_pipe \<Rightarrow> UINT32 \<Rightarrow> nat" where
  "cp_take p n = min (length (cp_in p)) (min (unat n) (cp_limit p))"

definition chunk_pipe_ops :: "chunk_pipe pipe_ops" where
  "chunk_pipe_ops =
     \<lparr>ReadFile = (\<lambda>p n. (True, take (cp_take p n) (cp_in p), p\<lparr>cp_in := drop (cp_take p n) (cp_in p)\<rparr>)),
      WriteFile = (\<lambda>p data. let bs = take (cp_limit p) data
                            in (True, of_nat (length bs), p\<lparr>cp_out := cp_out p @ bs\<rparr>))\<rparr>"

lemma cp_limit_bounds: "0 < cp_limit p" "cp_limit p \<le> 65536"
proof -
  have "unat (cp_chunk p) < 65536" using unsigned_less [of "cp_chunk p"] by simp
  then show "0 < cp_limit p" "cp_limit p \<le> 65536" by (simp_all add: cp_limit_def)
qed

interpretation cp: connected_pipe chunk_pipe_ops cp_in cp_out
proof (unfold_locales, goal_cases)
  case (2 p data ok k p')
  then have "unat k = min (cp_limit p) (length data)"
    using cp_limit_bounds(2) [of p] by (auto simp: chunk_pipe_ops_def Let_def unat_of_nat min_def)
  moreover have "take (min (cp_limit p) (length data)) data = take (cp_limit p) data"
    by (simp add: min_def)
  ultimately show ?case using 2 by (auto simp: chunk_pipe_ops_def Let_def)
next
  case (4 data p ok k p')
  then have "unat k = min (cp_limit p) (length data)"
    using cp_limit_bounds(2) [of p] by (auto simp: chunk_pipe_ops_def Let_def unat_of_nat min_def)
  then have "0 < unat k" using 4(1) cp_limit_bounds(1) [of p] by simp
  with 4 show ?case by (auto simp: chunk_pipe_ops_def Let_def)
qed (use cp_limit_bounds(1) in \<open>auto simp: cp_take_def chunk_pipe_ops_def Let_def unat_eq_0 [symmetric] simp del: unat_eq_0\<close>)

end
