(* ===== verification/Rds_Outbound.thy ===== *)
theory Rds_Outbound
  imports Rds_Dispatch Rds_Pipe
begin

text \<open>
  The sending half of a backend, from \<open>freerds/backend/outbound.c\<close>: the routines that fill in the type of
  a message, write its frame into the outbound stream and hand the bytes to the pipe.  The theory shows
  that each of them puts exactly the frame of its message on the pipe.
\<close>

section \<open>The state of a backend\<close>

text \<open>
  The fields of \<open>rds_backend\<close> that the message traffic uses.  The two function tables \<open>client\<close> and \<open>server\<close>
  are arguments of the routines that call them.
\<close>

record ('s, 'p) rdsBackend =
  ServerMode :: bool
  hClientPipe :: 'p
  OutboundStream :: 's
  InboundStream :: 's
  framebuffer :: RDS_FRAMEBUFFER

named_theorems outbound_defs \<open>the routines of the outbound interfaces\<close>

section \<open>Sending a message\<close>

definition freerds_client_outbound_write_message ::
  "'s wstream_ops \<Rightarrow> 'p pipe_ops \<Rightarrow> ('s, 'p) rdsBackend \<Rightarrow> RDS_MSG \<Rightarrow>
   (int \<times> ('s, 'p) rdsBackend \<times> RDS_MSG) option" where
  "freerds_client_outbound_write_message W P backend msg =
     do {
       let s = Stream_SetPosition W (OutboundStream backend) 0;
       (_, _, msg) \<leftarrow> freerds_client_message_write W None msg;
       let s = Stream_EnsureRemainingCapacity W s (unat (msg_length (msg_common msg)));
       (_, written, msg) \<leftarrow> freerds_client_message_write W (Some s) msg;
       s \<leftarrow> written;
       data \<leftarrow> load_bytes (Some (Stream_Buffer W s)) (unat (msg_length (msg_common msg)));
       (status, pipe) \<leftarrow> freerds_named_pipe_write P (hClientPipe backend) data (msg_length (msg_common msg));
       Some (status, backend\<lparr>hClientPipe := pipe, OutboundStream := s\<rparr>, msg)
     }"

definition freerds_server_outbound_write_message ::
  "'s wstream_ops \<Rightarrow> 'p pipe_ops \<Rightarrow> window_order_flags \<Rightarrow> ('s, 'p) rdsBackend \<Rightarrow> RDS_MSG \<Rightarrow>
   (int \<times> ('s, 'p) rdsBackend \<times> RDS_MSG) option" where
  "freerds_server_outbound_write_message W P K backend msg =
     do {
       let s = Stream_SetPosition W (OutboundStream backend) 0;
       (_, _, msg) \<leftarrow> freerds_server_message_write W K None msg;
       let s = Stream_EnsureRemainingCapacity W s (unat (msg_length (msg_common msg)));
       (_, written, msg) \<leftarrow> freerds_server_message_write W K (Some s) msg;
       s \<leftarrow> written;
       data \<leftarrow> load_bytes (Some (Stream_Buffer W s)) (unat (msg_length (msg_common msg)));
       (status, pipe) \<leftarrow> freerds_named_pipe_write P (hClientPipe backend) data (msg_length (msg_common msg));
       Some (status, backend\<lparr>hClientPipe := pipe, OutboundStream := s\<rparr>, msg)
     }"

text \<open>
  The second half of the routines that send one kind of event: size the message, write it and hand the
  bytes over.  Unlike the two routines above they do not ask the stream for room.
\<close>

definition send_event ::
  "'s wstream_ops \<Rightarrow> 'p pipe_ops \<Rightarrow> ('s option \<Rightarrow> 'm \<Rightarrow> (int \<times> 's option \<times> 'm) option) \<Rightarrow>
   ('s, 'p) rdsBackend \<Rightarrow> 'm \<Rightarrow> (int \<times> ('s, 'p) rdsBackend \<times> 'm) option" where
  "send_event W P wr backend msg =
     do {
       let s = Stream_SetPosition W (OutboundStream backend) 0;
       (len, _, msg) \<leftarrow> wr None msg;
       (_, written, msg) \<leftarrow> wr (Some s) msg;
       s \<leftarrow> written;
       let len = (word_of_int len :: UINT32);
       data \<leftarrow> load_bytes (Some (Stream_Buffer W s)) (unat len);
       (status, pipe) \<leftarrow> freerds_named_pipe_write P (hClientPipe backend) data len;
       Some (status, backend\<lparr>hClientPipe := pipe, OutboundStream := s\<rparr>, msg)
     }"

section \<open>The routines of the interfaces\<close>

subsection \<open>Client events\<close>

text \<open>\<open>msg\<close> is the message on the stack of the routine, before its fields are set.\<close>

definition freerds_client_outbound_synchronize_keyboard_event ::
  "'s wstream_ops \<Rightarrow> 'p pipe_ops \<Rightarrow> ('s, 'p) rdsBackend \<Rightarrow> UINT32 \<Rightarrow> RDS_MSG_SYNCHRONIZE_KEYBOARD_EVENT \<Rightarrow>
   (int \<times> ('s, 'p) rdsBackend \<times> RDS_MSG_SYNCHRONIZE_KEYBOARD_EVENT) option" where
  [outbound_defs]: "freerds_client_outbound_synchronize_keyboard_event W P backend flags msg =
     (let msg = msg\<lparr>msgFlags := 0\<rparr>;
          msg = msg\<lparr>msg_type := 104\<rparr>;
          msg = msg\<lparr>sync_flags := flags\<rparr>
      in send_event W P (\<lambda>s m. Some (freerds_write_synchronize_keyboard_event W s m)) backend msg)"

definition freerds_client_outbound_scancode_keyboard_event ::
  "'s wstream_ops \<Rightarrow> 'p pipe_ops \<Rightarrow> ('s, 'p) rdsBackend \<Rightarrow> UINT32 \<Rightarrow> UINT32 \<Rightarrow> UINT32 \<Rightarrow> RDS_MSG_SCANCODE_KEYBOARD_EVENT \<Rightarrow>
   (int \<times> ('s, 'p) rdsBackend \<times> RDS_MSG_SCANCODE_KEYBOARD_EVENT) option" where
  [outbound_defs]: "freerds_client_outbound_scancode_keyboard_event W P backend flags code keyboardType msg =
     (let msg = msg\<lparr>msgFlags := 0\<rparr>;
          msg = msg\<lparr>msg_type := 105\<rparr>;
          msg = msg\<lparr>scan_flags := flags\<rparr>;
          msg = msg\<lparr>scan_code := code\<rparr>;
          msg = msg\<lparr>scan_keyboardType := keyboardType\<rparr>
      in send_event W P (\<lambda>s m. Some (freerds_write_scancode_keyboard_event W s m)) backend msg)"

definition freerds_client_outbound_virtual_keyboard_event ::
  "'s wstream_ops \<Rightarrow> 'p pipe_ops \<Rightarrow> ('s, 'p) rdsBackend \<Rightarrow> UINT32 \<Rightarrow> UINT32 \<Rightarrow> RDS_MSG_VIRTUAL_KEYBOARD_EVENT \<Rightarrow>
   (int \<times> ('s, 'p) rdsBackend \<times> RDS_MSG_VIRTUAL_KEYBOARD_EVENT) option" where
  [outbound_defs]: "freerds_client_outbound_virtual_keyboard_event W P backend flags code msg =
     (let msg = msg\<lparr>msgFlags := 0\<rparr>;
          msg = msg\<lparr>msg_type := 106\<rparr>;
          msg = msg\<lparr>vkey_flags := flags\<rparr>;
          msg = msg\<lparr>vkey_code := code\<rparr>
      in send_event W P (\<lambda>s m. Some (freerds_write_virtual_keyboard_event W s m)) backend msg)"

definition freerds_client_outbound_unicode_keyboard_event ::
  "'s wstream_ops \<Rightarrow> 'p pipe_ops \<Rightarrow> ('s, 'p) rdsBackend \<Rightarrow> UINT32 \<Rightarrow> UINT32 \<Rightarrow> RDS_MSG_UNICODE_KEYBOARD_EVENT \<Rightarrow>
   (int \<times> ('s, 'p) rdsBackend \<times> RDS_MSG_UNICODE_KEYBOARD_EVENT) option" where
  [outbound_defs]: "freerds_client_outbound_unicode_keyboard_event W P backend flags code msg =
     (let msg = msg\<lparr>msgFlags := 0\<rparr>;
          msg = msg\<lparr>msg_type := 107\<rparr>;
          msg = msg\<lparr>ukey_flags := flags\<rparr>;
          msg = msg\<lparr>ukey_code := code\<rparr>
      in send_event W P (\<lambda>s m. Some (freerds_write_unicode_keyboard_event W s m)) backend msg)"

definition freerds_client_outbound_mouse_event ::
  "'s wstream_ops \<Rightarrow> 'p pipe_ops \<Rightarrow> ('s, 'p) rdsBackend \<Rightarrow> UINT32 \<Rightarrow> UINT32 \<Rightarrow> UINT32 \<Rightarrow> RDS_MSG_MOUSE_EVENT \<Rightarrow>
   (int \<times> ('s, 'p) rdsBackend \<times> RDS_MSG_MOUSE_EVENT) option" where
  [outbound_defs]: "freerds_client_outbound_mouse_event W P backend flags x y msg =
     (let msg = msg\<lparr>msgFlags := 0\<rparr>;
          msg = msg\<lparr>msg_type := 108\<rparr>;
          msg = msg\<lparr>mouse_flags := flags\<rparr>;
          msg = msg\<lparr>mouse_x := x\<rparr>;
          msg = msg\<lparr>mouse_y := y\<rparr>
      in send_event W P (\<lambda>s m. Some (freerds_write_mouse_event W s m)) backend msg)"

definition freerds_client_outbound_extended_mouse_event ::
  "'s wstream_ops \<Rightarrow> 'p pipe_ops \<Rightarrow> ('s, 'p) rdsBackend \<Rightarrow> UINT32 \<Rightarrow> UINT32 \<Rightarrow> UINT32 \<Rightarrow> RDS_MSG_EXTENDED_MOUSE_EVENT \<Rightarrow>
   (int \<times> ('s, 'p) rdsBackend \<times> RDS_MSG_EXTENDED_MOUSE_EVENT) option" where
  [outbound_defs]: "freerds_client_outbound_extended_mouse_event W P backend flags x y msg =
     (let msg = msg\<lparr>msgFlags := 0\<rparr>;
          msg = msg\<lparr>msg_type := 109\<rparr>;
          msg = msg\<lparr>xmouse_flags := flags\<rparr>;
          msg = msg\<lparr>xmouse_x := x\<rparr>;
          msg = msg\<lparr>xmouse_y := y\<rparr>
      in send_event W P (\<lambda>s m. Some (freerds_write_extended_mouse_event W s m)) backend msg)"

definition freerds_client_outbound_vblank_event ::
  "'s wstream_ops \<Rightarrow> 'p pipe_ops \<Rightarrow> ('s, 'p) rdsBackend \<Rightarrow> RDS_MSG_VBLANK_EVENT \<Rightarrow>
   (int \<times> ('s, 'p) rdsBackend \<times> RDS_MSG_VBLANK_EVENT) option" where
  [outbound_defs]: "freerds_client_outbound_vblank_event W P backend msg =
     (let msg = msg\<lparr>msgFlags := 0\<rparr>;
          msg = msg\<lparr>msg_type := 110\<rparr>
      in send_event W P (\<lambda>s m. Some (freerds_write_vblank_event W s m)) backend msg)"

definition freerds_client_outbound_suppress_output ::
  "'s wstream_ops \<Rightarrow> 'p pipe_ops \<Rightarrow> ('s, 'p) rdsBackend \<Rightarrow> UINT32 \<Rightarrow> RDS_MSG_SUPPRESS_OUTPUT \<Rightarrow>
   (int \<times> ('s, 'p) rdsBackend \<times> RDS_MSG_SUPPRESS_OUTPUT) option" where
  [outbound_defs]: "freerds_client_outbound_suppress_output W P backend suppress_output msg =
     (let msg = msg\<lparr>msgFlags := 0\<rparr>;
          msg = msg\<lparr>msg_type := 114\<rparr>;
          msg = msg\<lparr>suppress_activeOutput := suppress_output\<rparr>
      in send_event W P (\<lambda>s m. Some (freerds_write_suppress_output W s m)) backend msg)"

definition freerds_client_outbound_logon_user ::
  "'s wstream_ops \<Rightarrow> 'p pipe_ops \<Rightarrow> ('s, 'p) rdsBackend \<Rightarrow> RDS_MSG_LOGON_USER \<Rightarrow>
   (int \<times> ('s, 'p) rdsBackend \<times> RDS_MSG) option" where
  [outbound_defs]: "freerds_client_outbound_logon_user W P backend msg =
     (let msg = msg\<lparr>msg_type := 111\<rparr>
      in freerds_client_outbound_write_message W P backend (LogonUser msg))"

definition freerds_client_outbound_logoff_user ::
  "'s wstream_ops \<Rightarrow> 'p pipe_ops \<Rightarrow> ('s, 'p) rdsBackend \<Rightarrow> RDS_MSG_LOGOFF_USER \<Rightarrow>
   (int \<times> ('s, 'p) rdsBackend \<times> RDS_MSG) option" where
  [outbound_defs]: "freerds_client_outbound_logoff_user W P backend msg =
     (let msg = msg\<lparr>msg_type := 112\<rparr>
      in freerds_client_outbound_write_message W P backend (LogoffUser msg))"

subsection \<open>Server messages\<close>

definition freerds_server_outbound_begin_update ::
  "'s wstream_ops \<Rightarrow> 'p pipe_ops \<Rightarrow> window_order_flags \<Rightarrow> ('s, 'p) rdsBackend \<Rightarrow> RDS_MSG_BEGIN_UPDATE \<Rightarrow>
   (int \<times> ('s, 'p) rdsBackend \<times> RDS_MSG) option" where
  [outbound_defs]: "freerds_server_outbound_begin_update W P K backend msg =
     (let msg = msg\<lparr>msg_type := 1\<rparr>
      in freerds_server_outbound_write_message W P K backend (BeginUpdate msg))"

definition freerds_server_outbound_end_update ::
  "'s wstream_ops \<Rightarrow> 'p pipe_ops \<Rightarrow> window_order_flags \<Rightarrow> ('s, 'p) rdsBackend \<Rightarrow> RDS_MSG_END_UPDATE \<Rightarrow>
   (int \<times> ('s, 'p) rdsBackend \<times> RDS_MSG) option" where
  [outbound_defs]: "freerds_server_outbound_end_update W P K backend msg =
     (let msg = msg\<lparr>msg_type := 2\<rparr>
      in freerds_server_outbound_write_message W P K backend (EndUpdate msg))"

definition freerds_server_outbound_set_clipping_region ::
  "'s wstream_ops \<Rightarrow> 'p pipe_ops \<Rightarrow> window_order_flags \<Rightarrow> ('s, 'p) rdsBackend \<Rightarrow> RDS_MSG_SET_CLIPPING_REGION \<Rightarrow>
   (int \<times> ('s, 'p) rdsBackend \<times> RDS_MSG) option" where
  [outbound_defs]: "freerds_server_outbound_set_clipping_region W P K backend msg =
     (let msg = msg\<lparr>msg_type := 3\<rparr>
      in freerds_server_outbound_write_message W P K backend (SetClippingRegion msg))"

definition freerds_server_outbound_opaque_rect ::
  "'s wstream_ops \<Rightarrow> 'p pipe_ops \<Rightarrow> window_order_flags \<Rightarrow> ('s, 'p) rdsBackend \<Rightarrow> RDS_MSG_OPAQUE_RECT \<Rightarrow>
   (int \<times> ('s, 'p) rdsBackend \<times> RDS_MSG) option" where
  [outbound_defs]: "freerds_server_outbound_opaque_rect W P K backend msg =
     (let msg = msg\<lparr>msg_type := 4\<rparr>
      in freerds_server_outbound_write_message W P K backend (OpaqueRect msg))"

definition freerds_server_outbound_screen_blt ::
  "'s wstream_ops \<Rightarrow> 'p pipe_ops \<Rightarrow> window_order_flags \<Rightarrow> ('s, 'p) rdsBackend \<Rightarrow> RDS_MSG_SCREEN_BLT \<Rightarrow>
   (int \<times> ('s, 'p) rdsBackend \<times> RDS_MSG) option" where
  [outbound_defs]: "freerds_server_outbound_screen_blt W P K backend msg =
     (let msg = msg\<lparr>msg_type := 5\<rparr>
      in freerds_server_outbound_write_message W P K backend (ScreenBlt msg))"

definition freerds_server_outbound_paint_rect ::
  "'s wstream_ops \<Rightarrow> 'p pipe_ops \<Rightarrow> window_order_flags \<Rightarrow> ('s, 'p) rdsBackend \<Rightarrow> RDS_MSG_PAINT_RECT \<Rightarrow>
   (int \<times> ('s, 'p) rdsBackend \<times> RDS_MSG) option" where
  [outbound_defs]: "freerds_server_outbound_paint_rect W P K backend msg =
     (let msg = msg\<lparr>msg_type := 6\<rparr>
      in freerds_server_outbound_write_message W P K backend (PaintRect msg))"

definition freerds_server_outbound_patblt ::
  "'s wstream_ops \<Rightarrow> 'p pipe_ops \<Rightarrow> window_order_flags \<Rightarrow> ('s, 'p) rdsBackend \<Rightarrow> RDS_MSG_PATBLT \<Rightarrow>
   (int \<times> ('s, 'p) rdsBackend \<times> RDS_MSG) option" where
  [outbound_defs]: "freerds_server_outbound_patblt W P K backend msg =
     (let msg = msg\<lparr>msg_type := 7\<rparr>
      in freerds_server_outbound_write_message W P K backend (PatBlt msg))"

definition freerds_server_outbound_dstblt ::
  "'s wstream_ops \<Rightarrow> 'p pipe_ops \<Rightarrow> window_order_flags \<Rightarrow> ('s, 'p) rdsBackend \<Rightarrow> RDS_MSG_DSTBLT \<Rightarrow>
   (int \<times> ('s, 'p) rdsBackend \<times> RDS_MSG) option" where
  [outbound_defs]: "freerds_server_outbound_dstblt W P K backend msg =
     (let msg = msg\<lparr>msg_type := 8\<rparr>
      in freerds_server_outbound_write_message W P K backend (DstBlt msg))"

definition freerds_server_outbound_line_to ::
  "'s wstream_ops \<Rightarrow> 'p pipe_ops \<Rightarrow> window_order_flags \<Rightarrow> ('s, 'p) rdsBackend \<Rightarrow> RDS_MSG_LINE_TO \<Rightarrow>
   (int \<times> ('s, 'p) rdsBackend \<times> RDS_MSG) option" where
  [outbound_defs]: "freerds_server_outbound_line_to W P K backend msg =
     (let msg = msg\<lparr>msg_type := 9\<rparr>
      in freerds_server_outbound_write_message W P K backend (LineTo msg))"

definition freerds_server_outbound_create_offscreen_surface ::
  "'s wstream_ops \<Rightarrow> 'p pipe_ops \<Rightarrow> window_order_flags \<Rightarrow> ('s, 'p) rdsBackend \<Rightarrow> RDS_MSG_CREATE_OFFSCREEN_SURFACE \<Rightarrow>
   (int \<times> ('s, 'p) rdsBackend \<times> RDS_MSG) option" where
  [outbound_defs]: "freerds_server_outbound_create_offscreen_surface W P K backend msg =
     (let msg = msg\<lparr>msg_type := 10\<rparr>
      in freerds_server_outbound_write_message W P K backend (CreateOffscreenSurface msg))"

definition freerds_server_outbound_switch_offscreen_surface ::
  "'s wstream_ops \<Rightarrow> 'p pipe_ops \<Rightarrow> window_order_flags \<Rightarrow> ('s, 'p) rdsBackend \<Rightarrow> RDS_MSG_SWITCH_OFFSCREEN_SURFACE \<Rightarrow>
   (int \<times> ('s, 'p) rdsBackend \<times> RDS_MSG) option" where
  [outbound_defs]: "freerds_server_outbound_switch_offscreen_surface W P K backend msg =
     (let msg = msg\<lparr>msg_type := 11\<rparr>
      in freerds_server_outbound_write_message W P K backend (SwitchOffscreenSurface msg))"

definition freerds_server_outbound_delete_offscreen_surface ::
  "'s wstream_ops \<Rightarrow> 'p pipe_ops \<Rightarrow> window_order_flags \<Rightarrow> ('s, 'p) rdsBackend \<Rightarrow> RDS_MSG_DELETE_OFFSCREEN_SURFACE \<Rightarrow>
   (int \<times> ('s, 'p) rdsBackend \<times> RDS_MSG) option" where
  [outbound_defs]: "freerds_server_outbound_delete_offscreen_surface W P K backend msg =
     (let msg = msg\<lparr>msg_type := 12\<rparr>
      in freerds_server_outbound_write_message W P K backend (DeleteOffscreenSurface msg))"

definition freerds_server_outbound_paint_offscreen_surface ::
  "'s wstream_ops \<Rightarrow> 'p pipe_ops \<Rightarrow> window_order_flags \<Rightarrow> ('s, 'p) rdsBackend \<Rightarrow> RDS_MSG_PAINT_OFFSCREEN_SURFACE \<Rightarrow>
   (int \<times> ('s, 'p) rdsBackend \<times> RDS_MSG) option" where
  [outbound_defs]: "freerds_server_outbound_paint_offscreen_surface W P K backend msg =
     (let msg = msg\<lparr>msg_type := 13\<rparr>
      in freerds_server_outbound_write_message W P K backend (PaintOffscreenSurface msg))"

definition freerds_server_outbound_set_palette ::
  "'s wstream_ops \<Rightarrow> 'p pipe_ops \<Rightarrow> window_order_flags \<Rightarrow> ('s, 'p) rdsBackend \<Rightarrow> RDS_MSG_SET_PALETTE \<Rightarrow>
   (int \<times> ('s, 'p) rdsBackend \<times> RDS_MSG) option" where
  [outbound_defs]: "freerds_server_outbound_set_palette W P K backend msg =
     (let msg = msg\<lparr>msg_type := 14\<rparr>
      in freerds_server_outbound_write_message W P K backend (SetPalette msg))"

definition freerds_server_outbound_cache_glyph ::
  "'s wstream_ops \<Rightarrow> 'p pipe_ops \<Rightarrow> window_order_flags \<Rightarrow> ('s, 'p) rdsBackend \<Rightarrow> RDS_MSG_CACHE_GLYPH \<Rightarrow>
   (int \<times> ('s, 'p) rdsBackend \<times> RDS_MSG) option" where
  [outbound_defs]: "freerds_server_outbound_cache_glyph W P K backend msg =
     (let msg = msg\<lparr>msg_type := 15\<rparr>
      in freerds_server_outbound_write_message W P K backend (CacheGlyph msg))"

definition freerds_server_outbound_glyph_index ::
  "'s wstream_ops \<Rightarrow> 'p pipe_ops \<Rightarrow> window_order_flags \<Rightarrow> ('s, 'p) rdsBackend \<Rightarrow> RDS_MSG_GLYPH_INDEX \<Rightarrow>
   (int \<times> ('s, 'p) rdsBackend \<times> RDS_MSG) option" where
  [outbound_defs]: "freerds_server_outbound_glyph_index W P K backend msg =
     (let msg = msg\<lparr>msg_type := 16\<rparr>
      in freerds_server_outbound_write_message W P K backend (GlyphIndex msg))"

definition freerds_server_outbound_set_pointer ::
  "'s wstream_ops \<Rightarrow> 'p pipe_ops \<Rightarrow> window_order_flags \<Rightarrow> ('s, 'p) rdsBackend \<Rightarrow> RDS_MSG_SET_POINTER \<Rightarrow>
   (int \<times> ('s, 'p) rdsBackend \<times> RDS_MSG) option" where
  [outbound_defs]: "freerds_server_outbound_set_pointer W P K backend msg =
     (let msg = msg\<lparr>msg_type := 17\<rparr>
      in freerds_server_outbound_write_message W P K backend (SetPointer msg))"

definition freerds_server_outbound_shared_framebuffer ::
  "'s wstream_ops \<Rightarrow> 'p pipe_ops \<Rightarrow> window_order_flags \<Rightarrow> ('s, 'p) rdsBackend \<Rightarrow> RDS_MSG_SHARED_FRAMEBUFFER \<Rightarrow>
   (int \<times> ('s, 'p) rdsBackend \<times> RDS_MSG) option" where
  [outbound_defs]: "freerds_server_outbound_shared_framebuffer W P K backend msg =
     (let msg = msg\<lparr>msg_type := 18\<rparr>
      in freerds_server_outbound_write_message W P K backend (SharedFramebuffer msg))"

definition freerds_server_outbound_beep ::
  "'s wstream_ops \<Rightarrow> 'p pipe_ops \<Rightarrow> window_order_flags \<Rightarrow> ('s, 'p) rdsBackend \<Rightarrow> RDS_MSG_BEEP \<Rightarrow>
   (int \<times> ('s, 'p) rdsBackend \<times> RDS_MSG) option" where
  [outbound_defs]: "freerds_server_outbound_beep W P K backend msg =
     (let msg = msg\<lparr>msg_type := 19\<rparr>
      in freerds_server_outbound_write_message W P K backend (Beep msg))"

definition freerds_server_outbound_reset ::
  "'s wstream_ops \<Rightarrow> 'p pipe_ops \<Rightarrow> window_order_flags \<Rightarrow> ('s, 'p) rdsBackend \<Rightarrow> RDS_MSG_RESET \<Rightarrow>
   (int \<times> ('s, 'p) rdsBackend \<times> RDS_MSG) option" where
  [outbound_defs]: "freerds_server_outbound_reset W P K backend msg =
     (let msg = msg\<lparr>msg_type := 20\<rparr>
      in freerds_server_outbound_write_message W P K backend (Reset msg))"

definition freerds_server_outbound_window_new_update ::
  "'s wstream_ops \<Rightarrow> 'p pipe_ops \<Rightarrow> window_order_flags \<Rightarrow> ('s, 'p) rdsBackend \<Rightarrow> RDS_MSG_WINDOW_NEW_UPDATE \<Rightarrow>
   (int \<times> ('s, 'p) rdsBackend \<times> RDS_MSG) option" where
  [outbound_defs]: "freerds_server_outbound_window_new_update W P K backend msg =
     (let msg = msg\<lparr>msg_type := 21\<rparr>
      in freerds_server_outbound_write_message W P K backend (WindowNewUpdate msg))"

definition freerds_server_outbound_window_delete ::
  "'s wstream_ops \<Rightarrow> 'p pipe_ops \<Rightarrow> window_order_flags \<Rightarrow> ('s, 'p) rdsBackend \<Rightarrow> RDS_MSG_WINDOW_DELETE \<Rightarrow>
   (int \<times> ('s, 'p) rdsBackend \<times> RDS_MSG) option" where
  [outbound_defs]: "freerds_server_outbound_window_delete W P K backend msg =
     (let msg = msg\<lparr>msg_type := 22\<rparr>
      in freerds_server_outbound_write_message W P K backend (WindowDelete msg))"

definition freerds_server_outbound_set_system_pointer ::
  "'s wstream_ops \<Rightarrow> 'p pipe_ops \<Rightarrow> window_order_flags \<Rightarrow> ('s, 'p) rdsBackend \<Rightarrow> RDS_MSG_SET_SYSTEM_POINTER \<Rightarrow>
   (int \<times> ('s, 'p) rdsBackend \<times> RDS_MSG) option" where
  [outbound_defs]: "freerds_server_outbound_set_system_pointer W P K backend msg =
     (let msg = msg\<lparr>msg_type := 23\<rparr>
      in freerds_server_outbound_write_message W P K backend (SetSystemPointer msg))"

text \<open>
  The table of the server side, as the function each entry calls; the entries \<open>LogonUser\<close> and
  \<open>LogoffUser\<close> are left at the null pointer, and \<open>SuppressOutput\<close> is no server message.
\<close>

fun freerds_server_outbound_interface_new ::
  "'s wstream_ops \<Rightarrow> 'p pipe_ops \<Rightarrow> window_order_flags \<Rightarrow> RDS_MSG \<Rightarrow>
   (('s, 'p) rdsBackend \<Rightarrow> (int \<times> ('s, 'p) rdsBackend \<times> RDS_MSG) option) option" where
  "freerds_server_outbound_interface_new W P K (BeginUpdate m) =
     Some (\<lambda>backend. freerds_server_outbound_begin_update W P K backend m)"
| "freerds_server_outbound_interface_new W P K (EndUpdate m) =
     Some (\<lambda>backend. freerds_server_outbound_end_update W P K backend m)"
| "freerds_server_outbound_interface_new W P K (SetClippingRegion m) =
     Some (\<lambda>backend. freerds_server_outbound_set_clipping_region W P K backend m)"
| "freerds_server_outbound_interface_new W P K (OpaqueRect m) =
     Some (\<lambda>backend. freerds_server_outbound_opaque_rect W P K backend m)"
| "freerds_server_outbound_interface_new W P K (ScreenBlt m) =
     Some (\<lambda>backend. freerds_server_outbound_screen_blt W P K backend m)"
| "freerds_server_outbound_interface_new W P K (PaintRect m) =
     Some (\<lambda>backend. freerds_server_outbound_paint_rect W P K backend m)"
| "freerds_server_outbound_interface_new W P K (PatBlt m) =
     Some (\<lambda>backend. freerds_server_outbound_patblt W P K backend m)"
| "freerds_server_outbound_interface_new W P K (DstBlt m) =
     Some (\<lambda>backend. freerds_server_outbound_dstblt W P K backend m)"
| "freerds_server_outbound_interface_new W P K (LineTo m) =
     Some (\<lambda>backend. freerds_server_outbound_line_to W P K backend m)"
| "freerds_server_outbound_interface_new W P K (CreateOffscreenSurface m) =
     Some (\<lambda>backend. freerds_server_outbound_create_offscreen_surface W P K backend m)"
| "freerds_server_outbound_interface_new W P K (SwitchOffscreenSurface m) =
     Some (\<lambda>backend. freerds_server_outbound_switch_offscreen_surface W P K backend m)"
| "freerds_server_outbound_interface_new W P K (DeleteOffscreenSurface m) =
     Some (\<lambda>backend. freerds_server_outbound_delete_offscreen_surface W P K backend m)"
| "freerds_server_outbound_interface_new W P K (PaintOffscreenSurface m) =
     Some (\<lambda>backend. freerds_server_outbound_paint_offscreen_surface W P K backend m)"
| "freerds_server_outbound_interface_new W P K (SetPalette m) =
     Some (\<lambda>backend. freerds_server_outbound_set_palette W P K backend m)"
| "freerds_server_outbound_interface_new W P K (CacheGlyph m) =
     Some (\<lambda>backend. freerds_server_outbound_cache_glyph W P K backend m)"
| "freerds_server_outbound_interface_new W P K (GlyphIndex m) =
     Some (\<lambda>backend. freerds_server_outbound_glyph_index W P K backend m)"
| "freerds_server_outbound_interface_new W P K (SetPointer m) =
     Some (\<lambda>backend. freerds_server_outbound_set_pointer W P K backend m)"
| "freerds_server_outbound_interface_new W P K (SharedFramebuffer m) =
     Some (\<lambda>backend. freerds_server_outbound_shared_framebuffer W P K backend m)"
| "freerds_server_outbound_interface_new W P K (Beep m) =
     Some (\<lambda>backend. freerds_server_outbound_beep W P K backend m)"
| "freerds_server_outbound_interface_new W P K (Reset m) =
     Some (\<lambda>backend. freerds_server_outbound_reset W P K backend m)"
| "freerds_server_outbound_interface_new W P K (WindowNewUpdate m) =
     Some (\<lambda>backend. freerds_server_outbound_window_new_update W P K backend m)"
| "freerds_server_outbound_interface_new W P K (WindowDelete m) =
     Some (\<lambda>backend. freerds_server_outbound_window_delete W P K backend m)"
| "freerds_server_outbound_interface_new W P K (SetSystemPointer m) =
     Some (\<lambda>backend. freerds_server_outbound_set_system_pointer W P K backend m)"
| "freerds_server_outbound_interface_new W P K msg = None"

text \<open>
  The entries of \<open>rds_client_interface\<close> with their arguments.
\<close>

datatype client_call =
    Capabilities RDS_MSG_CAPABILITIES
  | SynchronizeKeyboardEvent UINT32
  | ScancodeKeyboardEvent UINT32 UINT32 UINT32
  | VirtualKeyboardEvent UINT32 UINT32
  | UnicodeKeyboardEvent UINT32 UINT32
  | MouseEvent UINT32 UINT32 UINT32
  | ExtendedMouseEvent UINT32 UINT32 UINT32
  | VBlankEvent
  | ClientLogonUser RDS_MSG_LOGON_USER
  | ClientLogoffUser RDS_MSG_LOGOFF_USER
  | ClientSuppressOutput UINT32

text \<open>
  What the local variables of the routines hold before they are set: \<open>loc_server\<close> is the memory of the
  server message, seen as each structure in turn.
\<close>

record rds_locals =
  loc_common :: RDS_MSG_COMMON
  loc_server :: RDS_MSG
  loc_caps :: RDS_MSG_CAPABILITIES
  loc_sync :: RDS_MSG_SYNCHRONIZE_KEYBOARD_EVENT
  loc_scan :: RDS_MSG_SCANCODE_KEYBOARD_EVENT
  loc_vkey :: RDS_MSG_VIRTUAL_KEYBOARD_EVENT
  loc_ukey :: RDS_MSG_UNICODE_KEYBOARD_EVENT
  loc_mouse :: RDS_MSG_MOUSE_EVENT
  loc_xmouse :: RDS_MSG_EXTENDED_MOUSE_EVENT
  loc_suppress :: RDS_MSG_SUPPRESS_OUTPUT

text \<open>
  The table of the client side: the function an entry calls, applied to its arguments.  The entry
  \<open>Capabilities\<close> is left at the null pointer.
\<close>

definition drop_msg :: "int \<times> ('s, 'p) rdsBackend \<times> 'm \<Rightarrow> int \<times> ('s, 'p) rdsBackend" where
  "drop_msg r = (fst r, fst (snd r))"

fun freerds_client_outbound_interface_new ::
  "'s wstream_ops \<Rightarrow> 'p pipe_ops \<Rightarrow> rds_locals \<Rightarrow> client_call \<Rightarrow>
   (('s, 'p) rdsBackend \<Rightarrow> (int \<times> ('s, 'p) rdsBackend) option) option" where
  "freerds_client_outbound_interface_new W P loc (SynchronizeKeyboardEvent flags) =
     Some (\<lambda>b. map_option drop_msg (freerds_client_outbound_synchronize_keyboard_event W P b flags (loc_sync loc)))"
| "freerds_client_outbound_interface_new W P loc (ScancodeKeyboardEvent flags code keyboardType) =
     Some (\<lambda>b. map_option drop_msg
       (freerds_client_outbound_scancode_keyboard_event W P b flags code keyboardType (loc_scan loc)))"
| "freerds_client_outbound_interface_new W P loc (VirtualKeyboardEvent flags code) =
     Some (\<lambda>b. map_option drop_msg (freerds_client_outbound_virtual_keyboard_event W P b flags code (loc_vkey loc)))"
| "freerds_client_outbound_interface_new W P loc (UnicodeKeyboardEvent flags code) =
     Some (\<lambda>b. map_option drop_msg (freerds_client_outbound_unicode_keyboard_event W P b flags code (loc_ukey loc)))"
| "freerds_client_outbound_interface_new W P loc (MouseEvent flags x y) =
     Some (\<lambda>b. map_option drop_msg (freerds_client_outbound_mouse_event W P b flags x y (loc_mouse loc)))"
| "freerds_client_outbound_interface_new W P loc (ExtendedMouseEvent flags x y) =
     Some (\<lambda>b. map_option drop_msg (freerds_client_outbound_extended_mouse_event W P b flags x y (loc_xmouse loc)))"
| "freerds_client_outbound_interface_new W P loc VBlankEvent =
     Some (\<lambda>b. map_option drop_msg (freerds_client_outbound_vblank_event W P b (loc_common loc)))"
| "freerds_client_outbound_interface_new W P loc (ClientLogonUser m) =
     Some (\<lambda>b. map_option drop_msg (freerds_client_outbound_logon_user W P b m))"
| "freerds_client_outbound_interface_new W P loc (ClientLogoffUser m) =
     Some (\<lambda>b. map_option drop_msg (freerds_client_outbound_logoff_user W P b m))"
| "freerds_client_outbound_interface_new W P loc (ClientSuppressOutput activeOutput) =
     Some (\<lambda>b. map_option drop_msg (freerds_client_outbound_suppress_output W P b activeOutput (loc_suppress loc)))"
| "freerds_client_outbound_interface_new W P loc (Capabilities m) = None"

text \<open>The message an entry sends: the caller's, with the type of the entry.\<close>

fun server_retype :: "RDS_MSG \<Rightarrow> RDS_MSG" where
  "server_retype (BeginUpdate m) = BeginUpdate (m\<lparr>msg_type := 1\<rparr>)"
| "server_retype (EndUpdate m) = EndUpdate (m\<lparr>msg_type := 2\<rparr>)"
| "server_retype (SetClippingRegion m) = SetClippingRegion (m\<lparr>msg_type := 3\<rparr>)"
| "server_retype (OpaqueRect m) = OpaqueRect (m\<lparr>msg_type := 4\<rparr>)"
| "server_retype (ScreenBlt m) = ScreenBlt (m\<lparr>msg_type := 5\<rparr>)"
| "server_retype (PaintRect m) = PaintRect (m\<lparr>msg_type := 6\<rparr>)"
| "server_retype (PatBlt m) = PatBlt (m\<lparr>msg_type := 7\<rparr>)"
| "server_retype (DstBlt m) = DstBlt (m\<lparr>msg_type := 8\<rparr>)"
| "server_retype (LineTo m) = LineTo (m\<lparr>msg_type := 9\<rparr>)"
| "server_retype (CreateOffscreenSurface m) = CreateOffscreenSurface (m\<lparr>msg_type := 10\<rparr>)"
| "server_retype (SwitchOffscreenSurface m) = SwitchOffscreenSurface (m\<lparr>msg_type := 11\<rparr>)"
| "server_retype (DeleteOffscreenSurface m) = DeleteOffscreenSurface (m\<lparr>msg_type := 12\<rparr>)"
| "server_retype (PaintOffscreenSurface m) = PaintOffscreenSurface (m\<lparr>msg_type := 13\<rparr>)"
| "server_retype (SetPalette m) = SetPalette (m\<lparr>msg_type := 14\<rparr>)"
| "server_retype (CacheGlyph m) = CacheGlyph (m\<lparr>msg_type := 15\<rparr>)"
| "server_retype (GlyphIndex m) = GlyphIndex (m\<lparr>msg_type := 16\<rparr>)"
| "server_retype (SetPointer m) = SetPointer (m\<lparr>msg_type := 17\<rparr>)"
| "server_retype (SharedFramebuffer m) = SharedFramebuffer (m\<lparr>msg_type := 18\<rparr>)"
| "server_retype (Beep m) = Beep (m\<lparr>msg_type := 19\<rparr>)"
| "server_retype (Reset m) = Reset (m\<lparr>msg_type := 20\<rparr>)"
| "server_retype (WindowNewUpdate m) = WindowNewUpdate (m\<lparr>msg_type := 21\<rparr>)"
| "server_retype (WindowDelete m) = WindowDelete (m\<lparr>msg_type := 22\<rparr>)"
| "server_retype (SetSystemPointer m) = SetSystemPointer (m\<lparr>msg_type := 23\<rparr>)"
| "server_retype msg = msg"

section \<open>What goes over the pipe\<close>

text \<open>
  Both \<open>write_message\<close> routines have the same shape, with the generic writer as its parameter; what they
  hand to the pipe follows from the contract \<open>msg_sender\<close>.
\<close>

definition write_message_with ::
  "'s wstream_ops \<Rightarrow> 'p pipe_ops \<Rightarrow> ('s option \<Rightarrow> RDS_MSG \<Rightarrow> (int \<times> 's option \<times> RDS_MSG) option) \<Rightarrow>
   ('s, 'p) rdsBackend \<Rightarrow> RDS_MSG \<Rightarrow> (int \<times> ('s, 'p) rdsBackend \<times> RDS_MSG) option" where
  "write_message_with W P wr backend msg =
     do {
       let s = Stream_SetPosition W (OutboundStream backend) 0;
       (_, _, msg) \<leftarrow> wr None msg;
       let s = Stream_EnsureRemainingCapacity W s (unat (msg_length (msg_common msg)));
       (_, written, msg) \<leftarrow> wr (Some s) msg;
       s \<leftarrow> written;
       data \<leftarrow> load_bytes (Some (Stream_Buffer W s)) (unat (msg_length (msg_common msg)));
       (status, pipe) \<leftarrow> freerds_named_pipe_write P (hClientPipe backend) data (msg_length (msg_common msg));
       Some (status, backend\<lparr>hClientPipe := pipe, OutboundStream := s\<rparr>, msg)
     }"

lemma write_message_eqs:
  "freerds_client_outbound_write_message W P = write_message_with W P (freerds_client_message_write W)"
  "freerds_server_outbound_write_message W P K = write_message_with W P (freerds_server_message_write W K)"
  by (simp_all add: fun_eq_iff freerds_client_outbound_write_message_def
      freerds_server_outbound_write_message_def write_message_with_def)

context wstream
begin

text \<open>After a write at position 0 the buffer starts with what was written.\<close>

lemma buffer_after_write:
  assumes "Stream_GetPosition W s = 0" and "length bs \<le> length (Stream_Pointer W s)"
  shows "load_bytes (Some (Stream_Buffer W (Stream_Write W s bs))) (length bs) = Some bs"
  using assms by (simp add: Write_buf)

end

context msg_sender
begin

lemma write_message_bytes:
  assumes "typed msg" and "msg_ok msg"
  shows "\<exists>s. write_message_with W P wr backend msg =
               map_option (\<lambda>(status, pipe).
                   (status, backend\<lparr>hClientPipe := pipe, OutboundStream := s\<rparr>, msg_final msg))
                 (freerds_named_pipe_write P (hClientPipe backend) (msg_frame K msg)
                   (msg_length (msg_common (msg_final msg))))"
proof -
  let ?n = "length (msg_frame K msg)"
  let ?s0 = "Stream_SetPosition W (OutboundStream backend) 0"
  let ?s1 = "Stream_EnsureRemainingCapacity W ?s0 ?n"
  let ?s2 = "Stream_Write W ?s1 (msg_frame K msg)"
  have room: "?n \<le> length (Stream_Pointer W ?s1)" by (rule Ensure_room)
  have pos: "Stream_GetPosition W ?s1 = 0" by (simp add: Ensure_pos SetPosition_laws)
  have n: "unat (msg_length (msg_common (msg_final msg))) = ?n"
    using assms(2) by (rule msg_length_field)
  have "wr (Some ?s1) (msg_sized msg) =
          Some (sint (msg_length (msg_common (msg_final msg))), Some ?s2, msg_final msg)"
    using sender_frame [OF typed_sized [OF assms(1)] msg_sized_ok [OF assms(2)], of ?s1] room
    by (simp add: msg_frame_sized msg_final_sized)
  then show ?thesis
    using assms buffer_after_write [OF pos room]
    by (auto simp: write_message_with_def sender_size msg_sized_length n map_option_case
        intro!: exI [of _ ?s2] split: option.split prod.split)
qed

end

text \<open>
  A sender on a connected pipe: every byte of the frame goes out, in order, and nothing else of the
  backend changes but the outbound stream.
\<close>

locale sending_backend = msg_sender W K wr typed + connected_pipe P incoming sent
  for W :: "'s wstream_ops" and K wr typed and P :: "'p pipe_ops" and incoming sent
begin

lemma message_sent:
  assumes "typed msg" and "msg_ok msg" and "length (msg_frame K msg) < 2 ^ 31"
  shows "\<exists>s p. write_message_with W P wr backend msg =
                 Some (int (length (msg_frame K msg)),
                       backend\<lparr>hClientPipe := p, OutboundStream := s\<rparr>, msg_final msg) \<and>
               sent p = sent (hClientPipe backend) @ msg_frame K msg \<and>
               incoming p = incoming (hClientPipe backend)"
proof -
  let ?len = "msg_length (msg_common (msg_final msg))"
  have n: "unat ?len = length (msg_frame K msg)"
    using assms(2) by (rule msg_length_field)
  obtain p where "freerds_named_pipe_write P (hClientPipe backend) (msg_frame K msg) ?len =
      Some (int (unat ?len), p)" "sent p = sent (hClientPipe backend) @ take (unat ?len) (msg_frame K msg)"
      "incoming p = incoming (hClientPipe backend)"
    using pipe_write_all [of ?len "msg_frame K msg" "hClientPipe backend"] n assms(3) by auto
  then show ?thesis
    using write_message_bytes [OF assms(1, 2), of P backend] n by auto
qed

end

locale backend_link = wstream W + connected_pipe P incoming sent
  for W :: "'s wstream_ops" and P :: "'p pipe_ops" and incoming sent

sublocale backend_link \<subseteq> server_out: sending_backend W K "freerds_server_message_write W K" server_typed
  P incoming sent for K
  by unfold_locales

sublocale backend_link \<subseteq> client_out: sending_backend W K "freerds_client_message_write W" client_typed
  P incoming sent for K
  by unfold_locales

context backend_link
begin

lemmas server_message_sent = server_out.message_sent

lemmas client_message_sent = client_out.message_sent

end

lemma server_retype_typed:
  "freerds_server_outbound_interface_new W P K msg = Some f \<Longrightarrow> server_typed (server_retype msg)"
  by (cases msg) (simp_all add: server_typed_def)

lemma interface_sends_message:
  "freerds_server_outbound_interface_new W P K msg = Some f \<Longrightarrow>
   f backend = write_message_with W P (freerds_server_message_write W K) backend (server_retype msg)"
  by (cases msg) (auto simp: outbound_defs write_message_eqs)

text \<open>The events of a client, each with its own writer.\<close>

context backend_link
begin

lemma event_sent:
  assumes "rds_writer W wr sized final body ok" and "ok m"
    and "length (header_bytes (final m)) + length (body (final m)) \<le> length (Stream_Buffer W (OutboundStream backend))"
    and "length (header_bytes (final m)) + length (body (final m)) < 2 ^ 31"
  shows "\<exists>s p. send_event W P wr backend m =
                 Some (int (length (header_bytes (final m) @ body (final m))),
                       backend\<lparr>hClientPipe := p, OutboundStream := s\<rparr>, final m) \<and>
               sent p = sent (hClientPipe backend) @ header_bytes (final m) @ body (final m) \<and>
               incoming p = incoming (hClientPipe backend) \<and>
               length (Stream_Buffer W s) = length (Stream_Buffer W (OutboundStream backend))"
proof -
  define frame where "frame = header_bytes (final m) @ body (final m)"
  let ?s0 = "Stream_SetPosition W (OutboundStream backend) 0"
  let ?len = "word_of_int (int (length frame)) :: UINT32"
  have small: "length frame < 2 ^ 31"
    using assms(4) by (simp add: frame_def)
  have room: "length frame \<le> length (Stream_Pointer W ?s0)"
    using assms(3) by (simp add: frame_def Stream_Pointer_def SetPosition_laws)
  obtain m1 where wr: "wr None m = Some (int (length frame), None, m1)"
      "wr (Some ?s0) m1 = Some (0, Some (Stream_Write W ?s0 frame), final m)"
    using rds_writer.write_two_phase [OF assms(1, 2)] small room unfolding frame_def by blast
  have len: "unat ?len = length frame"
    using small by (simp add: unat_of_nat)
  obtain p where p: "freerds_named_pipe_write P (hClientPipe backend) frame ?len = Some (int (length frame), p)"
      "sent p = sent (hClientPipe backend) @ frame" "incoming p = incoming (hClientPipe backend)"
    using pipe_write_all [of ?len frame "hClientPipe backend"] len small
    by (metis order_refl take_all)
  have "send_event W P wr backend m =
      Some (int (length frame), backend\<lparr>hClientPipe := p, OutboundStream := Stream_Write W ?s0 frame\<rparr>, final m)"
    using wr p(1) len buffer_after_write [OF _ room] by (simp add: send_event_def SetPosition_laws)
  moreover have "length (Stream_Buffer W (Stream_Write W ?s0 frame)) = length (Stream_Buffer W (OutboundStream backend))"
    using room by (simp add: Write_buf Stream_Pointer_def SetPosition_laws)
  ultimately show ?thesis
    using p(2, 3) unfolding frame_def by blast
qed

end

section \<open>The events of a client\<close>

text \<open>
  The events: the calls whose arguments go over the pipe as fields of a fixed-size message.  A frame of
  theirs has no rectangle, and its length field counts the ten bytes of the header.
\<close>

fun call_type :: "client_call \<Rightarrow> UINT32" where
  "call_type (Capabilities m) = 102"
| "call_type (SynchronizeKeyboardEvent flags) = 104"
| "call_type (ScancodeKeyboardEvent flags code keyboardType) = 105"
| "call_type (VirtualKeyboardEvent flags code) = 106"
| "call_type (UnicodeKeyboardEvent flags code) = 107"
| "call_type (MouseEvent flags x y) = 108"
| "call_type (ExtendedMouseEvent flags x y) = 109"
| "call_type VBlankEvent = 110"
| "call_type (ClientLogonUser m) = 111"
| "call_type (ClientLogoffUser m) = 112"
| "call_type (ClientSuppressOutput activeOutput) = 114"

fun client_fields :: "client_call \<Rightarrow> UINT32 list" where
  "client_fields (SynchronizeKeyboardEvent flags) = [flags]"
| "client_fields (ScancodeKeyboardEvent flags code keyboardType) = [flags, code, keyboardType]"
| "client_fields (VirtualKeyboardEvent flags code) = [flags, code]"
| "client_fields (UnicodeKeyboardEvent flags code) = [flags, code]"
| "client_fields (MouseEvent flags x y) = [flags, x, y]"
| "client_fields (ExtendedMouseEvent flags x y) = [flags, x, y]"
| "client_fields (ClientSuppressOutput activeOutput) = [activeOutput]"
| "client_fields c = []"

fun is_event :: "client_call \<Rightarrow> bool" where
  "is_event (Capabilities m) = False"
| "is_event (ClientLogonUser m) = False"
| "is_event (ClientLogoffUser m) = False"
| "is_event c = True"

definition event_frame :: "UINT32 \<Rightarrow> byte list \<Rightarrow> byte list" where
  "event_frame type body = le16 (ucast type) @ le32 (of_nat (10 + length body)) @ le32 0 @ body"

definition client_frame :: "client_call \<Rightarrow> byte list" where
  "client_frame c = event_frame (call_type c) (concat (map le32 (client_fields c)))"

lemma length_client_frame:
  "10 \<le> length (client_frame c)" "length (client_frame c) \<le> 22"
  by (cases c; simp add: client_frame_def event_frame_def)+

lemma event_frame_eq:
  "msg_type m = type \<Longrightarrow> msgFlags m = 0 \<Longrightarrow> msg_length m = of_nat (10 + length body) \<Longrightarrow>
   header_bytes m @ body = event_frame type body"
  by (simp add: header_bytes_def event_frame_def)

context backend_link
begin

lemma sent_frame:
  assumes "rds_fixed_codec W wr sized final body ok rd decode n"
    and "header_bytes (final m) @ body (final m) = F"
    and "length F \<le> length (Stream_Buffer W (OutboundStream backend))" and "length F < 2 ^ 31"
  shows "\<exists>s p. map_option drop_msg (send_event W P wr backend m) =
                 Some (int (length F), backend\<lparr>hClientPipe := p, OutboundStream := s\<rparr>) \<and>
               sent p = sent (hClientPipe backend) @ F \<and> incoming p = incoming (hClientPipe backend) \<and>
               length (Stream_Buffer W s) = length (Stream_Buffer W (OutboundStream backend))"
proof -
  have "rds_writer W wr sized final body ok" "ok m"
    using assms(1) by (auto simp: rds_fixed_codec_def rds_codec_def rds_fixed_codec_axioms_def)
  then obtain s p where "send_event W P wr backend m =
      Some (int (length F), backend\<lparr>hClientPipe := p, OutboundStream := s\<rparr>, final m)"
    "sent p = sent (hClientPipe backend) @ F" "incoming p = incoming (hClientPipe backend)"
    "length (Stream_Buffer W s) = length (Stream_Buffer W (OutboundStream backend))"
    using event_sent [of wr sized final body ok m backend] assms(2-4) by auto
  then show ?thesis by (intro exI [of _ s] exI [of _ p]) (simp add: drop_msg_def)
qed

text \<open>Every event goes out as its frame, whatever was on the stack.\<close>

lemma client_event_sent:
  assumes "is_event c" and "22 \<le> length (Stream_Buffer W (OutboundStream backend))"
    and "freerds_client_outbound_interface_new W P loc c = Some f"
  shows "\<exists>s p. f backend =
                 Some (int (length (client_frame c)), backend\<lparr>hClientPipe := p, OutboundStream := s\<rparr>) \<and>
               sent p = sent (hClientPipe backend) @ client_frame c \<and>
               incoming p = incoming (hClientPipe backend) \<and>
               length (Stream_Buffer W s) = length (Stream_Buffer W (OutboundStream backend))"
proof -
  note fits = le_trans [OF length_client_frame(2) assms(2)] le_less_trans [OF length_client_frame(2)]
  note send = sent_frame [OF sync.rds_fixed_codec_axioms] sent_frame [OF scan.rds_fixed_codec_axioms]
    sent_frame [OF vkey.rds_fixed_codec_axioms] sent_frame [OF ukey.rds_fixed_codec_axioms]
    sent_frame [OF mouse.rds_fixed_codec_axioms] sent_frame [OF xmouse.rds_fixed_codec_axioms]
    sent_frame [OF vblank.rds_fixed_codec_axioms] sent_frame [OF suppress.rds_fixed_codec_axioms]
  show ?thesis
    using assms(1, 3)
    by (cases c; clarsimp simp: outbound_defs simp del: map_option_eq_Some; intro send fits)
       (simp_all add: client_frame_def event_frame_def header_bytes_def codec_defs set_header_def)
qed

end

text \<open>The concrete stream and pipe make a link.\<close>

interpretation link: backend_link buffer_ops chunk_pipe_ops cp_in cp_out
  by unfold_locales

end
