(* ===== verification/Rds_Transport.thy ===== *)
theory Rds_Transport
  imports Rds_Outbound
begin

text \<open>
  The receiving half of a backend, from \<open>freerds/backend/transport.c\<close>: bytes are collected from the pipe
  until the inbound stream holds a whole frame, whose message is then read and given to the handler for
  its type.  The theory shows that frames come out whole and in order, however the pipe cuts them.
\<close>

section \<open>Handlers and locals\<close>

text \<open>
  A received message ends in a call through one of the two function tables of the backend.  A table is a
  parameter: given the call and the backend it returns the status and the new backend, \<open>None\<close> if the entry
  is a null pointer.  The calls made are also returned as a list, for the statements below.
\<close>

datatype rds_call = ServerCall RDS_MSG | ClientCall client_call

type_synonym ('s, 'p, 'c) handler = "'c \<Rightarrow> ('s, 'p) rdsBackend \<Rightarrow> (int \<times> ('s, 'p) rdsBackend) option"

text \<open>\<open>CopyMemory(&msg, common, sizeof(RDS_MSG_COMMON))\<close>.\<close>

definition copy_common :: "RDS_MSG_COMMON \<Rightarrow> 'm RDS_MSG_COMMON_scheme \<Rightarrow> 'm RDS_MSG_COMMON_scheme" where
  "copy_common common msg =
     msg\<lparr>msg_type := msg_type common, msg_length := msg_length common, msgFlags := msgFlags common,
         rect := rect common\<rparr>"

section \<open>Receiving a message\<close>

text \<open>
  The cases that differ only in the structure: fill the message, read it, call the handler.
\<close>

definition server_case ::
  "'s wstream_ops \<Rightarrow> window_order_flags \<Rightarrow> ('s, 'p, RDS_MSG) handler \<Rightarrow> ('s, 'p) rdsBackend \<Rightarrow> 's \<Rightarrow> RDS_MSG \<Rightarrow>
   (int \<times> ('s, 'p) rdsBackend \<times> rds_call list) option" where
  "server_case W K server backend s msg =
     do {
       (_, s, msg) \<leftarrow> freerds_server_message_read W K s msg;
       (status, backend) \<leftarrow> server msg (backend\<lparr>InboundStream := s\<rparr>);
       Some (status, backend, [ServerCall msg])
     }"

definition freerds_receive_server_message ::
  "'s wstream_ops \<Rightarrow> window_order_flags \<Rightarrow> ('s, 'p, RDS_MSG) handler \<Rightarrow> RDS_MSG \<Rightarrow>
   ('s, 'p) rdsBackend \<Rightarrow> 's \<Rightarrow> RDS_MSG_COMMON \<Rightarrow> (int \<times> ('s, 'p) rdsBackend \<times> rds_call list) option" where
  "freerds_receive_server_message W K server junk backend s common =
     (if msg_type common = 1 then server_case W K server backend s (BeginUpdate (copy_common common (un_BeginUpdate junk)))
      else if msg_type common = 2 then server_case W K server backend s (EndUpdate (copy_common common (un_EndUpdate junk)))
      else if msg_type common = 4 then server_case W K server backend s (OpaqueRect (copy_common common (un_OpaqueRect junk)))
      else if msg_type common = 5 then server_case W K server backend s (ScreenBlt (copy_common common (un_ScreenBlt junk)))
      else if msg_type common = 7 then server_case W K server backend s (PatBlt (copy_common common (un_PatBlt junk)))
      else if msg_type common = 8 then server_case W K server backend s (DstBlt (copy_common common (un_DstBlt junk)))
      else if msg_type common = 6
      then let msg = copy_common common (un_PaintRect junk);
               msg = msg\<lparr>paint_fbSegmentId := 0\<rparr>;
               msg = msg\<lparr>paint_framebuffer := None\<rparr>
           in do {
             (_, s, m) \<leftarrow> freerds_server_message_read W K s (PaintRect msg);
             let msg = un_PaintRect m;
             let msg = (if paint_fbSegmentId msg \<noteq> 0
                        then msg\<lparr>paint_framebuffer := Some (framebuffer backend)\<rparr> else msg);
             (_, backend) \<leftarrow> server (PaintRect msg) (backend\<lparr>InboundStream := s\<rparr>);
             Some (0, backend, [ServerCall (PaintRect msg)])
           }
      else if msg_type common = 3 then server_case W K server backend s (SetClippingRegion (copy_common common (un_SetClippingRegion junk)))
      else if msg_type common = 9 then server_case W K server backend s (LineTo (copy_common common (un_LineTo junk)))
      else if msg_type common = 17 then server_case W K server backend s (SetPointer (copy_common common (un_SetPointer junk)))
      else if msg_type common = 23 then server_case W K server backend s (SetSystemPointer (copy_common common (un_SetSystemPointer junk)))
      else if msg_type common = 10 then server_case W K server backend s (CreateOffscreenSurface (copy_common common (un_CreateOffscreenSurface junk)))
      else if msg_type common = 11 then server_case W K server backend s (SwitchOffscreenSurface (copy_common common (un_SwitchOffscreenSurface junk)))
      else if msg_type common = 12 then server_case W K server backend s (DeleteOffscreenSurface (copy_common common (un_DeleteOffscreenSurface junk)))
      else if msg_type common = 13 then server_case W K server backend s (PaintOffscreenSurface (copy_common common (un_PaintOffscreenSurface junk)))
      else if msg_type common = 21 then server_case W K server backend s (WindowNewUpdate (copy_common common (un_WindowNewUpdate junk)))
      else if msg_type common = 22 then server_case W K server backend s (WindowDelete (copy_common common (un_WindowDelete junk)))
      else if msg_type common = 18 then server_case W K server backend s (SharedFramebuffer (copy_common common (un_SharedFramebuffer junk)))
      else if msg_type common = 24 then server_case W K server backend s (LogonUser (copy_common common (un_LogonUser junk)))
      else if msg_type common = 25 then server_case W K server backend s (LogoffUser (copy_common common (un_LogoffUser junk)))
      else Some (0, backend\<lparr>InboundStream := s\<rparr>, []))"

text \<open>
  The client side.  The handlers for the capabilities and for the vertical blank are optional.
\<close>

definition call_client ::
  "('s, 'p, client_call) handler \<Rightarrow> ('s, 'p) rdsBackend \<Rightarrow> client_call \<Rightarrow>
   (int \<times> ('s, 'p) rdsBackend \<times> rds_call list) option" where
  "call_client client backend c =
     map_option (\<lambda>(status, backend). (status, backend, [ClientCall c])) (client c backend)"

definition call_client_if_set ::
  "('s, 'p, client_call) handler \<Rightarrow> ('s, 'p) rdsBackend \<Rightarrow> client_call \<Rightarrow>
   (int \<times> ('s, 'p) rdsBackend \<times> rds_call list) option" where
  "call_client_if_set client backend c =
     (case client c backend of
        None \<Rightarrow> Some (0, backend, [])
      | Some (status, backend) \<Rightarrow> Some (status, backend, [ClientCall c]))"

definition freerds_receive_client_message ::
  "'s wstream_ops \<Rightarrow> ('s, 'p, client_call) handler \<Rightarrow> rds_locals \<Rightarrow>
   ('s, 'p) rdsBackend \<Rightarrow> 's \<Rightarrow> RDS_MSG_COMMON \<Rightarrow> (int \<times> ('s, 'p) rdsBackend \<times> rds_call list) option" where
  "freerds_receive_client_message W client loc backend s common =
     (if msg_type common = 102
      then let (_, s, msg) = freerds_read_capabilities W s (copy_common common (loc_caps loc))
           in call_client_if_set client (backend\<lparr>InboundStream := s\<rparr>) (Capabilities msg)
      else if msg_type common = 104
      then let (_, s, msg) = freerds_read_synchronize_keyboard_event W s (copy_common common (loc_sync loc))
           in call_client client (backend\<lparr>InboundStream := s\<rparr>) (SynchronizeKeyboardEvent (sync_flags msg))
      else if msg_type common = 105
      then let (_, s, msg) = freerds_read_scancode_keyboard_event W s (copy_common common (loc_scan loc))
           in call_client client (backend\<lparr>InboundStream := s\<rparr>)
                (ScancodeKeyboardEvent (scan_flags msg) (scan_code msg) (scan_keyboardType msg))
      else if msg_type common = 106
      then let (_, s, msg) = freerds_read_virtual_keyboard_event W s (copy_common common (loc_vkey loc))
           in call_client client (backend\<lparr>InboundStream := s\<rparr>) (VirtualKeyboardEvent (vkey_flags msg) (vkey_code msg))
      else if msg_type common = 107
      then let (_, s, msg) = freerds_read_unicode_keyboard_event W s (copy_common common (loc_ukey loc))
           in call_client client (backend\<lparr>InboundStream := s\<rparr>) (UnicodeKeyboardEvent (ukey_flags msg) (ukey_code msg))
      else if msg_type common = 108
      then let (_, s, msg) = freerds_read_mouse_event W s (copy_common common (loc_mouse loc))
           in call_client client (backend\<lparr>InboundStream := s\<rparr>)
                (MouseEvent (mouse_flags msg) (mouse_x msg) (mouse_y msg))
      else if msg_type common = 109
      then let (_, s, msg) = freerds_read_extended_mouse_event W s (copy_common common (loc_xmouse loc))
           in call_client client (backend\<lparr>InboundStream := s\<rparr>)
                (ExtendedMouseEvent (xmouse_flags msg) (xmouse_x msg) (xmouse_y msg))
      else if msg_type common = 110
      then let (_, s, msg) = freerds_read_vblank_event W s (copy_common common common)
           in call_client_if_set client (backend\<lparr>InboundStream := s\<rparr>) VBlankEvent
      else Some (0, backend\<lparr>InboundStream := s\<rparr>, []))"

definition freerds_receive_message ::
  "'s wstream_ops \<Rightarrow> window_order_flags \<Rightarrow> ('s, 'p, RDS_MSG) handler \<Rightarrow> ('s, 'p, client_call) handler \<Rightarrow>
   rds_locals \<Rightarrow> ('s, 'p) rdsBackend \<Rightarrow> 's \<Rightarrow> RDS_MSG_COMMON \<Rightarrow>
   (int \<times> ('s, 'p) rdsBackend \<times> rds_call list) option" where
  "freerds_receive_message W K server client loc backend s common =
     (if ServerMode backend then freerds_receive_client_message W client loc backend s common
      else freerds_receive_server_message W K server (loc_server loc) backend s common)"

section \<open>Collecting a frame\<close>

text \<open>
  \<open>read_into W P s pipe n\<close> is one of the two calls of \<open>freerds_named_pipe_read\<close> on the stream pointer with
  the seek that follows it: the status, the stream and the pipe.
\<close>

definition read_into :: "'s wstream_ops \<Rightarrow> 'p pipe_ops \<Rightarrow> 's \<Rightarrow> 'p \<Rightarrow> UINT32 \<Rightarrow> int \<times> 's \<times> 'p" where
  "read_into W P s pipe n =
     (let (status, bs, pipe) = freerds_named_pipe_read P pipe n;
          s = Stream_SetPosition W (Stream_Write W s bs) (Stream_GetPosition W s)
      in (status, if status > 0 then Stream_Seek W s (nat status) else s, pipe))"

text \<open>
  \<open>length - Stream_GetPosition(s)\<close> is computed in 64 bits and passed as a \<open>DWORD\<close>: below zero it wraps.
\<close>

definition missing :: "UINT32 \<Rightarrow> nat \<Rightarrow> UINT32" where
  "missing len position = len - of_nat position"

text \<open>The first read, for the header, and the second, for the rest of the frame.\<close>

definition receive_header :: "'s wstream_ops \<Rightarrow> 'p pipe_ops \<Rightarrow> 's \<Rightarrow> 'p \<Rightarrow> int \<times> 's \<times> 'p" where
  "receive_header W P s pipe =
     (if Stream_GetPosition W s < RDS_ORDER_HEADER_LENGTH
      then read_into W P s pipe (of_nat (RDS_ORDER_HEADER_LENGTH - Stream_GetPosition W s))
      else (0, s, pipe))"

definition receive_body :: "'s wstream_ops \<Rightarrow> 'p pipe_ops \<Rightarrow> 's \<Rightarrow> 'p \<Rightarrow> int \<times> 's \<times> 'p" where
  "receive_body W P s pipe =
     (if Stream_GetPosition W s \<ge> RDS_ORDER_HEADER_LENGTH
      then let len = freerds_peek_common_header_length (Stream_Buffer W s)
           in if unat len \<noteq> Stream_GetPosition W s
              then read_into W P s pipe (missing len (Stream_GetPosition W s))
              else (0, s, pipe)
      else (0, s, pipe))"

text \<open>The last part: a whole frame is there, so read its header and hand the message over.\<close>

definition receive_frame ::
  "'s wstream_ops \<Rightarrow> window_order_flags \<Rightarrow> ('s, 'p, RDS_MSG) handler \<Rightarrow> ('s, 'p, client_call) handler \<Rightarrow>
   rds_locals \<Rightarrow> ('s, 'p) rdsBackend \<Rightarrow> 's \<Rightarrow> (int \<times> ('s, 'p) rdsBackend \<times> rds_call list) option" where
  "receive_frame W K server client loc backend s =
     (let s = Stream_SetPosition W s 0;
          (_, s, common) = freerds_read_common_header W s (loc_common loc)
      in do {
        (status, backend, calls) \<leftarrow> freerds_receive_message W K server client loc backend s common;
        let backend = backend\<lparr>InboundStream := Stream_SetPosition W (InboundStream backend) 0\<rparr>;
        Some (0, backend, calls)
      })"

definition freerds_transport_receive ::
  "'s wstream_ops \<Rightarrow> 'p pipe_ops \<Rightarrow> window_order_flags \<Rightarrow> ('s, 'p, RDS_MSG) handler \<Rightarrow>
   ('s, 'p, client_call) handler \<Rightarrow> rds_locals \<Rightarrow> ('s, 'p) rdsBackend \<Rightarrow>
   (int \<times> ('s, 'p) rdsBackend \<times> rds_call list) option" where
  "freerds_transport_receive W P K server client loc backend =
     (let (status, s, pipe) = receive_header W P (InboundStream backend) (hClientPipe backend);
          backend = backend\<lparr>InboundStream := s, hClientPipe := pipe\<rparr>
      in if status < 0 then Some (-1, backend, [])
         else
           let (status, s, pipe) = receive_body W P s pipe;
               backend = backend\<lparr>InboundStream := s, hClientPipe := pipe\<rparr>
           in if status < 0 then Some (-1, backend, [])
              else if Stream_GetPosition W s \<ge> RDS_ORDER_HEADER_LENGTH \<and>
                      Stream_GetPosition W s \<ge> unat (freerds_peek_common_header_length (Stream_Buffer W s))
              then receive_frame W K server client loc backend s
              else Some (0, backend, []))"

text \<open>
  The loop of \<open>freerds_service_client_thread\<close> in \<open>freerds/backend/service.c\<close>; the number is how often the
  wait for the pipe ends with the pipe ready.
\<close>

fun freerds_service_client_thread ::
  "'s wstream_ops \<Rightarrow> 'p pipe_ops \<Rightarrow> window_order_flags \<Rightarrow> ('s, 'p, RDS_MSG) handler \<Rightarrow>
   ('s, 'p, client_call) handler \<Rightarrow> rds_locals \<Rightarrow> nat \<Rightarrow> ('s, 'p) rdsBackend \<Rightarrow>
   (int \<times> ('s, 'p) rdsBackend \<times> rds_call list) option" where
  "freerds_service_client_thread W P K server client loc 0 backend = Some (0, backend, [])"
| "freerds_service_client_thread W P K server client loc (Suc ready) backend =
     do {
       (status, backend, calls) \<leftarrow> freerds_transport_receive W P K server client loc backend;
       if status < 0 then Some (status, backend, calls)
       else do {
         (status, backend, further) \<leftarrow> freerds_service_client_thread W P K server client loc ready backend;
         Some (status, backend, calls @ further)
       }
     }"

section \<open>Frames come out whole\<close>

text \<open>
  The invariant of a collection: the stream and the pipe hold \<open>F @ rest\<close> together, and the stream no more
  than \<open>F\<close> and room for all of it.
\<close>

definition collecting :: "'s wstream_ops \<Rightarrow> ('p \<Rightarrow> byte list) \<Rightarrow> byte list \<Rightarrow> byte list \<Rightarrow> 's \<Rightarrow> 'p \<Rightarrow> bool" where
  "collecting W incoming F rest s p \<longleftrightarrow>
     take (Stream_GetPosition W s) (Stream_Buffer W s) @ incoming p = F @ rest \<and>
     Stream_GetPosition W s \<le> length F \<and> length F \<le> length (Stream_Buffer W s)"

abbreviation in_pos :: "'s wstream_ops \<Rightarrow> ('s, 'p) rdsBackend \<Rightarrow> nat" where
  "in_pos W b \<equiv> Stream_GetPosition W (InboundStream b)"

text \<open>A string of bytes that starts like a frame, with its own length in the length field.\<close>

definition is_frame :: "byte list \<Rightarrow> bool" where
  "is_frame F \<longleftrightarrow> RDS_ORDER_HEADER_LENGTH \<le> length F \<and> length F < 2 ^ 31 \<and>
     unat (freerds_peek_common_header_length F) = length F"

lemma of_le32_take [simp]: "of_le32 (take 4 bs) = of_le32 bs"
  by (cases bs rule: of_le32.cases) simp_all

lemma peek_take: "freerds_peek_common_header_length (take 6 bs) = freerds_peek_common_header_length bs"
  using of_le32_take [of "drop 2 bs"] by (simp add: freerds_peek_common_header_length_def drop_take)

lemma peek_prefix:
  assumes "take n buf @ ahead = F @ rest" and "6 \<le> n" and "n \<le> length buf" and "n \<le> length F"
  shows "freerds_peek_common_header_length buf = freerds_peek_common_header_length F"
proof -
  have "take n buf = take n F"
    using assms(1, 3, 4) by (metis append_eq_append_conv_if length_take min.absorb2 min.absorb4 take_append
        append_eq_conv_conj)
  then have "take 6 buf = take 6 F"
    using assms(2) by (metis min.absorb2 min.commute take_take)
  then show ?thesis using peek_take by metis
qed

definition same_shape :: "'s wstream_ops \<Rightarrow> ('s, 'p) rdsBackend \<Rightarrow> ('s, 'p) rdsBackend \<Rightarrow> bool" where
  "same_shape W b b' \<longleftrightarrow>
     length (Stream_Buffer W (InboundStream b')) = length (Stream_Buffer W (InboundStream b)) \<and>
     Stream_Length W (InboundStream b') = Stream_Length W (InboundStream b) \<and>
     ServerMode b' = ServerMode b \<and> framebuffer b' = framebuffer b"

definition pipe_fault :: "'s wstream_ops \<Rightarrow> 'p pipe_ops \<Rightarrow> ('p \<Rightarrow> byte list) \<Rightarrow> bool" where
  "pipe_fault W P incoming \<longleftrightarrow>
     (\<exists>s p n status s' p'. incoming p \<noteq> [] \<and> read_into W P s p n = (status, s', p') \<and> status < 0 \<and>
        n \<noteq> 0 \<and> unat n < 2 ^ 31)"

locale receiving_backend = wstream W + named_pipe P incoming sent
  for W :: "'s wstream_ops" and P :: "'p pipe_ops" and incoming sent
begin

text \<open>One read: the bytes move from the pipe into the stream.\<close>

lemma read_into_eq:
  assumes "read_into W P s p n = (status, s', p')"
    and "unat n \<le> length (Stream_Pointer W s)" and "unat n < 2 ^ 31" and "0 \<le> status"
  shows "\<exists>bs. bs \<noteq> [] \<and> length bs \<le> unat n \<and> incoming p = bs @ incoming p' \<and> sent p' = sent p \<and>
              s' = Stream_Write W s bs"
proof -
  obtain bs where rd: "freerds_named_pipe_read P p n = (status, bs, p')"
    and s': "s' = (if status > 0
       then Stream_Seek W (Stream_SetPosition W (Stream_Write W s bs) (Stream_GetPosition W s)) (nat status)
       else Stream_SetPosition W (Stream_Write W s bs) (Stream_GetPosition W s))"
    using assms(1) by (auto simp: read_into_def Let_def split: prod.splits)
  note law = pipe_read [OF rd assms(3)]
  have "bs \<noteq> []" "status = int (length bs)" using law(4) assms(4) by auto
  moreover have "length bs \<le> length (Stream_Pointer W s)" using law(3) assms(2) by linarith
  ultimately have "s' = Stream_Write W s bs"
    using s' SetPosition_same [of "Stream_Write W s bs"]
    by (simp add: Seek_eq SetPosition_laws Write_pos)
  then show ?thesis using law \<open>bs \<noteq> []\<close> by blast
qed

text \<open>So it keeps what is pending, and only moves the position forward.\<close>

lemma read_into_pending:
  assumes "read_into W P s p n = (status, s', p')"
    and "Stream_GetPosition W s + unat n \<le> length (Stream_Buffer W s)" and "unat n < 2 ^ 31" and "0 \<le> status"
  shows "take (Stream_GetPosition W s') (Stream_Buffer W s') @ incoming p' =
           take (Stream_GetPosition W s) (Stream_Buffer W s) @ incoming p"
    and "Stream_GetPosition W s < Stream_GetPosition W s'"
    and "Stream_GetPosition W s' \<le> Stream_GetPosition W s + unat n"
    and "length (Stream_Buffer W s') = length (Stream_Buffer W s)"
    and "Stream_Length W s' = Stream_Length W s"
proof -
  have ptr: "unat n \<le> length (Stream_Pointer W s)"
    using assms(2) by (simp add: Stream_Pointer_def)
  obtain bs where bs: "bs \<noteq> []" "length bs \<le> unat n" "incoming p = bs @ incoming p'" "s' = Stream_Write W s bs"
    using read_into_eq [OF assms(1) ptr assms(3, 4)] by blast
  have room: "length bs \<le> length (Stream_Pointer W s)" using bs(2) ptr by linarith
  have pos: "Stream_GetPosition W s \<le> length (Stream_Buffer W s)" using assms(2) by linarith
  show "take (Stream_GetPosition W s') (Stream_Buffer W s') @ incoming p' =
           take (Stream_GetPosition W s) (Stream_Buffer W s) @ incoming p"
    using bs room pos by (simp add: Write_pos Write_buf min_def)
  show "Stream_GetPosition W s < Stream_GetPosition W s'"
    "Stream_GetPosition W s' \<le> Stream_GetPosition W s + unat n"
    "Stream_Length W s' = Stream_Length W s"
    using bs room by (simp_all add: Write_pos Write_len)
  show "length (Stream_Buffer W s') = length (Stream_Buffer W s)"
    using bs room pos by (simp add: Write_buf min_def Stream_Pointer_def)
qed

lemma collecting_read:
  assumes "collecting W incoming F rest s p" and "Stream_GetPosition W s + unat n \<le> length F" and "unat n < 2 ^ 31"
    and "read_into W P s p n = (status, s', p')" and "0 \<le> status"
  shows "collecting W incoming F rest s' p'" and "Stream_GetPosition W s < Stream_GetPosition W s'"
    and "length (Stream_Buffer W s') = length (Stream_Buffer W s)" and "Stream_Length W s' = Stream_Length W s"
proof -
  have "Stream_GetPosition W s + unat n \<le> length (Stream_Buffer W s)"
    using assms(1, 2) by (simp add: collecting_def)
  note read = read_into_pending [OF assms(4) this assms(3, 5)]
  show "collecting W incoming F rest s' p'"
    using read assms(1, 2) by (simp add: collecting_def)
  show "Stream_GetPosition W s < Stream_GetPosition W s'"
    "length (Stream_Buffer W s') = length (Stream_Buffer W s)" "Stream_Length W s' = Stream_Length W s"
    using read by simp_all
qed

lemma collecting_peek:
  assumes "collecting W incoming F rest s p" and "is_frame F" and "RDS_ORDER_HEADER_LENGTH \<le> Stream_GetPosition W s"
  shows "unat (freerds_peek_common_header_length (Stream_Buffer W s)) = length F"
  using assms peek_prefix [of "Stream_GetPosition W s" "Stream_Buffer W s" "incoming p" F rest]
  by (simp add: collecting_def is_frame_def RDS_ORDER_HEADER_LENGTH_def)

lemma unat_missing:
  assumes "position \<le> unat len"
  shows "unat (missing len position) = unat len - position"
proof -
  have "unat len < 4294967296" using unsigned_less [of len] by simp
  then have "unat (of_nat position :: UINT32) = position"
    using assms by (simp add: unat_of_nat)
  then show ?thesis
    using assms by (simp add: missing_def unat_sub word_le_nat_alt)
qed

lemma collecting_phase:
  assumes "collecting W incoming F rest s p" and "(status, s', p') = (if c then read_into W P s p n else (0, s, p))"
    and "c \<Longrightarrow> Stream_GetPosition W s + unat n \<le> length F" and "length F < 2 ^ 31" and "0 \<le> status"
  shows "collecting W incoming F rest s' p'" and "Stream_GetPosition W s \<le> Stream_GetPosition W s'"
    and "length (Stream_Buffer W s') = length (Stream_Buffer W s)" and "Stream_Length W s' = Stream_Length W s"
    and "c \<Longrightarrow> Stream_GetPosition W s < Stream_GetPosition W s'"
proof -
  have "collecting W incoming F rest s' p' \<and> Stream_GetPosition W s \<le> Stream_GetPosition W s' \<and>
        length (Stream_Buffer W s') = length (Stream_Buffer W s) \<and> Stream_Length W s' = Stream_Length W s \<and>
        (c \<longrightarrow> Stream_GetPosition W s < Stream_GetPosition W s')"
  proof (cases c)
    case True
    have "read_into W P s p n = (status, s', p')" using assms(2) True by simp
    moreover have "unat n < 2 ^ 31" using assms(3) [OF True] assms(4) by linarith
    ultimately show ?thesis
      using collecting_read [OF assms(1) assms(3) [OF True] _ _ assms(5)] by auto
  qed (use assms(1, 2) in auto)
  then show "collecting W incoming F rest s' p'" and "Stream_GetPosition W s \<le> Stream_GetPosition W s'"
    and "length (Stream_Buffer W s') = length (Stream_Buffer W s)" and "Stream_Length W s' = Stream_Length W s"
    and "c \<Longrightarrow> Stream_GetPosition W s < Stream_GetPosition W s'" by auto
qed

lemma collecting_incoming:
  assumes "collecting W incoming F rest s p" and "Stream_GetPosition W s < length F"
  shows "incoming p \<noteq> []"
proof
  assume "incoming p = []"
  then have "length (take (Stream_GetPosition W s) (Stream_Buffer W s)) = length F + length rest"
    using assms(1) by (auto simp: collecting_def)
  then show False using assms(2) by simp
qed

text \<open>
  The two reads of one call keep the invariant, and fail only when the pipe does though bytes are on the
  way: \<open>pipe_fault\<close>.
\<close>

lemma pipe_faultI:
  "incoming p \<noteq> [] \<Longrightarrow> read_into W P s p n = (status, s', p') \<Longrightarrow> status < 0 \<Longrightarrow> unat n \<noteq> 0 \<Longrightarrow>
   unat n < 2 ^ 31 \<Longrightarrow> pipe_fault W P incoming"
  unfolding pipe_fault_def using unat_0 by metis

lemma header_phase:
  assumes "is_frame F" and "collecting W incoming F rest s p" and "Stream_GetPosition W s < length F"
    and run: "receive_header W P s p = (status, s', p')"
  shows "status < 0 \<Longrightarrow> pipe_fault W P incoming"
    and "0 \<le> status \<Longrightarrow> collecting W incoming F rest s' p' \<and>
           (Stream_GetPosition W s < Stream_GetPosition W s' \<or>
            RDS_ORDER_HEADER_LENGTH \<le> Stream_GetPosition W s \<and> s' = s) \<and>
           length (Stream_Buffer W s') = length (Stream_Buffer W s) \<and> Stream_Length W s' = Stream_Length W s"
proof -
  have F: "RDS_ORDER_HEADER_LENGTH \<le> length F" "length F < 2 ^ 31"
    using assms(1) by (simp_all add: is_frame_def)
  let ?n = "of_nat (RDS_ORDER_HEADER_LENGTH - Stream_GetPosition W s) :: UINT32"
  have n: "unat ?n = RDS_ORDER_HEADER_LENGTH - Stream_GetPosition W s"
    by (simp add: unat_of_nat RDS_ORDER_HEADER_LENGTH_def)
  have run': "(status, s', p') =
      (if Stream_GetPosition W s < RDS_ORDER_HEADER_LENGTH then read_into W P s p ?n else (0, s, p))"
    using run by (simp add: receive_header_def)
  show "pipe_fault W P incoming" if "status < 0"
  proof (rule pipe_faultI [OF collecting_incoming [OF assms(2, 3)]])
    show "read_into W P s p ?n = (status, s', p')" using that run' by (simp split: if_splits)
    show "unat ?n \<noteq> 0" using that run' n by (simp split: if_splits)
    show "unat ?n < 2 ^ 31" using n by (simp add: RDS_ORDER_HEADER_LENGTH_def)
  qed (rule that)
  assume ok: "0 \<le> status"
  note phase = collecting_phase [OF assms(2) run' _ F(2) ok, unfolded n]
  have "s' = s" if "\<not> Stream_GetPosition W s < RDS_ORDER_HEADER_LENGTH" using that run' by simp
  then show "collecting W incoming F rest s' p' \<and>
           (Stream_GetPosition W s < Stream_GetPosition W s' \<or>
            RDS_ORDER_HEADER_LENGTH \<le> Stream_GetPosition W s \<and> s' = s) \<and>
           length (Stream_Buffer W s') = length (Stream_Buffer W s) \<and> Stream_Length W s' = Stream_Length W s"
    using phase F(1) by (cases "Stream_GetPosition W s < RDS_ORDER_HEADER_LENGTH") auto
qed

lemma body_phase:
  assumes "is_frame F" and "collecting W incoming F rest s p"
    and run: "receive_body W P s p = (status, s', p')"
  shows "status < 0 \<Longrightarrow> pipe_fault W P incoming"
    and "0 \<le> status \<Longrightarrow> collecting W incoming F rest s' p' \<and>
           (Stream_GetPosition W s < Stream_GetPosition W s' \<or>
            Stream_GetPosition W s < RDS_ORDER_HEADER_LENGTH \<and> s' = s \<or>
            Stream_GetPosition W s = length F \<and> s' = s) \<and>
           length (Stream_Buffer W s') = length (Stream_Buffer W s) \<and> Stream_Length W s' = Stream_Length W s"
proof -
  have F: "RDS_ORDER_HEADER_LENGTH \<le> length F" "length F < 2 ^ 31"
    using assms(1) by (simp_all add: is_frame_def)
  have pos: "Stream_GetPosition W s \<le> length F" using assms(2) by (simp add: collecting_def)
  let ?c = "RDS_ORDER_HEADER_LENGTH \<le> Stream_GetPosition W s \<and> Stream_GetPosition W s \<noteq> length F"
  let ?n = "missing (freerds_peek_common_header_length (Stream_Buffer W s)) (Stream_GetPosition W s)"
  note peek = collecting_peek [OF assms(2, 1)]
  have n: "unat ?n = length F - Stream_GetPosition W s" if ?c
    using peek that pos by (simp add: unat_missing)
  have run': "(status, s', p') = (if ?c then read_into W P s p ?n else (0, s, p))"
    using run peek by (auto simp: receive_body_def Let_def split: if_splits)
  show "pipe_fault W P incoming" if neg: "status < 0"
  proof (rule pipe_faultI)
    have c: ?c using neg run' by (simp split: if_splits)
    then show "incoming p \<noteq> []" using collecting_incoming [OF assms(2)] pos by simp
    show "read_into W P s p ?n = (status, s', p')" using c run' by simp
    show "unat ?n \<noteq> 0" "unat ?n < 2 ^ 31" using n [OF c] c pos F(2) by simp_all
  qed (rule neg)
  assume ok: "0 \<le> status"
  have room: "Stream_GetPosition W s + unat ?n \<le> length F" if ?c using n [OF that] pos by simp
  note phase = collecting_phase [OF assms(2) run' room F(2) ok]
  have "s' = s" if "\<not> ?c" using that run' by (metis prod.inject)
  then show "collecting W incoming F rest s' p' \<and>
           (Stream_GetPosition W s < Stream_GetPosition W s' \<or>
            Stream_GetPosition W s < RDS_ORDER_HEADER_LENGTH \<and> s' = s \<or>
            Stream_GetPosition W s = length F \<and> s' = s) \<and>
           length (Stream_Buffer W s') = length (Stream_Buffer W s) \<and> Stream_Length W s' = Stream_Length W s"
    using phase by (cases ?c) auto
qed

text \<open>One call gets ahead, and when the frame is complete it is handed over.\<close>

lemma receive_step:
  assumes F: "is_frame F" and col: "collecting W incoming F rest (InboundStream b) (hClientPipe b)"
    and pos: "in_pos W b < length F"
  shows "(\<exists>b'. freerds_transport_receive W P K server client loc b = Some (-1, b', []) \<and> pipe_fault W P incoming) \<or>
         (\<exists>b'. freerds_transport_receive W P K server client loc b = Some (0, b', []) \<and>
               collecting W incoming F rest (InboundStream b') (hClientPipe b') \<and>
               in_pos W b < in_pos W b' \<and> in_pos W b' < length F \<and> same_shape W b b') \<or>
         (\<exists>b'. freerds_transport_receive W P K server client loc b =
                 receive_frame W K server client loc b' (InboundStream b') \<and>
               collecting W incoming F rest (InboundStream b') (hClientPipe b') \<and>
               in_pos W b' = length F \<and> same_shape W b b')"
proof -
  obtain status1 s1 p1 where r1: "receive_header W P (InboundStream b) (hClientPipe b) = (status1, s1, p1)"
    by (metis prod_cases3)
  obtain status2 s2 p2 where r2: "receive_body W P s1 p1 = (status2, s2, p2)"
    by (metis prod_cases3)
  let ?b2 = "b\<lparr>InboundStream := s2, hClientPipe := p2\<rparr>"
  note h = header_phase [OF F col pos r1]
  show ?thesis
  proof (cases "status1 < 0")
    case True
    then show ?thesis using h(1) r1 by (simp add: freerds_transport_receive_def)
  next
    case ok1: False
    then have c1: "collecting W incoming F rest s1 p1" using h(2) by simp
    note b = body_phase [OF F c1 r2]
    show ?thesis
    proof (cases "status2 < 0")
      case True
      then show ?thesis using b(1) ok1 r1 r2 by (simp add: freerds_transport_receive_def)
    next
      case ok2: False
      have c2: "collecting W incoming F rest s2 p2" and shape: "same_shape W b ?b2"
        and adv: "in_pos W b < Stream_GetPosition W s2"
        using h(2) b(2) ok1 ok2 pos by (auto simp: same_shape_def)
      have "Stream_GetPosition W s2 \<le> length F" "RDS_ORDER_HEADER_LENGTH \<le> length F"
        using c2 F by (simp_all add: collecting_def is_frame_def)
      then show ?thesis
        using r1 r2 ok1 ok2 c2 shape adv collecting_peek [OF c2 F]
        by (cases "Stream_GetPosition W s2 = length F")
           (auto simp: freerds_transport_receive_def Let_def intro!: exI [of _ ?b2])
    qed
  qed
qed

end

section \<open>A whole frame reaches its handler\<close>

text \<open>
  The message the handler gets: the fields the reader stores, in a local message with the header of the
  frame.  A paint order that names a shared segment is given the framebuffer of the backend.
\<close>

fun server_local :: "RDS_MSG_COMMON \<Rightarrow> RDS_MSG \<Rightarrow> RDS_MSG \<Rightarrow> RDS_MSG" where
  "server_local common junk (BeginUpdate m) = BeginUpdate (copy_common common (un_BeginUpdate junk))"
| "server_local common junk (EndUpdate m) = EndUpdate (copy_common common (un_EndUpdate junk))"
| "server_local common junk (SetClippingRegion m) = SetClippingRegion (copy_common common (un_SetClippingRegion junk))"
| "server_local common junk (OpaqueRect m) = OpaqueRect (copy_common common (un_OpaqueRect junk))"
| "server_local common junk (ScreenBlt m) = ScreenBlt (copy_common common (un_ScreenBlt junk))"
| "server_local common junk (PaintRect m) =
     PaintRect ((copy_common common (un_PaintRect junk))\<lparr>paint_fbSegmentId := 0, paint_framebuffer := None\<rparr>)"
| "server_local common junk (PatBlt m) = PatBlt (copy_common common (un_PatBlt junk))"
| "server_local common junk (DstBlt m) = DstBlt (copy_common common (un_DstBlt junk))"
| "server_local common junk (LineTo m) = LineTo (copy_common common (un_LineTo junk))"
| "server_local common junk (CreateOffscreenSurface m) = CreateOffscreenSurface (copy_common common (un_CreateOffscreenSurface junk))"
| "server_local common junk (SwitchOffscreenSurface m) = SwitchOffscreenSurface (copy_common common (un_SwitchOffscreenSurface junk))"
| "server_local common junk (DeleteOffscreenSurface m) = DeleteOffscreenSurface (copy_common common (un_DeleteOffscreenSurface junk))"
| "server_local common junk (PaintOffscreenSurface m) = PaintOffscreenSurface (copy_common common (un_PaintOffscreenSurface junk))"
| "server_local common junk (SetPointer m) = SetPointer (copy_common common (un_SetPointer junk))"
| "server_local common junk (SharedFramebuffer m) = SharedFramebuffer (copy_common common (un_SharedFramebuffer junk))"
| "server_local common junk (WindowNewUpdate m) = WindowNewUpdate (copy_common common (un_WindowNewUpdate junk))"
| "server_local common junk (WindowDelete m) = WindowDelete (copy_common common (un_WindowDelete junk))"
| "server_local common junk (SetSystemPointer m) = SetSystemPointer (copy_common common (un_SetSystemPointer junk))"
| "server_local common junk (LogonUser m) = LogonUser (copy_common common (un_LogonUser junk))"
| "server_local common junk (LogoffUser m) = LogoffUser (copy_common common (un_LogoffUser junk))"
| "server_local common junk msg = junk"

fun attach_framebuffer :: "RDS_FRAMEBUFFER \<Rightarrow> RDS_MSG \<Rightarrow> RDS_MSG" where
  "attach_framebuffer fb (PaintRect m) =
     PaintRect (if paint_fbSegmentId m \<noteq> 0 then m\<lparr>paint_framebuffer := Some fb\<rparr> else m)"
| "attach_framebuffer fb msg = msg"

definition frame_header :: "rds_locals \<Rightarrow> RDS_MSG \<Rightarrow> RDS_MSG_COMMON" where
  "frame_header loc msg = header_decode (msg_common (msg_final msg)) (loc_common loc)"

definition delivered :: "rds_locals \<Rightarrow> RDS_FRAMEBUFFER \<Rightarrow> byte list \<Rightarrow> RDS_MSG \<Rightarrow> RDS_MSG" where
  "delivered loc fb stale msg =
     attach_framebuffer fb
       (msg_decode (msg_final msg) stale (server_local (frame_header loc msg) (loc_server loc) msg))"

lemma copy_common_simps [simp]:
  "msg_type (copy_common common m) = msg_type common"
  "msg_length (copy_common common m) = msg_length common"
  "msgFlags (copy_common common m) = msgFlags common"
  by (simp_all add: copy_common_def)

lemma wire_type: "server_typed msg \<Longrightarrow> ucast (ucast (msg_type (msg_common msg)) :: UINT16) = server_type msg"
  by (cases msg) (simp_all add: server_typed_def)

context wstream
begin

lemma frame_header_type: "server_typed msg \<Longrightarrow> msg_type (frame_header loc msg) = server_type msg"
  by (simp add: frame_header_def header_decode_def msg_final_type wire_type)

lemma server_local_typed:
  assumes "msg_type common = server_type msg" and "server_typed msg" and "readable msg"
  shows "server_typed (server_local common junk msg)"
    and "server_type (server_local common junk msg) = server_type msg"
  using assms by (cases msg; simp add: server_typed_def readable_def)+

lemma receive_server_message:
  assumes "server_typed msg" and "readable msg" and "msg_type common = server_type msg"
    and "Stream_Pointer W s = msg_body K (msg_final msg) @ stale"
    and "length (msg_body K (msg_final msg)) \<le> Stream_GetRemainingLength W s"
    and d: "d = attach_framebuffer (framebuffer b)
                  (msg_decode (msg_final msg) stale (server_local common junk msg))"
  shows "freerds_receive_server_message W K server junk b s common =
           map_option (\<lambda>(status, b'). (if is_PaintRect msg then 0 else status, b', [ServerCall d]))
             (server d (b\<lparr>InboundStream := Stream_Seek W s (length (msg_body K (msg_final msg)))\<rparr>))"
proof -
  note rd = server_read_frame [OF assms(1, 2, 4, 5) server_local_typed [OF assms(3, 1, 2), of junk]]
  have "\<not> is_SuppressOutput msg" using assms(1) by (simp add: server_typed_def)
  then show ?thesis
    using assms(2, 3) rd
    by (cases msg)
       (simp_all add: freerds_receive_server_message_def server_case_def readable_def d map_option_case
          Let_def split: option.split prod.split)
qed

text \<open>
  The last part of a call on a backend of a client: the frame in the stream becomes one call of the
  handler, and the stream starts afresh.
\<close>

lemma receive_server_frame:
  assumes "server_typed msg" and "readable msg" and "\<not> ServerMode b"
    and "Stream_Buffer W s = msg_frame K msg @ stale" and "length (msg_frame K msg) \<le> Stream_Length W s"
  shows "\<exists>s'. receive_frame W K server client loc b s =
               map_option (\<lambda>(status, b'). (0, b'\<lparr>InboundStream := Stream_SetPosition W (InboundStream b') 0\<rparr>,
                              [ServerCall (delivered loc (framebuffer b) stale msg)]))
                 (server (delivered loc (framebuffer b) stale msg) (b\<lparr>InboundStream := s'\<rparr>)) \<and>
               length (Stream_Buffer W s') = length (Stream_Buffer W s) \<and> Stream_Length W s' = Stream_Length W s"
proof -
  let ?h = "header_bytes (msg_common (msg_final msg))" and ?body = "msg_body K (msg_final msg)"
  let ?s0 = "Stream_SetPosition W s 0"
  let ?s1 = "Stream_Seek W ?s0 (length ?h)"
  have ptr: "Stream_Pointer W ?s0 = ?h @ ?body @ stale"
    using assms(4) by (simp add: Stream_Pointer_def SetPosition_laws msg_frame_def)
  have hdr: "freerds_read_common_header W ?s0 (loc_common loc) = (0, ?s1, frame_header loc msg)"
    using read_common_header [OF ptr, of "loc_common loc"] by (simp add: frame_header_def)
  have ptr1: "Stream_Pointer W ?s1 = ?body @ stale" using ptr by (simp add: stream_simps)
  have rem: "length ?body \<le> Stream_GetRemainingLength W ?s1"
    using assms(5) by (simp add: RemainingLength_eq stream_simps msg_frame_def)
  note recv = receive_server_message [OF assms(1, 2) frame_header_type [OF assms(1), of loc] ptr1 rem refl,
      where b = b and server = server and junk = "loc_server loc"]
  show ?thesis
    by (rule exI [of _ "Stream_Seek W ?s1 (length ?body)"])
       (simp add: receive_frame_def hdr freerds_receive_message_def assms(3) recv delivered_def Let_def
          map_option_case stream_simps split: option.split prod.split)
qed

end

section \<open>A sequence of frames\<close>

text \<open>
  The contract between the collection of frames and what happens to a frame: a frame in the stream leads
  to one handler call that carries what was sent, and the stream is then empty again.  \<open>frame\<close> is the wire
  format of the things sent, \<open>good\<close> what is asked of them, \<open>carried\<close> relates them to the call they cause,
  and \<open>mode\<close> says on which side the backend is.
\<close>

definition emptied :: "'s wstream_ops \<Rightarrow> ('p \<Rightarrow> byte list) \<Rightarrow> ('s, 'p) rdsBackend \<Rightarrow> 's \<Rightarrow> ('s, 'p) rdsBackend \<Rightarrow> bool"
where
  "emptied W incoming b s b' \<longleftrightarrow>
     in_pos W b' = 0 \<and> incoming (hClientPipe b') = incoming (hClientPipe b) \<and> ServerMode b' = ServerMode b \<and>
     length (Stream_Buffer W (InboundStream b')) = length (Stream_Buffer W s) \<and>
     Stream_Length W (InboundStream b') = Stream_Length W s"

locale frame_receiver = receiving_backend W P incoming sent
  for W :: "'s wstream_ops" and P :: "'p pipe_ops" and incoming sent +
  fixes K :: window_order_flags
    and server :: "('s, 'p, RDS_MSG) handler" and client :: "('s, 'p, client_call) handler" and loc :: rds_locals
    and frame :: "'m \<Rightarrow> byte list" and good :: "'m \<Rightarrow> bool" and carried :: "'m \<Rightarrow> rds_call \<Rightarrow> bool" and mode :: bool
  assumes frame_is_frame: "good m \<Longrightarrow> length (frame m) < 2 ^ 31 \<Longrightarrow> is_frame (frame m)"
    and frame_call:
      "good m \<Longrightarrow> ServerMode b = mode \<Longrightarrow> Stream_Buffer W s = frame m @ stale \<Longrightarrow>
       length (frame m) \<le> Stream_Length W s \<Longrightarrow>
       receive_frame W K server client loc b s = None \<or>
       (\<exists>b' call. receive_frame W K server client loc b s = Some (0, b', [call]) \<and> carried m call \<and>
                  emptied W incoming b s b')"
begin

abbreviation receive :: "('s, 'p) rdsBackend \<Rightarrow> (int \<times> ('s, 'p) rdsBackend \<times> rds_call list) option" where
  "receive \<equiv> freerds_transport_receive W P K server client loc"

abbreviation thread :: "nat \<Rightarrow> ('s, 'p) rdsBackend \<Rightarrow> (int \<times> ('s, 'p) rdsBackend \<times> rds_call list) option" where
  "thread \<equiv> freerds_service_client_thread W P K server client loc"

end

text \<open>
  A backend that is about to receive \<open>ms\<close>: the frames are on their way, perhaps with the start of the
  first one in the stream already, and every frame fits the stream.
\<close>

definition fits :: "'s wstream_ops \<Rightarrow> 's \<Rightarrow> byte list \<Rightarrow> bool" where
  "fits W s F \<longleftrightarrow> length F < 2 ^ 31 \<and> length F \<le> length (Stream_Buffer W s) \<and> length F \<le> Stream_Length W s"

definition awaiting ::
  "'s wstream_ops \<Rightarrow> ('p \<Rightarrow> byte list) \<Rightarrow> ('m \<Rightarrow> byte list) \<Rightarrow> ('m \<Rightarrow> bool) \<Rightarrow> bool \<Rightarrow> 'm list \<Rightarrow>
   ('s, 'p) rdsBackend \<Rightarrow> bool" where
  "awaiting W incoming frame good mode ms b \<longleftrightarrow>
     ServerMode b = mode \<and> (\<forall>m \<in> set ms. good m \<and> fits W (InboundStream b) (frame m)) \<and>
     (case ms of
        [] \<Rightarrow> in_pos W b = 0 \<and> incoming (hClientPipe b) = []
      | m # ms \<Rightarrow> in_pos W b < length (frame m) \<and>
          collecting W incoming (frame m) (concat (map frame ms)) (InboundStream b) (hClientPipe b))"

context wstream
begin

lemma collecting_whole:
  assumes "collecting W incoming F rest s p" and "Stream_GetPosition W s = length F"
  shows "Stream_Buffer W s = F @ drop (length F) (Stream_Buffer W s)" and "incoming p = rest"
proof -
  have "take (length F) (Stream_Buffer W s) = F \<and> incoming p = rest"
    using assms by (auto simp: collecting_def append_eq_append_conv)
  then show "Stream_Buffer W s = F @ drop (length F) (Stream_Buffer W s)" and "incoming p = rest"
    by (metis append_take_drop_id, simp)
qed

end

context frame_receiver
begin

abbreviation waiting :: "'m list \<Rightarrow> ('s, 'p) rdsBackend \<Rightarrow> bool" where
  "waiting \<equiv> awaiting W incoming frame good mode"

text \<open>There is a whole frame, and the table has no entry for it.\<close>

abbreviation handler_missing :: "'m \<Rightarrow> bool" where
  "handler_missing m \<equiv> \<exists>b s stale. good m \<and> ServerMode b = mode \<and> Stream_Buffer W s = frame m @ stale \<and>
     length (frame m) \<le> Stream_Length W s \<and> receive_frame W K server client loc b s = None"

lemma frame_not_empty: "good m \<Longrightarrow> length (frame m) < 2 ^ 31 \<Longrightarrow> frame m \<noteq> []"
  using frame_is_frame [of m] by (auto simp: is_frame_def RDS_ORDER_HEADER_LENGTH_def)

lemma waiting_start:
  assumes "ServerMode b = mode" and "in_pos W b = 0" and "incoming (hClientPipe b) = concat (map frame ms)"
    and "\<forall>m \<in> set ms. good m \<and> fits W (InboundStream b) (frame m)"
  shows "waiting ms b"
proof (cases ms)
  case (Cons m ms')
  then have "frame m \<noteq> []" using assms(4) frame_not_empty [of m] by (simp add: fits_def)
  then show ?thesis
    using assms Cons by (simp add: awaiting_def collecting_def fits_def)
qed (use assms in \<open>simp add: awaiting_def\<close>)

text \<open>With nothing on the way the pipe has nothing to give, and the call reports that.\<close>

lemma wait_dry:
  assumes "waiting [] b"
  shows "\<exists>b'. receive b = Some (-1, b', [])"
proof -
  have pos: "in_pos W b = 0" and dry: "incoming (hClientPipe b) = []"
    using assms by (simp_all add: awaiting_def)
  obtain ok bs p where rd: "ReadFile P (hClientPipe b) 10 = (ok, bs, p)" by (metis prod_cases3)
  have "bs = []" using ReadFile_law [OF rd] dry by simp
  then show ?thesis
    using pos rd
    by (simp add: freerds_transport_receive_def receive_header_def read_into_def freerds_named_pipe_read_def
        RDS_ORDER_HEADER_LENGTH_def Let_def)
qed

text \<open>
  Otherwise a call fails with the pipe, or gets ahead, or completes the first frame; then it makes the
  call that carries it, unless the handler is a null pointer, and waits for the others.
\<close>

lemma wait_step:
  assumes await: "waiting (m # ms) b"
  shows "(\<exists>b'. receive b = Some (-1, b', []) \<and> pipe_fault W P incoming) \<or>
         (\<exists>b'. receive b = Some (0, b', []) \<and> waiting (m # ms) b' \<and> in_pos W b < in_pos W b') \<or>
         (receive b = None \<and> handler_missing m) \<or>
         (\<exists>b' call. receive b = Some (0, b', [call]) \<and> carried m call \<and> waiting ms b' \<and> in_pos W b' = 0)"
proof -
  have m: "good m" "fits W (InboundStream b) (frame m)" "ServerMode b = mode"
    and col: "collecting W incoming (frame m) (concat (map frame ms)) (InboundStream b) (hClientPipe b)"
    and pos: "in_pos W b < length (frame m)"
    using await by (simp_all add: awaiting_def)
  have F: "is_frame (frame m)" using m by (intro frame_is_frame) (simp_all add: fits_def)
  from receive_step [OF F col pos, of K server client loc] show ?thesis
  proof (elim disjE exE conjE)
    fix b' assume "receive b = Some (0, b', [])"
      "collecting W incoming (frame m) (concat (map frame ms)) (InboundStream b') (hClientPipe b')"
      "in_pos W b < in_pos W b'" "in_pos W b' < length (frame m)" "same_shape W b b'"
    then show ?thesis
      using await by (intro disjI2 disjI1 exI [of _ b']) (simp add: awaiting_def same_shape_def fits_def)
  next
    fix b1 assume run: "receive b = receive_frame W K server client loc b1 (InboundStream b1)"
      and col1: "collecting W incoming (frame m) (concat (map frame ms)) (InboundStream b1) (hClientPipe b1)"
      and full: "in_pos W b1 = length (frame m)" and shape: "same_shape W b b1"
    note whole = collecting_whole [OF col1 full]
    have here: "ServerMode b1 = mode" "length (frame m) \<le> Stream_Length W (InboundStream b1)"
      using m shape by (simp_all add: fits_def same_shape_def)
    from frame_call [OF m(1) here(1) whole(1) here(2)] show ?thesis
    proof (elim disjE exE conjE)
      assume "receive_frame W K server client loc b1 (InboundStream b1) = None"
      then show ?thesis using run here whole(1) m(1) by auto
    next
      fix b' call assume "receive_frame W K server client loc b1 (InboundStream b1) = Some (0, b', [call])"
        "carried m call" "emptied W incoming b1 (InboundStream b1) b'"
      then show ?thesis
        using await shape whole(2)
        by (intro disjI2 exI [of _ b'] exI [of _ call] conjI waiting_start)
           (simp_all add: run emptied_def awaiting_def same_shape_def fits_def)
    qed
  qed auto
qed

text \<open>However often the thread runs, the calls it makes carry what was sent, in order.\<close>

lemma thread_in_order:
  "waiting ms b \<Longrightarrow> thread ready b = Some (status, b', calls) \<Longrightarrow>
   \<exists>n \<le> length ms. list_all2 carried (take n ms) calls"
proof (induction ready arbitrary: ms b calls)
  case 0
  then show ?case by (auto intro: exI [of _ 0])
next
  case (Suc ready)
  show ?case
  proof (cases ms)
    case Nil
    then show ?thesis using wait_dry [of b] Suc.prems by auto
  next
    case (Cons m ms')
    consider b1 where "receive b = Some (-1, b1, [])"
      | b1 where "receive b = Some (0, b1, [])" "waiting ms b1"
      | "receive b = None"
      | b1 call where "receive b = Some (0, b1, [call])" "carried m call" "waiting ms' b1"
      using wait_step [OF Suc.prems(1) [unfolded Cons]] Cons by auto
    then show ?thesis
    proof cases
      case (4 b1 call)
      then obtain further where "thread ready b1 = Some (status, b', further)" "calls = call # further"
        using Suc.prems(2) by (auto simp: Option.bind_eq_Some_conv)
      moreover from this(1) obtain n where "n \<le> length ms'" "list_all2 carried (take n ms') further"
        using Suc.IH [OF 4(3)] by auto
      ultimately show ?thesis
        using 4(2) Cons by (intro exI [of _ "Suc n"]) simp
    qed (use Suc.prems(2) Suc.IH in \<open>auto simp: Option.bind_eq_Some_conv intro: exI [of _ 0]\<close>)
  qed
qed

text \<open>If the pipe does not fail and no handler is missing, all of it arrives.\<close>

lemma thread_all:
  assumes "\<not> pipe_fault W P incoming"
    and "\<And>m. \<not> handler_missing m"
  shows "waiting ms b \<Longrightarrow>
         \<exists>ready b' calls. ready \<le> length (concat (map frame ms)) - in_pos W b \<and>
           thread ready b = Some (0, b', calls) \<and> list_all2 carried ms calls \<and> waiting [] b'"
proof (induction "length (concat (map frame ms)) - in_pos W b" arbitrary: ms b rule: less_induct)
  case less
  show ?case
  proof (cases ms)
    case Nil
    then show ?thesis using less.prems by (intro exI [of _ 0] exI [of _ b] exI [of _ "[]"]) simp
  next
    case (Cons m ms')
    have pos: "in_pos W b < length (frame m)" using less.prems by (simp add: Cons awaiting_def)
    consider b1 where "receive b = Some (0, b1, [])" "waiting ms b1" "in_pos W b < in_pos W b1"
      | b1 call where "receive b = Some (0, b1, [call])" "carried m call" "waiting ms' b1" "in_pos W b1 = 0"
      using wait_step [OF less.prems [unfolded Cons]] Cons assms by blast
    then show ?thesis
    proof cases
      case (1 b1)
      then have "length (concat (map frame ms)) - in_pos W b1 < length (concat (map frame ms)) - in_pos W b"
        using pos Cons by simp
      from less.hyps [OF this 1(2)] obtain ready b' calls where
        "ready \<le> length (concat (map frame ms)) - in_pos W b1" "thread ready b1 = Some (0, b', calls)"
        "list_all2 carried ms calls" "waiting [] b'" by blast
      then show ?thesis
        using 1 pos Cons by (intro exI [of _ "Suc ready"] exI [of _ b'] exI [of _ calls]) auto
    next
      case (2 b1 call)
      then have fewer: "length (concat (map frame ms')) - in_pos W b1 < length (concat (map frame ms)) - in_pos W b"
        using pos Cons by auto
      from less.hyps [OF this 2(3)] obtain ready b' calls where
        "ready \<le> length (concat (map frame ms'))" "thread ready b1 = Some (0, b', calls)"
        "list_all2 carried ms' calls" "waiting [] b'" using 2(4) by auto
      then show ?thesis
        using 2 fewer Cons by (intro exI [of _ "Suc ready"] exI [of _ b'] exI [of _ "call # calls"]) auto
    qed
  qed
qed

end

section \<open>The two directions\<close>

text \<open>
  What is asked of the handlers: they leave the inbound stream and the direction of the pipe they read
  from alone.
\<close>

definition handler_keeps :: "('p \<Rightarrow> byte list) \<Rightarrow> ('s, 'p, 'c) handler \<Rightarrow> bool" where
  "handler_keeps incoming h \<longleftrightarrow>
     (\<forall>c b status b'. h c b = Some (status, b') \<longrightarrow>
        InboundStream b' = InboundStream b \<and> incoming (hClientPipe b') = incoming (hClientPipe b) \<and>
        ServerMode b' = ServerMode b)"

text \<open>A call that carries a message, whatever the unused memory around it holds.\<close>

definition carries :: "rds_locals \<Rightarrow> RDS_MSG \<Rightarrow> rds_call \<Rightarrow> bool" where
  "carries loc msg call \<longleftrightarrow> (\<exists>fb stale. call = ServerCall (delivered loc fb stale msg))"

definition carries_event :: "client_call \<Rightarrow> rds_call \<Rightarrow> bool" where
  "carries_event c call \<longleftrightarrow> call = ClientCall c"

lemma carries_event_calls: "list_all2 carries_event cs calls \<Longrightarrow> calls = map ClientCall cs"
  by (induction rule: list_all2_induct) (simp_all add: carries_event_def)

text \<open>The events that the receiving side knows: it has no case for the suppression of output.\<close>

definition handled_event :: "client_call \<Rightarrow> bool" where
  "handled_event c \<longleftrightarrow> is_event c \<and> call_type c \<noteq> 114"

text \<open>The header of an event, with the stack of the receiver behind it.\<close>

definition event_common :: "rds_locals \<Rightarrow> client_call \<Rightarrow> RDS_MSG_COMMON" where
  "event_common loc c =
     (loc_common loc)\<lparr>msg_type := call_type c,
        msg_length := of_nat (length (client_frame c)), msgFlags := 0\<rparr>"

lemma msg_frame_pos: "RDS_ORDER_HEADER_LENGTH \<le> length (msg_frame K m)"
  using header_length_bounds(1) [of "msg_common (msg_final m)"]
  by (simp add: msg_frame_def RDS_ORDER_HEADER_LENGTH_def)

lemma client_frame_is_frame: "is_frame (client_frame c)"
  using length_client_frame [of c]
  by (cases c)
     (simp_all add: is_frame_def client_frame_def event_frame_def freerds_peek_common_header_length_def
        RDS_ORDER_HEADER_LENGTH_def)

context wstream
begin

lemma msg_frame_is_frame: "msg_ok m \<Longrightarrow> length (msg_frame K m) < 2 ^ 31 \<Longrightarrow> is_frame (msg_frame K m)"
  using msg_frame_pos [of K m] msg_length_field [of m K]
  by (simp add: is_frame_def msg_frame_def peek_header)

lemma read_event_header:
  assumes "Stream_Pointer W s = client_frame c @ rest"
  shows "freerds_read_common_header W s (loc_common loc) = (0, Stream_Seek W s 10, event_common loc c)"
proof -
  let ?h = "event_common loc c"
  have "Stream_Pointer W s = header_bytes ?h @ concat (map le32 (client_fields c)) @ rest"
    using assms by (simp add: event_common_def client_frame_def event_frame_def header_bytes_def)
  from read_common_header [OF this, of "loc_common loc"] show ?thesis
    by (cases c) (simp_all add: event_common_def header_decode_def header_bytes_def)
qed

text \<open>One handler call per event, with the arguments it was sent with.\<close>

lemma receive_event:
  assumes "handled_event c" and "Stream_Pointer W s = concat (map le32 (client_fields c)) @ rest"
    and "4 * length (client_fields c) \<le> Stream_GetRemainingLength W s"
    and b1: "b1 = b\<lparr>InboundStream := Stream_Seek W s (4 * length (client_fields c))\<rparr>"
  shows "freerds_receive_client_message W client loc b s (event_common loc c) =
           (case client c b1 of
              None \<Rightarrow> if c = VBlankEvent then Some (0, b1, []) else None
            | Some (status, b') \<Rightarrow> Some (status, b', [ClientCall c]))"
  using assms
  by (cases c)
     (simp_all add: handled_event_def freerds_receive_client_message_def event_common_def
        call_client_def call_client_if_set_def codec_defs codec_simps stream_simps
        split: option.split prod.split)

lemma receive_event_frame:
  assumes "handled_event c" and "ServerMode b"
    and "Stream_Buffer W s = client_frame c @ stale" and "length (client_frame c) \<le> Stream_Length W s"
  shows "\<exists>s'. receive_frame W K server client loc b s =
               (case client c (b\<lparr>InboundStream := s'\<rparr>) of
                  None \<Rightarrow> if c = VBlankEvent then Some (0, b\<lparr>InboundStream := Stream_SetPosition W s' 0\<rparr>, []) else None
                | Some (status, b') \<Rightarrow>
                    Some (0, b'\<lparr>InboundStream := Stream_SetPosition W (InboundStream b') 0\<rparr>, [ClientCall c])) \<and>
               length (Stream_Buffer W s') = length (Stream_Buffer W s) \<and> Stream_Length W s' = Stream_Length W s"
proof -
  let ?s0 = "Stream_SetPosition W s 0"
  let ?s1 = "Stream_Seek W ?s0 10"
  let ?body = "concat (map le32 (client_fields c))"
  have ptr: "Stream_Pointer W ?s0 = client_frame c @ stale"
    using assms(3) by (simp add: Stream_Pointer_def SetPosition_laws)
  have body: "Stream_Pointer W ?s1 = ?body @ stale"
    using ptr by (simp add: stream_simps client_frame_def event_frame_def)
  have "length ?body = 4 * length (client_fields c)" by (cases c) simp_all
  then have rem: "4 * length (client_fields c) \<le> Stream_GetRemainingLength W ?s1"
    using assms(4) by (simp add: RemainingLength_eq stream_simps client_frame_def event_frame_def)
  note recv = receive_event [OF assms(1) body rem refl, where b = b and client = client and loc = loc]
  show ?thesis
    by (rule exI [of _ "Stream_Seek W ?s1 (4 * length (client_fields c))"])
       (simp add: receive_frame_def read_event_header [OF ptr] freerds_receive_message_def assms(2) recv
          Let_def stream_simps split: option.split prod.split)
qed

end

text \<open>The backend of a client receives messages, the backend of a server events.\<close>

locale server_receiver = receiving_backend W P incoming sent
  for W :: "'s wstream_ops" and P :: "'p pipe_ops" and incoming sent +
  fixes K :: window_order_flags and server :: "('s, 'p, RDS_MSG) handler" and loc :: rds_locals
  assumes server_keeps: "handler_keeps incoming server"

sublocale server_receiver \<subseteq> msgs: frame_receiver W P incoming sent K server client loc
  "msg_frame K" "\<lambda>m. server_typed m \<and> readable m" "carries loc" False for client
proof unfold_locales
  fix m assume "server_typed m \<and> readable m" "length (msg_frame K m) < 2 ^ 31"
  then show "is_frame (msg_frame K m)" by (intro msg_frame_is_frame) (simp_all add: readable_def)
next
  fix m and b :: "('s, 'p) rdsBackend" and s stale
  assume m: "server_typed m \<and> readable m" "ServerMode b = False" "Stream_Buffer W s = msg_frame K m @ stale"
    "length (msg_frame K m) \<le> Stream_Length W s"
  let ?d = "delivered loc (framebuffer b) stale m"
  obtain s' where run: "receive_frame W K server client loc b s =
      map_option (\<lambda>(status, b'). (0, b'\<lparr>InboundStream := Stream_SetPosition W (InboundStream b') 0\<rparr>, [ServerCall ?d]))
        (server ?d (b\<lparr>InboundStream := s'\<rparr>))"
    and s': "length (Stream_Buffer W s') = length (Stream_Buffer W s)" "Stream_Length W s' = Stream_Length W s"
    using receive_server_frame [of m b s K stale server client loc] m by auto
  show "receive_frame W K server client loc b s = None \<or>
    (\<exists>b' call. receive_frame W K server client loc b s = Some (0, b', [call]) \<and> carries loc m call \<and>
       emptied W incoming b s b')"
  proof (cases "server ?d (b\<lparr>InboundStream := s'\<rparr>)")
    case (Some r)
    then obtain status b1 where r: "server ?d (b\<lparr>InboundStream := s'\<rparr>) = Some (status, b1)" by (cases r) auto
    note kept = server_keeps [unfolded handler_keeps_def, rule_format, OF r]
    show ?thesis using run r kept s' by (auto simp: carries_def emptied_def SetPosition_laws)
  qed (simp add: run)
qed

locale client_receiver = receiving_backend W P incoming sent
  for W :: "'s wstream_ops" and P :: "'p pipe_ops" and incoming sent +
  fixes client :: "('s, 'p, client_call) handler" and loc :: rds_locals
  assumes client_keeps: "handler_keeps incoming client"
    and vblank_set: "client VBlankEvent b \<noteq> None"

sublocale client_receiver \<subseteq> events: frame_receiver W P incoming sent K server client loc
  client_frame handled_event carries_event True for K server
proof unfold_locales
  fix c and b :: "('s, 'p) rdsBackend" and s stale
  assume c: "handled_event c" "ServerMode b = True" "Stream_Buffer W s = client_frame c @ stale"
    "length (client_frame c) \<le> Stream_Length W s"
  obtain s' where run: "receive_frame W K server client loc b s =
      (case client c (b\<lparr>InboundStream := s'\<rparr>) of
         None \<Rightarrow> if c = VBlankEvent then Some (0, b\<lparr>InboundStream := Stream_SetPosition W s' 0\<rparr>, []) else None
       | Some (status, b') \<Rightarrow>
           Some (0, b'\<lparr>InboundStream := Stream_SetPosition W (InboundStream b') 0\<rparr>, [ClientCall c]))"
    and s': "length (Stream_Buffer W s') = length (Stream_Buffer W s)" "Stream_Length W s' = Stream_Length W s"
    using receive_event_frame [of c b s stale K server client loc] c by blast
  show "receive_frame W K server client loc b s = None \<or>
    (\<exists>b' call. receive_frame W K server client loc b s = Some (0, b', [call]) \<and> carries_event c call \<and>
       emptied W incoming b s b')"
  proof (cases "client c (b\<lparr>InboundStream := s'\<rparr>)")
    case (Some r)
    then obtain status b1 where r: "client c (b\<lparr>InboundStream := s'\<rparr>) = Some (status, b1)" by (cases r) auto
    note kept = client_keeps [unfolded handler_keeps_def, rule_format, OF r]
    show ?thesis using run r kept s' by (auto simp: carries_event_def emptied_def SetPosition_laws)
  next
    case None
    then have "c \<noteq> VBlankEvent" using vblank_set by blast
    then show ?thesis using run None by simp
  qed
qed (use client_frame_is_frame in blast)

context server_receiver
begin

lemmas messages_in_order = msgs.thread_in_order

lemmas messages_all = msgs.thread_all

lemmas messages_start = msgs.waiting_start

end

context client_receiver
begin

lemmas events_in_order = events.thread_in_order

lemmas events_all = events.thread_all

lemmas events_start = events.waiting_start

end

context wstream
begin

text \<open>A frame whose handler is there does not stop the thread.\<close>

lemma server_not_missing:
  assumes "\<And>d b. server d b \<noteq> None" and "server_typed m" and "readable m" and "\<not> ServerMode b"
    and "Stream_Buffer W s = msg_frame K m @ stale" and "length (msg_frame K m) \<le> Stream_Length W s"
  shows "receive_frame W K server client loc b s \<noteq> None"
  using receive_server_frame [OF assms(2-6), of server client loc] assms(1) by auto

lemma client_not_missing:
  assumes "\<And>c b. client c b \<noteq> None" and "handled_event c" and "ServerMode b"
    and "Stream_Buffer W s = client_frame c @ stale" and "length (client_frame c) \<le> Stream_Length W s"
  shows "receive_frame W K server client loc b s \<noteq> None"
proof -
  obtain s' where "receive_frame W K server client loc b s =
      (case client c (b\<lparr>InboundStream := s'\<rparr>) of
         None \<Rightarrow> if c = VBlankEvent then Some (0, b\<lparr>InboundStream := Stream_SetPosition W s' 0\<rparr>, []) else None
       | Some (status, b') \<Rightarrow>
           Some (0, b'\<lparr>InboundStream := Stream_SetPosition W (InboundStream b') 0\<rparr>, [ClientCall c]))"
    using receive_event_frame [OF assms(2-5), of K server client loc] by blast
  then show ?thesis using assms(1) [of c "b\<lparr>InboundStream := s'\<rparr>"] by auto
qed

end

sublocale backend_link \<subseteq> receiving_backend W P incoming sent
  by unfold_locales

context backend_link
begin

lemma no_pipe_fault: "\<not> pipe_fault W P incoming"
proof
  assume "pipe_fault W P incoming"
  then obtain s p n status s' p' where *: "incoming p \<noteq> []" "read_into W P s p n = (status, s', p')" "status < 0"
      "n \<noteq> 0" "unat n < 2 ^ 31"
    by (auto simp: pipe_fault_def)
  then obtain bs where "freerds_named_pipe_read P p n = (status, bs, p')"
    by (auto simp: read_into_def Let_def split: prod.splits)
  then show False using pipe_read_progress(1) [OF *(1, 4, 5)] *(3) by simp
qed

text \<open>On a connected pipe everything arrives, after no more calls than there are bytes.\<close>

lemma messages_arrive:
  assumes keeps: "handler_keeps incoming server" and handled: "\<And>d b. server d b \<noteq> None"
    and await: "awaiting W incoming (msg_frame K) (\<lambda>m. server_typed m \<and> readable m) False ms b"
  shows "\<exists>ready b' calls. ready \<le> length (concat (map (msg_frame K) ms)) - in_pos W b \<and>
           freerds_service_client_thread W P K server client loc ready b = Some (0, b', calls) \<and>
           list_all2 (carries loc) ms calls \<and> in_pos W b' = 0 \<and> incoming (hClientPipe b') = []"
proof -
  have recv: "server_receiver W P incoming sent server" by unfold_locales (rule keeps)
  have present: "\<not> (\<exists>b s stale. (server_typed m \<and> readable m) \<and> ServerMode b = False \<and>
      Stream_Buffer W s = msg_frame K m @ stale \<and> length (msg_frame K m) \<le> Stream_Length W s \<and>
      receive_frame W K server client loc b s = None)" for m
    using server_not_missing [where server = server, OF handled, of m] by blast
  from server_receiver.messages_all [OF recv no_pipe_fault present await] show ?thesis
    unfolding awaiting_def list.case by blast
qed

lemma events_arrive:
  assumes keeps: "handler_keeps incoming client" and handled: "\<And>c b. client c b \<noteq> None"
    and await: "awaiting W incoming client_frame handled_event True cs b"
  shows "\<exists>ready b'. ready \<le> length (concat (map client_frame cs)) - in_pos W b \<and>
           freerds_service_client_thread W P K server client loc ready b = Some (0, b', map ClientCall cs) \<and>
           in_pos W b' = 0 \<and> incoming (hClientPipe b') = []"
proof -
  have recv: "client_receiver W P incoming sent client" by unfold_locales (use keeps handled in auto)
  have present: "\<not> (\<exists>b s stale. handled_event c \<and> ServerMode b = True \<and>
      Stream_Buffer W s = client_frame c @ stale \<and> length (client_frame c) \<le> Stream_Length W s \<and>
      receive_frame W K server client loc b s = None)" for c
    using client_not_missing [where client = client, OF handled, of c] by blast
  from client_receiver.events_all [OF recv no_pipe_fault present await]
  obtain ready b' calls where "ready \<le> length (concat (map client_frame cs)) - in_pos W b"
    "freerds_service_client_thread W P K server client loc ready b = Some (0, b', calls)"
    "list_all2 carries_event cs calls" "in_pos W b' = 0" "incoming (hClientPipe b') = []"
    by (auto simp: awaiting_def)
  then show ?thesis using carries_event_calls by blast
qed

end

lemmas receiver_defs =
  server_receiver_def server_receiver_axioms_def client_receiver_def client_receiver_axioms_def
  receiving_backend_def backend_link_def connected_pipe_def

text \<open>Handlers that only note the call keep the contract.\<close>

definition note_call :: "('s, 'p, 'c) handler" where
  "note_call c b = Some (0, b)"

lemma note_call_keeps: "handler_keeps incoming note_call" "note_call c b \<noteq> None"
  by (simp_all add: handler_keeps_def note_call_def)

interpretation noted_msgs: server_receiver buffer_ops chunk_pipe_ops cp_in cp_out K note_call loc for K loc
  by unfold_locales (rule note_call_keeps)

interpretation noted_events: client_receiver buffer_ops chunk_pipe_ops cp_in cp_out note_call loc for loc
  by unfold_locales (rule note_call_keeps)+

end
