(* ===== verification/Rds_Samples.thy ===== *)
theory Rds_Samples
  imports Rds_Transport
begin

text \<open>
  Concrete values for the examples that go with the theorems: messages, the memory of the local
  variables, flags that are distinct bits, and backends on the buffer and the pipe of
  \<open>Rds_WStream\<close> and \<open>Rds_Pipe\<close>.
\<close>

definition sample_common :: "UINT32 \<Rightarrow> RDS_MSG_COMMON" where
  "sample_common type =
     \<lparr>msg_type = type, msg_length = 0, msgFlags = 0,
      rect = \<lparr>rect_x = 0, rect_y = 0, rect_width = 0, rect_height = 0\<rparr>\<rparr>"

definition sample_begin :: RDS_MSG where
  "sample_begin = BeginUpdate (sample_common 1)"

definition sample_delete :: RDS_MSG where
  "sample_delete = WindowDelete (RDS_MSG_COMMON.extend (sample_common 22) \<lparr>wdel_windowId = 7\<rparr>)"

definition sample_opaque :: RDS_MSG_OPAQUE_RECT where
  "sample_opaque = RDS_MSG_COMMON.extend (sample_common 4)
     \<lparr>opaque_nLeftRect = 1, opaque_nTopRect = 2, opaque_nWidth = 3, opaque_nHeight = 4, opaque_color = 5\<rparr>"

definition sample_paint :: RDS_MSG_PAINT_RECT where
  "sample_paint = RDS_MSG_COMMON.extend (sample_common 6)
     \<lparr>paint_nLeftRect = 1, paint_nTopRect = 2, paint_nWidth = 3, paint_nHeight = 4, paint_nXSrc = 5,
      paint_nYSrc = 6, paint_bitmapData = Some [8, 9], paint_bitmapDataLength = 2,
      paint_fbSegmentId = 0, paint_framebuffer = None\<rparr>"

definition sample_suppress :: RDS_MSG_SUPPRESS_OUTPUT where
  "sample_suppress = RDS_MSG_COMMON.extend (sample_common 114) \<lparr>suppress_activeOutput = 1\<rparr>"

definition sample_logoff :: RDS_MSG_LOGOFF_USER where
  "sample_logoff = RDS_MSG_COMMON.extend (sample_common 112) \<lparr>logoff_Flags = 3\<rparr>"

definition sample_logon :: RDS_MSG_LOGON_USER where
  "sample_logon = RDS_MSG_COMMON.extend (sample_common 24)
     \<lparr>logon_Flags = 1, logon_UserLength = 1, logon_DomainLength = 0, logon_PasswordLength = 2,
      logon_User = Some [117, 0], logon_Domain = None, logon_Password = Some [112, 119, 0]\<rparr>"

definition sample_brush :: "mem_ptr \<Rightarrow> rdpBrush" where
  "sample_brush data =
     \<lparr>brush_x = 0, brush_y = 0, brush_bpp = 1, brush_style = 3, brush_hatch = 0, brush_index = 0,
      brush_data = data\<rparr>"

definition sample_patblt :: "mem_ptr \<Rightarrow> RDS_MSG_PATBLT" where
  "sample_patblt data = RDS_MSG_COMMON.extend (sample_common 7)
     \<lparr>patblt_nLeftRect = 1, patblt_nTopRect = 2, patblt_nWidth = 3, patblt_nHeight = 4, patblt_bRop = 5,
      patblt_backColor = 6, patblt_foreColor = 7, patblt_brush = sample_brush data\<rparr>"

definition sample_pointer :: RDS_MSG_SET_POINTER where
  "sample_pointer = RDS_MSG_COMMON.extend (sample_common 17)
     \<lparr>ptr_xorBpp = 0, ptr_xPos = 40, ptr_yPos = 3, ptr_width = 32, ptr_height = 32, ptr_lengthAndMask = 1,
      ptr_lengthXorMask = 2, ptr_xorMaskData = Some [1, 2], ptr_andMaskData = Some [3]\<rparr>"

definition sample_window :: RDS_MSG_WINDOW_NEW_UPDATE where
  "sample_window = RDS_MSG_COMMON.extend (sample_common 21)
     \<lparr>wnu_windowId = 1, wnu_ownerWindowId = 2, wnu_style = 3, wnu_extendedStyle = 4, wnu_showState = 5,
      wnu_titleInfo = \<lparr>us_length = 0, us_string = None\<rparr>, wnu_clientOffsetX = 6, wnu_clientOffsetY = 7,
      wnu_clientAreaWidth = 8, wnu_clientAreaHeight = 9, wnu_RPContent = 10, wnu_rootParentHandle = 11,
      wnu_windowOffsetX = 0, wnu_windowOffsetY = 0, wnu_windowClientDeltaX = 0, wnu_windowClientDeltaY = 0,
      wnu_windowWidth = 640, wnu_windowHeight = 480, wnu_numWindowRects = 1,
      wnu_windowRects = [\<lparr>r16_left = 0, r16_top = 0, r16_right = 640, r16_bottom = 480\<rparr>],
      wnu_visibleOffsetX = 0, wnu_visibleOffsetY = 0, wnu_numVisibilityRects = 0, wnu_visibilityRects = None\<rparr>"

definition sample_locals :: rds_locals where
  "sample_locals =
     \<lparr>loc_common = sample_common 0, loc_server = sample_begin,
      loc_caps = RDS_MSG_COMMON.extend (sample_common 0)
        \<lparr>caps_Version = 0, caps_DesktopWidth = 0, caps_DesktopHeight = 0, caps_ColorDepth = 0,
         caps_KeyboardLayout = 0, caps_KeyboardType = 0, caps_KeyboardSubType = 0\<rparr>,
      loc_sync = RDS_MSG_COMMON.extend (sample_common 0) \<lparr>sync_flags = 0\<rparr>,
      loc_scan = RDS_MSG_COMMON.extend (sample_common 0) \<lparr>scan_flags = 0, scan_code = 0, scan_keyboardType = 0\<rparr>,
      loc_vkey = RDS_MSG_COMMON.extend (sample_common 0) \<lparr>vkey_flags = 0, vkey_code = 0\<rparr>,
      loc_ukey = RDS_MSG_COMMON.extend (sample_common 0) \<lparr>ukey_flags = 0, ukey_code = 0\<rparr>,
      loc_mouse = RDS_MSG_COMMON.extend (sample_common 0) \<lparr>mouse_flags = 0, mouse_x = 0, mouse_y = 0\<rparr>,
      loc_xmouse = RDS_MSG_COMMON.extend (sample_common 0) \<lparr>xmouse_flags = 0, xmouse_x = 0, xmouse_y = 0\<rparr>,
      loc_suppress = RDS_MSG_COMMON.extend (sample_common 0) \<lparr>suppress_activeOutput = 0\<rparr>\<rparr>"

definition sample_flags :: window_order_flags where
  "sample_flags =
     \<lparr>WINDOW_ORDER_TYPE_WINDOW = 1, WINDOW_ORDER_STATE_NEW = 2, WINDOW_ORDER_FIELD_OWNER = 4,
      WINDOW_ORDER_FIELD_STYLE = 8, WINDOW_ORDER_FIELD_SHOW = 16, WINDOW_ORDER_FIELD_TITLE = 32,
      WINDOW_ORDER_FIELD_CLIENT_AREA_OFFSET = 64, WINDOW_ORDER_FIELD_CLIENT_AREA_SIZE = 128,
      WINDOW_ORDER_FIELD_ROOT_PARENT = 256, WINDOW_ORDER_FIELD_WND_OFFSET = 512,
      WINDOW_ORDER_FIELD_WND_CLIENT_DELTA = 1024, WINDOW_ORDER_FIELD_WND_SIZE = 2048,
      WINDOW_ORDER_FIELD_WND_RECTS = 4096, WINDOW_ORDER_FIELD_VIS_OFFSET = 8192,
      WINDOW_ORDER_FIELD_VISIBILITY = 16384\<rparr>"

definition sample_framebuffer :: RDS_FRAMEBUFFER where
  "sample_framebuffer =
     \<lparr>fbWidth = 0, fbHeight = 0, fbAttached = 0, fbScanline = 0, fbSegmentId = 0, fbBitsPerPixel = 0,
      fbBytesPerPixel = 0, fbSharedMemory = None\<rparr>"

text \<open>A pipe that moves three bytes at a time, and a backend on it with two streams of 64 bytes.\<close>

definition sample_pipe :: "byte list \<Rightarrow> chunk_pipe" where
  "sample_pipe arriving = \<lparr>cp_in = arriving, cp_out = [], cp_chunk = 2\<rparr>"

definition sample_backend :: "bool \<Rightarrow> byte list \<Rightarrow> (buffer_stream, chunk_pipe) rdsBackend" where
  "sample_backend mode arriving =
     \<lparr>ServerMode = mode, hClientPipe = sample_pipe arriving, OutboundStream = buffer_stream_new 64,
      InboundStream = buffer_stream_new 64, framebuffer = sample_framebuffer\<rparr>"

lemmas sample_defs =
  sample_common_def sample_begin_def sample_delete_def sample_opaque_def sample_paint_def
  sample_suppress_def sample_logoff_def sample_logon_def sample_brush_def sample_patblt_def
  sample_pointer_def sample_window_def sample_locals_def sample_flags_def sample_framebuffer_def
  sample_pipe_def sample_backend_def RDS_MSG_COMMON.extend_def

lemma sample_stream [simp]:
  "length (Stream_Buffer buffer_ops (buffer_stream_new n)) = n"
  "Stream_Length buffer_ops (buffer_stream_new n) = n"
  "Stream_GetPosition buffer_ops (buffer_stream_new n) = 0"
  "Stream_GetRemainingLength buffer_ops (buffer_stream_new n) = n"
  "length (Stream_Pointer buffer_ops (buffer_stream_new n)) = n"
  by (simp_all add: buffer_ops_def buffer_stream_new_def Stream_Pointer_def)

lemma sample_backend_fields [simp]:
  "ServerMode (sample_backend mode arriving) = mode"
  "InboundStream (sample_backend mode arriving) = buffer_stream_new 64"
  "OutboundStream (sample_backend mode arriving) = buffer_stream_new 64"
  "cp_in (hClientPipe (sample_backend mode arriving)) = arriving"
  "cp_out (hClientPipe (sample_backend mode arriving)) = []"
  by (simp_all add: sample_backend_def sample_pipe_def)

lemma sample_begin_facts:
  "server_typed sample_begin" "readable sample_begin" "length (msg_frame K sample_begin) = 10"
  by (simp_all add: server_typed_def readable_def msg_frame_def codec_defs set_header_def header_bytes_def
      RDS_MSG_FLAG_RECT_def sample_defs)

end
