(* ===== verification/Rds_Protocol_Properties.thy ===== *)
theory Rds_Protocol_Properties
  imports Rds_Samples
begin

text \<open>
  The properties of the message codecs, of the generic routines over the message tables and of the pipe
  routines, stated for any stream and any pipe with the documented behaviour.  Each theorem with a
  hypothesis is followed by an instance on concrete values.
\<close>

section \<open>Round trips\<close>

context wstream
begin

lemma server_write_then_read:
  assumes "server_typed msg" and "readable msg" and "server_typed dst" and "server_type dst = server_type msg"
    and room: "length (msg_frame K msg) \<le> length (Stream_Pointer W s)"
    and len: "Stream_GetPosition W s + length (msg_frame K msg) \<le> Stream_Length W s"
  defines "t \<equiv> Stream_Write W s (msg_frame K msg)"
  defines "h \<equiv> header_bytes (msg_common (msg_final msg))"
  defines "s0 \<equiv> Stream_SetPosition W t (Stream_GetPosition W s)"
  shows "freerds_read_common_header W s0 common =
           (0, Stream_Seek W s0 (length h), header_decode (msg_common (msg_final msg)) common)"
    and "freerds_server_message_read W K (Stream_Seek W s0 (length h)) dst =
           Some (0, t, msg_decode (msg_final msg) (drop (length (msg_frame K msg)) (Stream_Pointer W s)) dst)"
proof -
  let ?rest = "drop (length (msg_frame K msg)) (Stream_Pointer W s)" and ?body = "msg_body K (msg_final msg)"
  have "10 \<le> length (msg_frame K msg)" using msg_frame_pos [of K msg] by (simp add: RDS_ORDER_HEADER_LENGTH_def)
  then have pos: "Stream_GetPosition W s \<le> length (Stream_Buffer W s)"
    using room by (simp add: Stream_Pointer_def)
  have ptr: "Stream_Pointer W s0 = h @ ?body @ ?rest"
    using Write_rewind_pointer [OF room pos] by (simp add: s0_def t_def h_def msg_frame_def)
  show "freerds_read_common_header W s0 common =
      (0, Stream_Seek W s0 (length h), header_decode (msg_common (msg_final msg)) common)"
    using read_common_header [OF ptr [unfolded h_def], of common] by (simp add: h_def)
  have body: "Stream_Pointer W (Stream_Seek W s0 (length h)) = ?body @ ?rest"
    using ptr by (simp add: stream_simps)
  have rem: "length ?body \<le> Stream_GetRemainingLength W (Stream_Seek W s0 (length h))"
    using len room by (simp add: RemainingLength_eq stream_simps s0_def t_def h_def msg_frame_def Write_len)
  have "Stream_Seek W (Stream_Seek W s0 (length h)) (length ?body) = t"
    using room SetPosition_same [of t]
    by (simp add: s0_def t_def h_def Seek_eq SetPosition_laws Write_pos msg_frame_def add.assoc)
  then show "freerds_server_message_read W K (Stream_Seek W s0 (length h)) dst =
      Some (0, t, msg_decode (msg_final msg) ?rest dst)"
    using server_read_frame [OF assms(1, 2) body rem assms(3, 4)] by simp
qed

end

text \<open>
  C6.  Write, then read.  A session that writes a message through the generic writer and rewinds the stream
  can read it back through the header reader and the generic reader: the header reader finds the type of
  the message, and the message reader succeeds, ends where the writer ended and yields the fields as the wire carries
  them: modulo 65536 where sixteen bits travel, the hot spot of a pointer clamped.  Seven of the twenty-five server messages
  are excluded: pattern blts and window orders, whose readers are treated below, and the palette, the two
  glyph messages, the beep and the reset, whose writers are empty.  A paint order needs a segment
  identifier or a bitmap that is not empty, in memory at its full length and less than \<open>2 ^ 32 - 46\<close> bytes
  long; a pointer needs its two masks in memory, each shorter than 65536 bytes; and the three strings of a logon together need fewer
  than \<open>2 ^ 32 - 26\<close> bytes.
\<close>

theorem server_message_roundtrip:
  assumes "wstream W" and "server_typed msg" and "readable msg"
    and "server_typed dst" and "server_type dst = server_type msg"
    and "length (msg_frame K msg) \<le> length (Stream_Pointer W s)"
    and "Stream_GetPosition W s + length (msg_frame K msg) \<le> Stream_Length W s"
  shows "\<exists>t s1 common'.
           freerds_server_message_write W K (Some s) msg =
             Some (sint (msg_length (msg_common (msg_final msg))), Some t, msg_final msg) \<and>
           freerds_read_common_header W (Stream_SetPosition W t (Stream_GetPosition W s)) common = (0, s1, common') \<and>
           msg_type common' = server_type msg \<and> unat (msg_length common') = length (msg_frame K msg) \<and>
           freerds_server_message_read W K s1 dst =
             Some (0, t, msg_decode (msg_final msg) (drop (length (msg_frame K msg)) (Stream_Pointer W s)) dst)"
proof -
  have ok: "msg_ok msg" using assms(3) by (simp add: readable_def)
  note wr = wstream.server_write_frame [OF assms(1, 2) ok assms(6)]
    and rd = wstream.server_write_then_read [OF assms(1-7)]
    and field = wstream.msg_length_field [OF assms(1) ok, of K]
  have "msg_type (header_decode (msg_common (msg_final msg)) common) = server_type msg"
    using wstream.msg_final_type [OF assms(1), of msg] wire_type [OF assms(2)] by (simp add: header_decode_def)
  then show ?thesis
    using wr rd(2) field by (simp add: rd(1) [of common] header_decode_def)
qed

theorem server_message_roundtrip_witness:
  "\<exists>t s1 common'.
     freerds_server_message_write buffer_ops sample_flags (Some (buffer_stream_new 64)) (OpaqueRect sample_opaque) =
       Some (38, Some t, msg_final (OpaqueRect sample_opaque)) \<and>
     freerds_read_common_header buffer_ops (Stream_SetPosition buffer_ops t 0) (sample_common 0) = (0, s1, common') \<and>
     msg_type common' = 4 \<and> unat (msg_length common') = 38 \<and>
     freerds_server_message_read buffer_ops sample_flags s1 (OpaqueRect sample_opaque) =
       Some (0, t, OpaqueRect sample_opaque)"
proof -
  have typed: "server_typed (OpaqueRect sample_opaque)" "readable (OpaqueRect sample_opaque)"
    by (simp_all add: server_typed_def readable_def sample_defs)
  have len: "length (msg_frame sample_flags (OpaqueRect sample_opaque)) = 38"
    "sint (msg_length (msg_common (msg_final (OpaqueRect sample_opaque)))) = 38"
    by (simp_all add: msg_frame_def codec_defs set_header_def header_bytes_def RDS_MSG_FLAG_RECT_def sample_defs)
  have "msg_decode (msg_final (OpaqueRect sample_opaque)) rest (OpaqueRect sample_opaque) = OpaqueRect sample_opaque" for rest
    by (simp add: codec_defs set_header_def wire16_def sample_defs)
  then show ?thesis
    using server_message_roundtrip [OF bs.wstream_axioms typed typed(1) refl,
        of sample_flags "buffer_stream_new 64" "sample_common 0"] len
    by simp
qed

text \<open>
  The fields that the wire carries in sixteen bits, and a message in which all of them fit.  A receiver
  hands a paint order without a segment identifier to the reader.
\<close>

fun narrow_fields :: "RDS_MSG \<Rightarrow> UINT32 list" where
  "narrow_fields (SetClippingRegion m) =
     [clip_bNullRegion m, clip_nLeftRect m, clip_nTopRect m, clip_nWidth m, clip_nHeight m]"
| "narrow_fields (OpaqueRect m) = [opaque_nLeftRect m, opaque_nTopRect m, opaque_nWidth m, opaque_nHeight m]"
| "narrow_fields (ScreenBlt m) =
     [scrblt_nLeftRect m, scrblt_nTopRect m, scrblt_nWidth m, scrblt_nHeight m, scrblt_nXSrc m, scrblt_nYSrc m]"
| "narrow_fields (PaintRect m) =
     [paint_nLeftRect m, paint_nTopRect m, paint_nWidth m, paint_nHeight m, paint_nXSrc m, paint_nYSrc m]"
| "narrow_fields (CreateOffscreenSurface m) = [cos_nWidth m, cos_nHeight m]"
| "narrow_fields (SetPointer m) = [ptr_xorBpp m]"
| "narrow_fields msg = []"

definition narrow :: "RDS_MSG \<Rightarrow> bool" where
  "narrow msg \<longleftrightarrow> list_all (\<lambda>v. uint v < 65536) (narrow_fields msg)"

definition unsegmented :: "RDS_MSG \<Rightarrow> bool" where
  "unsegmented msg \<longleftrightarrow> (is_PaintRect msg \<longrightarrow> paint_fbSegmentId (un_PaintRect msg) = 0)"

lemma logon_string_decode_again: "logon_string (logon_string_decode p) = logon_string p"
  by (cases p) (auto simp: logon_string_def logon_string_decode_def)

lemma logon_string_length_eq: "logon_string_length p = of_nat (length (logon_string p))"
  by (cases p) (simp_all add: logon_string_length_def logon_string_def)

lemma logon_string_length_decode: "logon_string_length (logon_string_decode p) = logon_string_length p"
  by (simp add: logon_string_length_eq logon_string_decode_again)

lemma logon_reencode:
  assumes "msg_type dst = msg_type m"
  shows "msg_frame K (LogonUser (logon_user_decode (logon_user_final m) rest dst)) = msg_frame K (LogonUser m)"
  using assms
  by (simp add: msg_frame_def logon_user_decode_def logon_user_final_def logon_user_body_def header_bytes_def
      logon_string_decode_again logon_string_length_decode Let_def)

lemma paint_reencode:
  assumes "msg_type dst = msg_type m" and "narrow (PaintRect m)" and "paint_rect_ok m"
    and "paint_fbSegmentId dst = 0"
  shows "msg_frame K (PaintRect (paint_rect_decode (paint_rect_final m) rest dst)) = msg_frame K (PaintRect m)"
proof (cases "paint_fbSegmentId m = 0")
  case True
  note load = paint_rect_bitmap_load [OF assms(3) True]
  have "load_bytes (Some (paint_rect_bitmap m @ bs)) (unat (paint_bitmapDataLength m)) = Some (paint_rect_bitmap m)" for bs
    using load_bytes_append [of "paint_rect_bitmap m" bs] load(2) by simp
  then have "paint_rect_bitmap (paint_rect_decode (paint_rect_final m) rest dst) = paint_rect_bitmap m"
    using True by (simp add: paint_rect_bitmap_def paint_rect_decode_def paint_rect_final_def paint_rect_sized_def
        set_header_def Let_def)
  then show ?thesis
    using assms True
    by (simp add: msg_frame_def header_bytes_def codec_defs set_header_def wire16_id narrow_def Let_def)
next
  case False
  then show ?thesis
    using assms
    by (simp add: msg_frame_def header_bytes_def codec_defs set_header_def wire16_id narrow_def Let_def)
qed

text \<open>A pointer: the defaults are not zero, so filling in the decoded message changes nothing.\<close>

lemma default_mask_length:
  fixes b :: UINT32
  assumes "b \<noteq> 0" and "uint b < 65536"
  shows "((b + 7) div 8) * 32 * 32 \<noteq> 0"
proof -
  have b: "0 < unat b" using assms(1) by (simp add: unat_gt_0)
  have small: "unat b < 65536" using assms(2) by (simp add: nat_less_iff flip: nat_uint_eq)
  have sum: "unat (b + 7) = unat b + 7" using small by (simp add: unat_plus_small)
  have quot: "unat ((b + 7) div 8) = (unat b + 7) div 8" by (simp add: unat_div sum)
  have "0 < (unat b + 7) div 8" "(unat b + 7) div 8 < 65536" using b small by linarith+
  then have "unat ((b + 7) div 8 * 32) = (unat b + 7) div 8 * 32"
    using unat_times_small [of "(b + 7) div 8" 32] quot by simp
  then have "unat ((b + 7) div 8 * 32 * 32) = (unat b + 7) div 8 * 32 * 32"
    using unat_times_small [of "(b + 7) div 8 * 32" 32] \<open>(unat b + 7) div 8 < 65536\<close> by simp
  then show ?thesis using \<open>0 < (unat b + 7) div 8\<close> by (metis mult_is_0 not_gr_zero unat_0 zero_neq_numeral)
qed

lemma set_pointer_fill_fields:
  assumes "uint (ptr_xorBpp m) < 65536"
  shows "ptr_xorBpp (set_pointer_fill m) \<noteq> 0" and "uint (ptr_xorBpp (set_pointer_fill m)) < 65536"
    and "ptr_lengthXorMask (set_pointer_fill m) \<noteq> 0" and "ptr_lengthAndMask (set_pointer_fill m) \<noteq> 0"
  using default_mask_length [of "if ptr_xorBpp m = 0 then 24 else ptr_xorBpp m"] assms
  by (simp_all add: set_pointer_fill_def Let_def)

lemma wire16_clamped: "wire16 (min 31 x) = min 31 x"
proof -
  have "uint (min 31 x) \<le> uint (31 :: UINT32)" by (simp add: min_def word_le_def)
  then show ?thesis by (intro wire16_id) simp
qed

lemma set_pointer_reencode:
  assumes "msg_type dst = msg_type m" and "narrow (SetPointer m)" and ok: "set_pointer_ok m"
  shows "msg_frame K (SetPointer (set_pointer_decode (set_pointer_final m) rest dst)) = msg_frame K (SetPointer m)"
proof -
  define f where "f = set_pointer_final m"
  define d where "d = set_pointer_decode f rest dst"
  have "uint (ptr_xorBpp m) < 65536" using assms(2) by (simp add: narrow_def)
  note fill = set_pointer_fill_fields [OF this] and masks = set_pointer_masks [OF ok]
  have f: "ptr_xorBpp f = ptr_xorBpp (set_pointer_fill m)" "ptr_xPos f = min 31 (ptr_xPos m)"
    "ptr_yPos f = min 31 (ptr_yPos m)" "msg_type f = msg_type m" "msgFlags f = 0"
    "msg_length f = 20 + ptr_lengthXorMask f + ptr_lengthAndMask f"
    by (simp_all add: f_def set_pointer_final_def set_pointer_sized_def set_pointer_fill_def set_header_def Let_def)
  note lens = set_pointer_final_lengths [of m, folded f_def]
  have d: "ptr_xPos d = ptr_xPos f" "ptr_yPos d = ptr_yPos f" "ptr_xorBpp d = ptr_xorBpp f"
    "ptr_lengthXorMask d = ptr_lengthXorMask f" "ptr_lengthAndMask d = ptr_lengthAndMask f"
    "ptr_xorMaskData d = Some (set_pointer_xor f @ set_pointer_and f @ rest)"
    "ptr_andMaskData d = Some (set_pointer_and f @ rest)" "msg_type d = msg_type f"
    using f fill assms(1) by (simp_all add: d_def set_pointer_decode_def wire16_id wire16_clamped)
  have "set_pointer_fill d = d"
    using fill lens f d by (simp add: set_pointer_fill_def Let_def)
  then have fin: "set_pointer_final d = d\<lparr>msgFlags := 0, msg_length := msg_length f\<rparr>"
    using f d by (simp add: set_pointer_final_def set_pointer_sized_def set_header_def add.assoc)
  have "set_pointer_xor (set_pointer_final d) = set_pointer_xor f"
    using masks(3) load_bytes_append [of "set_pointer_xor f" "set_pointer_and f @ rest"] lens
    unfolding set_pointer_xor_def [of "set_pointer_final d"] by (simp add: fin d f_def)
  moreover have "set_pointer_and (set_pointer_final d) = set_pointer_and f"
    using masks(4) load_bytes_append [of "set_pointer_and f" rest] lens
    unfolding set_pointer_and_def [of "set_pointer_final d"] by (simp add: fin d f_def)
  ultimately have "msg_frame K (SetPointer d) = msg_frame K (SetPointer m)"
    using f(4, 5) by (simp add: msg_frame_def set_pointer_body_def header_bytes_def f_def [symmetric])
       (simp add: fin d)
  then show ?thesis by (simp add: d_def f_def)
qed

lemma type_of_member:
  "is_BeginUpdate m \<Longrightarrow> msg_type (msg_common m) = msg_type (un_BeginUpdate m)"
  "is_EndUpdate m \<Longrightarrow> msg_type (msg_common m) = msg_type (un_EndUpdate m)"
  "is_SetClippingRegion m \<Longrightarrow> msg_type (msg_common m) = msg_type (un_SetClippingRegion m)"
  "is_OpaqueRect m \<Longrightarrow> msg_type (msg_common m) = msg_type (un_OpaqueRect m)"
  "is_ScreenBlt m \<Longrightarrow> msg_type (msg_common m) = msg_type (un_ScreenBlt m)"
  "is_PaintRect m \<Longrightarrow> msg_type (msg_common m) = msg_type (un_PaintRect m)"
  "is_DstBlt m \<Longrightarrow> msg_type (msg_common m) = msg_type (un_DstBlt m)"
  "is_LineTo m \<Longrightarrow> msg_type (msg_common m) = msg_type (un_LineTo m)"
  "is_CreateOffscreenSurface m \<Longrightarrow> msg_type (msg_common m) = msg_type (un_CreateOffscreenSurface m)"
  "is_SwitchOffscreenSurface m \<Longrightarrow> msg_type (msg_common m) = msg_type (un_SwitchOffscreenSurface m)"
  "is_DeleteOffscreenSurface m \<Longrightarrow> msg_type (msg_common m) = msg_type (un_DeleteOffscreenSurface m)"
  "is_PaintOffscreenSurface m \<Longrightarrow> msg_type (msg_common m) = msg_type (un_PaintOffscreenSurface m)"
  "is_SetPointer m \<Longrightarrow> msg_type (msg_common m) = msg_type (un_SetPointer m)"
  "is_SharedFramebuffer m \<Longrightarrow> msg_type (msg_common m) = msg_type (un_SharedFramebuffer m)"
  "is_WindowDelete m \<Longrightarrow> msg_type (msg_common m) = msg_type (un_WindowDelete m)"
  "is_SetSystemPointer m \<Longrightarrow> msg_type (msg_common m) = msg_type (un_SetSystemPointer m)"
  "is_LogonUser m \<Longrightarrow> msg_type (msg_common m) = msg_type (un_LogonUser m)"
  "is_LogoffUser m \<Longrightarrow> msg_type (msg_common m) = msg_type (un_LogoffUser m)"
  by (cases m; simp)+

lemma decoded_frame:
  assumes "server_typed msg" and "readable msg" and "narrow msg"
    and "server_typed dst" and "server_type dst = server_type msg" and "unsegmented dst"
  shows "msg_frame K (msg_decode (msg_final msg) rest dst) = msg_frame K msg"
proof -
  have same: "msg_type (msg_common dst) = msg_type (msg_common msg)"
    using assms(1, 4, 5) by (simp add: server_typed_def)
  show ?thesis
  proof (cases "is_LogonUser msg \<or> is_PaintRect msg \<or> is_SetPointer msg")
    case True
    then show ?thesis
      using assms(2, 3, 5, 6) same
      by (cases msg)
         (simp_all add: readable_def unsegmented_def server_type_is type_of_member
            logon_reencode paint_reencode set_pointer_reencode)
  next
    case False
    then show ?thesis
      using assms(1, 2, 3, 5) same
      by (cases msg)
         (simp_all add: readable_def server_typed_def narrow_def server_type_is type_of_member msg_frame_def
           header_bytes_def codec_defs set_header_def wire16_id del: RDS_MSG.collapse)
  qed
qed

lemma paint_decode_ok:
  assumes "paint_rect_ok m" and "paint_fbSegmentId dst = 0"
  shows "paint_rect_ok (paint_rect_decode (paint_rect_final m) rest dst)"
proof (cases "paint_fbSegmentId m = 0")
  case True
  note load = paint_rect_bitmap_load [OF assms(1) True]
  have "load_bytes (Some (paint_rect_bitmap m @ bs)) (unat (paint_bitmapDataLength m)) = Some (paint_rect_bitmap m)" for bs
    using load_bytes_append [of "paint_rect_bitmap m" bs] load(2) by simp
  then show ?thesis
    using assms True
    by (simp add: paint_rect_ok_def paint_rect_decode_def paint_rect_final_def paint_rect_sized_def paint_rect_bitmap_def
        set_header_def Let_def)
qed (simp add: codec_defs set_header_def)

lemma set_pointer_decode_ok:
  assumes "narrow (SetPointer m)" and ok: "set_pointer_ok m"
  shows "set_pointer_ok (set_pointer_decode (set_pointer_final m) rest dst)"
proof -
  define f where "f = set_pointer_final m"
  define d where "d = set_pointer_decode f rest dst"
  have "uint (ptr_xorBpp m) < 65536" using assms(1) by (simp add: narrow_def)
  note fill = set_pointer_fill_fields [OF this] and masks = set_pointer_masks [OF ok]
    and lens = set_pointer_final_lengths [of m, folded f_def]
  have f: "ptr_xorBpp f = ptr_xorBpp (set_pointer_fill m)"
    by (simp add: f_def set_pointer_final_def set_pointer_sized_def set_header_def Let_def)
  have "ptr_xorBpp d = ptr_xorBpp f" using f fill by (simp add: d_def set_pointer_decode_def wire16_id)
  then have d: "set_pointer_fill d = d" "ptr_lengthXorMask d = ptr_lengthXorMask f" "ptr_lengthAndMask d = ptr_lengthAndMask f"
    "ptr_xorMaskData d = Some (set_pointer_xor f @ set_pointer_and f @ rest)" "ptr_andMaskData d = Some (set_pointer_and f @ rest)"
    using fill lens f by (simp_all add: d_def set_pointer_decode_def set_pointer_fill_def Let_def)
  have "load_bytes (ptr_xorMaskData d) (unat (ptr_lengthXorMask d)) = Some (set_pointer_xor f)"
    "load_bytes (ptr_andMaskData d) (unat (ptr_lengthAndMask d)) = Some (set_pointer_and f)"
    using masks(3, 4) load_bytes_append [of "set_pointer_xor f" "set_pointer_and f @ rest"]
      load_bytes_append [of "set_pointer_and f" rest] lens by (simp_all add: d f_def)
  moreover have "unat (ptr_lengthXorMask d) < 65536" "unat (ptr_lengthAndMask d) < 65536"
    using ok lens by (simp_all add: d set_pointer_ok_def Let_def)
  ultimately have "set_pointer_ok d" by (simp add: set_pointer_ok_def d(1) Let_def)
  then show ?thesis by (simp add: d_def f_def)
qed

lemma decoded_message_ok:
  assumes "readable msg" and "narrow msg" and "server_type dst = server_type msg" and "unsegmented dst"
  shows "msg_ok (msg_decode (msg_final msg) rest dst)"
proof (cases "is_PaintRect msg \<or> is_SetPointer msg")
  case True
  then show ?thesis
    using assms by (cases msg) (simp_all add: readable_def unsegmented_def server_type_is paint_decode_ok set_pointer_decode_ok)
next
  case False
  then show ?thesis
    using assms by (cases msg)
      (simp_all add: readable_def logon_user_ok_def logon_user_decode_def logon_user_final_def logon_string_decode_again Let_def)
qed

lemma decoded_message_typed:
  assumes "server_typed msg" and "readable msg" and "server_typed dst" and "server_type dst = server_type msg"
  shows "server_typed (msg_decode (msg_final msg) rest dst)"
  using assms by (cases msg; cases dst; simp add: readable_def server_typed_def codec_defs set_pointer_decode_def Let_def)

text \<open>
  C7.  Decoding loses nothing.  A message is written to a stream, the stream is rewound, and the header reader and the
  generic reader fill a structure of the same type from it.  When the fields that travel in sixteen bits
  fit them, writing that structure in the place of the message gives the same stream again, byte by byte,
  and the same length.  The structure may have held anything before, except that a paint order must not carry a segment
  identifier: its reader clears none.  The messages are those of the round trip above.
\<close>

theorem decoded_message_writes_same_bytes:
  assumes "wstream W" and "server_typed msg" and "readable msg" and "narrow msg"
    and "server_typed dst" and "server_type dst = server_type msg" and "unsegmented dst"
    and "length (msg_frame K msg) \<le> length (Stream_Pointer W s)"
    and "Stream_GetPosition W s + length (msg_frame K msg) \<le> Stream_Length W s"
  shows "\<exists>n t s1 common' got final'.
           freerds_server_message_write W K (Some s) msg = Some (n, Some t, msg_final msg) \<and>
           freerds_read_common_header W (Stream_SetPosition W t (Stream_GetPosition W s)) common = (0, s1, common') \<and>
           freerds_server_message_read W K s1 dst = Some (0, t, got) \<and>
           freerds_server_message_write W K (Some s) got = Some (n, Some t, final')"
proof -
  define got where "got = msg_decode (msg_final msg) (drop (length (msg_frame K msg)) (Stream_Pointer W s)) dst"
  have ok: "msg_ok msg" using assms(3) by (simp add: readable_def)
  have frame: "msg_frame K got = msg_frame K msg" and ok': "msg_ok got" and typed: "server_typed got"
    using decoded_frame [OF assms(2-7)] decoded_message_ok [OF assms(3,4,6,7)] decoded_message_typed [OF assms(2,3,5,6)]
    by (simp_all add: got_def)
  have len: "msg_length (msg_common (msg_final got)) = msg_length (msg_common (msg_final msg))"
    using wstream.msg_length_field [OF assms(1) ok, of K] wstream.msg_length_field [OF assms(1) ok', of K] frame
    by (simp add: word_unat_eq_iff)
  note rd = wstream.server_write_then_read [OF assms(1-3,5,6,8,9), folded got_def]
  show ?thesis
    using wstream.server_write_frame [OF assms(1,2) ok assms(8)] wstream.server_write_frame [OF assms(1) typed ok', of K s]
      assms(8) frame len rd(2)
    by (simp add: rd(1) [of common])
qed

theorem decoded_message_writes_same_bytes_witness:
  "\<exists>n t s1 common' got final'.
     freerds_server_message_write buffer_ops sample_flags (Some (buffer_stream_new 64)) (PaintRect sample_paint) =
       Some (n, Some t, msg_final (PaintRect sample_paint)) \<and>
     freerds_read_common_header buffer_ops (Stream_SetPosition buffer_ops t 0) (sample_common 0) = (0, s1, common') \<and>
     freerds_server_message_read buffer_ops sample_flags s1 (PaintRect sample_paint) = Some (0, t, got) \<and>
     freerds_server_message_write buffer_ops sample_flags (Some (buffer_stream_new 64)) got = Some (n, Some t, final')"
proof -
  have typed: "server_typed (PaintRect sample_paint)" "readable (PaintRect sample_paint)" "narrow (PaintRect sample_paint)"
    "unsegmented (PaintRect sample_paint)"
    by (simp_all add: server_typed_def readable_def narrow_def unsegmented_def codec_defs sample_defs)
  have len: "length (msg_frame sample_flags (PaintRect sample_paint)) = 48"
    by (simp add: msg_frame_def codec_defs set_header_def header_bytes_def paint_rect_bitmap_def RDS_MSG_FLAG_RECT_def
        sample_defs)
  show ?thesis
    using decoded_message_writes_same_bytes [OF bs.wstream_axioms typed(1-3) typed(1) refl typed(4),
        of sample_flags "buffer_stream_new 64" "sample_common 0"] len
    by simp
qed

section \<open>Sizing and writing\<close>

text \<open>
  C9.  The two calls of a sender agree.  The first call of the generic writer, without a stream, sets the
  length of the message to the number of bytes the second call writes, and the second call writes the
  frame of the original message, so a sender that makes room for that length never overruns the stream.
  This is for the messages with a wire format, not for the palette, the glyph messages, the beep and the
  reset, and for a paint order, pointer, pattern blt, window order or logon whose data are in memory at
  the lengths it announces and fit the format.
\<close>

theorem server_write_two_phase:
  assumes "wstream W" and "server_typed msg" and "msg_ok msg"
    and "length (msg_frame K msg) \<le> length (Stream_Pointer W s)"
  shows "\<exists>n sized. freerds_server_message_write W K None msg = Some (n, None, sized) \<and>
           unat (msg_length (msg_common sized)) = length (msg_frame K msg) \<and>
           freerds_server_message_write W K (Some s) sized =
             Some (n, Some (Stream_Write W s (msg_frame K msg)), msg_final msg)"
  using msg_sender.sender_two_phase [OF wstream.server_is_sender [OF assms(1)] assms(2-4)] .

theorem server_write_two_phase_witness:
  "\<exists>n sized. freerds_server_message_write buffer_ops sample_flags None (PaintRect sample_paint) = Some (n, None, sized) \<and>
     unat (msg_length (msg_common sized)) = 48 \<and>
     freerds_server_message_write buffer_ops sample_flags (Some (buffer_stream_new 64)) sized =
       Some (n, Some (Stream_Write buffer_ops (buffer_stream_new 64) (msg_frame sample_flags (PaintRect sample_paint))),
             msg_final (PaintRect sample_paint))"
proof -
  have "server_typed (PaintRect sample_paint)" "msg_ok (PaintRect sample_paint)"
    "length (msg_frame sample_flags (PaintRect sample_paint)) = 48"
    by (simp_all add: server_typed_def msg_frame_def codec_defs set_header_def header_bytes_def
        paint_rect_bitmap_def RDS_MSG_FLAG_RECT_def sample_defs)
  then show ?thesis
    using server_write_two_phase [OF bs.wstream_axioms, of "PaintRect sample_paint" sample_flags "buffer_stream_new 64"]
    by simp
qed

text \<open>
  C12.  The common header.  What the header writer puts into the stream, the header reader takes out of it:
  the type of a message with a type below 65536, the length, the flags, and the rectangle if the flags
  announce one; otherwise the rectangle of the message that is filled stays.
\<close>

theorem common_header_roundtrip:
  assumes "wstream W" and "uint (msg_type msg) < 65536"
    and "freerds_common_header_length msg = of_nat n" and "n \<le> 26" and "n \<le> length (Stream_Pointer W s)"
  shows "\<exists>m'. freerds_read_common_header W
                (Stream_SetPosition W (freerds_write_common_header W s msg) (Stream_GetPosition W s)) dst =
              (0, freerds_write_common_header W s msg, m') \<and>
            msg_type m' = msg_type msg \<and> msg_length m' = msg_length msg \<and> msgFlags m' = msgFlags msg \<and>
            rect m' = (if msgFlags msg AND RDS_MSG_FLAG_RECT \<noteq> 0 then rect msg else rect dst)"
proof -
  let ?h = "header_bytes msg"
  have "of_nat n = (of_nat (length ?h) :: UINT32)" using assms(3) by (simp add: common_header_length_eq)
  then have "unat (of_nat n :: UINT32) = unat (of_nat (length ?h) :: UINT32)" by simp
  then have n: "n = length ?h"
    using assms(4) header_length_bounds [of msg] by (simp add: unat_of_nat)
  then have room: "length ?h \<le> length (Stream_Pointer W s)" and ten: "10 \<le> n"
    using assms(5) header_length_bounds(1) [of msg] by simp_all
  have pos: "Stream_GetPosition W s \<le> length (Stream_Buffer W s)"
    using assms(5) ten by (simp add: Stream_Pointer_def)
  note wr = wstream.write_common_header [OF assms(1) room]
    and ptr = wstream.Write_rewind_pointer [OF assms(1) room pos]
  have "Stream_Seek W (Stream_SetPosition W (Stream_Write W s ?h) (Stream_GetPosition W s)) (length ?h) = Stream_Write W s ?h"
    using wstream.SetPosition_same [OF assms(1), of "Stream_Write W s ?h"]
    by (simp add: wstream.Seek_eq [OF assms(1)] wstream.SetPosition_laws [OF assms(1)] wstream.Write_pos [OF assms(1) room])
  then show ?thesis
    using wstream.read_common_header [OF assms(1) ptr, of dst] assms(2) wire16_id [of "msg_type msg"]
    by (simp add: wr header_decode_def wire16_def)
qed

theorem common_header_roundtrip_witness:
  "\<exists>m'. freerds_read_common_header buffer_ops
          (Stream_SetPosition buffer_ops (freerds_write_common_header buffer_ops (buffer_stream_new 64) sample_opaque) 0)
          sample_paint =
        (0, freerds_write_common_header buffer_ops (buffer_stream_new 64) sample_opaque, m') \<and>
      msg_type m' = 4 \<and> msg_length m' = 0 \<and> msgFlags m' = 0 \<and> rect m' = rect sample_paint"
  using common_header_roundtrip [OF bs.wstream_axioms, of sample_opaque 10 "buffer_stream_new 64" sample_paint]
  by (simp add: freerds_common_header_length_def RDS_ORDER_HEADER_LENGTH_def sample_defs)

section \<open>Truncated frames\<close>

context wstream
begin

lemmas all_rd_short =
  bupd.rd_short eupd.rd_short clip.rd_short opaque.rd_short scrblt.rd_short dstblt.rd_short line.rd_short
  cos.rd_short sos.rd_short dos.rd_short pos.rd_short shfb.rd_short wdel.rd_short sysptr.rd_short
  logoff.rd_short

lemmas all_body_size =
  bupd.body_size eupd.body_size clip.body_size opaque.body_size scrblt.body_size dstblt.body_size
  line.body_size cos.body_size sos.body_size dos.body_size pos.body_size shfb.body_size wdel.body_size
  sysptr.body_size logoff.body_size

lemma truncated_paint:
  assumes "paint_rect_ok m" and "Stream_Pointer W s = paint_rect_body (paint_rect_final m) @ rest"
    and "Stream_GetRemainingLength W s < length (paint_rect_body (paint_rect_final m))"
  shows "fst (freerds_read_paint_rect W s msg) = -1"
  using assms paint_rect_bitmap_load [of m]
  by (cases "paint_fbSegmentId m = 0")
     (auto simp: codec_defs codec_simps stream_simps)

lemma truncated_pointer:
  assumes "set_pointer_ok m" and "Stream_Pointer W s = set_pointer_body (set_pointer_final m) @ rest"
    and "Stream_GetRemainingLength W s < length (set_pointer_body (set_pointer_final m))"
  shows "fst (freerds_read_set_pointer W s msg) = -1"
proof -
  note masks = set_pointer_masks [OF assms(1)] and lengths = set_pointer_wire_lengths [OF assms(1)]
  have "length (set_pointer_body (set_pointer_final m)) =
      10 + unat (ptr_lengthXorMask (set_pointer_fill m)) + unat (ptr_lengthAndMask (set_pointer_fill m))"
    by (simp add: set_pointer_body_def masks)
  then show ?thesis
    using assms(3) assms(2) [unfolded set_pointer_body_def]
    by (simp add: codec_simps stream_simps freerds_read_set_pointer_def masks lengths set_pointer_final_lengths)
       linarith
qed

end

context wstream
begin

lemma logon_reads_on:
  assumes "logon_user_ok m" and "Stream_Pointer W s = logon_user_body (logon_user_final m) @ rest"
    and "16 \<le> Stream_GetRemainingLength W s"
  shows "\<exists>s' dst'. freerds_read_logon_user W s dst = Some (0, s', dst') \<and>
           Stream_GetPosition W s' = Stream_GetPosition W s + length (logon_user_body (logon_user_final m)) \<and>
           logon_User dst' = logon_string_decode (logon_User m) \<and>
           logon_Domain dst' = logon_string_decode (logon_Domain m) \<and>
           logon_Password dst' = logon_string_decode (logon_Password m)"
  using assms
  by (simp add: codec_defs codec_simps stream_simps read_logon_string_eq add.assoc)

end

text \<open>
  C10.  A frame that is cut short.  When the stream holds fewer bytes of a message than its body has, the
  generic reader reports failure, whatever the memory behind the stream holds: it looks at no byte past the
  length of the stream.  The theorem is about the messages of the round trip other than the logon, so not about
  the logon, whose reader checks its fixed part only (see the next theorem), the pattern blt and the window
  order, whose reader checks nothing, and the messages without a wire format.
\<close>

theorem truncated_message_rejected:
  assumes "wstream W" and "server_typed msg" and "readable msg" and "\<not> is_LogonUser msg"
    and "Stream_Pointer W s = msg_body K (msg_final msg) @ rest"
    and "Stream_GetRemainingLength W s < length (msg_body K (msg_final msg))"
    and "server_typed dst" and "server_type dst = server_type msg"
  shows "\<exists>s' dst'. freerds_server_message_read W K s dst = Some (-1, s', dst')"
proof -
  have paint: "\<exists>s' m'. freerds_read_paint_rect W s d = (-1, s', m')" if "msg = PaintRect m" for m d
    using wstream.truncated_paint [OF assms(1), of m s rest d] assms(3, 5, 6) that
    by (cases "freerds_read_paint_rect W s d") (simp add: readable_def)
  have pointer: "\<exists>s' m'. freerds_read_set_pointer W s d = (-1, s', m')" if "msg = SetPointer m" for m d
    using wstream.truncated_pointer [OF assms(1), of m s rest d] assms(3, 5, 6) that
    by (cases "freerds_read_set_pointer W s d") (simp add: readable_def)
  show ?thesis
    using assms(2-4, 6-8)
    by (cases msg)
       (auto simp: server_typed_def freerds_server_message_read_def dispatch_defs readable_def server_type_is
          wstream.all_rd_short [OF assms(1)] wstream.all_body_size [OF assms(1)]
          dest: paint [of _ "un_PaintRect dst"] pointer [of _ "un_SetPointer dst"])
qed

theorem truncated_message_rejected_witness:
  "\<exists>s' dst'. freerds_server_message_read buffer_ops sample_flags
     \<lparr>bs_buffer = msg_body sample_flags (msg_final (PaintRect sample_paint)), bs_position = 0, bs_length = 13\<rparr>
     (PaintRect sample_paint) = Some (-1, s', dst')"
  by (rule truncated_message_rejected [OF bs.wstream_axioms, where msg = "PaintRect sample_paint" and rest = "[]"])
     (simp_all add: server_typed_def readable_def codec_defs set_header_def paint_rect_bitmap_def
        Stream_Pointer_def buffer_ops_def sample_defs)

text \<open>
  C19.  The logon message is not checked.  Its reader compares the stream with the sixteen bytes of the fixed
  fields only: with that much in the stream it succeeds and returns the three strings from the memory
  behind them, even where the length of the stream ends before the strings do.
\<close>

theorem truncated_logon_accepted:
  assumes "wstream W" and "logon_user_ok m"
    and "Stream_Pointer W s = logon_user_body (logon_user_final m) @ rest"
    and "16 \<le> Stream_GetRemainingLength W s"
  shows "\<exists>s' dst'. freerds_read_logon_user W s dst = Some (0, s', dst') \<and>
           Stream_GetPosition W s' = Stream_GetPosition W s + length (logon_user_body (logon_user_final m)) \<and>
           logon_User dst' = logon_string_decode (logon_User m) \<and>
           logon_Domain dst' = logon_string_decode (logon_Domain m) \<and>
           logon_Password dst' = logon_string_decode (logon_Password m)"
  using wstream.logon_reads_on [OF assms(1-4)] .

theorem truncated_logon_accepted_witness:
  "\<exists>s' dst'. freerds_read_logon_user buffer_ops
       \<lparr>bs_buffer = logon_user_body (logon_user_final sample_logon), bs_position = 0, bs_length = 16\<rparr> sample_logon =
     Some (0, s', dst') \<and> bs_position s' = 19 \<and>
     logon_User dst' = Some [117, 0] \<and> logon_Domain dst' = None \<and> logon_Password dst' = Some [112, 119, 0]"
proof -
  let ?s = "\<lparr>bs_buffer = logon_user_body (logon_user_final sample_logon), bs_position = 0, bs_length = 16\<rparr>"
  have len: "length (logon_user_body (logon_user_final sample_logon)) = 19" and ok: "logon_user_ok sample_logon"
    by (simp_all add: codec_defs logon_string_def c_string_def sample_defs Let_def del: length_c_string)
  have strings: "logon_string_decode (logon_User sample_logon) = Some [117, 0]"
    "logon_string_decode (logon_Domain sample_logon) = None"
    "logon_string_decode (logon_Password sample_logon) = Some [112, 119, 0]"
    by (simp_all add: logon_string_decode_def logon_string_def c_string_def sample_defs)
  have st: "Stream_Pointer buffer_ops ?s = logon_user_body (logon_user_final sample_logon) @ []"
    "16 \<le> Stream_GetRemainingLength buffer_ops ?s" "Stream_GetPosition buffer_ops ?s = 0"
    using len by (simp_all add: Stream_Pointer_def buffer_ops_def)
  show ?thesis
    using truncated_logon_accepted [OF bs.wstream_axioms ok st(1, 2), of sample_logon] len strings st(3)
    by (simp add: buffer_ops_def)
qed

section \<open>Single messages\<close>

text \<open>
  C15.  Coordinates are narrowed.  After the round trip of an opaque rectangle each coordinate is what is left
  of it modulo 65536 and never negative again, so the receiver sees the rectangle of the sender exactly if
  all four values are between 0 and 65535.
\<close>

theorem opaque_rect_coordinates_narrowed:
  assumes "wstream W" and "38 \<le> length (Stream_Pointer W s)" and "Stream_GetPosition W s + 38 \<le> Stream_Length W s"
  shows "\<exists>t s1 h m'. freerds_write_opaque_rect W (Some s) m = (0, Some t, opaque_rect_final m) \<and>
           freerds_read_common_header W (Stream_SetPosition W t (Stream_GetPosition W s)) dst = (0, s1, h) \<and>
           freerds_read_opaque_rect W s1 h = (0, t, m') \<and> opaque_color m' = opaque_color m \<and>
           uint (opaque_nLeftRect m') = uint (opaque_nLeftRect m) mod 65536 \<and>
           uint (opaque_nTopRect m') = uint (opaque_nTopRect m) mod 65536 \<and>
           uint (opaque_nWidth m') = uint (opaque_nWidth m) mod 65536 \<and>
           uint (opaque_nHeight m') = uint (opaque_nHeight m) mod 65536"
proof -
  have len: "length (header_bytes (opaque_rect_final m) @ opaque_rect_body (opaque_rect_final m)) = 38"
    by (simp add: codec_defs set_header_def header_bytes_def RDS_MSG_FLAG_RECT_def)
  have "\<exists>t s1 h. freerds_write_opaque_rect W (Some s) m = (0, Some t, opaque_rect_final m) \<and>
      freerds_read_common_header W (Stream_SetPosition W t (Stream_GetPosition W s)) dst = (0, s1, h) \<and>
      freerds_read_opaque_rect W s1 h =
        (0, t, opaque_rect_decode (opaque_rect_final m) (drop 38 (Stream_Pointer W s)) (header_decode (opaque_rect_final m) dst))"
    using wstream.opaque_roundtrip [OF assms(1), of m s dst] assms(2, 3) len by auto
  then show ?thesis
    by (auto simp: opaque_rect_decode_def opaque_rect_final_def set_header_def uint_wire16)
qed

theorem opaque_rect_coordinates_narrowed_witness:
  "\<exists>t s1 h m'. freerds_write_opaque_rect buffer_ops (Some (buffer_stream_new 64)) (sample_opaque\<lparr>opaque_nLeftRect := -1\<rparr>) =
       (0, Some t, opaque_rect_final (sample_opaque\<lparr>opaque_nLeftRect := -1\<rparr>)) \<and>
     freerds_read_common_header buffer_ops (Stream_SetPosition buffer_ops t 0) sample_opaque = (0, s1, h) \<and>
     freerds_read_opaque_rect buffer_ops s1 h = (0, t, m') \<and> opaque_color m' = 5 \<and>
     uint (opaque_nLeftRect m') = 65535 \<and> uint (opaque_nTopRect m') = 2 \<and>
     uint (opaque_nWidth m') = 3 \<and> uint (opaque_nHeight m') = 4"
  using opaque_rect_coordinates_narrowed [OF bs.wstream_axioms, of "buffer_stream_new 64"
      "sample_opaque\<lparr>opaque_nLeftRect := -1\<rparr>" sample_opaque]
  by (simp add: sample_opaque_def RDS_MSG_COMMON.extend_def unsigned_minus_1_eq_mask mask_eq_exp_minus_1)

text \<open>
  C16.  The pointer that goes out.  Whenever the writer of a pointer completes, the hot spot lies in the
  32 by 32 square, and neither the depth nor the length of the AND mask is zero.
\<close>

theorem written_pointer_in_square:
  assumes "freerds_write_set_pointer W (Some s) m = Some (status, t, m')"
  shows "ptr_xPos m' \<le> 31 \<and> ptr_yPos m' \<le> 31 \<and> ptr_xorBpp m' \<noteq> 0 \<and> ptr_lengthAndMask m' \<noteq> 0 \<and> msgFlags m' = 0"
  using assms
  by (auto simp: freerds_write_set_pointer_def Let_def split: option.splits if_splits)

theorem written_pointer_in_square_witness:
  "\<exists>t m'. freerds_write_set_pointer buffer_ops (Some (buffer_stream_new 64)) sample_pointer = Some (0, t, m') \<and>
     ptr_xPos m' \<le> 31 \<and> ptr_yPos m' \<le> 31 \<and> ptr_xorBpp m' \<noteq> 0 \<and> ptr_lengthAndMask m' \<noteq> 0 \<and> msgFlags m' = 0"
proof -
  have "set_pointer_ok sample_pointer"
    by (simp add: set_pointer_ok_def set_pointer_fill_def sample_defs)
  moreover have "length (set_pointer_body (set_pointer_final sample_pointer)) = 13"
    using set_pointer_masks(3, 4) [OF \<open>set_pointer_ok sample_pointer\<close>]
    by (simp add: set_pointer_body_def) (simp add: set_pointer_fill_def sample_defs)
  ultimately have "freerds_write_set_pointer buffer_ops (Some (buffer_stream_new 64)) sample_pointer =
      Some (0, Some (Stream_Write buffer_ops (buffer_stream_new 64) (header_bytes (set_pointer_final sample_pointer) @
        set_pointer_body (set_pointer_final sample_pointer))), set_pointer_final sample_pointer)"
    by (intro bs.write_set_pointer_Some) simp_all
  from this written_pointer_in_square [OF this] show ?thesis by blast
qed

text \<open>
  A pattern blt needs a brush to be read into.  On the body of a pattern blt the reader succeeds exactly
  if the message it fills already points to eight bytes for the pattern; then it yields the fields that
  were sent.  Otherwise it stores through a pointer nothing has set, and its behaviour is undefined.
\<close>

theorem patblt_reader_needs_brush:
  assumes "wstream W" and "load_bytes (brush_data (patblt_brush m)) 8 = Some pattern"
    and "Stream_Pointer W s = patblt_body m @ rest" and "60 \<le> Stream_GetRemainingLength W s"
  shows "freerds_read_patblt W s dst =
           (case brush_data (patblt_brush dst) of
              None \<Rightarrow> None
            | Some block \<Rightarrow>
                if length block < 8 then None
                else Some (0, Stream_Seek W s 60, patblt_decode m (Some (pattern @ drop 8 block)) dst))"
  using wstream.read_patblt [OF assms(1) _ assms(3, 4), of dst] assms(2) load_bytes_length [OF assms(2)]
  by (simp add: patblt_ok_def store_bytes_def split: option.split)

theorem patblt_reader_needs_brush_witness:
  "freerds_read_patblt buffer_ops
     \<lparr>bs_buffer = patblt_body (sample_patblt (Some [1, 2, 3, 4, 5, 6, 7, 8])), bs_position = 0, bs_length = 60\<rparr>
     (sample_patblt None) = None"
  using patblt_reader_needs_brush [OF bs.wstream_axioms,
      of "sample_patblt (Some [1, 2, 3, 4, 5, 6, 7, 8])" "[1, 2, 3, 4, 5, 6, 7, 8]" _ "[]" "sample_patblt None"]
  by (simp add: Stream_Pointer_def buffer_ops_def patblt_body_def sample_defs)



section \<open>The message tables\<close>

text \<open>
  C13.  Copies are released completely.  Copying a server message and freeing the copy releases blocks that
  the copy allocated and no other, each once, and for every message but a logon all of them.
\<close>

theorem server_copy_then_free:
  assumes "server_typed msg" and "freerds_server_message_copy W K msg = Some (Some (dup, blocks))"
  shows "\<exists>freed. freerds_server_message_free W K dup = Some freed \<and> mset freed \<subseteq># mset blocks \<and>
                 (is_LogonUser msg \<or> mset freed = mset blocks)"
  using server_copy_free [OF assms] by blast

theorem server_copy_then_free_witness:
  "\<exists>freed. freerds_server_message_free buffer_ops sample_flags (PaintRect sample_paint) = Some freed \<and>
     mset freed \<subseteq># mset [MsgBlock, BitmapDataBlock] \<and>
     (is_LogonUser (PaintRect sample_paint) \<or> mset freed = mset [MsgBlock, BitmapDataBlock])"
  by (rule server_copy_then_free)
     (simp_all add: server_typed_def freerds_server_message_copy_def dispatch_defs copy_defs sample_defs)

text \<open>
  C22.  A copied logon leaks its strings.  Freeing the copy of a logon with a user name releases only the
  message block, although the copy allocated a block for the name as well.
\<close>

theorem logon_copy_leaks:
  assumes "msg_type m = 24" and "logon_UserLength m \<noteq> 0"
    and "freerds_server_message_copy W K (LogonUser m) = Some (Some (dup, blocks))"
  shows "freerds_server_message_free W K dup = Some [MsgBlock] \<and> UserBlock \<in> set blocks"
  using assms
  by (auto simp: freerds_server_message_copy_def freerds_server_message_free_def dispatch_defs copy_defs Let_def
      Option.bind_eq_Some_conv split: if_splits)

theorem logon_copy_leaks_witness:
  "freerds_server_message_free buffer_ops sample_flags (LogonUser sample_logon) = Some [MsgBlock] \<and>
   UserBlock \<in> set [MsgBlock, UserBlock, PasswordBlock]"
  by (rule logon_copy_leaks [where m = sample_logon])
     (simp_all add: freerds_server_message_copy_def dispatch_defs copy_defs sample_defs)

text \<open>
  C14.  The copy of a paint order is a deep copy.  It has the same frame as the original; unless the bitmap is empty the
  copy allocates a block for it, of exactly the announced length and with the bytes of the original; and
  a copy without a bitmap allocates no block but that of the message.
\<close>

theorem copied_paint_has_same_frame:
  assumes "freerds_paint_rect_copy m = Some (dup, blocks)"
  shows "msg_frame K (PaintRect dup) = msg_frame K (PaintRect m) \<and>
    (if paint_bitmapDataLength m = 0 then blocks = [MsgBlock]
     else blocks = [MsgBlock, BitmapDataBlock] \<and>
       (\<exists>bitmap. paint_bitmapData dup = Some bitmap \<and> length bitmap = unat (paint_bitmapDataLength m) \<and>
          load_bytes (paint_bitmapData m) (unat (paint_bitmapDataLength m)) = Some bitmap))"
proof -
  have "paint_bitmapDataLength m = 0 \<Longrightarrow> blocks = [MsgBlock]"
    using assms by (simp add: freerds_paint_rect_copy_def)
  moreover have "blocks = [MsgBlock, BitmapDataBlock] \<and> (\<exists>bitmap. paint_bitmapData dup = Some bitmap \<and>
      length bitmap = unat (paint_bitmapDataLength m) \<and>
      load_bytes (paint_bitmapData m) (unat (paint_bitmapDataLength m)) = Some bitmap)"
    if "paint_bitmapDataLength m \<noteq> 0"
    using assms that load_bytes_length by (auto simp: freerds_paint_rect_copy_def split: option.splits)
  ultimately show ?thesis using paint_copy_frame [OF assms] by simp
qed

theorem copied_paint_has_same_frame_witness:
  "\<exists>dup. freerds_paint_rect_copy (sample_paint\<lparr>paint_bitmapData := Some [8, 9, 10]\<rparr>) = Some (dup, [MsgBlock, BitmapDataBlock]) \<and>
     paint_bitmapData dup = Some [8, 9] \<and>
     msg_frame sample_flags (PaintRect dup) =
       msg_frame sample_flags (PaintRect (sample_paint\<lparr>paint_bitmapData := Some [8, 9, 10]\<rparr>))"
proof -
  have copy: "freerds_paint_rect_copy (sample_paint\<lparr>paint_bitmapData := Some [8, 9, 10]\<rparr>) =
      Some (sample_paint\<lparr>paint_bitmapData := Some [8, 9]\<rparr>, [MsgBlock, BitmapDataBlock])"
    by (simp add: copy_defs sample_defs)
  then show ?thesis using copied_paint_has_same_frame [OF copy, of sample_flags] by simp
qed

text \<open>
  C23.  Freeing a client message leaves the table.  The client identifiers start at 100 and the table has 32
  entries; the other routines subtract 100, the free routine looks up the identifier itself, so it reads
  outside the table for every client message.
\<close>

theorem client_free_outside_table:
  assumes "client_typed msg"
  shows "freerds_client_message_free W msg = None \<and> 0 \<le> client_index msg \<and> client_index msg < 32"
  using assms
  by (cases msg)
     (simp_all add: client_typed_def freerds_client_message_free_def table_at_def client_index_def)

theorem client_free_outside_table_witness:
  "freerds_client_message_free buffer_ops (LogoffUser sample_logoff) = None \<and>
   0 \<le> client_index (LogoffUser sample_logoff) \<and> client_index (LogoffUser sample_logoff) < 32"
  by (rule client_free_outside_table) (simp add: client_typed_def sample_defs)

text \<open>
  C18.  A type outside the table.  The server writer refuses a type above 31: it returns 0 and changes neither
  the stream nor the message.  The server reader has no such test, and leaves the table.
\<close>

theorem type_outside_server_table:
  assumes "31 < msg_type (msg_common msg)"
  shows "freerds_server_message_write W K s msg = Some (0, s, msg) \<and>
         freerds_server_message_read W K s' msg = None"
proof -
  have "31 < uint (msg_type (msg_common msg))" using assms by (simp add: word_less_def)
  then show ?thesis
    using assms by (simp add: freerds_server_message_write_def freerds_server_message_read_def table_at_def)
qed

theorem type_outside_server_table_witness:
  "freerds_server_message_write buffer_ops sample_flags None (BeginUpdate (sample_common 32)) =
     Some (0, None, BeginUpdate (sample_common 32)) \<and>
   freerds_server_message_read buffer_ops sample_flags (buffer_stream_new 64) (BeginUpdate (sample_common 32)) = None"
  by (rule type_outside_server_table) (simp add: sample_defs)

text \<open>
  Five messages without a wire format.  The writers of the palette, the two glyph messages, the beep and
  the reset do nothing: both calls of a sender return the length the caller left in the message and put
  nothing into the stream.
\<close>

theorem unwritten_messages:
  assumes "server_typed msg"
    and "is_SetPalette msg \<or> is_CacheGlyph msg \<or> is_GlyphIndex msg \<or> is_Beep msg \<or> is_Reset msg"
  shows "freerds_server_message_write W K s msg = Some (sint (msg_length (msg_common msg)), s, msg)"
  using assms
  by (cases msg)
     (simp_all add: server_typed_def freerds_server_message_write_def dispatch_defs codec_defs)

theorem unwritten_messages_witness:
  "freerds_server_message_write buffer_ops sample_flags (Some (buffer_stream_new 64)) (Beep (sample_common 19)) =
   Some (0, Some (buffer_stream_new 64), Beep (sample_common 19))"
  using unwritten_messages [of "Beep (sample_common 19)" buffer_ops sample_flags "Some (buffer_stream_new 64)"]
  by (simp add: server_typed_def sample_defs)

section \<open>The pipe routines\<close>

text \<open>
  C11.  Writing to the pipe ends and is accounted for.  For any pipe with the documented behaviour, also one
  that breaks, the write loop terminates; the peer gets a prefix of the data; and the status is either the
  number of bytes asked for, with all of them sent, or -1.
\<close>

theorem pipe_write_terminates:
  assumes "named_pipe P incoming sent" and "unat len \<le> length data" and "unat len < 2 ^ 31"
  shows "\<exists>status p' k. freerds_named_pipe_write P p data len = Some (status, p') \<and>
           sent p' = sent p @ take k data \<and> incoming p' = incoming p \<and> k \<le> unat len \<and>
           (status = -1 \<or> status = int (unat len) \<and> k = unat len)"
  by (rule named_pipe.pipe_write) (fact assms)+

theorem pipe_write_terminates_witness:
  "\<exists>status p' k. freerds_named_pipe_write chunk_pipe_ops (sample_pipe [9]) [1, 2, 3, 4, 5] 5 = Some (status, p') \<and>
     cp_out p' = cp_out (sample_pipe [9]) @ take k [1, 2, 3, 4, 5] \<and> cp_in p' = cp_in (sample_pipe [9]) \<and> k \<le> unat (5 :: UINT32) \<and>
     (status = -1 \<or> status = int (unat (5 :: UINT32)) \<and> k = unat (5 :: UINT32))"
  by (rule pipe_write_terminates [OF cp.named_pipe_axioms]) simp_all

end
