(* ===== verification/Rds_Rpc_Messages.thy ===== *)
theory Rds_Rpc_Messages
  imports Rds_Prelude
begin

text \<open>
  The management messages of \<open>include/freerds/rpc.h\<close>, which the server and the session manager exchange.
  Every message starts with the header fields of \<open>FDSAPI_MSG_COMMON\<close>; a field of type \<open>char*\<close> is a byte
  pointer to a string that ends at its first NUL.
\<close>

record FDSAPI_MSG_HEADER =
  fds_msgSize :: UINT32
  fds_msgType :: UINT32
  fds_callId :: UINT32
  fds_status :: UINT32

definition FDSAPI_MSG_HEADER_SIZE :: nat where
  "FDSAPI_MSG_HEADER_SIZE = 16"

definition FDSAPI_STATUS_SUCCESS :: UINT32 where
  "FDSAPI_STATUS_SUCCESS = 0"

definition FDSAPI_STATUS_FAILED :: UINT32 where
  "FDSAPI_STATUS_FAILED = 1"

definition FDSAPI_STATUS_NOTFOUND :: UINT32 where
  "FDSAPI_STATUS_NOTFOUND = 2"

definition FDSAPI_REQUEST_ID :: "UINT32 \<Rightarrow> UINT32" where
  "FDSAPI_REQUEST_ID i = i AND NOT 0x80000000"

definition FDSAPI_RESPONSE_ID :: "UINT32 \<Rightarrow> UINT32" where
  "FDSAPI_RESPONSE_ID i = i OR 0x80000000"

definition FDSAPI_IS_RESPONSE_ID :: "UINT32 \<Rightarrow> bool" where
  "FDSAPI_IS_RESPONSE_ID i \<longleftrightarrow> i AND 0x80000000 \<noteq> 0"

record FDSAPI_CHANNEL_ALLOWED_REQUEST = FDSAPI_MSG_HEADER +
  caq_ChannelName :: mem_ptr

record FDSAPI_CHANNEL_ALLOWED_RESPONSE = FDSAPI_MSG_HEADER +
  cas_ChannelAllowed :: bool

record FDSAPI_HEARTBEAT_REQUEST = FDSAPI_MSG_HEADER +
  hbq_HeartbeatId :: UINT32

record FDSAPI_HEARTBEAT_RESPONSE = FDSAPI_MSG_HEADER +
  hbs_HeartbeatId :: UINT32

record FDSAPI_LOGON_USER_REQUEST = FDSAPI_MSG_HEADER +
  luq_ConnectionId :: UINT32
  luq_User :: mem_ptr
  luq_Domain :: mem_ptr
  luq_Password :: mem_ptr
  luq_DesktopWidth :: UINT32
  luq_DesktopHeight :: UINT32
  luq_ColorDepth :: UINT32
  luq_ClientName :: mem_ptr
  luq_ClientAddress :: mem_ptr
  luq_ClientBuild :: UINT32
  luq_ClientProductId :: UINT32
  luq_ClientHardwareId :: UINT32
  luq_ClientProtocolType :: UINT32

record FDSAPI_LOGON_USER_RESPONSE = FDSAPI_MSG_HEADER +
  lus_ServiceEndpoint :: mem_ptr

record FDSAPI_LOGOFF_USER_REQUEST = FDSAPI_MSG_HEADER +
  loq_ConnectionId :: UINT32

record FDSAPI_LOGOFF_USER_RESPONSE = FDSAPI_MSG_HEADER +
  los_ConnectionId :: UINT32

record FDSAPI_DISCONNECT_USER_REQUEST = FDSAPI_MSG_HEADER +
  duq_ConnectionId :: UINT32

record FDSAPI_DISCONNECT_USER_RESPONSE = FDSAPI_MSG_HEADER +
  dus_ConnectionId :: UINT32

record FDSAPI_SWITCH_SERVICE_ENDPOINT_REQUEST = FDSAPI_MSG_HEADER +
  seq_ConnectionId :: UINT32
  seq_ServiceEndpoint :: mem_ptr

type_synonym FDSAPI_SWITCH_SERVICE_ENDPOINT_RESPONSE = FDSAPI_MSG_HEADER

record FDSAPI_START_SESSION_REQUEST = FDSAPI_MSG_HEADER +
  ssq_SessionId :: UINT32
  ssq_User :: mem_ptr
  ssq_Domain :: mem_ptr
  ssq_Password :: mem_ptr

record FDSAPI_START_SESSION_RESPONSE = FDSAPI_MSG_HEADER +
  sss_ServiceEndpoint :: mem_ptr

record FDSAPI_END_SESSION_REQUEST = FDSAPI_MSG_HEADER +
  esq_SessionId :: UINT32

record FDSAPI_END_SESSION_RESPONSE = FDSAPI_MSG_HEADER +
  ess_SessionId :: UINT32

record FDSAPI_CHANNEL_ENDPOINT_OPEN_REQUEST = FDSAPI_MSG_HEADER +
  coq_ConnectionId :: UINT32
  coq_ChannelName :: mem_ptr

record FDSAPI_CHANNEL_ENDPOINT_OPEN_RESPONSE = FDSAPI_MSG_HEADER +
  cos_ChannelPort :: UINT32
  cos_ChannelGuid :: mem_ptr

datatype FDSAPI_MSG =
    is_ChannelAllowedRequest: ChannelAllowedRequest (the_ChannelAllowedRequest: FDSAPI_CHANNEL_ALLOWED_REQUEST)
  | is_ChannelAllowedResponse: ChannelAllowedResponse (the_ChannelAllowedResponse: FDSAPI_CHANNEL_ALLOWED_RESPONSE)
  | is_HeartbeatRequest: HeartbeatRequest (the_HeartbeatRequest: FDSAPI_HEARTBEAT_REQUEST)
  | is_HeartbeatResponse: HeartbeatResponse (the_HeartbeatResponse: FDSAPI_HEARTBEAT_RESPONSE)
  | is_LogonUserRequest: LogonUserRequest (the_LogonUserRequest: FDSAPI_LOGON_USER_REQUEST)
  | is_LogonUserResponse: LogonUserResponse (the_LogonUserResponse: FDSAPI_LOGON_USER_RESPONSE)
  | is_LogoffUserRequest: LogoffUserRequest (the_LogoffUserRequest: FDSAPI_LOGOFF_USER_REQUEST)
  | is_LogoffUserResponse: LogoffUserResponse (the_LogoffUserResponse: FDSAPI_LOGOFF_USER_RESPONSE)
  | is_DisconnectUserRequest: DisconnectUserRequest (the_DisconnectUserRequest: FDSAPI_DISCONNECT_USER_REQUEST)
  | is_DisconnectUserResponse: DisconnectUserResponse (the_DisconnectUserResponse: FDSAPI_DISCONNECT_USER_RESPONSE)
  | is_SwitchServiceEndpointRequest: SwitchServiceEndpointRequest (the_SwitchServiceEndpointRequest: FDSAPI_SWITCH_SERVICE_ENDPOINT_REQUEST)
  | is_SwitchServiceEndpointResponse: SwitchServiceEndpointResponse (the_SwitchServiceEndpointResponse: FDSAPI_SWITCH_SERVICE_ENDPOINT_RESPONSE)
  | is_StartSessionRequest: StartSessionRequest (the_StartSessionRequest: FDSAPI_START_SESSION_REQUEST)
  | is_StartSessionResponse: StartSessionResponse (the_StartSessionResponse: FDSAPI_START_SESSION_RESPONSE)
  | is_EndSessionRequest: EndSessionRequest (the_EndSessionRequest: FDSAPI_END_SESSION_REQUEST)
  | is_EndSessionResponse: EndSessionResponse (the_EndSessionResponse: FDSAPI_END_SESSION_RESPONSE)
  | is_ChannelEndpointOpenRequest: ChannelEndpointOpenRequest (the_ChannelEndpointOpenRequest: FDSAPI_CHANNEL_ENDPOINT_OPEN_REQUEST)
  | is_ChannelEndpointOpenResponse: ChannelEndpointOpenResponse (the_ChannelEndpointOpenResponse: FDSAPI_CHANNEL_ENDPOINT_OPEN_RESPONSE)

lemma request_id_is_request: "\<not> FDSAPI_IS_RESPONSE_ID (FDSAPI_REQUEST_ID i)"
  by (simp add: FDSAPI_IS_RESPONSE_ID_def FDSAPI_REQUEST_ID_def and.assoc)

lemma response_id_is_response: "FDSAPI_IS_RESPONSE_ID (FDSAPI_RESPONSE_ID i)"
proof -
  have "bit (FDSAPI_RESPONSE_ID i AND 0x80000000) 31"
    by (simp add: FDSAPI_RESPONSE_ID_def bit_simps bit_numeral_word_iff)
  then show ?thesis unfolding FDSAPI_IS_RESPONSE_ID_def by (metis bit_0_eq bot_apply bot_bool_def)
qed

end
