(* ===== verification/Rds_Msgpack.thy ===== *)
theory Rds_Msgpack
  imports Rds_WStream
begin

text \<open>
  The serialisation library under \<open>src/external/msgpack\<close>, with which the management messages are encoded:
  the packing routines of \<open>pack_template.h\<close>, \<open>msgpack_pack_object\<close> of \<open>objectc.c\<close>, and the unpacking
  machine of \<open>unpack_template.h\<close> with the callbacks and entry points of \<open>unpack.c\<close>.

  A packer appends bytes through a callback; it is a record of the callback and its data.  The unpacker
  is a machine that can stop at any byte and go on later: its context keeps what it waits for (\<open>cs\<close> and
  \<open>trail\<close>) and the containers it is inside of.  A pointer into the input is the list of the bytes from
  there to its end.
\<close>

named_theorems msgpack_defs \<open>definitions of the packing routines\<close>

type_synonym UINT64 = "64 word"

section \<open>Objects\<close>

text \<open>
  A value of type \<open>double\<close> is given by its 64 bits.  Widening a \<open>float\<close> is exact: a normal number gets
  the exponent bias of the wider format, a subnormal one is normalised, and a NaN becomes quiet.
\<close>

datatype msgpack_object =
    MSGPACK_OBJECT_NIL
  | MSGPACK_OBJECT_BOOLEAN bool
  | MSGPACK_OBJECT_POSITIVE_INTEGER UINT64
  | MSGPACK_OBJECT_NEGATIVE_INTEGER UINT64
  | MSGPACK_OBJECT_DOUBLE UINT64
  | MSGPACK_OBJECT_RAW "byte list"
  | MSGPACK_OBJECT_ARRAY "msgpack_object list"
  | MSGPACK_OBJECT_MAP "(msgpack_object \<times> msgpack_object) list"

fun top_bit :: "nat \<Rightarrow> nat" where
  "top_bit m = (if m < 2 then 0 else Suc (top_bit (m div 2)))"

declare top_bit.simps [simp del]

definition float_to_double :: "UINT32 \<Rightarrow> UINT64" where
  "float_to_double f =
     (let s = push_bit 63 (ucast (drop_bit 31 f));
          e = unat (drop_bit 23 f AND 0xff);
          m = unat (f AND 0x7fffff)
      in if e = 0 \<and> m = 0 then s
         else if e = 0 then s OR push_bit 52 (of_nat (874 + top_bit m)) OR
                              push_bit (52 - top_bit m) (of_nat (m - 2 ^ top_bit m))
         else if e = 255 then s OR push_bit 52 0x7ff OR
                              (if m = 0 then 0 else push_bit 29 (of_nat m) OR push_bit 51 1)
         else s OR push_bit 52 (of_nat (e + 896)) OR push_bit 29 (of_nat m))"

section \<open>Big-endian integers\<close>

definition msgpack_store16 :: "UINT16 \<Rightarrow> byte list" where
  "msgpack_store16 w = rev (le16 w)"

definition msgpack_store32 :: "UINT32 \<Rightarrow> byte list" where
  "msgpack_store32 w = rev (le32 w)"

definition msgpack_store64 :: "UINT64 \<Rightarrow> byte list" where
  "msgpack_store64 w = msgpack_store32 (ucast (drop_bit 32 w)) @ msgpack_store32 (ucast w)"

fun msgpack_load16 :: "byte list \<Rightarrow> UINT16" where
  "msgpack_load16 (b0 # b1 # _) = push_bit 8 (ucast b0) OR ucast b1"
| "msgpack_load16 _ = 0"

fun msgpack_load32 :: "byte list \<Rightarrow> UINT32" where
  "msgpack_load32 (b0 # b1 # b2 # b3 # _) =
     push_bit 24 (ucast b0) OR push_bit 16 (ucast b1) OR push_bit 8 (ucast b2) OR ucast b3"
| "msgpack_load32 _ = 0"

fun msgpack_load64 :: "byte list \<Rightarrow> UINT64" where
  "msgpack_load64 (b0 # b1 # b2 # b3 # b4 # b5 # b6 # b7 # _) =
     push_bit 56 (ucast b0) OR push_bit 48 (ucast b1) OR push_bit 40 (ucast b2) OR
     push_bit 32 (ucast b3) OR push_bit 24 (ucast b4) OR push_bit 16 (ucast b5) OR
     push_bit 8 (ucast b6) OR ucast b7"
| "msgpack_load64 _ = 0"

lemma load16_store16 [simp]: "msgpack_load16 (msgpack_store16 w) = w"
  by (rule bit_word_eqI) (auto simp: msgpack_store16_def le16_def bit_simps)

lemma load32_store32 [simp]: "msgpack_load32 (msgpack_store32 w) = w"
proof (rule bit_word_eqI)
  fix n assume "n < LENGTH(32)"
  then show "bit (msgpack_load32 (msgpack_store32 w)) n = bit w n"
    by (cases "24 \<le> n"; cases "16 \<le> n") (auto simp: msgpack_store32_def le32_def bit_simps)
qed

lemma ucast_push_byte:
  "k \<le> 24 \<Longrightarrow> (ucast (push_bit k (ucast (b :: byte)) :: UINT32) :: UINT64) = push_bit k (ucast b)"
  by (rule bit_word_eqI) (auto simp: bit_simps dest: bit_imp_le_length)

lemma load64_halves:
  "length as = 4 \<Longrightarrow> length bs = 4 \<Longrightarrow>
   msgpack_load64 (as @ bs) = push_bit 32 (ucast (msgpack_load32 as)) OR ucast (msgpack_load32 bs)"
proof -
  assume "length as = 4" and "length bs = 4"
  then obtain a0 a1 a2 a3 b0 b1 b2 b3 where "as = [a0, a1, a2, a3]" and "bs = [b0, b1, b2, b3]"
    by (auto simp: length_Suc_conv numeral_eq_Suc)
  then show ?thesis
    using ucast_push_byte [of 0]
    by (simp add: unsigned_or_eq ucast_push_byte or.assoc push_bit_or)
qed

lemma length_store [simp]:
  "length (msgpack_store16 v) = 2" "length (msgpack_store32 w) = 4" "length (msgpack_store64 d) = 8"
  by (simp_all add: msgpack_store16_def msgpack_store32_def msgpack_store64_def)

lemma load64_store64 [simp]: "msgpack_load64 (msgpack_store64 w) = w"
  by (simp add: msgpack_store64_def load64_halves) (rule bit_word_eqI, auto simp: bit_simps)

section \<open>Packing\<close>

record 'a msgpack_packer =
  pk_data :: 'a
  pk_callback :: "'a \<Rightarrow> byte list \<Rightarrow> int \<times> 'a"

definition msgpack_pack_append_buffer ::
  "'a msgpack_packer \<Rightarrow> byte list \<Rightarrow> int \<times> 'a msgpack_packer" where
  "msgpack_pack_append_buffer x buf =
     (let (ret, d) = pk_callback x (pk_data x) buf in (ret, x\<lparr>pk_data := d\<rparr>))"

text \<open>The bytes that the macros \<open>msgpack_pack_real_\<dots>\<close> append; \<open>TAKE8\<close> is the low byte of the number.\<close>

definition msgpack_pack_real_uint8 :: "byte \<Rightarrow> byte list" where
  [msgpack_defs]: "msgpack_pack_real_uint8 d = (if uint d < 2 ^ 7 then [d] else [0xcc, d])"

definition msgpack_pack_real_uint16 :: "UINT16 \<Rightarrow> byte list" where
  [msgpack_defs]: "msgpack_pack_real_uint16 d =
     (if uint d < 2 ^ 7 then [ucast d]
      else if uint d < 2 ^ 8 then [0xcc, ucast d]
      else 0xcd # msgpack_store16 d)"

definition msgpack_pack_real_uint32 :: "UINT32 \<Rightarrow> byte list" where
  [msgpack_defs]: "msgpack_pack_real_uint32 d =
     (if uint d < 2 ^ 8
      then if uint d < 2 ^ 7 then [ucast d] else [0xcc, ucast d]
      else if uint d < 2 ^ 16 then 0xcd # msgpack_store16 (ucast d)
      else 0xce # msgpack_store32 d)"

definition msgpack_pack_real_uint64 :: "UINT64 \<Rightarrow> byte list" where
  [msgpack_defs]: "msgpack_pack_real_uint64 d =
     (if uint d < 2 ^ 8
      then if uint d < 2 ^ 7 then [ucast d] else [0xcc, ucast d]
      else if uint d < 2 ^ 16 then 0xcd # msgpack_store16 (ucast d)
      else if uint d < 2 ^ 32 then 0xce # msgpack_store32 (ucast d)
      else 0xcf # msgpack_store64 d)"

definition msgpack_pack_real_int8 :: "byte \<Rightarrow> byte list" where
  [msgpack_defs]: "msgpack_pack_real_int8 d = (if sint d < - (2 ^ 5) then [0xd0, d] else [d])"

definition msgpack_pack_real_int16 :: "UINT16 \<Rightarrow> byte list" where
  [msgpack_defs]: "msgpack_pack_real_int16 d =
     (if sint d < - (2 ^ 5)
      then if sint d < - (2 ^ 7) then 0xd1 # msgpack_store16 d else [0xd0, ucast d]
      else if sint d < 2 ^ 7 then [ucast d]
      else if sint d < 2 ^ 8 then [0xcc, ucast d]
      else 0xcd # msgpack_store16 d)"

definition msgpack_pack_real_int32 :: "UINT32 \<Rightarrow> byte list" where
  [msgpack_defs]: "msgpack_pack_real_int32 d =
     (if sint d < - (2 ^ 5)
      then if sint d < - (2 ^ 15) then 0xd2 # msgpack_store32 d
           else if sint d < - (2 ^ 7) then 0xd1 # msgpack_store16 (ucast d)
           else [0xd0, ucast d]
      else if sint d < 2 ^ 7 then [ucast d]
      else if sint d < 2 ^ 8 then [0xcc, ucast d]
      else if sint d < 2 ^ 16 then 0xcd # msgpack_store16 (ucast d)
      else 0xce # msgpack_store32 d)"

definition msgpack_pack_real_int64 :: "UINT64 \<Rightarrow> byte list" where
  [msgpack_defs]: "msgpack_pack_real_int64 d =
     (if sint d < - (2 ^ 5)
      then if sint d < - (2 ^ 15)
           then if sint d < - (2 ^ 31) then 0xd3 # msgpack_store64 d else 0xd2 # msgpack_store32 (ucast d)
           else if sint d < - (2 ^ 7) then 0xd1 # msgpack_store16 (ucast d)
           else [0xd0, ucast d]
      else if sint d < 2 ^ 7 then [ucast d]
      else if sint d < 2 ^ 16
           then if sint d < 2 ^ 8 then [0xcc, ucast d] else 0xcd # msgpack_store16 (ucast d)
           else if sint d < 2 ^ 32 then 0xce # msgpack_store32 (ucast d) else 0xcf # msgpack_store64 d)"

definition msgpack_pack_uint8 :: "'a msgpack_packer \<Rightarrow> byte \<Rightarrow> int \<times> 'a msgpack_packer" where
  [msgpack_defs]: "msgpack_pack_uint8 x d = msgpack_pack_append_buffer x (msgpack_pack_real_uint8 d)"

definition msgpack_pack_uint16 :: "'a msgpack_packer \<Rightarrow> UINT16 \<Rightarrow> int \<times> 'a msgpack_packer" where
  [msgpack_defs]: "msgpack_pack_uint16 x d = msgpack_pack_append_buffer x (msgpack_pack_real_uint16 d)"

definition msgpack_pack_uint32 :: "'a msgpack_packer \<Rightarrow> UINT32 \<Rightarrow> int \<times> 'a msgpack_packer" where
  [msgpack_defs]: "msgpack_pack_uint32 x d = msgpack_pack_append_buffer x (msgpack_pack_real_uint32 d)"

definition msgpack_pack_uint64 :: "'a msgpack_packer \<Rightarrow> UINT64 \<Rightarrow> int \<times> 'a msgpack_packer" where
  [msgpack_defs]: "msgpack_pack_uint64 x d = msgpack_pack_append_buffer x (msgpack_pack_real_uint64 d)"

definition msgpack_pack_int8 :: "'a msgpack_packer \<Rightarrow> byte \<Rightarrow> int \<times> 'a msgpack_packer" where
  [msgpack_defs]: "msgpack_pack_int8 x d = msgpack_pack_append_buffer x (msgpack_pack_real_int8 d)"

definition msgpack_pack_int16 :: "'a msgpack_packer \<Rightarrow> UINT16 \<Rightarrow> int \<times> 'a msgpack_packer" where
  [msgpack_defs]: "msgpack_pack_int16 x d = msgpack_pack_append_buffer x (msgpack_pack_real_int16 d)"

definition msgpack_pack_int32 :: "'a msgpack_packer \<Rightarrow> UINT32 \<Rightarrow> int \<times> 'a msgpack_packer" where
  [msgpack_defs]: "msgpack_pack_int32 x d = msgpack_pack_append_buffer x (msgpack_pack_real_int32 d)"

definition msgpack_pack_int64 :: "'a msgpack_packer \<Rightarrow> UINT64 \<Rightarrow> int \<times> 'a msgpack_packer" where
  [msgpack_defs]: "msgpack_pack_int64 x d = msgpack_pack_append_buffer x (msgpack_pack_real_int64 d)"

definition msgpack_pack_float :: "'a msgpack_packer \<Rightarrow> UINT32 \<Rightarrow> int \<times> 'a msgpack_packer" where
  [msgpack_defs]: "msgpack_pack_float x d = msgpack_pack_append_buffer x (0xca # msgpack_store32 d)"

definition msgpack_pack_double :: "'a msgpack_packer \<Rightarrow> UINT64 \<Rightarrow> int \<times> 'a msgpack_packer" where
  [msgpack_defs]: "msgpack_pack_double x d = msgpack_pack_append_buffer x (0xcb # msgpack_store64 d)"

definition msgpack_pack_nil :: "'a msgpack_packer \<Rightarrow> int \<times> 'a msgpack_packer" where
  [msgpack_defs]: "msgpack_pack_nil x = msgpack_pack_append_buffer x [0xc0]"

definition msgpack_pack_true :: "'a msgpack_packer \<Rightarrow> int \<times> 'a msgpack_packer" where
  [msgpack_defs]: "msgpack_pack_true x = msgpack_pack_append_buffer x [0xc3]"

definition msgpack_pack_false :: "'a msgpack_packer \<Rightarrow> int \<times> 'a msgpack_packer" where
  [msgpack_defs]: "msgpack_pack_false x = msgpack_pack_append_buffer x [0xc2]"

text \<open>Sizes have type \<open>size_t\<close>; the casts keep their low bits.\<close>

definition array_header :: "nat \<Rightarrow> byte list" where
  "array_header n =
     (if n < 16 then [0x90 OR of_nat n]
      else if n < 65536 then 0xdc # msgpack_store16 (of_nat n)
      else 0xdd # msgpack_store32 (of_nat n))"

definition map_header :: "nat \<Rightarrow> byte list" where
  "map_header n =
     (if n < 16 then [0x80 OR of_nat n]
      else if n < 65536 then 0xde # msgpack_store16 (of_nat n)
      else 0xdf # msgpack_store32 (of_nat n))"

definition raw_header :: "nat \<Rightarrow> byte list" where
  "raw_header l =
     (if l < 32 then [0xa0 OR of_nat l]
      else if l < 65536 then 0xda # msgpack_store16 (of_nat l)
      else 0xdb # msgpack_store32 (of_nat l))"

definition msgpack_pack_array :: "'a msgpack_packer \<Rightarrow> nat \<Rightarrow> int \<times> 'a msgpack_packer" where
  [msgpack_defs]: "msgpack_pack_array x n = msgpack_pack_append_buffer x (array_header n)"

definition msgpack_pack_map :: "'a msgpack_packer \<Rightarrow> nat \<Rightarrow> int \<times> 'a msgpack_packer" where
  [msgpack_defs]: "msgpack_pack_map x n = msgpack_pack_append_buffer x (map_header n)"

definition msgpack_pack_raw :: "'a msgpack_packer \<Rightarrow> nat \<Rightarrow> int \<times> 'a msgpack_packer" where
  [msgpack_defs]: "msgpack_pack_raw x l = msgpack_pack_append_buffer x (raw_header l)"

definition msgpack_pack_raw_body :: "'a msgpack_packer \<Rightarrow> byte list \<Rightarrow> int \<times> 'a msgpack_packer" where
  [msgpack_defs]: "msgpack_pack_raw_body x b = msgpack_pack_append_buffer x b"

text \<open>\<open>msgpack_pack_object\<close> and its two loops, which stop at the first failure.\<close>

function (sequential) msgpack_pack_object :: "'a msgpack_packer \<Rightarrow> msgpack_object \<Rightarrow> int \<times> 'a msgpack_packer"
  and pack_objects :: "'a msgpack_packer \<Rightarrow> msgpack_object list \<Rightarrow> int \<times> 'a msgpack_packer"
  and pack_entries :: "'a msgpack_packer \<Rightarrow> (msgpack_object \<times> msgpack_object) list \<Rightarrow> int \<times> 'a msgpack_packer" where
  "msgpack_pack_object pk MSGPACK_OBJECT_NIL = msgpack_pack_nil pk"
| "msgpack_pack_object pk (MSGPACK_OBJECT_BOOLEAN b) =
     (if b then msgpack_pack_true pk else msgpack_pack_false pk)"
| "msgpack_pack_object pk (MSGPACK_OBJECT_POSITIVE_INTEGER u) = msgpack_pack_uint64 pk u"
| "msgpack_pack_object pk (MSGPACK_OBJECT_NEGATIVE_INTEGER i) = msgpack_pack_int64 pk i"
| "msgpack_pack_object pk (MSGPACK_OBJECT_DOUBLE d) = msgpack_pack_double pk d"
| "msgpack_pack_object pk (MSGPACK_OBJECT_RAW b) =
     (let (ret, pk) = msgpack_pack_raw pk (length b)
      in if ret < 0 then (ret, pk) else msgpack_pack_raw_body pk b)"
| "msgpack_pack_object pk (MSGPACK_OBJECT_ARRAY os) =
     (let (ret, pk) = msgpack_pack_array pk (length os)
      in if ret < 0 then (ret, pk) else pack_objects pk os)"
| "msgpack_pack_object pk (MSGPACK_OBJECT_MAP kvs) =
     (let (ret, pk) = msgpack_pack_map pk (length kvs)
      in if ret < 0 then (ret, pk) else pack_entries pk kvs)"
| "pack_objects pk [] = (0, pk)"
| "pack_objects pk (d # os) =
     (let (ret, pk) = msgpack_pack_object pk d in if ret < 0 then (ret, pk) else pack_objects pk os)"
| "pack_entries pk [] = (0, pk)"
| "pack_entries pk ((key, val) # kvs) =
     (let (ret, pk) = msgpack_pack_object pk key
      in if ret < 0 then (ret, pk)
         else let (ret, pk) = msgpack_pack_object pk val
              in if ret < 0 then (ret, pk) else pack_entries pk kvs)"
  by pat_completeness auto

termination
  by (relation "measure (case_sum (\<lambda>(pk, d). size d)
        (case_sum (\<lambda>(pk, os). size_list size os) (\<lambda>(pk, kvs). size_list (size_prod size size) kvs)))") auto

section \<open>Unpacking\<close>

text \<open>The states of the machine, which are also the low five bits of the type byte that leads to them.\<close>

abbreviation (input) "CS_HEADER \<equiv> 0x00 :: nat"
abbreviation (input) "CS_BIN_8 \<equiv> 0x04 :: nat"
abbreviation (input) "CS_BIN_16 \<equiv> 0x05 :: nat"
abbreviation (input) "CS_BIN_32 \<equiv> 0x06 :: nat"
abbreviation (input) "CS_FLOAT \<equiv> 0x0a :: nat"
abbreviation (input) "CS_DOUBLE \<equiv> 0x0b :: nat"
abbreviation (input) "CS_UINT_8 \<equiv> 0x0c :: nat"
abbreviation (input) "CS_UINT_16 \<equiv> 0x0d :: nat"
abbreviation (input) "CS_UINT_32 \<equiv> 0x0e :: nat"
abbreviation (input) "CS_UINT_64 \<equiv> 0x0f :: nat"
abbreviation (input) "CS_INT_8 \<equiv> 0x10 :: nat"
abbreviation (input) "CS_INT_16 \<equiv> 0x11 :: nat"
abbreviation (input) "CS_INT_32 \<equiv> 0x12 :: nat"
abbreviation (input) "CS_INT_64 \<equiv> 0x13 :: nat"
abbreviation (input) "CS_RAW_8 \<equiv> 0x19 :: nat"
abbreviation (input) "CS_RAW_16 \<equiv> 0x1a :: nat"
abbreviation (input) "CS_RAW_32 \<equiv> 0x1b :: nat"
abbreviation (input) "CS_ARRAY_16 \<equiv> 0x1c :: nat"
abbreviation (input) "CS_ARRAY_32 \<equiv> 0x1d :: nat"
abbreviation (input) "CS_MAP_16 \<equiv> 0x1e :: nat"
abbreviation (input) "CS_MAP_32 \<equiv> 0x1f :: nat"
abbreviation (input) "ACS_RAW_VALUE \<equiv> 0x20 :: nat"

datatype msgpack_container_type = CT_ARRAY_ITEM | CT_MAP_KEY | CT_MAP_VALUE

text \<open>
  The zone is an allocator; \<open>u_z u n\<close> says whether it can give room for \<open>n\<close> items.
\<close>

record unpack_user =
  u_z :: "nat \<Rightarrow> bool"
  u_referenced :: bool

record template_stack =
  st_obj :: msgpack_object
  st_count :: nat
  st_ct :: msgpack_container_type
  st_map_key :: msgpack_object

text \<open>
  The C array \<open>stack\<close> has \<open>MSGPACK_EMBED_STACK_SIZE\<close> entries of which the first \<open>top\<close> are in use; they are
  the list \<open>stack\<close>, innermost first.  Entry 0 also receives the finished object, here \<open>root\<close>.
\<close>

definition MSGPACK_EMBED_STACK_SIZE :: nat where
  "MSGPACK_EMBED_STACK_SIZE = 32"

record template_context =
  ctx_user :: unpack_user
  ctx_cs :: nat
  ctx_trail :: nat
  ctx_stack :: "template_stack list"
  ctx_root :: msgpack_object

definition template_callback_root :: msgpack_object where
  "template_callback_root = MSGPACK_OBJECT_NIL"

definition template_init :: "template_context \<Rightarrow> template_context" where
  "template_init ctx =
     ctx\<lparr>ctx_cs := CS_HEADER, ctx_trail := 0, ctx_stack := [], ctx_root := template_callback_root\<rparr>"

definition template_data :: "template_context \<Rightarrow> msgpack_object" where
  "template_data ctx = ctx_root ctx"

definition template_callback_uint :: "'l::len word \<Rightarrow> msgpack_object" where
  "template_callback_uint d = MSGPACK_OBJECT_POSITIVE_INTEGER (ucast d)"

definition template_callback_int :: "'l::len word \<Rightarrow> msgpack_object" where
  "template_callback_int d =
     (if sint d \<ge> 0 then MSGPACK_OBJECT_POSITIVE_INTEGER (scast d)
      else MSGPACK_OBJECT_NEGATIVE_INTEGER (scast d))"

definition template_callback_float :: "UINT32 \<Rightarrow> msgpack_object" where
  "template_callback_float d = MSGPACK_OBJECT_DOUBLE (float_to_double d)"

definition template_callback_double :: "UINT64 \<Rightarrow> msgpack_object" where
  "template_callback_double d = MSGPACK_OBJECT_DOUBLE d"

text \<open>The callbacks that start a container return \<open>None\<close> when the zone has no room.\<close>

definition template_callback_array :: "unpack_user \<Rightarrow> nat \<Rightarrow> msgpack_object option" where
  "template_callback_array u n = (if u_z u n then Some (MSGPACK_OBJECT_ARRAY []) else None)"

definition template_callback_map :: "unpack_user \<Rightarrow> nat \<Rightarrow> msgpack_object option" where
  "template_callback_map u n = (if u_z u n then Some (MSGPACK_OBJECT_MAP []) else None)"

fun template_callback_array_item :: "msgpack_object \<Rightarrow> msgpack_object \<Rightarrow> msgpack_object" where
  "template_callback_array_item (MSGPACK_OBJECT_ARRAY os) d = MSGPACK_OBJECT_ARRAY (os @ [d])"
| "template_callback_array_item c d = c"

fun template_callback_map_item :: "msgpack_object \<Rightarrow> msgpack_object \<Rightarrow> msgpack_object \<Rightarrow> msgpack_object" where
  "template_callback_map_item (MSGPACK_OBJECT_MAP kvs) k v = MSGPACK_OBJECT_MAP (kvs @ [(k, v)])"
| "template_callback_map_item c k v = c"

subsection \<open>What one piece of input asks for\<close>

text \<open>
  The macros of the routine: push a value, wait for \<open>trail\<close> more bytes in another state, push an empty
  raw string, start a container, or fail.
\<close>

datatype unpack_action =
    push_value msgpack_object
  | again_fixed_trail nat nat
  | raw_zero
  | start_container nat msgpack_container_type
  | unpack_failed

definition NEXT_CS :: "byte \<Rightarrow> nat" where
  "NEXT_CS p = unat (p AND 0x1f)"

definition again_fixed_trail_if_zero :: "nat \<Rightarrow> nat \<Rightarrow> unpack_action" where
  "again_fixed_trail_if_zero c t = (if t = 0 then raw_zero else again_fixed_trail c t)"

definition header_action :: "byte \<Rightarrow> unpack_action" where
  "header_action p =
     (if p \<le> 0x7f then push_value (template_callback_uint p)
      else if 0xe0 \<le> p then push_value (template_callback_int p)
      else if 0xc0 \<le> p \<and> p \<le> 0xdf then
        (if p = 0xc0 then push_value MSGPACK_OBJECT_NIL
         else if p = 0xc2 then push_value (MSGPACK_OBJECT_BOOLEAN False)
         else if p = 0xc3 then push_value (MSGPACK_OBJECT_BOOLEAN True)
         else if p \<in> {0xc4, 0xc5, 0xc6} then again_fixed_trail (NEXT_CS p) (2 ^ unat (p AND 0x03))
         else if p \<in> {0xca, 0xcb, 0xcc, 0xcd, 0xce, 0xcf, 0xd0, 0xd1, 0xd2, 0xd3}
              then again_fixed_trail (NEXT_CS p) (2 ^ unat (p AND 0x03))
         else if p \<in> {0xd9, 0xda, 0xdb} then again_fixed_trail (NEXT_CS p) (2 ^ (unat (p AND 0x03) - 1))
         else if p \<in> {0xdc, 0xdd, 0xde, 0xdf} then again_fixed_trail (NEXT_CS p) (2 * 2 ^ unat (p AND 0x01))
         else unpack_failed)
      else if 0xa0 \<le> p \<and> p \<le> 0xbf then again_fixed_trail_if_zero ACS_RAW_VALUE (unat (p AND 0x1f))
      else if 0x90 \<le> p \<and> p \<le> 0x9f then start_container (unat (p AND 0x0f)) CT_ARRAY_ITEM
      else if 0x80 \<le> p \<and> p \<le> 0x8f then start_container (unat (p AND 0x0f)) CT_MAP_KEY
      else unpack_failed)"

text \<open>\<open>n\<close> holds the \<open>trail\<close> bytes the state was waiting for.\<close>

definition trail_action :: "nat \<Rightarrow> byte list \<Rightarrow> unpack_action" where
  "trail_action c n =
     (if c = CS_FLOAT then push_value (template_callback_float (msgpack_load32 n))
      else if c = CS_DOUBLE then push_value (template_callback_double (msgpack_load64 n))
      else if c = CS_UINT_8 then push_value (template_callback_uint (hd n))
      else if c = CS_UINT_16 then push_value (template_callback_uint (msgpack_load16 n))
      else if c = CS_UINT_32 then push_value (template_callback_uint (msgpack_load32 n))
      else if c = CS_UINT_64 then push_value (template_callback_uint (msgpack_load64 n))
      else if c = CS_INT_8 then push_value (template_callback_int (hd n))
      else if c = CS_INT_16 then push_value (template_callback_int (msgpack_load16 n))
      else if c = CS_INT_32 then push_value (template_callback_int (msgpack_load32 n))
      else if c = CS_INT_64 then push_value (template_callback_int (msgpack_load64 n))
      else if c = CS_BIN_8 \<or> c = CS_RAW_8 then again_fixed_trail_if_zero ACS_RAW_VALUE (unat (hd n))
      else if c = CS_BIN_16 \<or> c = CS_RAW_16 then again_fixed_trail_if_zero ACS_RAW_VALUE (unat (msgpack_load16 n))
      else if c = CS_BIN_32 \<or> c = CS_RAW_32 then again_fixed_trail_if_zero ACS_RAW_VALUE (unat (msgpack_load32 n))
      else if c = ACS_RAW_VALUE then push_value (MSGPACK_OBJECT_RAW n)
      else if c = CS_ARRAY_16 then start_container (unat (msgpack_load16 n)) CT_ARRAY_ITEM
      else if c = CS_ARRAY_32 then start_container (unat (msgpack_load32 n)) CT_ARRAY_ITEM
      else if c = CS_MAP_16 then start_container (unat (msgpack_load16 n)) CT_MAP_KEY
      else if c = CS_MAP_32 then start_container (unat (msgpack_load32 n)) CT_MAP_KEY
      else unpack_failed)"

subsection \<open>The machine\<close>

text \<open>
  The code at \<open>_push\<close>: the value goes into the innermost container, and a container that is complete
  goes into the next one.  With no container left the value is the result (\<open>Inl\<close>), otherwise the
  stack goes on waiting for items (\<open>Inr\<close>).
\<close>

fun template_push :: "template_stack list \<Rightarrow> msgpack_object \<Rightarrow> msgpack_object + template_stack list" where
  "template_push [] obj = Inl obj"
| "template_push (c # st) obj =
     (case st_ct c of
        CT_ARRAY_ITEM \<Rightarrow>
          (let c = c\<lparr>st_obj := template_callback_array_item (st_obj c) obj, st_count := st_count c - 1\<rparr>
           in if st_count c = 0 then template_push st (st_obj c) else Inr (c # st))
      | CT_MAP_KEY \<Rightarrow> Inr (c\<lparr>st_map_key := obj, st_ct := CT_MAP_VALUE\<rparr> # st)
      | CT_MAP_VALUE \<Rightarrow>
          (let c = c\<lparr>st_obj := template_callback_map_item (st_obj c) (st_map_key c) obj,
                     st_count := st_count c - 1\<rparr>
           in if st_count c = 0 then template_push st (st_obj c) else Inr (c\<lparr>st_ct := CT_MAP_KEY\<rparr> # st)))"

definition template_container :: "msgpack_container_type \<Rightarrow> unpack_user \<Rightarrow> nat \<Rightarrow> msgpack_object option" where
  "template_container ct u n = (if ct = CT_ARRAY_ITEM then template_callback_array u n else template_callback_map u n)"

definition template_refer :: "template_context \<Rightarrow> msgpack_object \<Rightarrow> template_context" where
  "template_refer ctx obj =
     (case obj of MSGPACK_OBJECT_RAW _ \<Rightarrow> ctx\<lparr>ctx_user := (ctx_user ctx)\<lparr>u_referenced := True\<rparr>\<rparr> | _ \<Rightarrow> ctx)"

text \<open>
  What is done for an action: \<open>Inl\<close> with the return value when the routine ends, \<open>Inr\<close> when its loop
  goes on.
\<close>

definition value_pushed :: "template_context \<Rightarrow> msgpack_object \<Rightarrow> (int \<times> template_context) + template_context" where
  "value_pushed ctx obj =
     (case template_push (ctx_stack ctx) obj of
        Inl obj \<Rightarrow> Inl (1, ctx\<lparr>ctx_stack := [], ctx_root := obj\<rparr>)
      | Inr st \<Rightarrow> Inr (ctx\<lparr>ctx_stack := st, ctx_cs := CS_HEADER\<rparr>))"

fun unpack_do :: "template_context \<Rightarrow> unpack_action \<Rightarrow> (int \<times> template_context) + template_context" where
  "unpack_do ctx (push_value obj) = value_pushed (template_refer ctx obj) obj"
| "unpack_do ctx raw_zero =
     value_pushed (template_refer (ctx\<lparr>ctx_trail := 0\<rparr>) (MSGPACK_OBJECT_RAW [])) (MSGPACK_OBJECT_RAW [])"
| "unpack_do ctx (again_fixed_trail c t) = Inr (ctx\<lparr>ctx_cs := c, ctx_trail := t\<rparr>)"
| "unpack_do ctx (start_container count ct) =
     (if length (ctx_stack ctx) \<ge> MSGPACK_EMBED_STACK_SIZE then Inl (-1, ctx)
      else case template_container ct (ctx_user ctx) count of
        None \<Rightarrow> Inl (-1, ctx)
      | Some obj \<Rightarrow>
          if count = 0 then value_pushed ctx obj
          else Inr (ctx\<lparr>ctx_stack := \<lparr>st_obj = obj, st_count = count, st_ct = ct,
                                      st_map_key = MSGPACK_OBJECT_NIL\<rparr> # ctx_stack ctx,
                         ctx_cs := CS_HEADER\<rparr>))"
| "unpack_do ctx unpack_failed = Inl (-1, ctx)"

text \<open>One round of the loop takes one byte in the header state and \<open>trail\<close> bytes in the others.\<close>

definition trail_wanted :: "template_context \<Rightarrow> nat" where
  "trail_wanted ctx = (if ctx_cs ctx = CS_HEADER then 1 else ctx_trail ctx)"

definition unpack_step :: "template_context \<Rightarrow> byte list \<Rightarrow> (int \<times> template_context) + template_context" where
  "unpack_step ctx p =
     unpack_do ctx
       (if ctx_cs ctx = CS_HEADER then header_action (hd p)
        else trail_action (ctx_cs ctx) (take (ctx_trail ctx) p))"

text \<open>
  The whole routine, with the bytes it has not consumed.  A state other than the header state always
  waits for at least one byte, since an empty raw string does not enter it; the second guard only makes
  the recursion well-founded, and \<open>context_ok\<close> below excludes it.
\<close>

function template_execute :: "template_context \<Rightarrow> byte list \<Rightarrow> int \<times> template_context \<times> byte list" where
  "template_execute ctx p =
     (if p = [] \<or> length p < trail_wanted ctx then (0, ctx, p)
      else if trail_wanted ctx = 0 then (-1, ctx, p)
      else case unpack_step ctx p of
        Inl (ret, ctx') \<Rightarrow> (ret, ctx', drop (if ret < 0 then trail_wanted ctx - 1 else trail_wanted ctx) p)
      | Inr ctx' \<Rightarrow> template_execute ctx' (drop (trail_wanted ctx) p))"
  by pat_completeness auto

termination
  by (relation "measure (\<lambda>(ctx, p). length p)") auto

declare template_execute.simps [simp del]

subsection \<open>Entry points\<close>

datatype msgpack_unpack_return =
  MSGPACK_UNPACK_SUCCESS | MSGPACK_UNPACK_EXTRA_BYTES | MSGPACK_UNPACK_CONTINUE | MSGPACK_UNPACK_PARSE_ERROR

definition new_context :: "(nat \<Rightarrow> bool) \<Rightarrow> template_context" where
  "new_context zone =
     template_init
       \<lparr>ctx_user = \<lparr>u_z = zone, u_referenced = False\<rparr>, ctx_cs = 0, ctx_trail = 0, ctx_stack = [],
        ctx_root = MSGPACK_OBJECT_NIL\<rparr>"

text \<open>Data from \<open>off\<close> on; the result, the bytes after the object, and the object.\<close>

definition msgpack_unpack ::
  "(nat \<Rightarrow> bool) \<Rightarrow> byte list \<Rightarrow> msgpack_unpack_return \<times> byte list \<times> msgpack_object option" where
  "msgpack_unpack zone data =
     (if data = [] then (MSGPACK_UNPACK_CONTINUE, data, None)
      else let (e, ctx, rest) = template_execute (new_context zone) data
           in if e < 0 then (MSGPACK_UNPACK_PARSE_ERROR, data, None)
              else if e = 0 then (MSGPACK_UNPACK_CONTINUE, rest, None)
              else if rest \<noteq> [] then (MSGPACK_UNPACK_EXTRA_BYTES, rest, Some (template_data ctx))
              else (MSGPACK_UNPACK_SUCCESS, rest, Some (template_data ctx)))"

definition msgpack_unpack_next :: "(nat \<Rightarrow> bool) \<Rightarrow> byte list \<Rightarrow> (msgpack_object \<times> byte list) option" where
  "msgpack_unpack_next zone data =
     (if data = [] then None
      else let (e, ctx, rest) = template_execute (new_context zone) data
           in if e \<le> 0 then None else Some (template_data ctx, rest))"

text \<open>A state other than the header state waits for at least one byte, in every context the machine goes through.\<close>

definition context_ok :: "template_context \<Rightarrow> bool" where
  "context_ok ctx \<longleftrightarrow> 0 < trail_wanted ctx"

lemma again_waits:
  "header_action b = again_fixed_trail c t \<Longrightarrow> 0 < t"
  "trail_action c' n = again_fixed_trail c t \<Longrightarrow> 0 < t"
  by (auto simp: header_action_def trail_action_def again_fixed_trail_if_zero_def split: if_splits)

lemma context_ok_new: "context_ok (new_context zone)"
  by (simp add: context_ok_def trail_wanted_def new_context_def template_init_def)

lemma context_ok_header: "ctx_cs ctx = 0 \<Longrightarrow> context_ok ctx"
  by (simp add: context_ok_def trail_wanted_def)

lemma value_pushed_ok: "value_pushed ctx obj = Inr ctx' \<Longrightarrow> context_ok ctx'"
  by (auto simp: value_pushed_def context_ok_header split: sum.splits)

lemma context_ok_step:
  assumes "unpack_step ctx p = Inr ctx'"
  shows "context_ok ctx'"
proof -
  define act where "act = (if ctx_cs ctx = 0 then header_action (hd p) else trail_action (ctx_cs ctx) (take (ctx_trail ctx) p))"
  have waits: "0 < t" if "act = again_fixed_trail c t" for c t
    using that again_waits by (auto simp: act_def split: if_splits)
  have "unpack_do ctx act = Inr ctx'" using assms by (simp add: unpack_step_def act_def)
  then show ?thesis
    using waits
    by (cases act) (auto simp: context_ok_def trail_wanted_def dest: value_pushed_ok split: if_splits option.splits
        intro: context_ok_header [unfolded context_ok_def trail_wanted_def])
qed

section \<open>Stopping and going on\<close>

lemma unpack_step_append:
  "p \<noteq> [] \<Longrightarrow> trail_wanted ctx \<le> length p \<Longrightarrow> unpack_step ctx (p @ q) = unpack_step ctx p"
  by (simp add: unpack_step_def trail_wanted_def split: if_splits)

lemma value_pushed_done: "value_pushed ctx obj = Inl (ret, ctx') \<Longrightarrow> ret = 1"
  by (auto simp: value_pushed_def split: sum.splits)

lemma unpack_do_done: "unpack_do ctx action = Inl (ret, ctx') \<Longrightarrow> ret = 1 \<or> ret = -1"
  by (cases action) (auto dest: value_pushed_done split: if_splits option.splits)

lemma unpack_step_done: "unpack_step ctx p = Inl (ret, ctx') \<Longrightarrow> ret = 1 \<or> ret = -1"
  by (auto simp: unpack_step_def dest: unpack_do_done)

text \<open>
  More input does not change what the machine did with the input before: it goes on from where it
  stopped, and a result it has reached stays.
\<close>

lemma execute_append:
  "template_execute ctx p = (ret, ctx', r) \<Longrightarrow>
   template_execute ctx (p @ q) = (if ret = 0 then template_execute ctx' (r @ q) else (ret, ctx', r @ q))"
proof (induction ctx p arbitrary: ret ctx' r rule: template_execute.induct)
  case (1 ctx p)
  show ?case
  proof (cases "p = [] \<or> length p < trail_wanted ctx")
    case True
    then show ?thesis using "1.prems" by (auto simp: template_execute.simps [of ctx p])
  next
    case False
    note step = unpack_step_append [of p ctx q]
    show ?thesis
    proof (cases "trail_wanted ctx = 0")
      case True
      then have "ret = -1" and "ctx' = ctx" and "r = p"
        using "1.prems" False by (simp_all add: template_execute.simps [of ctx p])
      then show ?thesis using True False by (simp add: template_execute.simps [of ctx "p @ q"])
    next
      case nonzero: False
      show ?thesis
      proof (cases "unpack_step ctx p")
        case (Inl x)
        moreover obtain e c where "x = (e, c)" by (cases x)
        ultimately show ?thesis
          using "1.prems" False nonzero step unpack_step_done [of ctx p e c]
          by (auto simp: template_execute.simps [of ctx p] template_execute.simps [of ctx "p @ q"])
      next
        case (Inr c)
        then show ?thesis
          using "1.prems" "1.IH" [OF False nonzero Inr] False nonzero step
          by (simp add: template_execute.simps [of ctx p] template_execute.simps [of ctx "p @ q"])
      qed
    qed
  qed
qed

lemma execute_header:
  "ctx_cs ctx = 0 \<Longrightarrow>
   template_execute ctx (b # rest) =
     (case unpack_do ctx (header_action b) of
        Inl (ret, ctx') \<Rightarrow> (ret, ctx', if ret < 0 then b # rest else rest)
      | Inr ctx' \<Rightarrow> template_execute ctx' rest)"
  by (subst template_execute.simps) (auto simp: trail_wanted_def unpack_step_def split: sum.splits)

lemma execute_trail:
  "ctx_cs ctx \<noteq> 0 \<Longrightarrow> ctx_trail ctx = length n \<Longrightarrow> n \<noteq> [] \<Longrightarrow>
   template_execute ctx (n @ rest) =
     (case unpack_do ctx (trail_action (ctx_cs ctx) n) of
        Inl (ret, ctx') \<Rightarrow> (ret, ctx', if ret < 0 then drop (length n - 1) (n @ rest) else rest)
      | Inr ctx' \<Rightarrow> template_execute ctx' rest)"
  by (subst template_execute.simps) (auto simp: trail_wanted_def unpack_step_def split: sum.splits)

end
