(* ===== verification/Rds_Msgpack_Roundtrip.thy ===== *)
theory Rds_Msgpack_Roundtrip
  imports Rds_Msgpack
begin

text \<open>
  Packing and unpacking fit together: packing an object appends its encoding through any callback that
  appends, and the unpacking machine reads that encoding back, whatever bytes follow, as long as the
  object has no more than \<open>MSGPACK_EMBED_STACK_SIZE\<close> levels.
\<close>

section \<open>Unpacking what was packed\<close>

text \<open>The bytes of an object, and the objects the format can hold.\<close>

fun encoding :: "msgpack_object \<Rightarrow> byte list" where
  "encoding MSGPACK_OBJECT_NIL = [0xc0]"
| "encoding (MSGPACK_OBJECT_BOOLEAN b) = [if b then 0xc3 else 0xc2]"
| "encoding (MSGPACK_OBJECT_POSITIVE_INTEGER u) = msgpack_pack_real_uint64 u"
| "encoding (MSGPACK_OBJECT_NEGATIVE_INTEGER i) = msgpack_pack_real_int64 i"
| "encoding (MSGPACK_OBJECT_DOUBLE d) = 0xcb # msgpack_store64 d"
| "encoding (MSGPACK_OBJECT_RAW b) = raw_header (length b) @ b"
| "encoding (MSGPACK_OBJECT_ARRAY os) = array_header (length os) @ concat (map encoding os)"
| "encoding (MSGPACK_OBJECT_MAP kvs) =
     map_header (length kvs) @ concat (map (\<lambda>(k, v). encoding k @ encoding v) kvs)"

fun packable :: "(nat \<Rightarrow> bool) \<Rightarrow> msgpack_object \<Rightarrow> bool" where
  "packable zone (MSGPACK_OBJECT_NEGATIVE_INTEGER i) = (sint i < 0)"
| "packable zone (MSGPACK_OBJECT_RAW b) = (length b < 2 ^ 32)"
| "packable zone (MSGPACK_OBJECT_ARRAY os) =
     (length os < 2 ^ 32 \<and> zone (length os) \<and> (\<forall>d \<in> set os. packable zone d))"
| "packable zone (MSGPACK_OBJECT_MAP kvs) =
     (length kvs < 2 ^ 32 \<and> zone (length kvs) \<and> (\<forall>(k, v) \<in> set kvs. packable zone k \<and> packable zone v))"
| "packable zone _ = True"

fun nesting :: "msgpack_object \<Rightarrow> nat" where
  "nesting (MSGPACK_OBJECT_ARRAY os) = Suc (Max (insert 0 (nesting ` set os)))"
| "nesting (MSGPACK_OBJECT_MAP kvs) =
     Suc (Max (insert 0 ((\<lambda>(k, v). max (nesting k) (nesting v)) ` set kvs)))"
| "nesting _ = 0"

subsection \<open>Type bytes\<close>

lemma small_nat_all: "list_all P [0..<n] \<Longrightarrow> k < n \<Longrightarrow> P k"
  by (simp add: list_all_iff)

lemma header_array: "n < 16 \<Longrightarrow> header_action (0x90 OR of_nat n) = start_container n CT_ARRAY_ITEM"
proof (rule small_nat_all)
  show "list_all (\<lambda>n. header_action (0x90 OR of_nat n) = start_container n CT_ARRAY_ITEM) [0..<16]"
    by code_simp
qed

lemma header_map: "n < 16 \<Longrightarrow> header_action (0x80 OR of_nat n) = start_container n CT_MAP_KEY"
proof (rule small_nat_all)
  show "list_all (\<lambda>n. header_action (0x80 OR of_nat n) = start_container n CT_MAP_KEY) [0..<16]"
    by code_simp
qed

lemma header_raw: "n < 32 \<Longrightarrow> header_action (0xa0 OR of_nat n) = again_fixed_trail_if_zero ACS_RAW_VALUE n"
proof (rule small_nat_all)
  show "list_all (\<lambda>n. header_action (0xa0 OR of_nat n) = again_fixed_trail_if_zero ACS_RAW_VALUE n) [0..<32]"
    by code_simp
qed

lemma header_trail:
  "header_action 0xcb = again_fixed_trail CS_DOUBLE 8" "header_action 0xcc = again_fixed_trail CS_UINT_8 1"
  "header_action 0xcd = again_fixed_trail CS_UINT_16 2" "header_action 0xce = again_fixed_trail CS_UINT_32 4"
  "header_action 0xcf = again_fixed_trail CS_UINT_64 8" "header_action 0xd0 = again_fixed_trail CS_INT_8 1"
  "header_action 0xd1 = again_fixed_trail CS_INT_16 2" "header_action 0xd2 = again_fixed_trail CS_INT_32 4"
  "header_action 0xd3 = again_fixed_trail CS_INT_64 8" "header_action 0xda = again_fixed_trail CS_RAW_16 2"
  "header_action 0xdb = again_fixed_trail CS_RAW_32 4" "header_action 0xdc = again_fixed_trail CS_ARRAY_16 2"
  "header_action 0xdd = again_fixed_trail CS_ARRAY_32 4" "header_action 0xde = again_fixed_trail CS_MAP_16 2"
  "header_action 0xdf = again_fixed_trail CS_MAP_32 4"
  by (simp_all add: header_action_def NEXT_CS_def)

lemma header_value:
  "header_action 0xc0 = push_value MSGPACK_OBJECT_NIL"
  "header_action 0xc2 = push_value (MSGPACK_OBJECT_BOOLEAN False)"
  "header_action 0xc3 = push_value (MSGPACK_OBJECT_BOOLEAN True)"
  by (simp_all add: header_action_def)

lemma header_fixnum: "uint d < 128 \<Longrightarrow> header_action d = push_value (template_callback_uint d)"
  by (simp add: header_action_def word_le_def)

lemma sint_byte: "sint (d :: byte) = (if uint d < 128 then uint d else uint d - 256)"
proof -
  have d: "0 \<le> uint d" "uint d < 256" using uint_lt2p [of d] by simp_all
  have s: "sint d = (uint d + 128) mod 256 - 128"
    by (simp add: sint_uint signed_take_bit_eq_take_bit_shift take_bit_eq_mod)
  show ?thesis
  proof (cases "uint d < 128")
    case True
    then show ?thesis using d by (simp add: s)
  next
    case False
    then show ?thesis using d mod_add_self2 [of "uint d - 128" 256] by (simp add: s add.commute)
  qed
qed

lemma header_neg_fixnum:
  assumes "- 32 \<le> sint d" and "sint d < 0"
  shows "header_action d = push_value (template_callback_int d)"
proof -
  have "224 \<le> uint d" using assms uint_ge_0 [of d] by (simp add: sint_byte split: if_splits)
  then show ?thesis by (simp add: header_action_def word_le_def)
qed

subsection \<open>Narrowed integers\<close>

lemma sint_ucast_narrow:
  fixes d :: UINT64
  assumes "- (2 ^ (LENGTH('b) - 1)) \<le> sint d" and "sint d < 2 ^ (LENGTH('b) - 1)" and "LENGTH('b) \<le> 64"
  shows "sint (ucast d :: 'b::len word) = sint d"
proof -
  have "sint (ucast d :: 'b word) = signed_take_bit (LENGTH('b) - 1) (uint d)"
    by (simp add: signed_ucast_eq)
  also have "\<dots> = signed_take_bit (LENGTH('b) - 1) (sint d)"
    using diff_le_mono [OF assms(3), of 1] by (simp add: sint_uint min_absorb1)
  also have "\<dots> = sint d"
    using assms by (intro signed_take_bit_int_eq_self) simp_all
  finally show ?thesis .
qed

lemma callback_int_narrow:
  fixes d :: UINT64
  assumes "- (2 ^ (LENGTH('b) - 1)) \<le> sint d" and "sint d < 0" and "LENGTH('b) \<le> 64"
  shows "template_callback_int (ucast d :: 'b::len word) = MSGPACK_OBJECT_NEGATIVE_INTEGER d"
proof -
  have s: "sint (ucast d :: 'b word) = sint d"
    using assms(2) by (intro sint_ucast_narrow assms) (simp add: less_trans [of _ 0])
  then have "(scast (ucast d :: 'b word) :: UINT64) = d" by (metis scast_eq scast_id)
  with s assms(2) show ?thesis by (simp add: template_callback_int_def)
qed

lemma callback_uint_narrow:
  fixes d :: UINT64
  assumes "uint d < 2 ^ LENGTH('b)"
  shows "template_callback_uint (ucast d :: 'b::len word) = MSGPACK_OBJECT_POSITIVE_INTEGER d"
proof -
  have "uint (ucast (ucast d :: 'b word) :: UINT64) = uint d"
    using assms by (simp add: unsigned_ucast_eq unsigned_take_bit_eq take_bit_int_eq_self)
  then show ?thesis by (simp add: template_callback_uint_def word_uint_eq_iff)
qed

subsection \<open>Reading one object\<close>

text \<open>
  \<open>unpacks ctx bs obj\<close>: in the context \<open>ctx\<close> the bytes \<open>bs\<close> are exactly one object, \<open>obj\<close>; the machine comes to
  push it with nothing changed but what it was waiting for and the note that it refers to the input.
\<close>

definition after_push :: "template_context \<Rightarrow> msgpack_object \<Rightarrow> byte list \<Rightarrow> int \<times> template_context \<times> byte list" where
  "after_push ctx obj rest =
     (case value_pushed ctx obj of
        Inl (ret, ctx') \<Rightarrow> (ret, ctx', rest)
      | Inr ctx' \<Rightarrow> template_execute ctx' rest)"

definition ctx_with :: "template_context \<Rightarrow> nat \<Rightarrow> nat \<Rightarrow> bool \<Rightarrow> template_context" where
  "ctx_with ctx c t r = ctx\<lparr>ctx_cs := c, ctx_trail := t, ctx_user := (ctx_user ctx)\<lparr>u_referenced := r\<rparr>\<rparr>"

lemma ctx_with_same: "ctx = ctx_with ctx (ctx_cs ctx) (ctx_trail ctx) (u_referenced (ctx_user ctx))"
  by (simp add: ctx_with_def)

lemma template_refer_left: "\<exists>r. template_refer ctx obj = ctx_with ctx (ctx_cs ctx) (ctx_trail ctx) r"
  by (cases obj) (auto simp: template_refer_def ctx_with_def intro: exI [of _ True] exI [of _ "u_referenced (ctx_user ctx)"])

lemma ctx_with_left [simp]: "ctx_with (ctx_with ctx c t r) c' t' r' = ctx_with ctx c' t' r'"
  by (simp add: ctx_with_def)

lemma push_left:
  "\<exists>c t r. (case unpack_do ctx (push_value obj) of
        Inl (ret, ctx') \<Rightarrow> (ret, ctx', if ret < 0 then bs else rest)
      | Inr ctx' \<Rightarrow> template_execute ctx' rest) = after_push (ctx_with ctx c t r) obj rest"
proof -
  obtain r where r: "template_refer ctx obj = ctx_with ctx (ctx_cs ctx) (ctx_trail ctx) r"
    using template_refer_left by blast
  show ?thesis
    by (rule exI [of _ "ctx_cs ctx"], rule exI [of _ "ctx_trail ctx"], rule exI [of _ r])
      (auto simp: r after_push_def dest: value_pushed_done split: sum.splits)
qed

definition unpacks :: "template_context \<Rightarrow> byte list \<Rightarrow> msgpack_object \<Rightarrow> bool" where
  "unpacks ctx bs obj \<longleftrightarrow> (\<forall>rest. \<exists>c t r. template_execute ctx (bs @ rest) = after_push (ctx_with ctx c t r) obj rest)"

lemma unpacks_header:
  "ctx_cs ctx = 0 \<Longrightarrow> header_action b = push_value obj \<Longrightarrow> unpacks ctx [b] obj"
  unfolding unpacks_def using push_left by (simp add: execute_header)

lemma unpacks_trail:
  assumes "ctx_cs ctx \<noteq> 0" and "ctx_trail ctx = length n" and "n \<noteq> []" and "trail_action (ctx_cs ctx) n = push_value obj"
  shows "unpacks ctx n obj"
  unfolding unpacks_def using push_left assms by (simp add: execute_trail)

lemma unpacks_again:
  assumes "ctx_cs ctx = 0" and "header_action b = again_fixed_trail c t"
    and "unpacks (ctx\<lparr>ctx_cs := c, ctx_trail := t\<rparr>) n obj"
  shows "unpacks ctx (b # n) obj"
proof -
  have "ctx\<lparr>ctx_cs := c, ctx_trail := t\<rparr> = ctx_with ctx c t (u_referenced (ctx_user ctx))"
    by (simp add: ctx_with_def)
  then show ?thesis
    using assms by (auto simp: unpacks_def execute_header)
qed

lemma unpacks_after_header:
  assumes "ctx_cs ctx = 0" and "header_action b = again_fixed_trail c (length n)" and "n \<noteq> []" and "c \<noteq> 0"
    and "trail_action c n = push_value obj"
  shows "unpacks ctx (b # n) obj"
  using assms by (intro unpacks_again [where c = c and t = "length n"] unpacks_trail) simp_all


lemma unpacks_trail_again:
  assumes "ctx_cs ctx \<noteq> 0" and "ctx_trail ctx = length n" and "n \<noteq> []"
    and "trail_action (ctx_cs ctx) n = again_fixed_trail c t"
    and "unpacks (ctx\<lparr>ctx_cs := c, ctx_trail := t\<rparr>) m obj"
  shows "unpacks ctx (n @ m) obj"
proof -
  have "ctx\<lparr>ctx_cs := c, ctx_trail := t\<rparr> = ctx_with ctx c t (u_referenced (ctx_user ctx))"
    by (simp add: ctx_with_def)
  then show ?thesis
    using assms by (auto simp: unpacks_def execute_trail)
qed

lemma store_not_Nil [simp]:
  "msgpack_store16 v \<noteq> []" "msgpack_store32 w \<noteq> []" "msgpack_store64 d \<noteq> []"
  using length_store(1) [of v] length_store(2) [of w] length_store(3) [of d]
  by (auto simp del: length_store)

lemma unpacks_number:
  assumes "ctx_cs ctx = 0"
  shows "unpacks ctx (0xcb # msgpack_store64 d) (template_callback_double d)"
    and "unpacks ctx [0xcc, b] (template_callback_uint b)"
    and "unpacks ctx (0xcd # msgpack_store16 v) (template_callback_uint v)"
    and "unpacks ctx (0xce # msgpack_store32 w) (template_callback_uint w)"
    and "unpacks ctx (0xcf # msgpack_store64 d) (template_callback_uint d)"
    and "unpacks ctx [0xd0, b] (template_callback_int b)"
    and "unpacks ctx (0xd1 # msgpack_store16 v) (template_callback_int v)"
    and "unpacks ctx (0xd2 # msgpack_store32 w) (template_callback_int w)"
    and "unpacks ctx (0xd3 # msgpack_store64 d) (template_callback_int d)"
  using assms
    unpacks_after_header [where ctx = ctx and b = "0xcb" and c = 11 and n = "msgpack_store64 d"] unpacks_after_header [where ctx = ctx and b = "0xcc" and c = 12 and n = "[b]"]
    unpacks_after_header [where ctx = ctx and b = "0xcd" and c = 13 and n = "msgpack_store16 v"] unpacks_after_header [where ctx = ctx and b = "0xce" and c = 14 and n = "msgpack_store32 w"]
    unpacks_after_header [where ctx = ctx and b = "0xcf" and c = 15 and n = "msgpack_store64 d"] unpacks_after_header [where ctx = ctx and b = "0xd0" and c = 16 and n = "[b]"]
    unpacks_after_header [where ctx = ctx and b = "0xd1" and c = 17 and n = "msgpack_store16 v"] unpacks_after_header [where ctx = ctx and b = "0xd2" and c = 18 and n = "msgpack_store32 w"]
    unpacks_after_header [where ctx = ctx and b = "0xd3" and c = 19 and n = "msgpack_store64 d"]
  by (simp_all add: header_trail trail_action_def)

lemma unpacks_positive:
  assumes c: "ctx_cs ctx = 0"
  shows "unpacks ctx (msgpack_pack_real_uint64 d) (MSGPACK_OBJECT_POSITIVE_INTEGER d)"
proof -
  have small: "unpacks ctx [ucast d] (MSGPACK_OBJECT_POSITIVE_INTEGER d)" if "uint d < 128"
  proof -
    have "unpacks ctx [ucast d] (template_callback_uint (ucast d :: byte))"
      using that by (intro unpacks_header header_fixnum c)
        (simp add: unsigned_ucast_eq unsigned_take_bit_eq take_bit_int_eq_self)
    then show ?thesis using that callback_uint_narrow [where ?'b = 8, of d] by simp
  qed
  have u8: "unpacks ctx [0xcc, ucast d] (MSGPACK_OBJECT_POSITIVE_INTEGER d)" if "uint d < 256"
    using that unpacks_number(2) [OF c, of "ucast d"] callback_uint_narrow [where ?'b = 8, of d] by simp
  have u16: "unpacks ctx (0xcd # msgpack_store16 (ucast d)) (MSGPACK_OBJECT_POSITIVE_INTEGER d)" if "uint d < 65536"
    using that unpacks_number(3) [OF c, of "ucast d"] callback_uint_narrow [where ?'b = 16, of d] by simp
  have u32: "unpacks ctx (0xce # msgpack_store32 (ucast d)) (MSGPACK_OBJECT_POSITIVE_INTEGER d)" if "uint d < 4294967296"
    using that unpacks_number(4) [OF c, of "ucast d"] callback_uint_narrow [where ?'b = 32, of d] by simp
  have u64: "unpacks ctx (0xcf # msgpack_store64 d) (MSGPACK_OBJECT_POSITIVE_INTEGER d)"
    using uint_lt2p [of d] unpacks_number(5) [OF c, of d] callback_uint_narrow [where ?'b = 64, of d] by simp
  show ?thesis
    unfolding msgpack_pack_real_uint64_def using small u8 u16 u32 u64 by auto
qed

lemma unpacks_negative:
  assumes c: "ctx_cs ctx = 0" and neg: "sint d < 0"
  shows "unpacks ctx (msgpack_pack_real_int64 d) (MSGPACK_OBJECT_NEGATIVE_INTEGER d)"
proof -
  have small: "unpacks ctx [ucast d] (MSGPACK_OBJECT_NEGATIVE_INTEGER d)" if "- 32 \<le> sint d"
  proof -
    have s: "sint (ucast d :: byte) = sint d"
      using that neg by (intro sint_ucast_narrow) simp_all
    have "unpacks ctx [ucast d] (template_callback_int (ucast d :: byte))"
      using that neg s by (intro unpacks_header header_neg_fixnum c) simp_all
    then show ?thesis using that neg callback_int_narrow [where ?'b = 8, of d] by simp
  qed
  have i8: "unpacks ctx [0xd0, ucast d] (MSGPACK_OBJECT_NEGATIVE_INTEGER d)" if "- 128 \<le> sint d"
    using that neg unpacks_number(6) [OF c, of "ucast d"] callback_int_narrow [where ?'b = 8, of d] by simp
  have i16: "unpacks ctx (0xd1 # msgpack_store16 (ucast d)) (MSGPACK_OBJECT_NEGATIVE_INTEGER d)" if "- 32768 \<le> sint d"
    using that neg unpacks_number(7) [OF c, of "ucast d"] callback_int_narrow [where ?'b = 16, of d] by simp
  have i32: "unpacks ctx (0xd2 # msgpack_store32 (ucast d)) (MSGPACK_OBJECT_NEGATIVE_INTEGER d)" if "- 2147483648 \<le> sint d"
    using that neg unpacks_number(8) [OF c, of "ucast d"] callback_int_narrow [where ?'b = 32, of d] by simp
  have i64: "unpacks ctx (0xd3 # msgpack_store64 d) (MSGPACK_OBJECT_NEGATIVE_INTEGER d)"
    using neg sint_ge [of d] unpacks_number(9) [OF c, of d] callback_int_narrow [where ?'b = 64, of d] by simp
  show ?thesis
    unfolding msgpack_pack_real_int64_def using neg small i8 i16 i32 i64 by auto
qed

lemma unpacks_raw_body: "ctx_cs ctx = ACS_RAW_VALUE \<Longrightarrow> ctx_trail ctx = length b \<Longrightarrow> b \<noteq> [] \<Longrightarrow> unpacks ctx b (MSGPACK_OBJECT_RAW b)"
  by (intro unpacks_trail) (simp_all add: trail_action_def)

lemma unpacks_raw_zero:
  assumes "ctx_cs ctx = 0" and "header_action b = raw_zero"
  shows "unpacks ctx [b] (MSGPACK_OBJECT_RAW [])"
proof -
  have "template_refer (ctx\<lparr>ctx_trail := 0\<rparr>) (MSGPACK_OBJECT_RAW []) = ctx_with ctx 0 0 True"
    using assms by (simp add: template_refer_def ctx_with_def)
  then have "template_execute ctx (b # rest) = after_push (ctx_with ctx 0 0 True) (MSGPACK_OBJECT_RAW []) rest" for rest
    using assms by (auto simp: execute_header after_push_def dest: value_pushed_done split: sum.splits)
  then show ?thesis unfolding unpacks_def by fastforce
qed

lemma unpacks_raw:
  assumes c: "ctx_cs ctx = 0" and l: "length b < 2 ^ 32"
  shows "unpacks ctx (raw_header (length b) @ b) (MSGPACK_OBJECT_RAW b)"
proof -
  note body = unpacks_raw_body [where b = b]
  consider "b = []" | "b \<noteq> []" "length b < 32" | "b \<noteq> []" "\<not> length b < 32" "length b < 65536"
    | "b \<noteq> []" "\<not> length b < 65536" by fastforce
  then show ?thesis
  proof cases
    case 1
    then show ?thesis
      using c unpacks_raw_zero [of ctx "0xa0"] header_raw [of 0] by (simp add: raw_header_def again_fixed_trail_if_zero_def)
  next
    case 2
    then show ?thesis
      using c by (auto simp: raw_header_def header_raw again_fixed_trail_if_zero_def intro!: unpacks_again body)
  next
    case 3
    then have "unat (of_nat (length b) :: UINT16) = length b" by (simp add: unsigned_of_nat take_bit_nat_eq_self)
    with 3 show ?thesis
      using c by (auto simp: raw_header_def header_trail trail_action_def again_fixed_trail_if_zero_def
          intro!: unpacks_again unpacks_trail_again body)
  next
    case 4
    then have "unat (of_nat (length b) :: UINT32) = length b" using l by (simp add: unsigned_of_nat take_bit_nat_eq_self)
    with 4 show ?thesis
      using c by (auto simp: raw_header_def header_trail trail_action_def again_fixed_trail_if_zero_def
          intro!: unpacks_again unpacks_trail_again body)
  qed
qed

subsection \<open>Containers\<close>

definition in_container :: "template_context \<Rightarrow> msgpack_container_type \<Rightarrow> msgpack_object \<Rightarrow> nat \<Rightarrow> template_context" where
  "in_container ctx ct obj n =
     ctx\<lparr>ctx_stack := \<lparr>st_obj = obj, st_count = n, st_ct = ct, st_map_key = MSGPACK_OBJECT_NIL\<rparr> # ctx_stack ctx,
         ctx_cs := 0\<rparr>"

definition has_room :: "template_context \<Rightarrow> msgpack_container_type \<Rightarrow> nat \<Rightarrow> msgpack_object \<Rightarrow> bool" where
  "has_room ctx ct n obj \<longleftrightarrow>
     length (ctx_stack ctx) < MSGPACK_EMBED_STACK_SIZE \<and> template_container ct (ctx_user ctx) n = Some obj"

lemma unpack_do_start:
  "has_room ctx ct n obj \<Longrightarrow>
   unpack_do ctx (start_container n ct) = (if n = 0 then value_pushed ctx obj else Inr (in_container ctx ct obj n))"
  by (simp add: has_room_def in_container_def)

lemma has_room_left [simp]: "has_room (ctx_with ctx c t r) ct n obj = has_room ctx ct n obj"
  by (simp add: has_room_def ctx_with_def template_container_def template_callback_array_def template_callback_map_def)

definition starts_container :: "template_context \<Rightarrow> byte list \<Rightarrow> nat \<Rightarrow> msgpack_container_type \<Rightarrow> msgpack_object \<Rightarrow> bool" where
  "starts_container ctx bs n ct obj \<longleftrightarrow>
     (\<forall>rest. \<exists>c t r. template_execute ctx (bs @ rest) =
        (if n = 0 then after_push (ctx_with ctx c t r) obj rest
         else template_execute (in_container (ctx_with ctx c t r) ct obj n) rest))"

lemma start_left:
  assumes "has_room ctx ct n obj"
  shows "(case unpack_do ctx (start_container n ct) of
            Inl (ret, ctx') \<Rightarrow> (ret, ctx', if ret < 0 then bs else rest)
          | Inr ctx' \<Rightarrow> template_execute ctx' rest) =
         (if n = 0 then after_push ctx obj rest else template_execute (in_container ctx ct obj n) rest)"
  using assms by (auto simp: unpack_do_start after_push_def simp del: unpack_do.simps
      dest: value_pushed_done split: sum.splits)

lemma starts_container_header:
  assumes "has_room ctx ct n obj" and "ctx_cs ctx = 0" and "header_action b = start_container n ct"
  shows "starts_container ctx [b] n ct obj"
  unfolding starts_container_def
proof (rule allI, (rule exI)+)
  show "template_execute ctx ([b] @ rest) =
      (if n = 0 then after_push (ctx_with ctx (ctx_cs ctx) (ctx_trail ctx) (u_referenced (ctx_user ctx))) obj rest
       else template_execute (in_container (ctx_with ctx (ctx_cs ctx) (ctx_trail ctx) (u_referenced (ctx_user ctx))) ct obj n) rest)"
    for rest
    using assms start_left [OF assms(1)] ctx_with_same [of ctx]
    by (simp add: execute_header del: unpack_do.simps)
qed

lemma starts_container_trail:
  assumes "has_room ctx ct n obj" and "ctx_cs ctx = 0" and "header_action b = again_fixed_trail c (length m)"
    and "m \<noteq> []" and "c \<noteq> 0" and "trail_action c m = start_container n ct"
  shows "starts_container ctx (b # m) n ct obj"
  unfolding starts_container_def
proof (rule allI, (rule exI)+)
  let ?c = "ctx_with ctx c (length m) (u_referenced (ctx_user ctx))"
  have "ctx\<lparr>ctx_cs := c, ctx_trail := length m\<rparr> = ?c"
    by (simp add: ctx_with_def)
  moreover have "ctx_cs ?c = c" "ctx_trail ?c = length m" by (simp_all add: ctx_with_def)
  ultimately show "template_execute ctx ((b # m) @ rest) =
      (if n = 0 then after_push ?c obj rest else template_execute (in_container ?c ct obj n) rest)" for rest
    using assms start_left [of ?c] by (simp add: execute_header execute_trail del: unpack_do.simps(4))
qed

lemma starts_container_array:
  assumes "ctx_cs ctx = 0" and "n < 2 ^ 32" and "has_room ctx CT_ARRAY_ITEM n obj"
  shows "starts_container ctx (array_header n) n CT_ARRAY_ITEM obj"
  using assms
  by (auto simp: array_header_def header_array header_trail trail_action_def unsigned_of_nat take_bit_nat_eq_self
      intro!: starts_container_header starts_container_trail)

lemma starts_container_map:
  assumes "ctx_cs ctx = 0" and "n < 2 ^ 32" and "has_room ctx CT_MAP_KEY n obj"
  shows "starts_container ctx (map_header n) n CT_MAP_KEY obj"
  using assms
  by (auto simp: map_header_def header_map header_trail trail_action_def unsigned_of_nat take_bit_nat_eq_self
      intro!: starts_container_header starts_container_trail)

lemma value_pushed_stack: "value_pushed (ctx\<lparr>ctx_stack := st\<rparr>) obj =
  (case template_push st obj of
     Inl obj \<Rightarrow> Inl (1, ctx\<lparr>ctx_stack := [], ctx_root := obj\<rparr>)
   | Inr st \<Rightarrow> Inr (ctx\<lparr>ctx_stack := st, ctx_cs := 0\<rparr>))"
  by (simp add: value_pushed_def split: sum.splits)

lemma unpacks_items:
  assumes "\<And>ctx d. d \<in> set os \<Longrightarrow> ctx_cs ctx = 0 \<Longrightarrow> u_z (ctx_user ctx) = zone \<Longrightarrow>
             length (ctx_stack ctx) = Suc (length st) \<Longrightarrow> unpacks ctx (encoding d) d"
    and "os \<noteq> []" and "ctx_cs ctx = 0" and "u_z (ctx_user ctx) = zone"
    and "ctx_stack ctx = \<lparr>st_obj = MSGPACK_OBJECT_ARRAY ys, st_count = length os, st_ct = CT_ARRAY_ITEM, st_map_key = key\<rparr> # st"
  shows "\<exists>c t r. template_execute ctx (concat (map encoding os) @ rest) =
           after_push ((ctx_with ctx c t r)\<lparr>ctx_stack := st\<rparr>) (MSGPACK_OBJECT_ARRAY (ys @ os)) rest"
  using assms
proof (induction os arbitrary: ctx ys)
  case (Cons x os)
  have "unpacks ctx (encoding x) x" by (rule Cons.prems(1)) (use Cons.prems in simp_all)
  then obtain c t r where x: "template_execute ctx (encoding x @ concat (map encoding os) @ rest) =
      after_push (ctx_with ctx c t r) x (concat (map encoding os) @ rest)"
    unfolding unpacks_def by blast
  have st: "ctx_stack (ctx_with ctx c t r) = ctx_stack ctx" by (simp add: ctx_with_def)
  show ?case
  proof (cases "os = []")
    case True
    then have "after_push (ctx_with ctx c t r) x rest =
        after_push ((ctx_with ctx c t r)\<lparr>ctx_stack := st\<rparr>) (MSGPACK_OBJECT_ARRAY (ys @ [x])) rest"
      using Cons.prems st by (simp add: after_push_def value_pushed_def split: sum.split)
    then show ?thesis using x True by auto
  next
    case False
    let ?c = "(ctx_with ctx c t r)\<lparr>ctx_stack := \<lparr>st_obj = MSGPACK_OBJECT_ARRAY (ys @ [x]), st_count = length os,
        st_ct = CT_ARRAY_ITEM, st_map_key = key\<rparr> # st, ctx_cs := 0\<rparr>"
    have "after_push (ctx_with ctx c t r) x bs = template_execute ?c bs" for bs
      using Cons.prems st False by (simp add: after_push_def value_pushed_def)
    moreover have "\<exists>c' t' r'. template_execute ?c (concat (map encoding os) @ rest) =
        after_push ((ctx_with ?c c' t' r')\<lparr>ctx_stack := st\<rparr>) (MSGPACK_OBJECT_ARRAY ((ys @ [x]) @ os)) rest"
      using Cons.prems False by (intro Cons.IH) (auto simp: ctx_with_def)
    moreover have "(ctx_with ?c c' t' r')\<lparr>ctx_stack := st\<rparr> = (ctx_with ctx c' t' r')\<lparr>ctx_stack := st\<rparr>" for c' t' r'
      by (simp add: ctx_with_def)
    ultimately show ?thesis using x by auto
  qed
qed simp

lemma unpacks_entries:
  assumes "\<And>ctx d k v. (k, v) \<in> set kvs \<Longrightarrow> d \<in> {k, v} \<Longrightarrow> ctx_cs ctx = 0 \<Longrightarrow> u_z (ctx_user ctx) = zone \<Longrightarrow>
             length (ctx_stack ctx) = Suc (length st) \<Longrightarrow> unpacks ctx (encoding d) d"
    and "kvs \<noteq> []" and "ctx_cs ctx = 0" and "u_z (ctx_user ctx) = zone"
    and "ctx_stack ctx = \<lparr>st_obj = MSGPACK_OBJECT_MAP ys, st_count = length kvs, st_ct = CT_MAP_KEY, st_map_key = key\<rparr> # st"
  shows "\<exists>c t r. template_execute ctx (concat (map (\<lambda>(k, v). encoding k @ encoding v) kvs) @ rest) =
           after_push ((ctx_with ctx c t r)\<lparr>ctx_stack := st\<rparr>) (MSGPACK_OBJECT_MAP (ys @ kvs)) rest"
  using assms
proof (induction kvs arbitrary: ctx ys key)
  case (Cons kv kvs)
  obtain k v where kv: "kv = (k, v)" by (cases kv)
  let ?bs = "concat (map (\<lambda>(k, v). encoding k @ encoding v) kvs) @ rest"
  have "unpacks ctx (encoding k) k" by (rule Cons.prems(1) [of k v]) (use Cons.prems kv in simp_all)
  then obtain c t r where k: "template_execute ctx (encoding k @ encoding v @ ?bs) =
      after_push (ctx_with ctx c t r) k (encoding v @ ?bs)"
    unfolding unpacks_def by blast
  let ?k = "(ctx_with ctx c t r)\<lparr>ctx_stack := \<lparr>st_obj = MSGPACK_OBJECT_MAP ys, st_count = Suc (length kvs),
        st_ct = CT_MAP_VALUE, st_map_key = k\<rparr> # st, ctx_cs := 0\<rparr>"
  have "after_push (ctx_with ctx c t r) k bs = template_execute ?k bs" for bs
    using Cons.prems by (simp add: after_push_def value_pushed_def ctx_with_def)
  moreover have "unpacks ?k (encoding v) v"
    by (rule Cons.prems(1) [of k v]) (use Cons.prems kv in \<open>simp_all add: ctx_with_def\<close>)
  then obtain c t r where "template_execute ?k (encoding v @ ?bs) = after_push (ctx_with ?k c t r) v ?bs"
    unfolding unpacks_def by blast
  moreover have "ctx_with ?k c t r = (ctx_with ctx c t r)\<lparr>ctx_stack := ctx_stack ?k\<rparr>" for c t r
    by (simp add: ctx_with_def)
  ultimately obtain c t r where v: "template_execute ctx (encoding k @ encoding v @ ?bs) =
      after_push ((ctx_with ctx c t r)\<lparr>ctx_stack := ctx_stack ?k\<rparr>) v ?bs"
    using k by metis
  show ?case
  proof (cases "kvs = []")
    case True
    then have "after_push ((ctx_with ctx c t r)\<lparr>ctx_stack := ctx_stack ?k\<rparr>) v rest =
        after_push ((ctx_with ctx c t r)\<lparr>ctx_stack := st\<rparr>) (MSGPACK_OBJECT_MAP (ys @ [(k, v)])) rest"
      by (simp add: after_push_def value_pushed_def split: sum.split)
    then show ?thesis using v True kv by auto
  next
    case False
    let ?c = "(ctx_with ctx c t r)\<lparr>ctx_stack := \<lparr>st_obj = MSGPACK_OBJECT_MAP (ys @ [(k, v)]), st_count = length kvs,
        st_ct = CT_MAP_KEY, st_map_key = k\<rparr> # st, ctx_cs := 0\<rparr>"
    have "after_push ((ctx_with ctx c t r)\<lparr>ctx_stack := ctx_stack ?k\<rparr>) v bs = template_execute ?c bs" for bs
      using False by (simp add: after_push_def value_pushed_def)
    moreover have "\<exists>c' t' r'. template_execute ?c ?bs =
        after_push ((ctx_with ?c c' t' r')\<lparr>ctx_stack := st\<rparr>) (MSGPACK_OBJECT_MAP ((ys @ [(k, v)]) @ kvs)) rest"
      using Cons.prems False by (intro Cons.IH) (auto simp: ctx_with_def)
    moreover have "(ctx_with ?c c' t' r')\<lparr>ctx_stack := st\<rparr> = (ctx_with ctx c' t' r')\<lparr>ctx_stack := st\<rparr>" for c' t' r'
      by (simp add: ctx_with_def)
    ultimately show ?thesis using v kv by auto
  qed
qed simp

lemma nesting_item: "d \<in> set os \<Longrightarrow> nesting d < nesting (MSGPACK_OBJECT_ARRAY os)"
  by (simp add: less_Suc_eq_le Max_ge_iff) 

lemma nesting_entry: "(k, v) \<in> set kvs \<Longrightarrow> d \<in> {k, v} \<Longrightarrow> nesting d < nesting (MSGPACK_OBJECT_MAP kvs)"
  by (force simp add: less_Suc_eq_le Max_ge_iff)

lemma in_container_closed:
  "(ctx_with (in_container (ctx_with ctx c t r) ct obj n) c' t' r')\<lparr>ctx_stack := ctx_stack ctx\<rparr> = ctx_with ctx c' t' r'"
  by (simp add: ctx_with_def in_container_def)

lemma unpacks_array:
  assumes items: "\<And>d ctx. d \<in> set os \<Longrightarrow> ctx_cs ctx = 0 \<Longrightarrow> packable (u_z (ctx_user ctx)) d \<Longrightarrow>
      nesting d + length (ctx_stack ctx) \<le> MSGPACK_EMBED_STACK_SIZE \<Longrightarrow> unpacks ctx (encoding d) d"
    and ctx: "ctx_cs ctx = 0" "packable (u_z (ctx_user ctx)) (MSGPACK_OBJECT_ARRAY os)"
      "nesting (MSGPACK_OBJECT_ARRAY os) + length (ctx_stack ctx) \<le> MSGPACK_EMBED_STACK_SIZE"
  shows "unpacks ctx (encoding (MSGPACK_OBJECT_ARRAY os)) (MSGPACK_OBJECT_ARRAY os)"
  unfolding unpacks_def
proof
  fix rest
  let ?bs = "concat (map encoding os)"
  have "has_room ctx CT_ARRAY_ITEM (length os) (MSGPACK_OBJECT_ARRAY [])"
    using ctx by (simp add: has_room_def template_container_def template_callback_array_def)
  then have "starts_container ctx (array_header (length os)) (length os) CT_ARRAY_ITEM (MSGPACK_OBJECT_ARRAY [])"
    using ctx by (intro starts_container_array) simp_all
  then obtain c t r where start: "template_execute ctx (array_header (length os) @ ?bs @ rest) =
      (if length os = 0 then after_push (ctx_with ctx c t r) (MSGPACK_OBJECT_ARRAY []) (?bs @ rest)
       else template_execute (in_container (ctx_with ctx c t r) CT_ARRAY_ITEM (MSGPACK_OBJECT_ARRAY []) (length os)) (?bs @ rest))"
    unfolding starts_container_def by blast
  show "\<exists>c t r. template_execute ctx (encoding (MSGPACK_OBJECT_ARRAY os) @ rest) =
      after_push (ctx_with ctx c t r) (MSGPACK_OBJECT_ARRAY os) rest"
  proof (cases "os = []")
    case True
    then show ?thesis using start by auto
  next
    case False
    let ?c = "in_container (ctx_with ctx c t r) CT_ARRAY_ITEM (MSGPACK_OBJECT_ARRAY []) (length os)"
    have "\<exists>c' t' r'. template_execute ?c (?bs @ rest) =
        after_push ((ctx_with ?c c' t' r')\<lparr>ctx_stack := ctx_stack ctx\<rparr>) (MSGPACK_OBJECT_ARRAY ([] @ os)) rest"
    proof (rule unpacks_items [where zone = "u_z (ctx_user ctx)" and key = MSGPACK_OBJECT_NIL])
      show "unpacks ctx' (encoding d) d"
        if "d \<in> set os" "ctx_cs ctx' = 0" "u_z (ctx_user ctx') = u_z (ctx_user ctx)"
          "length (ctx_stack ctx') = Suc (length (ctx_stack ctx))" for d ctx'
        using that ctx nesting_item [OF that(1)] by (intro items) simp_all
    qed (use False in \<open>simp_all add: in_container_def ctx_with_def\<close>)
    then show ?thesis using start False by (simp add: in_container_closed)
  qed
qed

lemma unpacks_map:
  assumes entries: "\<And>d k v ctx. (k, v) \<in> set kvs \<Longrightarrow> d \<in> {k, v} \<Longrightarrow> ctx_cs ctx = 0 \<Longrightarrow> packable (u_z (ctx_user ctx)) d \<Longrightarrow>
      nesting d + length (ctx_stack ctx) \<le> MSGPACK_EMBED_STACK_SIZE \<Longrightarrow> unpacks ctx (encoding d) d"
    and ctx: "ctx_cs ctx = 0" "packable (u_z (ctx_user ctx)) (MSGPACK_OBJECT_MAP kvs)"
      "nesting (MSGPACK_OBJECT_MAP kvs) + length (ctx_stack ctx) \<le> MSGPACK_EMBED_STACK_SIZE"
  shows "unpacks ctx (encoding (MSGPACK_OBJECT_MAP kvs)) (MSGPACK_OBJECT_MAP kvs)"
  unfolding unpacks_def
proof
  fix rest
  let ?bs = "concat (map (\<lambda>(k, v). encoding k @ encoding v) kvs)"
  have "has_room ctx CT_MAP_KEY (length kvs) (MSGPACK_OBJECT_MAP [])"
    using ctx by (simp add: has_room_def template_container_def template_callback_map_def)
  then have "starts_container ctx (map_header (length kvs)) (length kvs) CT_MAP_KEY (MSGPACK_OBJECT_MAP [])"
    using ctx by (intro starts_container_map) simp_all
  then obtain c t r where start: "template_execute ctx (map_header (length kvs) @ ?bs @ rest) =
      (if length kvs = 0 then after_push (ctx_with ctx c t r) (MSGPACK_OBJECT_MAP []) (?bs @ rest)
       else template_execute (in_container (ctx_with ctx c t r) CT_MAP_KEY (MSGPACK_OBJECT_MAP []) (length kvs)) (?bs @ rest))"
    unfolding starts_container_def by blast
  show "\<exists>c t r. template_execute ctx (encoding (MSGPACK_OBJECT_MAP kvs) @ rest) =
      after_push (ctx_with ctx c t r) (MSGPACK_OBJECT_MAP kvs) rest"
  proof (cases "kvs = []")
    case True
    then show ?thesis using start by auto
  next
    case False
    let ?c = "in_container (ctx_with ctx c t r) CT_MAP_KEY (MSGPACK_OBJECT_MAP []) (length kvs)"
    have "\<exists>c' t' r'. template_execute ?c (?bs @ rest) =
        after_push ((ctx_with ?c c' t' r')\<lparr>ctx_stack := ctx_stack ctx\<rparr>) (MSGPACK_OBJECT_MAP ([] @ kvs)) rest"
    proof (rule unpacks_entries [where zone = "u_z (ctx_user ctx)" and key = MSGPACK_OBJECT_NIL])
      show "unpacks ctx' (encoding d) d"
        if "(k, v) \<in> set kvs" "d \<in> {k, v}" "ctx_cs ctx' = 0" "u_z (ctx_user ctx') = u_z (ctx_user ctx)"
          "length (ctx_stack ctx') = Suc (length (ctx_stack ctx))" for d k v ctx'
        using that ctx nesting_entry [OF that(1,2)] by (intro entries [OF that(1,2)]) auto
    qed (use False in \<open>simp_all add: in_container_def ctx_with_def\<close>)
    then show ?thesis using start False by (simp add: in_container_closed)
  qed
qed

lemma unpacks_object:
  "ctx_cs ctx = 0 \<Longrightarrow> packable (u_z (ctx_user ctx)) obj \<Longrightarrow>
   nesting obj + length (ctx_stack ctx) \<le> MSGPACK_EMBED_STACK_SIZE \<Longrightarrow> unpacks ctx (encoding obj) obj"
proof (induction obj arbitrary: ctx)
  case MSGPACK_OBJECT_NIL
  then show ?case by (simp add: unpacks_header header_value)
next
  case (MSGPACK_OBJECT_BOOLEAN b)
  then show ?case by (simp add: unpacks_header header_value)
next
  case (MSGPACK_OBJECT_DOUBLE d)
  then show ?case using unpacks_number(1) [of ctx d] by (simp add: template_callback_double_def)
next
  case (MSGPACK_OBJECT_ARRAY os)
  then show ?case by (intro unpacks_array) auto
next
  case (MSGPACK_OBJECT_MAP kvs)
  then show ?case by (intro unpacks_map) (auto simp del: nesting.simps packable.simps)
qed (simp_all add: unpacks_positive unpacks_negative unpacks_raw)

text \<open>The object comes back, and so do the bytes behind it.\<close>

lemma unpack_encoding:
  assumes "packable zone obj" and "nesting obj \<le> MSGPACK_EMBED_STACK_SIZE"
  shows "msgpack_unpack_next zone (encoding obj @ rest) = Some (obj, rest)"
    and "msgpack_unpack zone (encoding obj @ rest) =
           (if rest = [] then MSGPACK_UNPACK_SUCCESS else MSGPACK_UNPACK_EXTRA_BYTES, rest, Some obj)"
proof -
  have "unpacks (new_context zone) (encoding obj) obj"
    using assms by (intro unpacks_object) (simp_all add: new_context_def template_init_def)
  then obtain c t r where "template_execute (new_context zone) (encoding obj @ rest) =
      after_push (ctx_with (new_context zone) c t r) obj rest"
    unfolding unpacks_def by blast
  also have "\<dots> = (1, (ctx_with (new_context zone) c t r)\<lparr>ctx_stack := [], ctx_root := obj\<rparr>, rest)"
    by (simp add: after_push_def value_pushed_def ctx_with_def new_context_def template_init_def)
  finally have run: "template_execute (new_context zone) (encoding obj @ rest) =
      (1, (ctx_with (new_context zone) c t r)\<lparr>ctx_stack := [], ctx_root := obj\<rparr>, rest)" .
  moreover have "encoding obj @ rest \<noteq> []"
    using run by (auto simp: template_execute.simps [of _ "[]"])
  ultimately show "msgpack_unpack_next zone (encoding obj @ rest) = Some (obj, rest)"
    and "msgpack_unpack zone (encoding obj @ rest) =
           (if rest = [] then MSGPACK_UNPACK_SUCCESS else MSGPACK_UNPACK_EXTRA_BYTES, rest, Some obj)"
    by (auto simp: msgpack_unpack_next_def msgpack_unpack_def template_data_def)
qed
section \<open>Packing through a callback\<close>

text \<open>
  The interface of a packer: a callback that always succeeds and appends to what has been written.  Under
  it packing an object writes its encoding.
\<close>

locale packer_sink =
  fixes cb :: "'a \<Rightarrow> byte list \<Rightarrow> int \<times> 'a"
    and sound :: "'a \<Rightarrow> bool"
    and written :: "'a \<Rightarrow> byte list"
  assumes callback_appends:
    "sound a \<Longrightarrow> \<exists>a'. cb a bs = (0, a') \<and> sound a' \<and> written a' = written a @ bs"
begin

definition packs :: "'a msgpack_packer \<Rightarrow> int \<times> 'a msgpack_packer \<Rightarrow> byte list \<Rightarrow> bool" where
  "packs pk result bs \<longleftrightarrow>
     fst result = 0 \<and> pk_callback (snd result) = cb \<and> sound (pk_data (snd result)) \<and>
     written (pk_data (snd result)) = written (pk_data pk) @ bs"

definition sink :: "'a msgpack_packer \<Rightarrow> bool" where
  "sink pk \<longleftrightarrow> pk_callback pk = cb \<and> sound (pk_data pk)"

lemma packs_append: "sink pk \<Longrightarrow> packs pk (msgpack_pack_append_buffer pk bs) bs"
  using callback_appends [of "pk_data pk" bs]
  by (auto simp: packs_def sink_def msgpack_pack_append_buffer_def)

lemma packs_then:
  assumes "packs pk r1 as" and "\<And>pk'. r1 = (0, pk') \<Longrightarrow> sink pk' \<Longrightarrow> packs pk' (f pk') bs"
  shows "packs pk (case r1 of (ret, pk) \<Rightarrow> if ret < 0 then (ret, pk) else f pk) (as @ bs)"
  using assms by (cases r1) (auto simp: packs_def sink_def)

lemma packs_objects:
  assumes "\<And>d pk. d \<in> set os \<Longrightarrow> sink pk \<Longrightarrow> packs pk (msgpack_pack_object pk d) (encoding d)"
  shows "sink pk \<Longrightarrow> packs pk (pack_objects pk os) (concat (map encoding os))"
  using assms
proof (induction os arbitrary: pk)
  case Nil
  then show ?case by (simp add: packs_def sink_def)
next
  case (Cons d os)
  then show ?case by (auto intro!: packs_then)
qed

lemma packs_entries:
  assumes "\<And>k v pk. (k, v) \<in> set kvs \<Longrightarrow> sink pk \<Longrightarrow>
             packs pk (msgpack_pack_object pk k) (encoding k) \<and> packs pk (msgpack_pack_object pk v) (encoding v)"
  shows "sink pk \<Longrightarrow> packs pk (pack_entries pk kvs) (concat (map (\<lambda>(k, v). encoding k @ encoding v) kvs))"
  using assms
proof (induction kvs arbitrary: pk)
  case Nil
  then show ?case by (simp add: packs_def sink_def)
next
  case (Cons kv kvs)
  obtain k v where kv: "kv = (k, v)" by (cases kv)
  have "packs pk' (msgpack_pack_object pk' k) (encoding k)" "packs pk' (msgpack_pack_object pk' v) (encoding v)"
    if "sink pk'" for pk'
    using that Cons.prems(2) [of k v pk'] kv by simp_all
  moreover have "packs pk' (pack_entries pk' kvs) (concat (map (\<lambda>(k, v). encoding k @ encoding v) kvs))"
    if "sink pk'" for pk'
    using that by (rule Cons.IH) (rule Cons.prems(2), simp_all)
  ultimately show ?case
    using Cons.prems(1) by (auto simp: kv Let_def intro!: packs_then)
qed

lemma packs_object: "sink pk \<Longrightarrow> packs pk (msgpack_pack_object pk obj) (encoding obj)"
proof (induction obj arbitrary: pk)
  case (MSGPACK_OBJECT_RAW b)
  then show ?case
    by (simp only: msgpack_pack_object.simps encoding.simps msgpack_defs Let_def) (intro packs_then packs_append)
next
  case (MSGPACK_OBJECT_ARRAY os)
  then show ?case
    by (simp only: msgpack_pack_object.simps encoding.simps msgpack_defs Let_def) (intro packs_then packs_append packs_objects)
next
  case (MSGPACK_OBJECT_MAP kvs)
  then show ?case
    by (simp only: msgpack_pack_object.simps encoding.simps msgpack_defs Let_def)
      (intro packs_then packs_append packs_entries, auto)
qed (simp_all add: msgpack_defs packs_append)

end

end
