(* ===== verification/Rds_Rpc_Pack.thy ===== *)
theory Rds_Rpc_Pack
  imports Rds_Rpc_Messages Rds_Msgpack_Roundtrip
begin

text \<open>
  Packing and unpacking of management messages: the helpers of \<open>freerds/rpc/pack.c\<close> and the routines of
  \<open>freerds/rpc/msg.c\<close>.  A message travels as one array of its fields.  The locale \<open>rpc_message\<close> is
  the contract of the routines of one message, and every message discharges it.
\<close>

named_theorems rpc_defs \<open>definitions of the message routines\<close>

section \<open>Helpers\<close>

definition msgpack_stream_write :: "'s wstream_ops \<Rightarrow> 's \<Rightarrow> byte list \<Rightarrow> int \<times> 's" where
  "msgpack_stream_write W s buf =
     (let s = Stream_EnsureRemainingCapacity W s (length buf) in (0, Stream_Write W s buf))"

definition msgpack_stream_packer_init :: "'s wstream_ops \<Rightarrow> 's \<Rightarrow> 's msgpack_packer" where
  "msgpack_stream_packer_init W s = \<lparr>pk_data = s, pk_callback = msgpack_stream_write W\<rparr>"

definition STREAM_PACK_PREPARE :: "'s wstream_ops \<Rightarrow> 's option \<Rightarrow> 's" where
  "STREAM_PACK_PREPARE W s = (case s of None \<Rightarrow> Stream_New W 512 | Some s \<Rightarrow> s)"

definition STREAM_PACK_FINALIZE :: "'s wstream_ops \<Rightarrow> 's \<Rightarrow> 's" where
  "STREAM_PACK_FINALIZE W s = Stream_SetPosition W (Stream_SealLength W s) 0"

definition msgpack_unpack_array :: "msgpack_object \<Rightarrow> nat option" where
  "msgpack_unpack_array obj = (case obj of MSGPACK_OBJECT_ARRAY os \<Rightarrow> Some (length os) | _ \<Rightarrow> None)"

definition msgpack_unpack_array_min :: "msgpack_object \<Rightarrow> nat \<Rightarrow> nat option" where
  "msgpack_unpack_array_min obj n =
     (case obj of
        MSGPACK_OBJECT_ARRAY os \<Rightarrow> if length os < n then None else Some (length os)
      | _ \<Rightarrow> None)"

definition msgpack_unpack_uint32 :: "msgpack_object \<Rightarrow> UINT32 option" where
  "msgpack_unpack_uint32 obj =
     (case obj of MSGPACK_OBJECT_POSITIVE_INTEGER u \<Rightarrow> Some (ucast u) | _ \<Rightarrow> None)"

definition msgpack_unpack_uint64 :: "msgpack_object \<Rightarrow> UINT64 option" where
  "msgpack_unpack_uint64 obj = (case obj of MSGPACK_OBJECT_POSITIVE_INTEGER u \<Rightarrow> Some u | _ \<Rightarrow> None)"

definition msgpack_pack_cstr :: "'a msgpack_packer \<Rightarrow> mem_ptr \<Rightarrow> int \<times> 'a msgpack_packer" where
  "msgpack_pack_cstr pk cstr =
     (case cstr of
        Some b \<Rightarrow>
          (let len = strlen b;
               pk = snd (msgpack_pack_raw pk len);
               pk = snd (msgpack_pack_raw_body pk (take len b))
           in (0, pk))
      | None \<Rightarrow>
          (let pk = snd (msgpack_pack_raw pk 0);
               pk = snd (msgpack_pack_raw_body pk [])
           in (0, pk)))"

text \<open>The string is copied into a block of its own, with a terminator; an empty one is the null pointer.\<close>

definition msgpack_unpack_cstr :: "msgpack_object \<Rightarrow> mem_ptr option" where
  "msgpack_unpack_cstr obj =
     (case obj of
        MSGPACK_OBJECT_RAW b \<Rightarrow> if length b < 1 then Some None else Some (Some (b @ [0]))
      | _ \<Rightarrow> None)"

definition msgpack_pack_bool :: "'a msgpack_packer \<Rightarrow> bool \<Rightarrow> int \<times> 'a msgpack_packer" where
  "msgpack_pack_bool pk b = (let pk = snd (if b then msgpack_pack_true pk else msgpack_pack_false pk) in (0, pk))"

definition msgpack_unpack_bool :: "msgpack_object \<Rightarrow> bool option" where
  "msgpack_unpack_bool obj = (case obj of MSGPACK_OBJECT_BOOLEAN b \<Rightarrow> Some b | _ \<Rightarrow> None)"

text \<open>
  The common shape of the unpacking routines.  The pointer \<open>obj\<close> is the list of the objects from it to
  the end of the array; reading past the end is undefined, \<open>None\<close>.  A field that cannot be read ends the
  routine with \<open>FALSE\<close>, and the fields before it have been stored.
\<close>

definition unpack_root ::
  "(nat \<Rightarrow> bool) \<Rightarrow> 'm \<Rightarrow> byte list \<Rightarrow> nat \<Rightarrow> (msgpack_object list \<Rightarrow> (bool \<times> 'm) option) \<Rightarrow> (bool \<times> 'm) option" where
  "unpack_root zone msg buffer n k =
     (case msgpack_unpack_next zone buffer of
        None \<Rightarrow> Some (False, msg)
      | Some (root, _) \<Rightarrow>
          (case root of
             MSGPACK_OBJECT_ARRAY obj \<Rightarrow>
               (case msgpack_unpack_array_min root n of None \<Rightarrow> Some (False, msg) | Some count \<Rightarrow> k obj)
           | _ \<Rightarrow> Some (False, msg)))"

definition next_object ::
  "(msgpack_object \<Rightarrow> 'v option) \<Rightarrow> 'm \<Rightarrow> msgpack_object list \<Rightarrow> ('v \<Rightarrow> msgpack_object list \<Rightarrow> (bool \<times> 'm) option) \<Rightarrow>
   (bool \<times> 'm) option" where
  "next_object get msg obj k =
     (case obj of
        [] \<Rightarrow> None
      | d # obj \<Rightarrow> (case get d of None \<Rightarrow> Some (False, msg) | Some v \<Rightarrow> k v obj))"

abbreviation "next_uint32 \<equiv> next_object msgpack_unpack_uint32"
abbreviation "next_cstr \<equiv> next_object msgpack_unpack_cstr"
abbreviation "next_bool \<equiv> next_object msgpack_unpack_bool"

section \<open>The contract of a message\<close>

definition cstr_bytes :: "mem_ptr \<Rightarrow> byte list" where
  "cstr_bytes p = (case p of None \<Rightarrow> [] | Some b \<Rightarrow> c_string b)"

definition wire_string :: "mem_ptr \<Rightarrow> mem_ptr" where
  "wire_string p = (if cstr_bytes p = [] then None else Some (cstr_bytes p @ [0]))"

definition stream_bytes :: "'s wstream_ops \<Rightarrow> 's \<Rightarrow> byte list" where
  "stream_bytes W s = take (Stream_Length W s) (Stream_Buffer W s)"

text \<open>The bytes written so far, while a stream is being written.\<close>

definition bytes_written :: "'s wstream_ops \<Rightarrow> 's \<Rightarrow> byte list" where
  "bytes_written W s = take (Stream_GetPosition W s) (Stream_Buffer W s)"

definition position_inside :: "'s wstream_ops \<Rightarrow> 's \<Rightarrow> bool" where
  "position_inside W s \<longleftrightarrow> Stream_GetPosition W s \<le> length (Stream_Buffer W s)"

locale rpc_message =
  fixes bytes :: "'s \<Rightarrow> byte list"
    and pack :: "'m \<Rightarrow> 's option \<Rightarrow> 's"
    and unpack :: "(nat \<Rightarrow> bool) \<Rightarrow> 'm \<Rightarrow> byte list \<Rightarrow> (bool \<times> 'm) option"
    and contents :: "'m \<Rightarrow> msgpack_object list"
    and received :: "'m \<Rightarrow> 'm \<Rightarrow> 'm"
  assumes pack_law: "bytes (pack msg None) = encoding (MSGPACK_OBJECT_ARRAY (contents msg))"
    and unpack_law:
      "msgpack_unpack_next zone buffer = Some (MSGPACK_OBJECT_ARRAY (contents msg @ extra), rest) \<Longrightarrow>
       unpack zone r buffer = Some (True, received msg r)"
    and flat: "list_all (\<lambda>d. nesting d = 0) (contents msg)"
    and short: "length (contents msg) < 16"
begin

definition sizes_fit :: "(nat \<Rightarrow> bool) \<Rightarrow> 'm \<Rightarrow> bool" where
  "sizes_fit zone msg \<longleftrightarrow> zone (length (contents msg)) \<and> list_all (packable zone) (contents msg)"

lemma roundtrip:
  assumes "sizes_fit zone msg"
  shows "unpack zone r (bytes (pack msg None) @ rest) = Some (True, received msg r)"
proof -
  have "Max (insert 0 (nesting ` set (contents msg))) \<le> 0"
    using flat [of msg] by (intro Max.boundedI) (auto simp: list_all_iff)
  then have "msgpack_unpack_next zone (encoding (MSGPACK_OBJECT_ARRAY (contents msg)) @ rest) =
      Some (MSGPACK_OBJECT_ARRAY (contents msg), rest)"
    using assms short [of msg]
    by (intro unpack_encoding) (auto simp: sizes_fit_def list_all_iff MSGPACK_EMBED_STACK_SIZE_def)
  then show ?thesis
    using unpack_law [where extra = "[]"] by (simp add: pack_law)
qed

end

sublocale wstream \<subseteq> stream_sink: packer_sink "msgpack_stream_write W" "position_inside W" "bytes_written W"
proof
  show "\<exists>a'. msgpack_stream_write W s bs = (0, a') \<and> position_inside W a' \<and> bytes_written W a' = bytes_written W s @ bs"
    if "position_inside W s" for s bs
    using that Ensure_room [of "length bs" s] Ensure_keeps [of s "length bs"]
    by (auto simp: msgpack_stream_write_def position_inside_def bytes_written_def Ensure_pos Write_pos Write_buf
        Stream_Pointer_def)
qed

context wstream
begin

lemma prepared: "stream_sink.sink (msgpack_stream_packer_init W (STREAM_PACK_PREPARE W None))"
  by (simp add: stream_sink.sink_def msgpack_stream_packer_init_def STREAM_PACK_PREPARE_def position_inside_def New_pos)

lemma prepared_empty: "bytes_written W (pk_data (msgpack_stream_packer_init W (STREAM_PACK_PREPARE W None))) = []"
  by (simp add: msgpack_stream_packer_init_def STREAM_PACK_PREPARE_def bytes_written_def New_pos)

lemma finalized:
  "stream_sink.sink pk \<Longrightarrow> stream_bytes W (STREAM_PACK_FINALIZE W (pk_data pk)) = bytes_written W (pk_data pk)"
  by (simp add: stream_bytes_def STREAM_PACK_FINALIZE_def bytes_written_def stream_sink.sink_def position_inside_def
      SetPosition_len SetPosition_buf SealLength_buf SealLength_len)

end

section \<open>Steps of the routines\<close>

lemma ucast_via_64: "(ucast (ucast (v :: UINT32) :: UINT64) :: 'b::len word) = ucast v"
  by (rule bit_word_eqI) (auto simp: bit_simps dest: bit_imp_le_length)

lemma real_uint32_64: "msgpack_pack_real_uint64 (ucast v) = msgpack_pack_real_uint32 v"
proof -
  have u: "uint (ucast v :: UINT64) = uint v"
    by (simp add: unsigned_ucast_eq unsigned_take_bit_eq take_bit_int_eq_self less_le_trans [OF uint_lt2p])
  have "uint v < 2 ^ 32" using uint_lt2p [of v] by simp
  then show ?thesis
    by (simp add: msgpack_pack_real_uint64_def msgpack_pack_real_uint32_def u ucast_via_64)
qed

context wstream
begin

abbreviation "written_by pk \<equiv> bytes_written W (pk_data pk)"

lemma sink_step:
  "stream_sink.sink pk \<Longrightarrow> stream_sink.sink (snd (msgpack_pack_append_buffer pk bs))"
  "stream_sink.sink pk \<Longrightarrow> written_by (snd (msgpack_pack_append_buffer pk bs)) = written_by pk @ bs"
  using stream_sink.packs_append [of pk bs] by (simp_all add: stream_sink.packs_def stream_sink.sink_def)

lemma sink_fields:
  assumes "stream_sink.sink pk"
  shows "stream_sink.sink (snd (msgpack_pack_array pk n))"
    and "stream_sink.sink (snd (msgpack_pack_uint32 pk v))"
    and "stream_sink.sink (snd (msgpack_pack_bool pk b))"
    and "stream_sink.sink (snd (msgpack_pack_cstr pk p))"
  using assms
  by (simp_all add: msgpack_defs sink_step msgpack_pack_bool_def msgpack_pack_cstr_def Let_def split: option.split)

lemma written_fields:
  assumes "stream_sink.sink pk"
  shows "written_by (snd (msgpack_pack_array pk n)) = written_by pk @ array_header n"
    and "written_by (snd (msgpack_pack_uint32 pk v)) =
           written_by pk @ encoding (MSGPACK_OBJECT_POSITIVE_INTEGER (ucast v))"
    and "written_by (snd (msgpack_pack_bool pk b)) = written_by pk @ encoding (MSGPACK_OBJECT_BOOLEAN b)"
    and "written_by (snd (msgpack_pack_cstr pk p)) = written_by pk @ encoding (MSGPACK_OBJECT_RAW (cstr_bytes p))"
  using assms
  by (simp_all add: real_uint32_64)
     (simp_all add: msgpack_defs sink_step msgpack_pack_bool_def msgpack_pack_cstr_def cstr_bytes_def take_strlen
      Let_def       split: option.split)

lemmas pack_fields = prepared prepared_empty finalized sink_fields written_fields

end

lemma unpack_root_array:
  "msgpack_unpack_next zone buffer = Some (MSGPACK_OBJECT_ARRAY obj, rest) \<Longrightarrow> n \<le> length obj \<Longrightarrow>
   unpack_root zone msg buffer n k = k obj"
  by (simp add: unpack_root_def msgpack_unpack_array_min_def)

lemma next_field:
  "next_uint32 msg (MSGPACK_OBJECT_POSITIVE_INTEGER (ucast v) # obj) k = k v obj"
  "next_cstr msg (MSGPACK_OBJECT_RAW (cstr_bytes p) # obj) k' = k' (wire_string p) obj"
  "next_bool msg (MSGPACK_OBJECT_BOOLEAN b # obj) k'' = k'' b obj"
  by (simp_all add: next_object_def msgpack_unpack_uint32_def msgpack_unpack_cstr_def wire_string_def
      msgpack_unpack_bool_def ucast_via_64)

section \<open>FDSAPI_CHANNEL_ALLOWED_REQUEST\<close>

definition freerds_pack_channel_allowed_request :: "'s wstream_ops \<Rightarrow> FDSAPI_CHANNEL_ALLOWED_REQUEST \<Rightarrow> 's option \<Rightarrow> 's" where
  [rpc_defs]: "freerds_pack_channel_allowed_request W msg s =
     (let s = STREAM_PACK_PREPARE W s;
          pk = msgpack_stream_packer_init W s;
          pk = snd (msgpack_pack_array pk 1);
          pk = snd (msgpack_pack_cstr pk (caq_ChannelName msg))
      in STREAM_PACK_FINALIZE W (pk_data pk))"

definition freerds_unpack_channel_allowed_request ::
  "(nat \<Rightarrow> bool) \<Rightarrow> FDSAPI_CHANNEL_ALLOWED_REQUEST \<Rightarrow> byte list \<Rightarrow> (bool \<times> FDSAPI_CHANNEL_ALLOWED_REQUEST) option" where
  [rpc_defs]: "freerds_unpack_channel_allowed_request zone msg buffer =
     unpack_root zone msg buffer 1 (\<lambda>obj.
       next_cstr msg obj (\<lambda>v obj. let msg = msg\<lparr>caq_ChannelName := v\<rparr> in
       Some (True, msg)))"

definition freerds_free_channel_allowed_request :: "FDSAPI_CHANNEL_ALLOWED_REQUEST \<Rightarrow> mem_ptr list" where
  [rpc_defs]: "freerds_free_channel_allowed_request msg = [caq_ChannelName msg]"

definition contents_channel_allowed_request :: "FDSAPI_CHANNEL_ALLOWED_REQUEST \<Rightarrow> msgpack_object list" where
  [rpc_defs]: "contents_channel_allowed_request msg =
     [MSGPACK_OBJECT_RAW (cstr_bytes (caq_ChannelName msg))]"

definition received_channel_allowed_request :: "FDSAPI_CHANNEL_ALLOWED_REQUEST \<Rightarrow> FDSAPI_CHANNEL_ALLOWED_REQUEST \<Rightarrow> FDSAPI_CHANNEL_ALLOWED_REQUEST" where
  [rpc_defs]: "received_channel_allowed_request msg r =
     r\<lparr>caq_ChannelName := wire_string (caq_ChannelName msg)\<rparr>"

sublocale wstream \<subseteq> channel_allowed_request: rpc_message "stream_bytes W" "freerds_pack_channel_allowed_request W" freerds_unpack_channel_allowed_request
  contents_channel_allowed_request received_channel_allowed_request
  by unfold_locales (simp_all add: rpc_defs Let_def pack_fields unpack_root_array next_field array_header_def)

section \<open>FDSAPI_CHANNEL_ALLOWED_RESPONSE\<close>

definition freerds_pack_channel_allowed_response :: "'s wstream_ops \<Rightarrow> FDSAPI_CHANNEL_ALLOWED_RESPONSE \<Rightarrow> 's option \<Rightarrow> 's" where
  [rpc_defs]: "freerds_pack_channel_allowed_response W msg s =
     (let s = STREAM_PACK_PREPARE W s;
          pk = msgpack_stream_packer_init W s;
          pk = snd (msgpack_pack_array pk 2);
          pk = snd (msgpack_pack_uint32 pk (fds_status msg));
          pk = snd (msgpack_pack_bool pk (cas_ChannelAllowed msg))
      in STREAM_PACK_FINALIZE W (pk_data pk))"

definition freerds_unpack_channel_allowed_response ::
  "(nat \<Rightarrow> bool) \<Rightarrow> FDSAPI_CHANNEL_ALLOWED_RESPONSE \<Rightarrow> byte list \<Rightarrow> (bool \<times> FDSAPI_CHANNEL_ALLOWED_RESPONSE) option" where
  [rpc_defs]: "freerds_unpack_channel_allowed_response zone msg buffer =
     unpack_root zone msg buffer 2 (\<lambda>obj.
       next_uint32 msg obj (\<lambda>v obj. let msg = msg\<lparr>fds_status := v\<rparr> in
       next_bool msg obj (\<lambda>v obj. let msg = msg\<lparr>cas_ChannelAllowed := v\<rparr> in
       Some (True, msg))))"

definition freerds_free_channel_allowed_response :: "FDSAPI_CHANNEL_ALLOWED_RESPONSE \<Rightarrow> mem_ptr list" where
  [rpc_defs]: "freerds_free_channel_allowed_response msg = []"

definition contents_channel_allowed_response :: "FDSAPI_CHANNEL_ALLOWED_RESPONSE \<Rightarrow> msgpack_object list" where
  [rpc_defs]: "contents_channel_allowed_response msg =
     [MSGPACK_OBJECT_POSITIVE_INTEGER (ucast (fds_status msg)),
      MSGPACK_OBJECT_BOOLEAN (cas_ChannelAllowed msg)]"

definition received_channel_allowed_response :: "FDSAPI_CHANNEL_ALLOWED_RESPONSE \<Rightarrow> FDSAPI_CHANNEL_ALLOWED_RESPONSE \<Rightarrow> FDSAPI_CHANNEL_ALLOWED_RESPONSE" where
  [rpc_defs]: "received_channel_allowed_response msg r =
     r\<lparr>fds_status := fds_status msg,
       cas_ChannelAllowed := cas_ChannelAllowed msg\<rparr>"

sublocale wstream \<subseteq> channel_allowed_response: rpc_message "stream_bytes W" "freerds_pack_channel_allowed_response W" freerds_unpack_channel_allowed_response
  contents_channel_allowed_response received_channel_allowed_response
  by unfold_locales (simp_all add: rpc_defs Let_def pack_fields unpack_root_array next_field array_header_def)

section \<open>FDSAPI_HEARTBEAT_REQUEST\<close>

definition freerds_pack_heartbeat_request :: "'s wstream_ops \<Rightarrow> FDSAPI_HEARTBEAT_REQUEST \<Rightarrow> 's option \<Rightarrow> 's" where
  [rpc_defs]: "freerds_pack_heartbeat_request W msg s =
     (let s = STREAM_PACK_PREPARE W s;
          pk = msgpack_stream_packer_init W s;
          pk = snd (msgpack_pack_array pk 1);
          pk = snd (msgpack_pack_uint32 pk (hbq_HeartbeatId msg))
      in STREAM_PACK_FINALIZE W (pk_data pk))"

definition freerds_unpack_heartbeat_request ::
  "(nat \<Rightarrow> bool) \<Rightarrow> FDSAPI_HEARTBEAT_REQUEST \<Rightarrow> byte list \<Rightarrow> (bool \<times> FDSAPI_HEARTBEAT_REQUEST) option" where
  [rpc_defs]: "freerds_unpack_heartbeat_request zone msg buffer =
     unpack_root zone msg buffer 1 (\<lambda>obj.
       next_uint32 msg obj (\<lambda>v obj. let msg = msg\<lparr>hbq_HeartbeatId := v\<rparr> in
       Some (True, msg)))"

definition freerds_free_heartbeat_request :: "FDSAPI_HEARTBEAT_REQUEST \<Rightarrow> mem_ptr list" where
  [rpc_defs]: "freerds_free_heartbeat_request msg = []"

definition contents_heartbeat_request :: "FDSAPI_HEARTBEAT_REQUEST \<Rightarrow> msgpack_object list" where
  [rpc_defs]: "contents_heartbeat_request msg =
     [MSGPACK_OBJECT_POSITIVE_INTEGER (ucast (hbq_HeartbeatId msg))]"

definition received_heartbeat_request :: "FDSAPI_HEARTBEAT_REQUEST \<Rightarrow> FDSAPI_HEARTBEAT_REQUEST \<Rightarrow> FDSAPI_HEARTBEAT_REQUEST" where
  [rpc_defs]: "received_heartbeat_request msg r =
     r\<lparr>hbq_HeartbeatId := hbq_HeartbeatId msg\<rparr>"

sublocale wstream \<subseteq> heartbeat_request: rpc_message "stream_bytes W" "freerds_pack_heartbeat_request W" freerds_unpack_heartbeat_request
  contents_heartbeat_request received_heartbeat_request
  by unfold_locales (simp_all add: rpc_defs Let_def pack_fields unpack_root_array next_field array_header_def)

section \<open>FDSAPI_HEARTBEAT_RESPONSE\<close>

definition freerds_pack_heartbeat_response :: "'s wstream_ops \<Rightarrow> FDSAPI_HEARTBEAT_RESPONSE \<Rightarrow> 's option \<Rightarrow> 's" where
  [rpc_defs]: "freerds_pack_heartbeat_response W msg s =
     (let s = STREAM_PACK_PREPARE W s;
          pk = msgpack_stream_packer_init W s;
          pk = snd (msgpack_pack_array pk 2);
          pk = snd (msgpack_pack_uint32 pk (fds_status msg));
          pk = snd (msgpack_pack_uint32 pk (hbs_HeartbeatId msg))
      in STREAM_PACK_FINALIZE W (pk_data pk))"

definition freerds_unpack_heartbeat_response ::
  "(nat \<Rightarrow> bool) \<Rightarrow> FDSAPI_HEARTBEAT_RESPONSE \<Rightarrow> byte list \<Rightarrow> (bool \<times> FDSAPI_HEARTBEAT_RESPONSE) option" where
  [rpc_defs]: "freerds_unpack_heartbeat_response zone msg buffer =
     unpack_root zone msg buffer 2 (\<lambda>obj.
       next_uint32 msg obj (\<lambda>v obj. let msg = msg\<lparr>fds_status := v\<rparr> in
       next_uint32 msg obj (\<lambda>v obj. let msg = msg\<lparr>hbs_HeartbeatId := v\<rparr> in
       Some (True, msg))))"

definition freerds_free_heartbeat_response :: "FDSAPI_HEARTBEAT_RESPONSE \<Rightarrow> mem_ptr list" where
  [rpc_defs]: "freerds_free_heartbeat_response msg = []"

definition contents_heartbeat_response :: "FDSAPI_HEARTBEAT_RESPONSE \<Rightarrow> msgpack_object list" where
  [rpc_defs]: "contents_heartbeat_response msg =
     [MSGPACK_OBJECT_POSITIVE_INTEGER (ucast (fds_status msg)),
      MSGPACK_OBJECT_POSITIVE_INTEGER (ucast (hbs_HeartbeatId msg))]"

definition received_heartbeat_response :: "FDSAPI_HEARTBEAT_RESPONSE \<Rightarrow> FDSAPI_HEARTBEAT_RESPONSE \<Rightarrow> FDSAPI_HEARTBEAT_RESPONSE" where
  [rpc_defs]: "received_heartbeat_response msg r =
     r\<lparr>fds_status := fds_status msg,
       hbs_HeartbeatId := hbs_HeartbeatId msg\<rparr>"

sublocale wstream \<subseteq> heartbeat_response: rpc_message "stream_bytes W" "freerds_pack_heartbeat_response W" freerds_unpack_heartbeat_response
  contents_heartbeat_response received_heartbeat_response
  by unfold_locales (simp_all add: rpc_defs Let_def pack_fields unpack_root_array next_field array_header_def)

section \<open>FDSAPI_LOGON_USER_REQUEST\<close>

definition freerds_pack_logon_user_request :: "'s wstream_ops \<Rightarrow> FDSAPI_LOGON_USER_REQUEST \<Rightarrow> 's option \<Rightarrow> 's" where
  [rpc_defs]: "freerds_pack_logon_user_request W msg s =
     (let s = STREAM_PACK_PREPARE W s;
          pk = msgpack_stream_packer_init W s;
          pk = snd (msgpack_pack_array pk 13);
          pk = snd (msgpack_pack_uint32 pk (luq_ConnectionId msg));
          pk = snd (msgpack_pack_cstr pk (luq_User msg));
          pk = snd (msgpack_pack_cstr pk (luq_Domain msg));
          pk = snd (msgpack_pack_cstr pk (luq_Password msg));
          pk = snd (msgpack_pack_uint32 pk (luq_DesktopWidth msg));
          pk = snd (msgpack_pack_uint32 pk (luq_DesktopHeight msg));
          pk = snd (msgpack_pack_uint32 pk (luq_ColorDepth msg));
          pk = snd (msgpack_pack_cstr pk (luq_ClientName msg));
          pk = snd (msgpack_pack_cstr pk (luq_ClientAddress msg));
          pk = snd (msgpack_pack_uint32 pk (luq_ClientBuild msg));
          pk = snd (msgpack_pack_uint32 pk (luq_ClientProductId msg));
          pk = snd (msgpack_pack_uint32 pk (luq_ClientHardwareId msg));
          pk = snd (msgpack_pack_uint32 pk (luq_ClientProtocolType msg))
      in STREAM_PACK_FINALIZE W (pk_data pk))"

definition freerds_unpack_logon_user_request ::
  "(nat \<Rightarrow> bool) \<Rightarrow> FDSAPI_LOGON_USER_REQUEST \<Rightarrow> byte list \<Rightarrow> (bool \<times> FDSAPI_LOGON_USER_REQUEST) option" where
  [rpc_defs]: "freerds_unpack_logon_user_request zone msg buffer =
     unpack_root zone msg buffer 13 (\<lambda>obj.
       next_uint32 msg obj (\<lambda>v obj. let msg = msg\<lparr>luq_ConnectionId := v\<rparr> in
       next_cstr msg obj (\<lambda>v obj. let msg = msg\<lparr>luq_User := v\<rparr> in
       next_cstr msg obj (\<lambda>v obj. let msg = msg\<lparr>luq_Domain := v\<rparr> in
       next_cstr msg obj (\<lambda>v obj. let msg = msg\<lparr>luq_Password := v\<rparr> in
       next_uint32 msg obj (\<lambda>v obj. let msg = msg\<lparr>luq_DesktopWidth := v\<rparr> in
       next_uint32 msg obj (\<lambda>v obj. let msg = msg\<lparr>luq_DesktopHeight := v\<rparr> in
       next_uint32 msg obj (\<lambda>v obj. let msg = msg\<lparr>luq_ColorDepth := v\<rparr> in
       next_cstr msg obj (\<lambda>v obj. let msg = msg\<lparr>luq_ClientName := v\<rparr> in
       next_cstr msg obj (\<lambda>v obj. let msg = msg\<lparr>luq_ClientAddress := v\<rparr> in
       next_uint32 msg obj (\<lambda>v obj. let msg = msg\<lparr>luq_ClientBuild := v\<rparr> in
       next_uint32 msg obj (\<lambda>v obj. let msg = msg\<lparr>luq_ClientProductId := v\<rparr> in
       next_uint32 msg obj (\<lambda>v obj. let msg = msg\<lparr>luq_ClientHardwareId := v\<rparr> in
       next_uint32 msg obj (\<lambda>v obj. let msg = msg\<lparr>luq_ClientProtocolType := v\<rparr> in
       Some (True, msg)))))))))))))))"

definition freerds_free_logon_user_request :: "FDSAPI_LOGON_USER_REQUEST \<Rightarrow> mem_ptr list" where
  [rpc_defs]: "freerds_free_logon_user_request msg = [luq_User msg, luq_Domain msg, luq_Password msg, luq_ClientName msg, luq_ClientAddress msg]"

definition contents_logon_user_request :: "FDSAPI_LOGON_USER_REQUEST \<Rightarrow> msgpack_object list" where
  [rpc_defs]: "contents_logon_user_request msg =
     [MSGPACK_OBJECT_POSITIVE_INTEGER (ucast (luq_ConnectionId msg)),
      MSGPACK_OBJECT_RAW (cstr_bytes (luq_User msg)),
      MSGPACK_OBJECT_RAW (cstr_bytes (luq_Domain msg)),
      MSGPACK_OBJECT_RAW (cstr_bytes (luq_Password msg)),
      MSGPACK_OBJECT_POSITIVE_INTEGER (ucast (luq_DesktopWidth msg)),
      MSGPACK_OBJECT_POSITIVE_INTEGER (ucast (luq_DesktopHeight msg)),
      MSGPACK_OBJECT_POSITIVE_INTEGER (ucast (luq_ColorDepth msg)),
      MSGPACK_OBJECT_RAW (cstr_bytes (luq_ClientName msg)),
      MSGPACK_OBJECT_RAW (cstr_bytes (luq_ClientAddress msg)),
      MSGPACK_OBJECT_POSITIVE_INTEGER (ucast (luq_ClientBuild msg)),
      MSGPACK_OBJECT_POSITIVE_INTEGER (ucast (luq_ClientProductId msg)),
      MSGPACK_OBJECT_POSITIVE_INTEGER (ucast (luq_ClientHardwareId msg)),
      MSGPACK_OBJECT_POSITIVE_INTEGER (ucast (luq_ClientProtocolType msg))]"

definition received_logon_user_request :: "FDSAPI_LOGON_USER_REQUEST \<Rightarrow> FDSAPI_LOGON_USER_REQUEST \<Rightarrow> FDSAPI_LOGON_USER_REQUEST" where
  [rpc_defs]: "received_logon_user_request msg r =
     r\<lparr>luq_ConnectionId := luq_ConnectionId msg,
       luq_User := wire_string (luq_User msg),
       luq_Domain := wire_string (luq_Domain msg),
       luq_Password := wire_string (luq_Password msg),
       luq_DesktopWidth := luq_DesktopWidth msg,
       luq_DesktopHeight := luq_DesktopHeight msg,
       luq_ColorDepth := luq_ColorDepth msg,
       luq_ClientName := wire_string (luq_ClientName msg),
       luq_ClientAddress := wire_string (luq_ClientAddress msg),
       luq_ClientBuild := luq_ClientBuild msg,
       luq_ClientProductId := luq_ClientProductId msg,
       luq_ClientHardwareId := luq_ClientHardwareId msg,
       luq_ClientProtocolType := luq_ClientProtocolType msg\<rparr>"

sublocale wstream \<subseteq> logon_user_request: rpc_message "stream_bytes W" "freerds_pack_logon_user_request W" freerds_unpack_logon_user_request
  contents_logon_user_request received_logon_user_request
  by unfold_locales (simp_all add: rpc_defs Let_def pack_fields unpack_root_array next_field array_header_def)

section \<open>FDSAPI_LOGON_USER_RESPONSE\<close>

definition freerds_pack_logon_user_response :: "'s wstream_ops \<Rightarrow> FDSAPI_LOGON_USER_RESPONSE \<Rightarrow> 's option \<Rightarrow> 's" where
  [rpc_defs]: "freerds_pack_logon_user_response W msg s =
     (let s = STREAM_PACK_PREPARE W s;
          pk = msgpack_stream_packer_init W s;
          pk = snd (msgpack_pack_array pk 2);
          pk = snd (msgpack_pack_uint32 pk (fds_status msg));
          pk = snd (msgpack_pack_cstr pk (lus_ServiceEndpoint msg))
      in STREAM_PACK_FINALIZE W (pk_data pk))"

definition freerds_unpack_logon_user_response ::
  "(nat \<Rightarrow> bool) \<Rightarrow> FDSAPI_LOGON_USER_RESPONSE \<Rightarrow> byte list \<Rightarrow> (bool \<times> FDSAPI_LOGON_USER_RESPONSE) option" where
  [rpc_defs]: "freerds_unpack_logon_user_response zone msg buffer =
     unpack_root zone msg buffer 2 (\<lambda>obj.
       next_uint32 msg obj (\<lambda>v obj. let msg = msg\<lparr>fds_status := v\<rparr> in
       next_cstr msg obj (\<lambda>v obj. let msg = msg\<lparr>lus_ServiceEndpoint := v\<rparr> in
       Some (True, msg))))"

definition freerds_free_logon_user_response :: "FDSAPI_LOGON_USER_RESPONSE \<Rightarrow> mem_ptr list" where
  [rpc_defs]: "freerds_free_logon_user_response msg = [lus_ServiceEndpoint msg]"

definition contents_logon_user_response :: "FDSAPI_LOGON_USER_RESPONSE \<Rightarrow> msgpack_object list" where
  [rpc_defs]: "contents_logon_user_response msg =
     [MSGPACK_OBJECT_POSITIVE_INTEGER (ucast (fds_status msg)),
      MSGPACK_OBJECT_RAW (cstr_bytes (lus_ServiceEndpoint msg))]"

definition received_logon_user_response :: "FDSAPI_LOGON_USER_RESPONSE \<Rightarrow> FDSAPI_LOGON_USER_RESPONSE \<Rightarrow> FDSAPI_LOGON_USER_RESPONSE" where
  [rpc_defs]: "received_logon_user_response msg r =
     r\<lparr>fds_status := fds_status msg,
       lus_ServiceEndpoint := wire_string (lus_ServiceEndpoint msg)\<rparr>"

sublocale wstream \<subseteq> logon_user_response: rpc_message "stream_bytes W" "freerds_pack_logon_user_response W" freerds_unpack_logon_user_response
  contents_logon_user_response received_logon_user_response
  by unfold_locales (simp_all add: rpc_defs Let_def pack_fields unpack_root_array next_field array_header_def)

section \<open>FDSAPI_LOGOFF_USER_REQUEST\<close>

definition freerds_pack_logoff_user_request :: "'s wstream_ops \<Rightarrow> FDSAPI_LOGOFF_USER_REQUEST \<Rightarrow> 's option \<Rightarrow> 's" where
  [rpc_defs]: "freerds_pack_logoff_user_request W msg s =
     (let s = STREAM_PACK_PREPARE W s;
          pk = msgpack_stream_packer_init W s;
          pk = snd (msgpack_pack_array pk 1);
          pk = snd (msgpack_pack_uint32 pk (loq_ConnectionId msg))
      in STREAM_PACK_FINALIZE W (pk_data pk))"

definition freerds_unpack_logoff_user_request ::
  "(nat \<Rightarrow> bool) \<Rightarrow> FDSAPI_LOGOFF_USER_REQUEST \<Rightarrow> byte list \<Rightarrow> (bool \<times> FDSAPI_LOGOFF_USER_REQUEST) option" where
  [rpc_defs]: "freerds_unpack_logoff_user_request zone msg buffer =
     unpack_root zone msg buffer 1 (\<lambda>obj.
       next_uint32 msg obj (\<lambda>v obj. let msg = msg\<lparr>loq_ConnectionId := v\<rparr> in
       Some (True, msg)))"

definition freerds_free_logoff_user_request :: "FDSAPI_LOGOFF_USER_REQUEST \<Rightarrow> mem_ptr list" where
  [rpc_defs]: "freerds_free_logoff_user_request msg = []"

definition contents_logoff_user_request :: "FDSAPI_LOGOFF_USER_REQUEST \<Rightarrow> msgpack_object list" where
  [rpc_defs]: "contents_logoff_user_request msg =
     [MSGPACK_OBJECT_POSITIVE_INTEGER (ucast (loq_ConnectionId msg))]"

definition received_logoff_user_request :: "FDSAPI_LOGOFF_USER_REQUEST \<Rightarrow> FDSAPI_LOGOFF_USER_REQUEST \<Rightarrow> FDSAPI_LOGOFF_USER_REQUEST" where
  [rpc_defs]: "received_logoff_user_request msg r =
     r\<lparr>loq_ConnectionId := loq_ConnectionId msg\<rparr>"

sublocale wstream \<subseteq> logoff_user_request: rpc_message "stream_bytes W" "freerds_pack_logoff_user_request W" freerds_unpack_logoff_user_request
  contents_logoff_user_request received_logoff_user_request
  by unfold_locales (simp_all add: rpc_defs Let_def pack_fields unpack_root_array next_field array_header_def)

section \<open>FDSAPI_LOGOFF_USER_RESPONSE\<close>

definition freerds_pack_logoff_user_response :: "'s wstream_ops \<Rightarrow> FDSAPI_LOGOFF_USER_RESPONSE \<Rightarrow> 's option \<Rightarrow> 's" where
  [rpc_defs]: "freerds_pack_logoff_user_response W msg s =
     (let s = STREAM_PACK_PREPARE W s;
          pk = msgpack_stream_packer_init W s;
          pk = snd (msgpack_pack_array pk 2);
          pk = snd (msgpack_pack_uint32 pk (fds_status msg));
          pk = snd (msgpack_pack_uint32 pk (los_ConnectionId msg))
      in STREAM_PACK_FINALIZE W (pk_data pk))"

definition freerds_unpack_logoff_user_response ::
  "(nat \<Rightarrow> bool) \<Rightarrow> FDSAPI_LOGOFF_USER_RESPONSE \<Rightarrow> byte list \<Rightarrow> (bool \<times> FDSAPI_LOGOFF_USER_RESPONSE) option" where
  [rpc_defs]: "freerds_unpack_logoff_user_response zone msg buffer =
     unpack_root zone msg buffer 2 (\<lambda>obj.
       next_uint32 msg obj (\<lambda>v obj. let msg = msg\<lparr>fds_status := v\<rparr> in
       next_uint32 msg obj (\<lambda>v obj. let msg = msg\<lparr>los_ConnectionId := v\<rparr> in
       Some (True, msg))))"

definition freerds_free_logoff_user_response :: "FDSAPI_LOGOFF_USER_RESPONSE \<Rightarrow> mem_ptr list" where
  [rpc_defs]: "freerds_free_logoff_user_response msg = []"

definition contents_logoff_user_response :: "FDSAPI_LOGOFF_USER_RESPONSE \<Rightarrow> msgpack_object list" where
  [rpc_defs]: "contents_logoff_user_response msg =
     [MSGPACK_OBJECT_POSITIVE_INTEGER (ucast (fds_status msg)),
      MSGPACK_OBJECT_POSITIVE_INTEGER (ucast (los_ConnectionId msg))]"

definition received_logoff_user_response :: "FDSAPI_LOGOFF_USER_RESPONSE \<Rightarrow> FDSAPI_LOGOFF_USER_RESPONSE \<Rightarrow> FDSAPI_LOGOFF_USER_RESPONSE" where
  [rpc_defs]: "received_logoff_user_response msg r =
     r\<lparr>fds_status := fds_status msg,
       los_ConnectionId := los_ConnectionId msg\<rparr>"

sublocale wstream \<subseteq> logoff_user_response: rpc_message "stream_bytes W" "freerds_pack_logoff_user_response W" freerds_unpack_logoff_user_response
  contents_logoff_user_response received_logoff_user_response
  by unfold_locales (simp_all add: rpc_defs Let_def pack_fields unpack_root_array next_field array_header_def)

section \<open>FDSAPI_DISCONNECT_USER_REQUEST\<close>

definition freerds_pack_disconnect_user_request :: "'s wstream_ops \<Rightarrow> FDSAPI_DISCONNECT_USER_REQUEST \<Rightarrow> 's option \<Rightarrow> 's" where
  [rpc_defs]: "freerds_pack_disconnect_user_request W msg s =
     (let s = STREAM_PACK_PREPARE W s;
          pk = msgpack_stream_packer_init W s;
          pk = snd (msgpack_pack_array pk 1);
          pk = snd (msgpack_pack_uint32 pk (duq_ConnectionId msg))
      in STREAM_PACK_FINALIZE W (pk_data pk))"

definition freerds_unpack_disconnect_user_request ::
  "(nat \<Rightarrow> bool) \<Rightarrow> FDSAPI_DISCONNECT_USER_REQUEST \<Rightarrow> byte list \<Rightarrow> (bool \<times> FDSAPI_DISCONNECT_USER_REQUEST) option" where
  [rpc_defs]: "freerds_unpack_disconnect_user_request zone msg buffer =
     unpack_root zone msg buffer 1 (\<lambda>obj.
       next_uint32 msg obj (\<lambda>v obj. let msg = msg\<lparr>duq_ConnectionId := v\<rparr> in
       Some (True, msg)))"

definition freerds_free_disconnect_user_request :: "FDSAPI_DISCONNECT_USER_REQUEST \<Rightarrow> mem_ptr list" where
  [rpc_defs]: "freerds_free_disconnect_user_request msg = []"

definition contents_disconnect_user_request :: "FDSAPI_DISCONNECT_USER_REQUEST \<Rightarrow> msgpack_object list" where
  [rpc_defs]: "contents_disconnect_user_request msg =
     [MSGPACK_OBJECT_POSITIVE_INTEGER (ucast (duq_ConnectionId msg))]"

definition received_disconnect_user_request :: "FDSAPI_DISCONNECT_USER_REQUEST \<Rightarrow> FDSAPI_DISCONNECT_USER_REQUEST \<Rightarrow> FDSAPI_DISCONNECT_USER_REQUEST" where
  [rpc_defs]: "received_disconnect_user_request msg r =
     r\<lparr>duq_ConnectionId := duq_ConnectionId msg\<rparr>"

sublocale wstream \<subseteq> disconnect_user_request: rpc_message "stream_bytes W" "freerds_pack_disconnect_user_request W" freerds_unpack_disconnect_user_request
  contents_disconnect_user_request received_disconnect_user_request
  by unfold_locales (simp_all add: rpc_defs Let_def pack_fields unpack_root_array next_field array_header_def)

section \<open>FDSAPI_DISCONNECT_USER_RESPONSE\<close>

definition freerds_pack_disconnect_user_response :: "'s wstream_ops \<Rightarrow> FDSAPI_DISCONNECT_USER_RESPONSE \<Rightarrow> 's option \<Rightarrow> 's" where
  [rpc_defs]: "freerds_pack_disconnect_user_response W msg s =
     (let s = STREAM_PACK_PREPARE W s;
          pk = msgpack_stream_packer_init W s;
          pk = snd (msgpack_pack_array pk 2);
          pk = snd (msgpack_pack_uint32 pk (fds_status msg));
          pk = snd (msgpack_pack_uint32 pk (dus_ConnectionId msg))
      in STREAM_PACK_FINALIZE W (pk_data pk))"

definition freerds_unpack_disconnect_user_response ::
  "(nat \<Rightarrow> bool) \<Rightarrow> FDSAPI_DISCONNECT_USER_RESPONSE \<Rightarrow> byte list \<Rightarrow> (bool \<times> FDSAPI_DISCONNECT_USER_RESPONSE) option" where
  [rpc_defs]: "freerds_unpack_disconnect_user_response zone msg buffer =
     unpack_root zone msg buffer 2 (\<lambda>obj.
       next_uint32 msg obj (\<lambda>v obj. let msg = msg\<lparr>fds_status := v\<rparr> in
       next_uint32 msg obj (\<lambda>v obj. let msg = msg\<lparr>dus_ConnectionId := v\<rparr> in
       Some (True, msg))))"

definition freerds_free_disconnect_user_response :: "FDSAPI_DISCONNECT_USER_RESPONSE \<Rightarrow> mem_ptr list" where
  [rpc_defs]: "freerds_free_disconnect_user_response msg = []"

definition contents_disconnect_user_response :: "FDSAPI_DISCONNECT_USER_RESPONSE \<Rightarrow> msgpack_object list" where
  [rpc_defs]: "contents_disconnect_user_response msg =
     [MSGPACK_OBJECT_POSITIVE_INTEGER (ucast (fds_status msg)),
      MSGPACK_OBJECT_POSITIVE_INTEGER (ucast (dus_ConnectionId msg))]"

definition received_disconnect_user_response :: "FDSAPI_DISCONNECT_USER_RESPONSE \<Rightarrow> FDSAPI_DISCONNECT_USER_RESPONSE \<Rightarrow> FDSAPI_DISCONNECT_USER_RESPONSE" where
  [rpc_defs]: "received_disconnect_user_response msg r =
     r\<lparr>fds_status := fds_status msg,
       dus_ConnectionId := dus_ConnectionId msg\<rparr>"

sublocale wstream \<subseteq> disconnect_user_response: rpc_message "stream_bytes W" "freerds_pack_disconnect_user_response W" freerds_unpack_disconnect_user_response
  contents_disconnect_user_response received_disconnect_user_response
  by unfold_locales (simp_all add: rpc_defs Let_def pack_fields unpack_root_array next_field array_header_def)

section \<open>FDSAPI_SWITCH_SERVICE_ENDPOINT_REQUEST\<close>

definition freerds_pack_switch_service_endpoint_request :: "'s wstream_ops \<Rightarrow> FDSAPI_SWITCH_SERVICE_ENDPOINT_REQUEST \<Rightarrow> 's option \<Rightarrow> 's" where
  [rpc_defs]: "freerds_pack_switch_service_endpoint_request W msg s =
     (let s = STREAM_PACK_PREPARE W s;
          pk = msgpack_stream_packer_init W s;
          pk = snd (msgpack_pack_array pk 2);
          pk = snd (msgpack_pack_uint32 pk (seq_ConnectionId msg));
          pk = snd (msgpack_pack_cstr pk (seq_ServiceEndpoint msg))
      in STREAM_PACK_FINALIZE W (pk_data pk))"

definition freerds_unpack_switch_service_endpoint_request ::
  "(nat \<Rightarrow> bool) \<Rightarrow> FDSAPI_SWITCH_SERVICE_ENDPOINT_REQUEST \<Rightarrow> byte list \<Rightarrow> (bool \<times> FDSAPI_SWITCH_SERVICE_ENDPOINT_REQUEST) option" where
  [rpc_defs]: "freerds_unpack_switch_service_endpoint_request zone msg buffer =
     unpack_root zone msg buffer 2 (\<lambda>obj.
       next_uint32 msg obj (\<lambda>v obj. let msg = msg\<lparr>seq_ConnectionId := v\<rparr> in
       next_cstr msg obj (\<lambda>v obj. let msg = msg\<lparr>seq_ServiceEndpoint := v\<rparr> in
       Some (True, msg))))"

definition freerds_free_switch_service_endpoint_request :: "FDSAPI_SWITCH_SERVICE_ENDPOINT_REQUEST \<Rightarrow> mem_ptr list" where
  [rpc_defs]: "freerds_free_switch_service_endpoint_request msg = []"

definition contents_switch_service_endpoint_request :: "FDSAPI_SWITCH_SERVICE_ENDPOINT_REQUEST \<Rightarrow> msgpack_object list" where
  [rpc_defs]: "contents_switch_service_endpoint_request msg =
     [MSGPACK_OBJECT_POSITIVE_INTEGER (ucast (seq_ConnectionId msg)),
      MSGPACK_OBJECT_RAW (cstr_bytes (seq_ServiceEndpoint msg))]"

definition received_switch_service_endpoint_request :: "FDSAPI_SWITCH_SERVICE_ENDPOINT_REQUEST \<Rightarrow> FDSAPI_SWITCH_SERVICE_ENDPOINT_REQUEST \<Rightarrow> FDSAPI_SWITCH_SERVICE_ENDPOINT_REQUEST" where
  [rpc_defs]: "received_switch_service_endpoint_request msg r =
     r\<lparr>seq_ConnectionId := seq_ConnectionId msg,
       seq_ServiceEndpoint := wire_string (seq_ServiceEndpoint msg)\<rparr>"

sublocale wstream \<subseteq> switch_service_endpoint_request: rpc_message "stream_bytes W" "freerds_pack_switch_service_endpoint_request W" freerds_unpack_switch_service_endpoint_request
  contents_switch_service_endpoint_request received_switch_service_endpoint_request
  by unfold_locales (simp_all add: rpc_defs Let_def pack_fields unpack_root_array next_field array_header_def)

section \<open>FDSAPI_SWITCH_SERVICE_ENDPOINT_RESPONSE\<close>

definition freerds_pack_switch_service_endpoint_response :: "'s wstream_ops \<Rightarrow> FDSAPI_SWITCH_SERVICE_ENDPOINT_RESPONSE \<Rightarrow> 's option \<Rightarrow> 's" where
  [rpc_defs]: "freerds_pack_switch_service_endpoint_response W msg s =
     (let s = STREAM_PACK_PREPARE W s;
          pk = msgpack_stream_packer_init W s;
          pk = snd (msgpack_pack_array pk 1);
          pk = snd (msgpack_pack_uint32 pk (fds_status msg))
      in STREAM_PACK_FINALIZE W (pk_data pk))"

definition freerds_unpack_switch_service_endpoint_response ::
  "(nat \<Rightarrow> bool) \<Rightarrow> FDSAPI_SWITCH_SERVICE_ENDPOINT_RESPONSE \<Rightarrow> byte list \<Rightarrow> (bool \<times> FDSAPI_SWITCH_SERVICE_ENDPOINT_RESPONSE) option" where
  [rpc_defs]: "freerds_unpack_switch_service_endpoint_response zone msg buffer =
     unpack_root zone msg buffer 1 (\<lambda>obj.
       next_uint32 msg obj (\<lambda>v obj. let msg = msg\<lparr>fds_status := v\<rparr> in
       Some (True, msg)))"

definition freerds_free_switch_service_endpoint_response :: "FDSAPI_SWITCH_SERVICE_ENDPOINT_RESPONSE \<Rightarrow> mem_ptr list" where
  [rpc_defs]: "freerds_free_switch_service_endpoint_response msg = []"

definition contents_switch_service_endpoint_response :: "FDSAPI_SWITCH_SERVICE_ENDPOINT_RESPONSE \<Rightarrow> msgpack_object list" where
  [rpc_defs]: "contents_switch_service_endpoint_response msg =
     [MSGPACK_OBJECT_POSITIVE_INTEGER (ucast (fds_status msg))]"

definition received_switch_service_endpoint_response :: "FDSAPI_SWITCH_SERVICE_ENDPOINT_RESPONSE \<Rightarrow> FDSAPI_SWITCH_SERVICE_ENDPOINT_RESPONSE \<Rightarrow> FDSAPI_SWITCH_SERVICE_ENDPOINT_RESPONSE" where
  [rpc_defs]: "received_switch_service_endpoint_response msg r =
     r\<lparr>fds_status := fds_status msg\<rparr>"

sublocale wstream \<subseteq> switch_service_endpoint_response: rpc_message "stream_bytes W" "freerds_pack_switch_service_endpoint_response W" freerds_unpack_switch_service_endpoint_response
  contents_switch_service_endpoint_response received_switch_service_endpoint_response
  by unfold_locales (simp_all add: rpc_defs Let_def pack_fields unpack_root_array next_field array_header_def)

section \<open>FDSAPI_START_SESSION_REQUEST\<close>

definition freerds_pack_start_session_request :: "'s wstream_ops \<Rightarrow> FDSAPI_START_SESSION_REQUEST \<Rightarrow> 's option \<Rightarrow> 's" where
  [rpc_defs]: "freerds_pack_start_session_request W msg s =
     (let s = STREAM_PACK_PREPARE W s;
          pk = msgpack_stream_packer_init W s;
          pk = snd (msgpack_pack_array pk 4);
          pk = snd (msgpack_pack_uint32 pk (ssq_SessionId msg));
          pk = snd (msgpack_pack_cstr pk (ssq_User msg));
          pk = snd (msgpack_pack_cstr pk (ssq_Domain msg));
          pk = snd (msgpack_pack_cstr pk (ssq_Password msg))
      in STREAM_PACK_FINALIZE W (pk_data pk))"

definition freerds_unpack_start_session_request ::
  "(nat \<Rightarrow> bool) \<Rightarrow> FDSAPI_START_SESSION_REQUEST \<Rightarrow> byte list \<Rightarrow> (bool \<times> FDSAPI_START_SESSION_REQUEST) option" where
  [rpc_defs]: "freerds_unpack_start_session_request zone msg buffer =
     unpack_root zone msg buffer 4 (\<lambda>obj.
       next_uint32 msg obj (\<lambda>v obj. let msg = msg\<lparr>ssq_SessionId := v\<rparr> in
       next_cstr msg obj (\<lambda>v obj. let msg = msg\<lparr>ssq_User := v\<rparr> in
       next_cstr msg obj (\<lambda>v obj. let msg = msg\<lparr>ssq_Domain := v\<rparr> in
       next_cstr msg obj (\<lambda>v obj. let msg = msg\<lparr>ssq_Password := v\<rparr> in
       Some (True, msg))))))"

definition freerds_free_start_session_request :: "FDSAPI_START_SESSION_REQUEST \<Rightarrow> mem_ptr list" where
  [rpc_defs]: "freerds_free_start_session_request msg = [ssq_User msg, ssq_Domain msg, ssq_Password msg]"

definition contents_start_session_request :: "FDSAPI_START_SESSION_REQUEST \<Rightarrow> msgpack_object list" where
  [rpc_defs]: "contents_start_session_request msg =
     [MSGPACK_OBJECT_POSITIVE_INTEGER (ucast (ssq_SessionId msg)),
      MSGPACK_OBJECT_RAW (cstr_bytes (ssq_User msg)),
      MSGPACK_OBJECT_RAW (cstr_bytes (ssq_Domain msg)),
      MSGPACK_OBJECT_RAW (cstr_bytes (ssq_Password msg))]"

definition received_start_session_request :: "FDSAPI_START_SESSION_REQUEST \<Rightarrow> FDSAPI_START_SESSION_REQUEST \<Rightarrow> FDSAPI_START_SESSION_REQUEST" where
  [rpc_defs]: "received_start_session_request msg r =
     r\<lparr>ssq_SessionId := ssq_SessionId msg,
       ssq_User := wire_string (ssq_User msg),
       ssq_Domain := wire_string (ssq_Domain msg),
       ssq_Password := wire_string (ssq_Password msg)\<rparr>"

sublocale wstream \<subseteq> start_session_request: rpc_message "stream_bytes W" "freerds_pack_start_session_request W" freerds_unpack_start_session_request
  contents_start_session_request received_start_session_request
  by unfold_locales (simp_all add: rpc_defs Let_def pack_fields unpack_root_array next_field array_header_def)

section \<open>FDSAPI_START_SESSION_RESPONSE\<close>

definition freerds_pack_start_session_response :: "'s wstream_ops \<Rightarrow> FDSAPI_START_SESSION_RESPONSE \<Rightarrow> 's option \<Rightarrow> 's" where
  [rpc_defs]: "freerds_pack_start_session_response W msg s =
     (let s = STREAM_PACK_PREPARE W s;
          pk = msgpack_stream_packer_init W s;
          pk = snd (msgpack_pack_array pk 2);
          pk = snd (msgpack_pack_uint32 pk (fds_status msg));
          pk = snd (msgpack_pack_cstr pk (sss_ServiceEndpoint msg))
      in STREAM_PACK_FINALIZE W (pk_data pk))"

definition freerds_unpack_start_session_response ::
  "(nat \<Rightarrow> bool) \<Rightarrow> FDSAPI_START_SESSION_RESPONSE \<Rightarrow> byte list \<Rightarrow> (bool \<times> FDSAPI_START_SESSION_RESPONSE) option" where
  [rpc_defs]: "freerds_unpack_start_session_response zone msg buffer =
     unpack_root zone msg buffer 2 (\<lambda>obj.
       next_uint32 msg obj (\<lambda>v obj. let msg = msg\<lparr>fds_status := v\<rparr> in
       next_cstr msg obj (\<lambda>v obj. let msg = msg\<lparr>sss_ServiceEndpoint := v\<rparr> in
       Some (True, msg))))"

definition freerds_free_start_session_response :: "FDSAPI_START_SESSION_RESPONSE \<Rightarrow> mem_ptr list" where
  [rpc_defs]: "freerds_free_start_session_response msg = [sss_ServiceEndpoint msg]"

definition contents_start_session_response :: "FDSAPI_START_SESSION_RESPONSE \<Rightarrow> msgpack_object list" where
  [rpc_defs]: "contents_start_session_response msg =
     [MSGPACK_OBJECT_POSITIVE_INTEGER (ucast (fds_status msg)),
      MSGPACK_OBJECT_RAW (cstr_bytes (sss_ServiceEndpoint msg))]"

definition received_start_session_response :: "FDSAPI_START_SESSION_RESPONSE \<Rightarrow> FDSAPI_START_SESSION_RESPONSE \<Rightarrow> FDSAPI_START_SESSION_RESPONSE" where
  [rpc_defs]: "received_start_session_response msg r =
     r\<lparr>fds_status := fds_status msg,
       sss_ServiceEndpoint := wire_string (sss_ServiceEndpoint msg)\<rparr>"

sublocale wstream \<subseteq> start_session_response: rpc_message "stream_bytes W" "freerds_pack_start_session_response W" freerds_unpack_start_session_response
  contents_start_session_response received_start_session_response
  by unfold_locales (simp_all add: rpc_defs Let_def pack_fields unpack_root_array next_field array_header_def)

section \<open>FDSAPI_END_SESSION_REQUEST\<close>

definition freerds_pack_end_session_request :: "'s wstream_ops \<Rightarrow> FDSAPI_END_SESSION_REQUEST \<Rightarrow> 's option \<Rightarrow> 's" where
  [rpc_defs]: "freerds_pack_end_session_request W msg s =
     (let s = STREAM_PACK_PREPARE W s;
          pk = msgpack_stream_packer_init W s;
          pk = snd (msgpack_pack_array pk 1);
          pk = snd (msgpack_pack_uint32 pk (esq_SessionId msg))
      in STREAM_PACK_FINALIZE W (pk_data pk))"

definition freerds_unpack_end_session_request ::
  "(nat \<Rightarrow> bool) \<Rightarrow> FDSAPI_END_SESSION_REQUEST \<Rightarrow> byte list \<Rightarrow> (bool \<times> FDSAPI_END_SESSION_REQUEST) option" where
  [rpc_defs]: "freerds_unpack_end_session_request zone msg buffer =
     unpack_root zone msg buffer 1 (\<lambda>obj.
       next_uint32 msg obj (\<lambda>v obj. let msg = msg\<lparr>esq_SessionId := v\<rparr> in
       Some (True, msg)))"

definition freerds_free_end_session_request :: "FDSAPI_END_SESSION_REQUEST \<Rightarrow> mem_ptr list" where
  [rpc_defs]: "freerds_free_end_session_request msg = []"

definition contents_end_session_request :: "FDSAPI_END_SESSION_REQUEST \<Rightarrow> msgpack_object list" where
  [rpc_defs]: "contents_end_session_request msg =
     [MSGPACK_OBJECT_POSITIVE_INTEGER (ucast (esq_SessionId msg))]"

definition received_end_session_request :: "FDSAPI_END_SESSION_REQUEST \<Rightarrow> FDSAPI_END_SESSION_REQUEST \<Rightarrow> FDSAPI_END_SESSION_REQUEST" where
  [rpc_defs]: "received_end_session_request msg r =
     r\<lparr>esq_SessionId := esq_SessionId msg\<rparr>"

sublocale wstream \<subseteq> end_session_request: rpc_message "stream_bytes W" "freerds_pack_end_session_request W" freerds_unpack_end_session_request
  contents_end_session_request received_end_session_request
  by unfold_locales (simp_all add: rpc_defs Let_def pack_fields unpack_root_array next_field array_header_def)

section \<open>FDSAPI_END_SESSION_RESPONSE\<close>

definition freerds_pack_end_session_response :: "'s wstream_ops \<Rightarrow> FDSAPI_END_SESSION_RESPONSE \<Rightarrow> 's option \<Rightarrow> 's" where
  [rpc_defs]: "freerds_pack_end_session_response W msg s =
     (let s = STREAM_PACK_PREPARE W s;
          pk = msgpack_stream_packer_init W s;
          pk = snd (msgpack_pack_array pk 2);
          pk = snd (msgpack_pack_uint32 pk (fds_status msg));
          pk = snd (msgpack_pack_uint32 pk (ess_SessionId msg))
      in STREAM_PACK_FINALIZE W (pk_data pk))"

definition freerds_unpack_end_session_response ::
  "(nat \<Rightarrow> bool) \<Rightarrow> FDSAPI_END_SESSION_RESPONSE \<Rightarrow> byte list \<Rightarrow> (bool \<times> FDSAPI_END_SESSION_RESPONSE) option" where
  [rpc_defs]: "freerds_unpack_end_session_response zone msg buffer =
     unpack_root zone msg buffer 2 (\<lambda>obj.
       next_uint32 msg obj (\<lambda>v obj. let msg = msg\<lparr>fds_status := v\<rparr> in
       next_uint32 msg obj (\<lambda>v obj. let msg = msg\<lparr>ess_SessionId := v\<rparr> in
       Some (True, msg))))"

definition freerds_free_end_session_response :: "FDSAPI_END_SESSION_RESPONSE \<Rightarrow> mem_ptr list" where
  [rpc_defs]: "freerds_free_end_session_response msg = []"

definition contents_end_session_response :: "FDSAPI_END_SESSION_RESPONSE \<Rightarrow> msgpack_object list" where
  [rpc_defs]: "contents_end_session_response msg =
     [MSGPACK_OBJECT_POSITIVE_INTEGER (ucast (fds_status msg)),
      MSGPACK_OBJECT_POSITIVE_INTEGER (ucast (ess_SessionId msg))]"

definition received_end_session_response :: "FDSAPI_END_SESSION_RESPONSE \<Rightarrow> FDSAPI_END_SESSION_RESPONSE \<Rightarrow> FDSAPI_END_SESSION_RESPONSE" where
  [rpc_defs]: "received_end_session_response msg r =
     r\<lparr>fds_status := fds_status msg,
       ess_SessionId := ess_SessionId msg\<rparr>"

sublocale wstream \<subseteq> end_session_response: rpc_message "stream_bytes W" "freerds_pack_end_session_response W" freerds_unpack_end_session_response
  contents_end_session_response received_end_session_response
  by unfold_locales (simp_all add: rpc_defs Let_def pack_fields unpack_root_array next_field array_header_def)

section \<open>FDSAPI_CHANNEL_ENDPOINT_OPEN_REQUEST\<close>

definition freerds_pack_channel_endpoint_open_request :: "'s wstream_ops \<Rightarrow> FDSAPI_CHANNEL_ENDPOINT_OPEN_REQUEST \<Rightarrow> 's option \<Rightarrow> 's" where
  [rpc_defs]: "freerds_pack_channel_endpoint_open_request W msg s =
     (let s = STREAM_PACK_PREPARE W s;
          pk = msgpack_stream_packer_init W s;
          pk = snd (msgpack_pack_array pk 2);
          pk = snd (msgpack_pack_uint32 pk (coq_ConnectionId msg));
          pk = snd (msgpack_pack_cstr pk (coq_ChannelName msg))
      in STREAM_PACK_FINALIZE W (pk_data pk))"

definition freerds_unpack_channel_endpoint_open_request ::
  "(nat \<Rightarrow> bool) \<Rightarrow> FDSAPI_CHANNEL_ENDPOINT_OPEN_REQUEST \<Rightarrow> byte list \<Rightarrow> (bool \<times> FDSAPI_CHANNEL_ENDPOINT_OPEN_REQUEST) option" where
  [rpc_defs]: "freerds_unpack_channel_endpoint_open_request zone msg buffer =
     unpack_root zone msg buffer 2 (\<lambda>obj.
       next_uint32 msg obj (\<lambda>v obj. let msg = msg\<lparr>coq_ConnectionId := v\<rparr> in
       next_cstr msg obj (\<lambda>v obj. let msg = msg\<lparr>coq_ChannelName := v\<rparr> in
       Some (True, msg))))"

definition freerds_free_channel_endpoint_open_request :: "FDSAPI_CHANNEL_ENDPOINT_OPEN_REQUEST \<Rightarrow> mem_ptr list" where
  [rpc_defs]: "freerds_free_channel_endpoint_open_request msg = [coq_ChannelName msg]"

definition contents_channel_endpoint_open_request :: "FDSAPI_CHANNEL_ENDPOINT_OPEN_REQUEST \<Rightarrow> msgpack_object list" where
  [rpc_defs]: "contents_channel_endpoint_open_request msg =
     [MSGPACK_OBJECT_POSITIVE_INTEGER (ucast (coq_ConnectionId msg)),
      MSGPACK_OBJECT_RAW (cstr_bytes (coq_ChannelName msg))]"

definition received_channel_endpoint_open_request :: "FDSAPI_CHANNEL_ENDPOINT_OPEN_REQUEST \<Rightarrow> FDSAPI_CHANNEL_ENDPOINT_OPEN_REQUEST \<Rightarrow> FDSAPI_CHANNEL_ENDPOINT_OPEN_REQUEST" where
  [rpc_defs]: "received_channel_endpoint_open_request msg r =
     r\<lparr>coq_ConnectionId := coq_ConnectionId msg,
       coq_ChannelName := wire_string (coq_ChannelName msg)\<rparr>"

sublocale wstream \<subseteq> channel_endpoint_open_request: rpc_message "stream_bytes W" "freerds_pack_channel_endpoint_open_request W" freerds_unpack_channel_endpoint_open_request
  contents_channel_endpoint_open_request received_channel_endpoint_open_request
  by unfold_locales (simp_all add: rpc_defs Let_def pack_fields unpack_root_array next_field array_header_def)

section \<open>FDSAPI_CHANNEL_ENDPOINT_OPEN_RESPONSE\<close>

definition freerds_pack_channel_endpoint_open_response :: "'s wstream_ops \<Rightarrow> FDSAPI_CHANNEL_ENDPOINT_OPEN_RESPONSE \<Rightarrow> 's option \<Rightarrow> 's" where
  [rpc_defs]: "freerds_pack_channel_endpoint_open_response W msg s =
     (let s = STREAM_PACK_PREPARE W s;
          pk = msgpack_stream_packer_init W s;
          pk = snd (msgpack_pack_array pk 3);
          pk = snd (msgpack_pack_uint32 pk (fds_status msg));
          pk = snd (msgpack_pack_uint32 pk (cos_ChannelPort msg));
          pk = snd (msgpack_pack_cstr pk (cos_ChannelGuid msg))
      in STREAM_PACK_FINALIZE W (pk_data pk))"

definition freerds_unpack_channel_endpoint_open_response ::
  "(nat \<Rightarrow> bool) \<Rightarrow> FDSAPI_CHANNEL_ENDPOINT_OPEN_RESPONSE \<Rightarrow> byte list \<Rightarrow> (bool \<times> FDSAPI_CHANNEL_ENDPOINT_OPEN_RESPONSE) option" where
  [rpc_defs]: "freerds_unpack_channel_endpoint_open_response zone msg buffer =
     unpack_root zone msg buffer 2 (\<lambda>obj.
       next_uint32 msg obj (\<lambda>v obj. let msg = msg\<lparr>fds_status := v\<rparr> in
       next_uint32 msg obj (\<lambda>v obj. let msg = msg\<lparr>cos_ChannelPort := v\<rparr> in
       next_cstr msg obj (\<lambda>v obj. let msg = msg\<lparr>cos_ChannelGuid := v\<rparr> in
       Some (True, msg)))))"

definition freerds_free_channel_endpoint_open_response :: "FDSAPI_CHANNEL_ENDPOINT_OPEN_RESPONSE \<Rightarrow> mem_ptr list" where
  [rpc_defs]: "freerds_free_channel_endpoint_open_response msg = [cos_ChannelGuid msg]"

definition contents_channel_endpoint_open_response :: "FDSAPI_CHANNEL_ENDPOINT_OPEN_RESPONSE \<Rightarrow> msgpack_object list" where
  [rpc_defs]: "contents_channel_endpoint_open_response msg =
     [MSGPACK_OBJECT_POSITIVE_INTEGER (ucast (fds_status msg)),
      MSGPACK_OBJECT_POSITIVE_INTEGER (ucast (cos_ChannelPort msg)),
      MSGPACK_OBJECT_RAW (cstr_bytes (cos_ChannelGuid msg))]"

definition received_channel_endpoint_open_response :: "FDSAPI_CHANNEL_ENDPOINT_OPEN_RESPONSE \<Rightarrow> FDSAPI_CHANNEL_ENDPOINT_OPEN_RESPONSE \<Rightarrow> FDSAPI_CHANNEL_ENDPOINT_OPEN_RESPONSE" where
  [rpc_defs]: "received_channel_endpoint_open_response msg r =
     r\<lparr>fds_status := fds_status msg,
       cos_ChannelPort := cos_ChannelPort msg,
       cos_ChannelGuid := wire_string (cos_ChannelGuid msg)\<rparr>"

sublocale wstream \<subseteq> channel_endpoint_open_response: rpc_message "stream_bytes W" "freerds_pack_channel_endpoint_open_response W" freerds_unpack_channel_endpoint_open_response
  contents_channel_endpoint_open_response received_channel_endpoint_open_response
  by unfold_locales (simp_all add: rpc_defs Let_def pack_fields unpack_root_array next_field array_header_def)

end
