(* ===== verification/Rds_Rpc_Dispatch.thy ===== *)
theory Rds_Rpc_Dispatch
  imports Rds_Rpc_Pack
begin

text \<open>
  The table \<open>g_MSG_FUNCS\<close> of \<open>freerds/rpc/msg.c\<close> and the routines of \<open>freerds/rpc/pack.c\<close> that go through it.
  The data pointer of a routine is a management message or null.  A table entry used on a message of
  another kind would read a structure as another one; such a use has the value \<open>None\<close>.  The column of
  structure sizes is left out.
\<close>

named_theorems rpc_table_defs \<open>the entries of the table\<close>

record 's RDS_RPC_PACK_FUNC =
  rpc_msgType :: UINT32
  rpc_Pack :: "FDSAPI_MSG \<Rightarrow> 's option \<Rightarrow> 's option"
  rpc_Unpack :: "(nat \<Rightarrow> bool) \<Rightarrow> FDSAPI_MSG \<Rightarrow> byte list \<Rightarrow> (bool \<times> FDSAPI_MSG) option"
  rpc_Free :: "FDSAPI_MSG \<Rightarrow> mem_ptr list option"

definition g_FDSAPI_CHANNEL_ALLOWED_REQUEST :: "'s wstream_ops \<Rightarrow> 's RDS_RPC_PACK_FUNC" where
  [rpc_table_defs]: "g_FDSAPI_CHANNEL_ALLOWED_REQUEST W =
     \<lparr>rpc_msgType = FDSAPI_REQUEST_ID 1001,
      rpc_Pack = (\<lambda>m s. if is_ChannelAllowedRequest m then Some (freerds_pack_channel_allowed_request W (the_ChannelAllowedRequest m) s) else None),
      rpc_Unpack = (\<lambda>zone m buffer.
        if is_ChannelAllowedRequest m
        then map_option (\<lambda>(ok, r). (ok, ChannelAllowedRequest r)) (freerds_unpack_channel_allowed_request zone (the_ChannelAllowedRequest m) buffer) else None),
      rpc_Free = (\<lambda>m. if is_ChannelAllowedRequest m then Some (freerds_free_channel_allowed_request (the_ChannelAllowedRequest m)) else None)\<rparr>"

definition g_FDSAPI_CHANNEL_ALLOWED_RESPONSE :: "'s wstream_ops \<Rightarrow> 's RDS_RPC_PACK_FUNC" where
  [rpc_table_defs]: "g_FDSAPI_CHANNEL_ALLOWED_RESPONSE W =
     \<lparr>rpc_msgType = FDSAPI_RESPONSE_ID 1001,
      rpc_Pack = (\<lambda>m s. if is_ChannelAllowedResponse m then Some (freerds_pack_channel_allowed_response W (the_ChannelAllowedResponse m) s) else None),
      rpc_Unpack = (\<lambda>zone m buffer.
        if is_ChannelAllowedResponse m
        then map_option (\<lambda>(ok, r). (ok, ChannelAllowedResponse r)) (freerds_unpack_channel_allowed_response zone (the_ChannelAllowedResponse m) buffer) else None),
      rpc_Free = (\<lambda>m. if is_ChannelAllowedResponse m then Some (freerds_free_channel_allowed_response (the_ChannelAllowedResponse m)) else None)\<rparr>"

definition g_FDSAPI_HEARTBEAT_REQUEST :: "'s wstream_ops \<Rightarrow> 's RDS_RPC_PACK_FUNC" where
  [rpc_table_defs]: "g_FDSAPI_HEARTBEAT_REQUEST W =
     \<lparr>rpc_msgType = FDSAPI_REQUEST_ID 1002,
      rpc_Pack = (\<lambda>m s. if is_HeartbeatRequest m then Some (freerds_pack_heartbeat_request W (the_HeartbeatRequest m) s) else None),
      rpc_Unpack = (\<lambda>zone m buffer.
        if is_HeartbeatRequest m
        then map_option (\<lambda>(ok, r). (ok, HeartbeatRequest r)) (freerds_unpack_heartbeat_request zone (the_HeartbeatRequest m) buffer) else None),
      rpc_Free = (\<lambda>m. if is_HeartbeatRequest m then Some (freerds_free_heartbeat_request (the_HeartbeatRequest m)) else None)\<rparr>"

definition g_FDSAPI_HEARTBEAT_RESPONSE :: "'s wstream_ops \<Rightarrow> 's RDS_RPC_PACK_FUNC" where
  [rpc_table_defs]: "g_FDSAPI_HEARTBEAT_RESPONSE W =
     \<lparr>rpc_msgType = FDSAPI_RESPONSE_ID 1002,
      rpc_Pack = (\<lambda>m s. if is_HeartbeatResponse m then Some (freerds_pack_heartbeat_response W (the_HeartbeatResponse m) s) else None),
      rpc_Unpack = (\<lambda>zone m buffer.
        if is_HeartbeatResponse m
        then map_option (\<lambda>(ok, r). (ok, HeartbeatResponse r)) (freerds_unpack_heartbeat_response zone (the_HeartbeatResponse m) buffer) else None),
      rpc_Free = (\<lambda>m. if is_HeartbeatResponse m then Some (freerds_free_heartbeat_response (the_HeartbeatResponse m)) else None)\<rparr>"

definition g_FDSAPI_LOGON_USER_REQUEST :: "'s wstream_ops \<Rightarrow> 's RDS_RPC_PACK_FUNC" where
  [rpc_table_defs]: "g_FDSAPI_LOGON_USER_REQUEST W =
     \<lparr>rpc_msgType = FDSAPI_REQUEST_ID 1003,
      rpc_Pack = (\<lambda>m s. if is_LogonUserRequest m then Some (freerds_pack_logon_user_request W (the_LogonUserRequest m) s) else None),
      rpc_Unpack = (\<lambda>zone m buffer.
        if is_LogonUserRequest m
        then map_option (\<lambda>(ok, r). (ok, LogonUserRequest r)) (freerds_unpack_logon_user_request zone (the_LogonUserRequest m) buffer) else None),
      rpc_Free = (\<lambda>m. if is_LogonUserRequest m then Some (freerds_free_logon_user_request (the_LogonUserRequest m)) else None)\<rparr>"

definition g_FDSAPI_LOGON_USER_RESPONSE :: "'s wstream_ops \<Rightarrow> 's RDS_RPC_PACK_FUNC" where
  [rpc_table_defs]: "g_FDSAPI_LOGON_USER_RESPONSE W =
     \<lparr>rpc_msgType = FDSAPI_RESPONSE_ID 1003,
      rpc_Pack = (\<lambda>m s. if is_LogonUserResponse m then Some (freerds_pack_logon_user_response W (the_LogonUserResponse m) s) else None),
      rpc_Unpack = (\<lambda>zone m buffer.
        if is_LogonUserResponse m
        then map_option (\<lambda>(ok, r). (ok, LogonUserResponse r)) (freerds_unpack_logon_user_response zone (the_LogonUserResponse m) buffer) else None),
      rpc_Free = (\<lambda>m. if is_LogonUserResponse m then Some (freerds_free_logon_user_response (the_LogonUserResponse m)) else None)\<rparr>"

definition g_FDSAPI_LOGOFF_USER_REQUEST :: "'s wstream_ops \<Rightarrow> 's RDS_RPC_PACK_FUNC" where
  [rpc_table_defs]: "g_FDSAPI_LOGOFF_USER_REQUEST W =
     \<lparr>rpc_msgType = FDSAPI_REQUEST_ID 1004,
      rpc_Pack = (\<lambda>m s. if is_LogoffUserRequest m then Some (freerds_pack_logoff_user_request W (the_LogoffUserRequest m) s) else None),
      rpc_Unpack = (\<lambda>zone m buffer.
        if is_LogoffUserRequest m
        then map_option (\<lambda>(ok, r). (ok, LogoffUserRequest r)) (freerds_unpack_logoff_user_request zone (the_LogoffUserRequest m) buffer) else None),
      rpc_Free = (\<lambda>m. if is_LogoffUserRequest m then Some (freerds_free_logoff_user_request (the_LogoffUserRequest m)) else None)\<rparr>"

definition g_FDSAPI_LOGOFF_USER_RESPONSE :: "'s wstream_ops \<Rightarrow> 's RDS_RPC_PACK_FUNC" where
  [rpc_table_defs]: "g_FDSAPI_LOGOFF_USER_RESPONSE W =
     \<lparr>rpc_msgType = FDSAPI_RESPONSE_ID 1004,
      rpc_Pack = (\<lambda>m s. if is_LogoffUserResponse m then Some (freerds_pack_logoff_user_response W (the_LogoffUserResponse m) s) else None),
      rpc_Unpack = (\<lambda>zone m buffer.
        if is_LogoffUserResponse m
        then map_option (\<lambda>(ok, r). (ok, LogoffUserResponse r)) (freerds_unpack_logoff_user_response zone (the_LogoffUserResponse m) buffer) else None),
      rpc_Free = (\<lambda>m. if is_LogoffUserResponse m then Some (freerds_free_logoff_user_response (the_LogoffUserResponse m)) else None)\<rparr>"

definition g_FDSAPI_DISCONNECT_USER_REQUEST :: "'s wstream_ops \<Rightarrow> 's RDS_RPC_PACK_FUNC" where
  [rpc_table_defs]: "g_FDSAPI_DISCONNECT_USER_REQUEST W =
     \<lparr>rpc_msgType = FDSAPI_REQUEST_ID 1005,
      rpc_Pack = (\<lambda>m s. if is_DisconnectUserRequest m then Some (freerds_pack_disconnect_user_request W (the_DisconnectUserRequest m) s) else None),
      rpc_Unpack = (\<lambda>zone m buffer.
        if is_DisconnectUserRequest m
        then map_option (\<lambda>(ok, r). (ok, DisconnectUserRequest r)) (freerds_unpack_disconnect_user_request zone (the_DisconnectUserRequest m) buffer) else None),
      rpc_Free = (\<lambda>m. if is_DisconnectUserRequest m then Some (freerds_free_disconnect_user_request (the_DisconnectUserRequest m)) else None)\<rparr>"

definition g_FDSAPI_DISCONNECT_USER_RESPONSE :: "'s wstream_ops \<Rightarrow> 's RDS_RPC_PACK_FUNC" where
  [rpc_table_defs]: "g_FDSAPI_DISCONNECT_USER_RESPONSE W =
     \<lparr>rpc_msgType = FDSAPI_RESPONSE_ID 1005,
      rpc_Pack = (\<lambda>m s. if is_DisconnectUserResponse m then Some (freerds_pack_disconnect_user_response W (the_DisconnectUserResponse m) s) else None),
      rpc_Unpack = (\<lambda>zone m buffer.
        if is_DisconnectUserResponse m
        then map_option (\<lambda>(ok, r). (ok, DisconnectUserResponse r)) (freerds_unpack_disconnect_user_response zone (the_DisconnectUserResponse m) buffer) else None),
      rpc_Free = (\<lambda>m. if is_DisconnectUserResponse m then Some (freerds_free_disconnect_user_response (the_DisconnectUserResponse m)) else None)\<rparr>"

definition g_FDSAPI_SWITCH_SERVICE_ENDPOINT_REQUEST :: "'s wstream_ops \<Rightarrow> 's RDS_RPC_PACK_FUNC" where
  [rpc_table_defs]: "g_FDSAPI_SWITCH_SERVICE_ENDPOINT_REQUEST W =
     \<lparr>rpc_msgType = FDSAPI_REQUEST_ID 1006,
      rpc_Pack = (\<lambda>m s. if is_SwitchServiceEndpointRequest m then Some (freerds_pack_switch_service_endpoint_request W (the_SwitchServiceEndpointRequest m) s) else None),
      rpc_Unpack = (\<lambda>zone m buffer.
        if is_SwitchServiceEndpointRequest m
        then map_option (\<lambda>(ok, r). (ok, SwitchServiceEndpointRequest r)) (freerds_unpack_switch_service_endpoint_request zone (the_SwitchServiceEndpointRequest m) buffer) else None),
      rpc_Free = (\<lambda>m. if is_SwitchServiceEndpointRequest m then Some (freerds_free_switch_service_endpoint_request (the_SwitchServiceEndpointRequest m)) else None)\<rparr>"

definition g_FDSAPI_SWITCH_SERVICE_ENDPOINT_RESPONSE :: "'s wstream_ops \<Rightarrow> 's RDS_RPC_PACK_FUNC" where
  [rpc_table_defs]: "g_FDSAPI_SWITCH_SERVICE_ENDPOINT_RESPONSE W =
     \<lparr>rpc_msgType = FDSAPI_RESPONSE_ID 1006,
      rpc_Pack = (\<lambda>m s. if is_SwitchServiceEndpointResponse m then Some (freerds_pack_switch_service_endpoint_response W (the_SwitchServiceEndpointResponse m) s) else None),
      rpc_Unpack = (\<lambda>zone m buffer.
        if is_SwitchServiceEndpointResponse m
        then map_option (\<lambda>(ok, r). (ok, SwitchServiceEndpointResponse r)) (freerds_unpack_switch_service_endpoint_response zone (the_SwitchServiceEndpointResponse m) buffer) else None),
      rpc_Free = (\<lambda>m. if is_SwitchServiceEndpointResponse m then Some (freerds_free_switch_service_endpoint_response (the_SwitchServiceEndpointResponse m)) else None)\<rparr>"

definition g_FDSAPI_START_SESSION_REQUEST :: "'s wstream_ops \<Rightarrow> 's RDS_RPC_PACK_FUNC" where
  [rpc_table_defs]: "g_FDSAPI_START_SESSION_REQUEST W =
     \<lparr>rpc_msgType = FDSAPI_REQUEST_ID 1007,
      rpc_Pack = (\<lambda>m s. if is_StartSessionRequest m then Some (freerds_pack_start_session_request W (the_StartSessionRequest m) s) else None),
      rpc_Unpack = (\<lambda>zone m buffer.
        if is_StartSessionRequest m
        then map_option (\<lambda>(ok, r). (ok, StartSessionRequest r)) (freerds_unpack_start_session_request zone (the_StartSessionRequest m) buffer) else None),
      rpc_Free = (\<lambda>m. if is_StartSessionRequest m then Some (freerds_free_start_session_request (the_StartSessionRequest m)) else None)\<rparr>"

definition g_FDSAPI_START_SESSION_RESPONSE :: "'s wstream_ops \<Rightarrow> 's RDS_RPC_PACK_FUNC" where
  [rpc_table_defs]: "g_FDSAPI_START_SESSION_RESPONSE W =
     \<lparr>rpc_msgType = FDSAPI_RESPONSE_ID 1007,
      rpc_Pack = (\<lambda>m s. if is_StartSessionResponse m then Some (freerds_pack_start_session_response W (the_StartSessionResponse m) s) else None),
      rpc_Unpack = (\<lambda>zone m buffer.
        if is_StartSessionResponse m
        then map_option (\<lambda>(ok, r). (ok, StartSessionResponse r)) (freerds_unpack_start_session_response zone (the_StartSessionResponse m) buffer) else None),
      rpc_Free = (\<lambda>m. if is_StartSessionResponse m then Some (freerds_free_start_session_response (the_StartSessionResponse m)) else None)\<rparr>"

definition g_FDSAPI_END_SESSION_REQUEST :: "'s wstream_ops \<Rightarrow> 's RDS_RPC_PACK_FUNC" where
  [rpc_table_defs]: "g_FDSAPI_END_SESSION_REQUEST W =
     \<lparr>rpc_msgType = FDSAPI_REQUEST_ID 1008,
      rpc_Pack = (\<lambda>m s. if is_EndSessionRequest m then Some (freerds_pack_end_session_request W (the_EndSessionRequest m) s) else None),
      rpc_Unpack = (\<lambda>zone m buffer.
        if is_EndSessionRequest m
        then map_option (\<lambda>(ok, r). (ok, EndSessionRequest r)) (freerds_unpack_end_session_request zone (the_EndSessionRequest m) buffer) else None),
      rpc_Free = (\<lambda>m. if is_EndSessionRequest m then Some (freerds_free_end_session_request (the_EndSessionRequest m)) else None)\<rparr>"

definition g_FDSAPI_END_SESSION_RESPONSE :: "'s wstream_ops \<Rightarrow> 's RDS_RPC_PACK_FUNC" where
  [rpc_table_defs]: "g_FDSAPI_END_SESSION_RESPONSE W =
     \<lparr>rpc_msgType = FDSAPI_RESPONSE_ID 1008,
      rpc_Pack = (\<lambda>m s. if is_EndSessionResponse m then Some (freerds_pack_end_session_response W (the_EndSessionResponse m) s) else None),
      rpc_Unpack = (\<lambda>zone m buffer.
        if is_EndSessionResponse m
        then map_option (\<lambda>(ok, r). (ok, EndSessionResponse r)) (freerds_unpack_end_session_response zone (the_EndSessionResponse m) buffer) else None),
      rpc_Free = (\<lambda>m. if is_EndSessionResponse m then Some (freerds_free_end_session_response (the_EndSessionResponse m)) else None)\<rparr>"

definition g_FDSAPI_CHANNEL_ENDPOINT_OPEN_REQUEST :: "'s wstream_ops \<Rightarrow> 's RDS_RPC_PACK_FUNC" where
  [rpc_table_defs]: "g_FDSAPI_CHANNEL_ENDPOINT_OPEN_REQUEST W =
     \<lparr>rpc_msgType = FDSAPI_REQUEST_ID 1009,
      rpc_Pack = (\<lambda>m s. if is_ChannelEndpointOpenRequest m then Some (freerds_pack_channel_endpoint_open_request W (the_ChannelEndpointOpenRequest m) s) else None),
      rpc_Unpack = (\<lambda>zone m buffer.
        if is_ChannelEndpointOpenRequest m
        then map_option (\<lambda>(ok, r). (ok, ChannelEndpointOpenRequest r)) (freerds_unpack_channel_endpoint_open_request zone (the_ChannelEndpointOpenRequest m) buffer) else None),
      rpc_Free = (\<lambda>m. if is_ChannelEndpointOpenRequest m then Some (freerds_free_channel_endpoint_open_request (the_ChannelEndpointOpenRequest m)) else None)\<rparr>"

definition g_FDSAPI_CHANNEL_ENDPOINT_OPEN_RESPONSE :: "'s wstream_ops \<Rightarrow> 's RDS_RPC_PACK_FUNC" where
  [rpc_table_defs]: "g_FDSAPI_CHANNEL_ENDPOINT_OPEN_RESPONSE W =
     \<lparr>rpc_msgType = FDSAPI_RESPONSE_ID 1009,
      rpc_Pack = (\<lambda>m s. if is_ChannelEndpointOpenResponse m then Some (freerds_pack_channel_endpoint_open_response W (the_ChannelEndpointOpenResponse m) s) else None),
      rpc_Unpack = (\<lambda>zone m buffer.
        if is_ChannelEndpointOpenResponse m
        then map_option (\<lambda>(ok, r). (ok, ChannelEndpointOpenResponse r)) (freerds_unpack_channel_endpoint_open_response zone (the_ChannelEndpointOpenResponse m) buffer) else None),
      rpc_Free = (\<lambda>m. if is_ChannelEndpointOpenResponse m then Some (freerds_free_channel_endpoint_open_response (the_ChannelEndpointOpenResponse m)) else None)\<rparr>"

definition g_MSG_FUNCS :: "'s wstream_ops \<Rightarrow> 's RDS_RPC_PACK_FUNC list" where
  [rpc_table_defs]: "g_MSG_FUNCS W =
     [g_FDSAPI_CHANNEL_ALLOWED_REQUEST W,
      g_FDSAPI_CHANNEL_ALLOWED_RESPONSE W,
      g_FDSAPI_HEARTBEAT_REQUEST W,
      g_FDSAPI_HEARTBEAT_RESPONSE W,
      g_FDSAPI_LOGON_USER_REQUEST W,
      g_FDSAPI_LOGOFF_USER_REQUEST W,
      g_FDSAPI_LOGOFF_USER_RESPONSE W,
      g_FDSAPI_DISCONNECT_USER_REQUEST W,
      g_FDSAPI_DISCONNECT_USER_RESPONSE W,
      g_FDSAPI_SWITCH_SERVICE_ENDPOINT_REQUEST W,
      g_FDSAPI_SWITCH_SERVICE_ENDPOINT_RESPONSE W,
      g_FDSAPI_LOGON_USER_RESPONSE W,
      g_FDSAPI_START_SESSION_REQUEST W,
      g_FDSAPI_START_SESSION_RESPONSE W,
      g_FDSAPI_END_SESSION_REQUEST W,
      g_FDSAPI_END_SESSION_RESPONSE W,
      g_FDSAPI_CHANNEL_ENDPOINT_OPEN_REQUEST W,
      g_FDSAPI_CHANNEL_ENDPOINT_OPEN_RESPONSE W]"

section \<open>Routines over the table\<close>

definition freerds_rpc_msg_find_func :: "'s wstream_ops \<Rightarrow> UINT32 \<Rightarrow> 's RDS_RPC_PACK_FUNC option" where
  "freerds_rpc_msg_find_func W msgType = find (\<lambda>func. msgType = rpc_msgType func) (g_MSG_FUNCS W)"

definition freerds_rpc_msg_pack ::
  "'s wstream_ops \<Rightarrow> UINT32 \<Rightarrow> FDSAPI_MSG option \<Rightarrow> 's option \<Rightarrow> 's option option" where
  "freerds_rpc_msg_pack W type data s =
     (case data of
        None \<Rightarrow> Some None
      | Some m \<Rightarrow>
          (case freerds_rpc_msg_find_func W type of
             None \<Rightarrow> Some None
           | Some func \<Rightarrow> map_option Some (rpc_Pack func m s)))"

definition freerds_rpc_msg_unpack ::
  "'s wstream_ops \<Rightarrow> (nat \<Rightarrow> bool) \<Rightarrow> UINT32 \<Rightarrow> FDSAPI_MSG option \<Rightarrow> byte list \<Rightarrow>
   (bool \<times> FDSAPI_MSG option) option" where
  "freerds_rpc_msg_unpack W zone type data buffer =
     (case data of
        None \<Rightarrow> Some (False, None)
      | Some m \<Rightarrow>
          (case freerds_rpc_msg_find_func W type of
             None \<Rightarrow> Some (False, Some m)
           | Some func \<Rightarrow> map_option (\<lambda>(ok, r). (ok, Some r)) (rpc_Unpack func zone m buffer)))"

definition freerds_rpc_msg_free :: "'s wstream_ops \<Rightarrow> UINT32 \<Rightarrow> FDSAPI_MSG option \<Rightarrow> mem_ptr list option" where
  "freerds_rpc_msg_free W type data =
     (case data of
        None \<Rightarrow> Some []
      | Some m \<Rightarrow>
          (case freerds_rpc_msg_find_func W type of
             None \<Rightarrow> Some []
           | Some func \<Rightarrow> rpc_Free func m))"

section \<open>What a message carries\<close>

text \<open>The id of a message, the objects of its array, and what a receiver finds in its structure.\<close>

primrec fds_type :: "FDSAPI_MSG \<Rightarrow> UINT32" where
  "fds_type (ChannelAllowedRequest _) = FDSAPI_REQUEST_ID 1001"
| "fds_type (ChannelAllowedResponse _) = FDSAPI_RESPONSE_ID 1001"
| "fds_type (HeartbeatRequest _) = FDSAPI_REQUEST_ID 1002"
| "fds_type (HeartbeatResponse _) = FDSAPI_RESPONSE_ID 1002"
| "fds_type (LogonUserRequest _) = FDSAPI_REQUEST_ID 1003"
| "fds_type (LogonUserResponse _) = FDSAPI_RESPONSE_ID 1003"
| "fds_type (LogoffUserRequest _) = FDSAPI_REQUEST_ID 1004"
| "fds_type (LogoffUserResponse _) = FDSAPI_RESPONSE_ID 1004"
| "fds_type (DisconnectUserRequest _) = FDSAPI_REQUEST_ID 1005"
| "fds_type (DisconnectUserResponse _) = FDSAPI_RESPONSE_ID 1005"
| "fds_type (SwitchServiceEndpointRequest _) = FDSAPI_REQUEST_ID 1006"
| "fds_type (SwitchServiceEndpointResponse _) = FDSAPI_RESPONSE_ID 1006"
| "fds_type (StartSessionRequest _) = FDSAPI_REQUEST_ID 1007"
| "fds_type (StartSessionResponse _) = FDSAPI_RESPONSE_ID 1007"
| "fds_type (EndSessionRequest _) = FDSAPI_REQUEST_ID 1008"
| "fds_type (EndSessionResponse _) = FDSAPI_RESPONSE_ID 1008"
| "fds_type (ChannelEndpointOpenRequest _) = FDSAPI_REQUEST_ID 1009"
| "fds_type (ChannelEndpointOpenResponse _) = FDSAPI_RESPONSE_ID 1009"

primrec fds_contents :: "FDSAPI_MSG \<Rightarrow> msgpack_object list" where
  "fds_contents (ChannelAllowedRequest m) = contents_channel_allowed_request m"
| "fds_contents (ChannelAllowedResponse m) = contents_channel_allowed_response m"
| "fds_contents (HeartbeatRequest m) = contents_heartbeat_request m"
| "fds_contents (HeartbeatResponse m) = contents_heartbeat_response m"
| "fds_contents (LogonUserRequest m) = contents_logon_user_request m"
| "fds_contents (LogonUserResponse m) = contents_logon_user_response m"
| "fds_contents (LogoffUserRequest m) = contents_logoff_user_request m"
| "fds_contents (LogoffUserResponse m) = contents_logoff_user_response m"
| "fds_contents (DisconnectUserRequest m) = contents_disconnect_user_request m"
| "fds_contents (DisconnectUserResponse m) = contents_disconnect_user_response m"
| "fds_contents (SwitchServiceEndpointRequest m) = contents_switch_service_endpoint_request m"
| "fds_contents (SwitchServiceEndpointResponse m) = contents_switch_service_endpoint_response m"
| "fds_contents (StartSessionRequest m) = contents_start_session_request m"
| "fds_contents (StartSessionResponse m) = contents_start_session_response m"
| "fds_contents (EndSessionRequest m) = contents_end_session_request m"
| "fds_contents (EndSessionResponse m) = contents_end_session_response m"
| "fds_contents (ChannelEndpointOpenRequest m) = contents_channel_endpoint_open_request m"
| "fds_contents (ChannelEndpointOpenResponse m) = contents_channel_endpoint_open_response m"

primrec fds_received :: "FDSAPI_MSG \<Rightarrow> FDSAPI_MSG \<Rightarrow> FDSAPI_MSG" where
  "fds_received (ChannelAllowedRequest m) r = ChannelAllowedRequest (received_channel_allowed_request m (the_ChannelAllowedRequest r))"
| "fds_received (ChannelAllowedResponse m) r = ChannelAllowedResponse (received_channel_allowed_response m (the_ChannelAllowedResponse r))"
| "fds_received (HeartbeatRequest m) r = HeartbeatRequest (received_heartbeat_request m (the_HeartbeatRequest r))"
| "fds_received (HeartbeatResponse m) r = HeartbeatResponse (received_heartbeat_response m (the_HeartbeatResponse r))"
| "fds_received (LogonUserRequest m) r = LogonUserRequest (received_logon_user_request m (the_LogonUserRequest r))"
| "fds_received (LogonUserResponse m) r = LogonUserResponse (received_logon_user_response m (the_LogonUserResponse r))"
| "fds_received (LogoffUserRequest m) r = LogoffUserRequest (received_logoff_user_request m (the_LogoffUserRequest r))"
| "fds_received (LogoffUserResponse m) r = LogoffUserResponse (received_logoff_user_response m (the_LogoffUserResponse r))"
| "fds_received (DisconnectUserRequest m) r = DisconnectUserRequest (received_disconnect_user_request m (the_DisconnectUserRequest r))"
| "fds_received (DisconnectUserResponse m) r = DisconnectUserResponse (received_disconnect_user_response m (the_DisconnectUserResponse r))"
| "fds_received (SwitchServiceEndpointRequest m) r = SwitchServiceEndpointRequest (received_switch_service_endpoint_request m (the_SwitchServiceEndpointRequest r))"
| "fds_received (SwitchServiceEndpointResponse m) r = SwitchServiceEndpointResponse (received_switch_service_endpoint_response m (the_SwitchServiceEndpointResponse r))"
| "fds_received (StartSessionRequest m) r = StartSessionRequest (received_start_session_request m (the_StartSessionRequest r))"
| "fds_received (StartSessionResponse m) r = StartSessionResponse (received_start_session_response m (the_StartSessionResponse r))"
| "fds_received (EndSessionRequest m) r = EndSessionRequest (received_end_session_request m (the_EndSessionRequest r))"
| "fds_received (EndSessionResponse m) r = EndSessionResponse (received_end_session_response m (the_EndSessionResponse r))"
| "fds_received (ChannelEndpointOpenRequest m) r = ChannelEndpointOpenRequest (received_channel_endpoint_open_request m (the_ChannelEndpointOpenRequest r))"
| "fds_received (ChannelEndpointOpenResponse m) r = ChannelEndpointOpenResponse (received_channel_endpoint_open_response m (the_ChannelEndpointOpenResponse r))"

primrec same_kind :: "FDSAPI_MSG \<Rightarrow> FDSAPI_MSG \<Rightarrow> bool" where
  "same_kind (ChannelAllowedRequest _) r = is_ChannelAllowedRequest r"
| "same_kind (ChannelAllowedResponse _) r = is_ChannelAllowedResponse r"
| "same_kind (HeartbeatRequest _) r = is_HeartbeatRequest r"
| "same_kind (HeartbeatResponse _) r = is_HeartbeatResponse r"
| "same_kind (LogonUserRequest _) r = is_LogonUserRequest r"
| "same_kind (LogonUserResponse _) r = is_LogonUserResponse r"
| "same_kind (LogoffUserRequest _) r = is_LogoffUserRequest r"
| "same_kind (LogoffUserResponse _) r = is_LogoffUserResponse r"
| "same_kind (DisconnectUserRequest _) r = is_DisconnectUserRequest r"
| "same_kind (DisconnectUserResponse _) r = is_DisconnectUserResponse r"
| "same_kind (SwitchServiceEndpointRequest _) r = is_SwitchServiceEndpointRequest r"
| "same_kind (SwitchServiceEndpointResponse _) r = is_SwitchServiceEndpointResponse r"
| "same_kind (StartSessionRequest _) r = is_StartSessionRequest r"
| "same_kind (StartSessionResponse _) r = is_StartSessionResponse r"
| "same_kind (EndSessionRequest _) r = is_EndSessionRequest r"
| "same_kind (EndSessionResponse _) r = is_EndSessionResponse r"
| "same_kind (ChannelEndpointOpenRequest _) r = is_ChannelEndpointOpenRequest r"
| "same_kind (ChannelEndpointOpenResponse _) r = is_ChannelEndpointOpenResponse r"

primrec fds_strings :: "FDSAPI_MSG \<Rightarrow> mem_ptr list" where
  "fds_strings (ChannelAllowedRequest m) = [caq_ChannelName m]"
| "fds_strings (ChannelAllowedResponse m) = []"
| "fds_strings (HeartbeatRequest m) = []"
| "fds_strings (HeartbeatResponse m) = []"
| "fds_strings (LogonUserRequest m) = [luq_User m, luq_Domain m, luq_Password m, luq_ClientName m, luq_ClientAddress m]"
| "fds_strings (LogonUserResponse m) = [lus_ServiceEndpoint m]"
| "fds_strings (LogoffUserRequest m) = []"
| "fds_strings (LogoffUserResponse m) = []"
| "fds_strings (DisconnectUserRequest m) = []"
| "fds_strings (DisconnectUserResponse m) = []"
| "fds_strings (SwitchServiceEndpointRequest m) = [seq_ServiceEndpoint m]"
| "fds_strings (SwitchServiceEndpointResponse m) = []"
| "fds_strings (StartSessionRequest m) = [ssq_User m, ssq_Domain m, ssq_Password m]"
| "fds_strings (StartSessionResponse m) = [sss_ServiceEndpoint m]"
| "fds_strings (EndSessionRequest m) = []"
| "fds_strings (EndSessionResponse m) = []"
| "fds_strings (ChannelEndpointOpenRequest m) = [coq_ChannelName m]"
| "fds_strings (ChannelEndpointOpenResponse m) = [cos_ChannelGuid m]"

definition fds_sizes_fit :: "(nat \<Rightarrow> bool) \<Rightarrow> FDSAPI_MSG \<Rightarrow> bool" where
  "fds_sizes_fit zone m \<longleftrightarrow> zone (length (fds_contents m)) \<and> list_all (packable zone) (fds_contents m)"

definition fds_bytes :: "FDSAPI_MSG \<Rightarrow> byte list" where
  "fds_bytes m = encoding (MSGPACK_OBJECT_ARRAY (fds_contents m))"

section \<open>Lookup, round trip\<close>

lemmas table_simps = freerds_rpc_msg_find_func_def rpc_table_defs FDSAPI_REQUEST_ID_def FDSAPI_RESPONSE_ID_def

lemma find_func:
  "\<exists>func. freerds_rpc_msg_find_func W (fds_type m) = Some func \<and> rpc_msgType func = fds_type m"
  by (cases m) (simp_all add: table_simps)

lemma contents_flat: "list_all (\<lambda>d. nesting d = 0) (fds_contents m) \<and> length (fds_contents m) < 16"
  by (cases m) (simp_all add: rpc_defs)

lemma unpack_fds_bytes:
  assumes "fds_sizes_fit zone m"
  shows "msgpack_unpack_next zone (fds_bytes m @ rest) = Some (MSGPACK_OBJECT_ARRAY (fds_contents m), rest)"
    and "packable zone (MSGPACK_OBJECT_ARRAY (fds_contents m))"
    and "nesting (MSGPACK_OBJECT_ARRAY (fds_contents m)) \<le> MSGPACK_EMBED_STACK_SIZE"
proof -
  have "Max (insert 0 (nesting ` set (fds_contents m))) \<le> 0"
    using contents_flat [of m] by (intro Max.boundedI) (auto simp: list_all_iff)
  then show p: "packable zone (MSGPACK_OBJECT_ARRAY (fds_contents m))"
    and n: "nesting (MSGPACK_OBJECT_ARRAY (fds_contents m)) \<le> MSGPACK_EMBED_STACK_SIZE"
    using assms contents_flat [of m] by (auto simp: fds_sizes_fit_def list_all_iff MSGPACK_EMBED_STACK_SIZE_def)
  from unpack_encoding(1) [OF p n]
  show "msgpack_unpack_next zone (fds_bytes m @ rest) = Some (MSGPACK_OBJECT_ARRAY (fds_contents m), rest)"
    by (simp add: fds_bytes_def)
qed

text \<open>A strict prefix of an encoded object is never taken for an object.\<close>

lemma unpack_prefix:
  assumes "packable zone obj" and "nesting obj \<le> MSGPACK_EMBED_STACK_SIZE" and "encoding obj = p @ q" and "q \<noteq> []"
  shows "msgpack_unpack_next zone p = None"
proof (cases "p = []")
  case False
  obtain ret ctx r where run: "template_execute (new_context zone) p = (ret, ctx, r)"
    by (cases "template_execute (new_context zone) p")
  have "msgpack_unpack_next zone (p @ q) = Some (obj, [])"
    using unpack_encoding(1) [OF assms(1,2), of "[]"] assms(3) by simp
  then have "ret \<le> 0"
    using execute_append [OF run, of q] assms(4) False
    by (auto simp: msgpack_unpack_next_def split: if_splits prod.splits)
  then show ?thesis using run False by (simp add: msgpack_unpack_next_def)
qed (simp add: msgpack_unpack_next_def)

lemma unpack_root_none: "msgpack_unpack_next zone p = None \<Longrightarrow> unpack_root zone msg p n k = Some (False, msg)"
  by (simp add: unpack_root_def)

lemma rpc_unpack_prefix:
  assumes "fds_sizes_fit zone m" and "fds_bytes m = p @ q" and "q \<noteq> []" and "same_kind m r"
  shows "freerds_rpc_msg_unpack W zone (fds_type m) (Some r) p = Some (False, Some r)"
proof -
  have "msgpack_unpack_next zone p = None"
    using unpack_prefix [OF unpack_fds_bytes(2,3) [OF assms(1)]] assms(2,3) by (simp add: fds_bytes_def)
  then show ?thesis
    using assms(4) by (cases m) (simp_all add: freerds_rpc_msg_unpack_def table_simps rpc_defs unpack_root_none)
qed

context wstream
begin

lemmas pack_laws =
    channel_allowed_request.pack_law channel_allowed_response.pack_law heartbeat_request.pack_law
    heartbeat_response.pack_law logon_user_request.pack_law logon_user_response.pack_law
    logoff_user_request.pack_law logoff_user_response.pack_law disconnect_user_request.pack_law
    disconnect_user_response.pack_law switch_service_endpoint_request.pack_law
    switch_service_endpoint_response.pack_law start_session_request.pack_law
    start_session_response.pack_law end_session_request.pack_law end_session_response.pack_law
    channel_endpoint_open_request.pack_law channel_endpoint_open_response.pack_law

lemmas unpack_laws =
    channel_allowed_request.unpack_law [where extra = "[]", simplified]
    channel_allowed_response.unpack_law [where extra = "[]", simplified] heartbeat_request.unpack_law
    [where extra = "[]", simplified] heartbeat_response.unpack_law [where extra = "[]", simplified]
    logon_user_request.unpack_law [where extra = "[]", simplified] logon_user_response.unpack_law [where
    extra = "[]", simplified] logoff_user_request.unpack_law [where extra = "[]", simplified]
    logoff_user_response.unpack_law [where extra = "[]", simplified] disconnect_user_request.unpack_law
    [where extra = "[]", simplified] disconnect_user_response.unpack_law [where extra = "[]",
    simplified] switch_service_endpoint_request.unpack_law [where extra = "[]", simplified]
    switch_service_endpoint_response.unpack_law [where extra = "[]", simplified]
    start_session_request.unpack_law [where extra = "[]", simplified] start_session_response.unpack_law
    [where extra = "[]", simplified] end_session_request.unpack_law [where extra = "[]", simplified]
    end_session_response.unpack_law [where extra = "[]", simplified]
    channel_endpoint_open_request.unpack_law [where extra = "[]", simplified]
    channel_endpoint_open_response.unpack_law [where extra = "[]", simplified]

lemma rpc_pack:
  "\<exists>s. freerds_rpc_msg_pack W (fds_type m) (Some m) None = Some (Some s) \<and> stream_bytes W s = fds_bytes m"
  by (cases m) (simp_all add: freerds_rpc_msg_pack_def table_simps fds_bytes_def pack_laws)

lemma rpc_unpack:
  assumes "fds_sizes_fit zone m" and "same_kind m r"
  shows "freerds_rpc_msg_unpack W zone (fds_type m) (Some r) (fds_bytes m @ rest) = Some (True, Some (fds_received m r))"
  using unpack_fds_bytes(1) [OF assms(1), of rest] assms(2)
  by (cases m) (simp_all add: freerds_rpc_msg_unpack_def table_simps unpack_laws)

end

text \<open>
  The strings that a receiver gets are blocks of their own; freeing the message releases each of them once,
  except in a switch request, whose string is not released.
\<close>

lemma rpc_free:
  "freerds_rpc_msg_free W (fds_type m) (Some m) =
     Some (if is_SwitchServiceEndpointRequest m then [] else fds_strings m)"
  by (cases m) (simp_all add: freerds_rpc_msg_free_def table_simps rpc_defs)

end

