(* ===== verification/Rds_Rpc_Properties.thy ===== *)
theory Rds_Rpc_Properties
  imports Rds_Rpc_Dispatch
begin

text \<open>
  Properties of the MessagePack library and of the management messages.
\<close>

section \<open>MessagePack\<close>

text \<open>
  C24.  Round trip of MessagePack.  Packing an object through a callback that appends succeeds, and unpacking
  the bytes it appended gives the object back and leaves the bytes after it, whatever follows; this holds for
  every object whose sizes fit the format and whose nesting fits the stack of the unpacking machine.
\<close>

theorem msgpack_roundtrip:
  assumes "packer_sink cb sound written" and "sound a"
    and "packable zone obj" and "nesting obj \<le> MSGPACK_EMBED_STACK_SIZE"
  shows "\<exists>a' bytes. msgpack_pack_object \<lparr>pk_data = a, pk_callback = cb\<rparr> obj = (0, \<lparr>pk_data = a', pk_callback = cb\<rparr>) \<and>
           written a' = written a @ bytes \<and> msgpack_unpack_next zone (bytes @ rest) = Some (obj, rest)"
proof -
  let ?pk = "\<lparr>pk_data = a, pk_callback = cb\<rparr>"
  obtain ret pk where run: "msgpack_pack_object ?pk obj = (ret, pk)" by fastforce
  have "packer_sink.packs cb sound written ?pk (ret, pk) (encoding obj)"
    using packer_sink.packs_object [OF assms(1), of ?pk obj] run assms(2)
    by (simp add: packer_sink.sink_def [OF assms(1)])
  then have "ret = 0" and "pk = \<lparr>pk_data = pk_data pk, pk_callback = cb\<rparr>" and "written (pk_data pk) = written a @ encoding obj"
    by (auto simp: packer_sink.packs_def [OF assms(1)])
  then show ?thesis
    using run unpack_encoding(1) [OF assms(3,4), of rest] by metis
qed

abbreviation (input) append_callback :: "byte list \<Rightarrow> byte list \<Rightarrow> int \<times> byte list" where
  "append_callback a bs \<equiv> (0, a @ bs)"

abbreviation (input) sample_object :: msgpack_object where
  "sample_object \<equiv> MSGPACK_OBJECT_MAP
     [(MSGPACK_OBJECT_RAW [0x61], MSGPACK_OBJECT_ARRAY [MSGPACK_OBJECT_POSITIVE_INTEGER 70000, MSGPACK_OBJECT_NEGATIVE_INTEGER (-40)])]"

interpretation list_sink: packer_sink append_callback "\<lambda>_. True" "\<lambda>a. a"
  by unfold_locales simp

theorem msgpack_roundtrip_witness:
  "\<exists>a' bytes. msgpack_pack_object \<lparr>pk_data = [], pk_callback = append_callback\<rparr> sample_object =
       (0, \<lparr>pk_data = a', pk_callback = append_callback\<rparr>) \<and>
     a' = [] @ bytes \<and> msgpack_unpack_next (\<lambda>n. n < 1000) (bytes @ [1, 2]) = Some (sample_object, [1, 2])"
  by (rule msgpack_roundtrip [OF list_sink.packer_sink_axioms])
    (simp_all add: MSGPACK_EMBED_STACK_SIZE_def)

section \<open>Management messages\<close>

definition sample_logon_request :: FDSAPI_MSG where
  "sample_logon_request = LogonUserRequest
     \<lparr>fds_msgSize = 0, fds_msgType = 0, fds_callId = 0, fds_status = 0, luq_ConnectionId = 7,
      luq_User = Some [0x62, 0x6f, 0x62, 0], luq_Domain = None, luq_Password = Some [0x70, 0x77, 0],
      luq_DesktopWidth = 1024, luq_DesktopHeight = 768, luq_ColorDepth = 32, luq_ClientName = Some [0x63, 0],
      luq_ClientAddress = None, luq_ClientBuild = 0, luq_ClientProductId = 0, luq_ClientHardwareId = 0,
      luq_ClientProtocolType = 2\<rparr>"

definition sample_heartbeat :: "UINT32 \<Rightarrow> FDSAPI_MSG" where
  "sample_heartbeat n = HeartbeatRequest
     \<lparr>fds_msgSize = 0, fds_msgType = 0, fds_callId = 0, fds_status = 0, hbq_HeartbeatId = n\<rparr>"

text \<open>
  C25.  Round trip of the management messages.  For each of the eighteen messages, packing by the table
  succeeds, and unpacking the bytes of the stream with the entry of the same type fills the receiver's structure
  with the fields that were sent, an absent or empty string as the null pointer, and keeps its other fields.
\<close>

theorem rpc_message_roundtrip:
  assumes "wstream W" and "fds_sizes_fit zone m" and "same_kind m r"
  shows "\<exists>s. freerds_rpc_msg_pack W (fds_type m) (Some m) None = Some (Some s) \<and>
             freerds_rpc_msg_unpack W zone (fds_type m) (Some r) (stream_bytes W s @ rest) = Some (True, Some (fds_received m r))"
proof -
  obtain s where "freerds_rpc_msg_pack W (fds_type m) (Some m) None = Some (Some s)" "stream_bytes W s = fds_bytes m"
    using wstream.rpc_pack [OF assms(1), of m] by blast
  then show ?thesis
    using wstream.rpc_unpack [OF assms, of rest] by auto
qed

theorem rpc_message_roundtrip_witness:
  "\<exists>s. freerds_rpc_msg_pack buffer_ops (fds_type sample_logon_request) (Some sample_logon_request) None = Some (Some s) \<and>
       freerds_rpc_msg_unpack buffer_ops (\<lambda>n. n < 1000) (fds_type sample_logon_request) (Some sample_logon_request)
         (stream_bytes buffer_ops s @ [9]) = Some (True, Some (fds_received sample_logon_request sample_logon_request))"
proof (rule rpc_message_roundtrip)
  show "wstream buffer_ops" by (rule bs.wstream_axioms)
  show "fds_sizes_fit (\<lambda>n. n < 1000) sample_logon_request"
    by (simp add: fds_sizes_fit_def sample_logon_request_def rpc_defs cstr_bytes_def c_string_def)
  show "same_kind sample_logon_request sample_logon_request"
    by (simp add: sample_logon_request_def)
qed

text \<open>
  C26.  Truncated management messages.  Unpacking any strict prefix of an encoded message fails and leaves the
  receiver's structure as it was.
\<close>

theorem rpc_truncated_rejected:
  assumes "fds_sizes_fit zone m" and "fds_bytes m = p @ q" and "q \<noteq> []" and "same_kind m r"
  shows "freerds_rpc_msg_unpack W zone (fds_type m) (Some r) p = Some (False, Some r)"
  using assms by (rule rpc_unpack_prefix)

theorem rpc_truncated_rejected_witness:
  "fds_bytes (sample_heartbeat 70000) = [0x91, 0xce, 0x00, 0x01, 0x11] @ [0x70] \<and>
   freerds_rpc_msg_unpack buffer_ops (\<lambda>n. n < 1000) (fds_type (sample_heartbeat 70000)) (Some (sample_heartbeat 0))
     [0x91, 0xce, 0x00, 0x01, 0x11] = Some (False, Some (sample_heartbeat 0))"
proof -
  have bytes: "fds_bytes (sample_heartbeat 70000) = [0x91, 0xce, 0x00, 0x01, 0x11] @ [0x70]"
    by (simp add: fds_bytes_def sample_heartbeat_def rpc_defs msgpack_pack_real_uint64_def array_header_def
        msgpack_store32_def le32_def)
  moreover have "fds_sizes_fit (\<lambda>n. n < 1000) (sample_heartbeat 70000)"
    by (simp add: fds_sizes_fit_def sample_heartbeat_def rpc_defs)
  ultimately show ?thesis
    using rpc_truncated_rejected [of "\<lambda>n. n < 1000" "sample_heartbeat 70000" "[0x91, 0xce, 0x00, 0x01, 0x11]" "[0x70]"
        "sample_heartbeat 0" buffer_ops]
    by (simp add: sample_heartbeat_def)
qed

end
