(* ===== verification/Rds_Ordered_Map.thy ===== *)
theory Rds_Ordered_Map
  imports Rds_Prelude
begin

text \<open>
  \<open>std::map\<close> as the manager uses it: a list of keys and values in ascending order of the keys, which is
  also the order of iteration.  The locale \<open>key_store\<close> is the interface the stores of the manager rely on.
\<close>

type_synonym ('k, 'v) omap = "('k \<times> 'v) list"

definition omap_get :: "('k, 'v) omap \<Rightarrow> 'k \<Rightarrow> 'v option" where
  "omap_get m k = map_of m k"

lemma omap_get_Nil [simp]: "omap_get [] k = None"
  by (simp add: omap_get_def)

fun omap_put :: "'k::linorder \<Rightarrow> 'v \<Rightarrow> ('k, 'v) omap \<Rightarrow> ('k, 'v) omap" where
  "omap_put k v [] = [(k, v)]"
| "omap_put k v ((k', v') # m) =
     (if k < k' then (k, v) # (k', v') # m
      else if k = k' then (k, v) # m
      else (k', v') # omap_put k v m)"

definition omap_erase :: "'k \<Rightarrow> ('k, 'v) omap \<Rightarrow> ('k, 'v) omap" where
  "omap_erase k m = filter (\<lambda>(k', _). k' \<noteq> k) m"

definition omap_ok :: "('k::linorder, 'v) omap \<Rightarrow> bool" where
  "omap_ok m \<longleftrightarrow> sorted_wrt (<) (map fst m)"

locale key_store =
  fixes get :: "'m \<Rightarrow> 'k \<Rightarrow> 'v option"
    and put :: "'k \<Rightarrow> 'v \<Rightarrow> 'm \<Rightarrow> 'm"
    and erase :: "'k \<Rightarrow> 'm \<Rightarrow> 'm"
    and ok :: "'m \<Rightarrow> bool"
  assumes get_put: "ok m \<Longrightarrow> get (put k v m) k' = (if k' = k then Some v else get m k')"
    and get_erase: "ok m \<Longrightarrow> get (erase k m) k' = (if k' = k then None else get m k')"
    and ok_put: "ok m \<Longrightarrow> ok (put k v m)"
    and ok_erase: "ok m \<Longrightarrow> ok (erase k m)"
begin

text \<open>A property of every entry that holds of a stored entry is kept by storing and erasing.\<close>

definition each :: "('k \<Rightarrow> 'v \<Rightarrow> bool) \<Rightarrow> 'm \<Rightarrow> bool" where
  "each P m \<longleftrightarrow> (\<forall>k v. get m k = Some v \<longrightarrow> P k v)"

lemma each_put: "ok m \<Longrightarrow> each P m \<Longrightarrow> P k v \<Longrightarrow> each P (put k v m)"
  by (auto simp: each_def get_put)

lemma each_erase: "ok m \<Longrightarrow> each P m \<Longrightarrow> each P (erase k m)"
  by (auto simp: each_def get_erase)

lemma each_get: "each P m \<Longrightarrow> get m k = Some v \<Longrightarrow> P k v"
  by (simp add: each_def)

lemma each_mono: "each P m \<Longrightarrow> (\<And>k v. P k v \<Longrightarrow> Q k v) \<Longrightarrow> each Q m"
  by (auto simp: each_def)

end

lemma omap_get_put: "omap_get (omap_put k v m) k' = (if k' = k then Some v else omap_get m k')"
  by (induction k v m rule: omap_put.induct) (auto simp: omap_get_def)

lemma keys_omap_put: "set (map fst (omap_put k v m)) = insert k (set (map fst m))"
  by (induction k v m rule: omap_put.induct) auto

lemma omap_ok_put: "omap_ok m \<Longrightarrow> omap_ok (omap_put k v m)"
proof (induction k v m rule: omap_put.induct)
  case (2 k v k' v' m)
  then show ?case
    using keys_omap_put [of k v m] by (auto simp: omap_ok_def)
qed (simp add: omap_ok_def)

lemma omap_put_put: "omap_put k v (omap_put k v' m) = omap_put k v m"
  by (induction k v m rule: omap_put.induct) auto

lemma omap_get_erase: "omap_get (omap_erase k m) k' = (if k' = k then None else omap_get m k')"
  by (induction m) (auto simp: omap_erase_def omap_get_def)

lemma omap_ok_erase: "omap_ok m \<Longrightarrow> omap_ok (omap_erase k m)"
proof -
  assume "omap_ok m"
  moreover have "map fst (omap_erase k m) = filter (\<lambda>k'. k' \<noteq> k) (map fst m)"
    by (induction m) (auto simp: omap_erase_def)
  ultimately show ?thesis by (simp add: omap_ok_def strict_sorted_iff sorted_wrt_filter)
qed

interpretation omap: key_store omap_get omap_put omap_erase omap_ok
  by unfold_locales (auto simp: omap_get_put omap_get_erase omap_ok_put omap_ok_erase)

text \<open>Entries in the list are what a lookup finds.\<close>

lemma omap_in_set: "omap_ok m \<Longrightarrow> (k, v) \<in> set m \<longleftrightarrow> omap_get m k = Some v"
  by (simp add: omap_ok_def omap_get_def strict_sorted_iff)

lemma omap_each_iff: "omap_ok m \<Longrightarrow> omap.each P m \<longleftrightarrow> (\<forall>(k, v) \<in> set m. P k v)"
  by (auto simp: omap.each_def omap_in_set)

lemma find_omap: "find (\<lambda>(k, v). P k v) m = Some (k, v) \<Longrightarrow> omap_ok m \<Longrightarrow> omap_get m k = Some v \<and> P k v"
  by (auto simp: find_Some_iff omap_in_set [symmetric]) (metis nth_mem)

end
