(* ===== verification/Rds_Manager_Session.thy ===== *)
theory Rds_Manager_Session
  imports Rds_Ordered_Map "HOL-Library.Monad_Syntax"
begin

text \<open>
  Properties, modules and sessions of the session manager: \<open>manager/session/PropertyManager.cpp\<close>,
  \<open>manager/module/Module.cpp\<close>, \<open>ModuleManager.cpp\<close>, \<open>AuthModule.cpp\<close> and \<open>manager/session/Session.cpp\<close>.

  A \<open>std::string\<close> is its list of bytes.  What lies outside the repository is a parameter: the settings file of
  WinPR (\<open>ini_ops\<close>), and the record \<open>system\<close> with the account data base, the environment blocks and the
  authentication modules.  Calls into a session module and notifications to clients are recorded as
  effects, in the order in which they happen.
\<close>

type_synonym std_string = "byte list"

definition str :: "string \<Rightarrow> std_string" where
  "str cs = map of_char cs"

section \<open>Properties\<close>

record 'i ini_ops =
  IniFile_GetKeyValueInt :: "'i \<Rightarrow> string \<Rightarrow> std_string \<Rightarrow> int"
  IniFile_GetKeyValueString :: "'i \<Rightarrow> string \<Rightarrow> std_string \<Rightarrow> std_string option"
  IniFile_SetKeyValueInt :: "'i \<Rightarrow> string \<Rightarrow> std_string \<Rightarrow> int \<Rightarrow> 'i"
  IniFile_SetKeyValueString :: "'i \<Rightarrow> string \<Rightarrow> std_string \<Rightarrow> std_string \<Rightarrow> 'i"

text \<open>A getter returns \<open>None\<close> where the source returns \<open>FALSE\<close> and leaves the value alone.\<close>

definition getPropertyBool :: "'i ini_ops \<Rightarrow> 'i \<Rightarrow> std_string \<Rightarrow> bool option" where
  "getPropertyBool I ini path =
     (let intVal = IniFile_GetKeyValueInt I ini ''global'' path
      in if intVal < 0 then None else Some (intVal \<noteq> 0))"

definition getPropertyNumber :: "'i ini_ops \<Rightarrow> 'i \<Rightarrow> std_string \<Rightarrow> int option" where
  "getPropertyNumber I ini path =
     (let intVal = IniFile_GetKeyValueInt I ini ''global'' path
      in if intVal < 0 then None else Some intVal)"

definition getPropertyString :: "'i ini_ops \<Rightarrow> 'i \<Rightarrow> std_string \<Rightarrow> std_string option" where
  "getPropertyString I ini path = IniFile_GetKeyValueString I ini ''global'' path"

definition setPropertyBool :: "'i ini_ops \<Rightarrow> 'i \<Rightarrow> std_string \<Rightarrow> bool \<Rightarrow> 'i" where
  "setPropertyBool I ini path v = IniFile_SetKeyValueInt I ini ''global'' path (if v then 1 else 0)"

definition setPropertyNumber :: "'i ini_ops \<Rightarrow> 'i \<Rightarrow> std_string \<Rightarrow> int \<Rightarrow> 'i" where
  "setPropertyNumber I ini path v = IniFile_SetKeyValueInt I ini ''global'' path v"

definition setPropertyString :: "'i ini_ops \<Rightarrow> 'i \<Rightarrow> std_string \<Rightarrow> std_string \<Rightarrow> 'i" where
  "setPropertyString I ini path v = IniFile_SetKeyValueString I ini ''global'' path v"

text \<open>The wrappers for C modules; the string must fit the caller's buffer with its terminator.\<close>

definition getPropertyString_C :: "'i ini_ops \<Rightarrow> 'i \<Rightarrow> std_string \<Rightarrow> nat \<Rightarrow> byte list option" where
  "getPropertyString_C I ini path valueLength =
     (case getPropertyString I ini path of
        None \<Rightarrow> None
      | Some v \<Rightarrow> if length v + 1 > valueLength then None else Some (v @ [0]))"

definition setupTestingPropValues :: "'i ini_ops \<Rightarrow> 'i \<Rightarrow> 'i" where
  "setupTestingPropValues I ini =
     (let S = (\<lambda>p v ini. setPropertyString I ini (str p) (str v));
          N = (\<lambda>p v ini. setPropertyNumber I ini (str p) v);
          B = (\<lambda>p v ini. setPropertyBool I ini (str p) v)
      in fold (\<lambda>f ini. f ini)
        [S ''module'' ''xsession'', S ''auth.module'' ''PAM'', S ''auth.greeter'' ''greeter'',
         B ''session.reconnect'' True, N ''session.timeout'' 60,
         S ''module.xsession.modulename'' ''X11'', N ''module.xsession.maxXRes'' 1920,
         N ''module.xsession.maxYRes'' 1200, N ''module.xsession.minXRes'' 320,
         N ''module.xsession.minYRes'' 200, N ''module.xsession.xres'' 1024,
         N ''module.xsession.yres'' 768, N ''module.xsession.colordepth'' 24,
         S ''module.xsession.startwm'' ''startwm.sh'',
         S ''module.greeter.modulename'' ''X11'', N ''module.greeter.maxXRes'' 1920,
         N ''module.greeter.maxYRes'' 1200, N ''module.greeter.minXRes'' 320,
         N ''module.greeter.minYRes'' 200, N ''module.greeter.xres'' 1024,
         N ''module.greeter.yres'' 768, N ''module.greeter.colordepth'' 24,
         S ''module.greeter.cmd'' ''simple_greeter''] ini)"

locale ini_file =
  fixes I :: "'i ini_ops"
  assumes int_after_int:
      "IniFile_GetKeyValueInt I (IniFile_SetKeyValueInt I ini sec k v) sec k' =
         (if k' = k then v else IniFile_GetKeyValueInt I ini sec k')"
    and string_after_string:
      "IniFile_GetKeyValueString I (IniFile_SetKeyValueString I ini sec k s) sec k' =
         (if k' = k then Some s else IniFile_GetKeyValueString I ini sec k')"
    and int_after_string:
      "k' \<noteq> k \<Longrightarrow> IniFile_GetKeyValueInt I (IniFile_SetKeyValueString I ini sec k s) sec k' =
         IniFile_GetKeyValueInt I ini sec k'"
    and string_after_int:
      "k' \<noteq> k \<Longrightarrow> IniFile_GetKeyValueString I (IniFile_SetKeyValueInt I ini sec k v) sec k' =
         IniFile_GetKeyValueString I ini sec k'"
begin

lemma number_roundtrip:
  "getPropertyNumber I (setPropertyNumber I ini path v) path = (if v < 0 then None else Some v)"
  by (simp add: getPropertyNumber_def setPropertyNumber_def int_after_int)

lemma bool_roundtrip: "getPropertyBool I (setPropertyBool I ini path v) path = Some v"
  by (simp add: getPropertyBool_def setPropertyBool_def int_after_int)

lemma string_roundtrip: "getPropertyString I (setPropertyString I ini path s) path = Some s"
  by (simp add: getPropertyString_def setPropertyString_def string_after_string)

end

text \<open>A settings file with this behaviour: two lists of values, numbers and strings.\<close>

record list_ini =
  li_ints :: "((string \<times> std_string) \<times> int) list"
  li_strings :: "((string \<times> std_string) \<times> std_string) list"

definition list_ini_ops :: "list_ini ini_ops" where
  "list_ini_ops =
     \<lparr>IniFile_GetKeyValueInt = (\<lambda>ini sec k. case map_of (li_ints ini) (sec, k) of None \<Rightarrow> -1 | Some v \<Rightarrow> v),
      IniFile_GetKeyValueString = (\<lambda>ini sec k. map_of (li_strings ini) (sec, k)),
      IniFile_SetKeyValueInt = (\<lambda>ini sec k v. ini\<lparr>li_ints := ((sec, k), v) # li_ints ini\<rparr>),
      IniFile_SetKeyValueString = (\<lambda>ini sec k s. ini\<lparr>li_strings := ((sec, k), s) # li_strings ini\<rparr>)\<rparr>"

definition empty_ini :: list_ini where
  "empty_ini = \<lparr>li_ints = [], li_strings = []\<rparr>"

interpretation li: ini_file list_ini_ops
  by unfold_locales (simp_all add: list_ini_ops_def)

section \<open>Modules\<close>

text \<open>The context that a module gets; \<open>sessionId\<close> is a 16-bit word.\<close>

record RDS_MODULE_COMMON =
  mod_sessionId :: UINT16
  mod_userName :: std_string
  mod_userToken :: "nat option"
  mod_envBlock :: mem_ptr
  mod_baseConfigPath :: std_string
  mod_desktopWidth :: INT32
  mod_desktopHeight :: INT32

record Module =
  mModuleName :: std_string
  mfpStart :: "RDS_MODULE_COMMON \<Rightarrow> std_string option"

text \<open>What the entry of a library reports; a null member is \<open>None\<close> or \<open>False\<close>.\<close>

record RDS_MODULE_ENTRY_POINTS =
  ep_New :: bool
  ep_Free :: bool
  ep_Start :: "(RDS_MODULE_COMMON \<Rightarrow> std_string option) option"
  ep_Stop :: bool
  ep_Name :: "std_string option"

definition initModule :: "RDS_MODULE_ENTRY_POINTS \<Rightarrow> Module option" where
  "initModule ep =
     (if \<not> ep_Free ep \<or> \<not> ep_New ep \<or> ep_Start ep = None \<or> \<not> ep_Stop ep then None
      else case (ep_Name ep, ep_Start ep) of
        (Some name, Some start) \<Rightarrow> Some \<lparr>mModuleName = name, mfpStart = start\<rparr>
      | _ \<Rightarrow> None)"

definition Module_start :: "Module \<Rightarrow> RDS_MODULE_COMMON \<Rightarrow> std_string" where
  "Module_start m context = (case mfpStart m context of None \<Rightarrow> [] | Some pipeName \<Rightarrow> pipeName)"

text \<open>
  \<open>ModuleManager::addModule\<close>; the loaded library is \<open>None\<close> when it cannot be loaded, and its entry is
  \<open>None\<close> when it is not exported.
\<close>

type_synonym modules_map = "(std_string \<times> Module) list"

definition addModule ::
  "(int \<times> RDS_MODULE_ENTRY_POINTS) option option \<Rightarrow> modules_map \<Rightarrow> int \<times> modules_map" where
  "addModule library modules =
     (case library of
        Some (Some (result, ep)) \<Rightarrow>
          if result = 0
          then case initModule ep of
                 Some m \<Rightarrow>
                   if map_of modules (mModuleName m) \<noteq> None then (-1, modules)
                   else (0, (mModuleName m, m) # modules)
               | None \<Rightarrow> (-1, modules)
          else (-1, modules)
      | _ \<Rightarrow> (-1, modules))"

definition getModule :: "modules_map \<Rightarrow> std_string \<Rightarrow> Module option" where
  "getModule modules name = map_of modules name"

section \<open>The system\<close>

record passwd =
  pw_uid :: int
  pw_shell :: std_string
  pw_name :: std_string
  pw_dir :: std_string

record system =
  LogonUserA :: "std_string \<Rightarrow> std_string \<Rightarrow> bool \<times> nat option"
  getpwnam :: "std_string \<Rightarrow> passwd option"
  SetEnvironmentVariableEBA :: "mem_ptr \<Rightarrow> std_string \<Rightarrow> std_string \<Rightarrow> mem_ptr"
  auth_library :: "std_string \<Rightarrow> (std_string \<Rightarrow> std_string option \<Rightarrow> std_string option \<Rightarrow> int) option option"
  universal_time :: nat
  getLibraryPath :: std_string

text \<open>
  \<open>AuthModule\<close>: the library of an authentication module is \<open>None\<close> when it cannot be loaded, and its logon
  routine is \<open>None\<close> when the module could not be initialised, which \<open>loadFromFileName\<close> does not check.
\<close>

definition CharLowerA :: "std_string \<Rightarrow> std_string" where
  "CharLowerA s = map (\<lambda>c. if 0x41 \<le> c \<and> c \<le> 0x5a then c + 0x20 else c) s"

definition loadFromName ::
  "system \<Rightarrow> std_string \<Rightarrow> (std_string \<Rightarrow> std_string option \<Rightarrow> std_string option \<Rightarrow> int) option option" where
  "loadFromName Y name =
     (let filename = getLibraryPath Y @ str ''/libfreerds-auth-'' @ CharLowerA name @ str ''.so''
      in auth_library Y filename)"

definition logonUser ::
  "(std_string \<Rightarrow> std_string option \<Rightarrow> std_string option \<Rightarrow> int) option \<Rightarrow>
   std_string \<Rightarrow> std_string \<Rightarrow> std_string \<Rightarrow> int" where
  "logonUser auth username domain password =
     (case auth of
        None \<Rightarrow> -1
      | Some LogonUser \<Rightarrow>
          if username = [] then -1
          else LogonUser username (if domain = [] then None else Some domain)
                 (if password = [] then None else Some password))"

section \<open>Sessions\<close>

text \<open>
  The connect states the manager uses, and the changes of state it announces; \<open>getStateChange\<close> returns 0,
  here \<open>None\<close>, where nothing is announced.
\<close>

datatype WTS_CONNECTSTATE_CLASS = WTSActive | WTSConnected | WTSConnectQuery | WTSDisconnected | WTSDown

datatype session_change =
    WTS_SESSION_CREATE | WTS_SESSION_TERMINATE | WTS_REMOTE_CONNECT | WTS_REMOTE_DISCONNECT
  | WTS_SESSION_LOGON | WTS_SESSION_LOGOFF

text \<open>
  Effects: a notification, starting, stopping and freeing the context of a module, and a question to the
  authentication module with its answer.  Contexts are numbered as they are allocated.
\<close>

datatype manager_effect =
    fireSessionEvent UINT32 session_change
  | ModuleStart std_string nat RDS_MODULE_COMMON
  | ModuleStop std_string "nat option"
  | ModuleFree std_string "nat option"
  | AuthCall std_string std_string std_string int

record Session =
  m_SessionId :: UINT32
  mAuthSession :: bool
  mSessionStarted :: bool
  mUsername :: std_string
  mDomain :: std_string
  mWinStationName :: std_string
  mClientBuildNumber :: UINT32
  mClientName :: std_string
  mClientProductId :: UINT16
  mClientHardwareId :: UINT32
  mClientAddress :: std_string
  mClientDisplayWidth :: UINT32
  mClientDisplayHeight :: UINT32
  mClientDisplayColorDepth :: UINT32
  mClientProtocolType :: UINT16
  mPipeName :: std_string
  mUserToken :: "nat option"
  mpEnvBlock :: mem_ptr
  mModuleConfigName :: std_string
  mSessionModuleName :: std_string
  mCurrentModuleContext :: "nat option"
  mCurrentState :: WTS_CONNECTSTATE_CLASS
  mCurrentStateChangeTime :: nat

definition new_Session :: "UINT32 \<Rightarrow> Session \<times> manager_effect list" where
  "new_Session sessionId =
     (\<lparr>m_SessionId = sessionId, mAuthSession = False, mSessionStarted = False, mUsername = [], mDomain = [],
       mWinStationName = [], mClientBuildNumber = 0, mClientName = [], mClientProductId = 0,
       mClientHardwareId = 0, mClientAddress = [], mClientDisplayWidth = 0, mClientDisplayHeight = 0,
       mClientDisplayColorDepth = 0, mClientProtocolType = 0, mPipeName = [], mUserToken = None,
       mpEnvBlock = None, mModuleConfigName = [], mSessionModuleName = [], mCurrentModuleContext = None,
       mCurrentState = WTSDown, mCurrentStateChangeTime = 0\<rparr>,
      [fireSessionEvent sessionId WTS_SESSION_CREATE])"

definition getStateChange ::
  "WTS_CONNECTSTATE_CLASS \<Rightarrow> WTS_CONNECTSTATE_CLASS \<Rightarrow> session_change option" where
  "getStateChange oldState newState =
     (case newState of
        WTSConnected \<Rightarrow> if newState \<noteq> oldState then Some WTS_REMOTE_CONNECT else None
      | WTSDisconnected \<Rightarrow> if newState \<noteq> oldState then Some WTS_REMOTE_DISCONNECT else None
      | WTSActive \<Rightarrow> if newState \<noteq> oldState then Some WTS_SESSION_LOGON else None
      | _ \<Rightarrow> if oldState = WTSActive \<or> oldState = WTSDisconnected then Some WTS_SESSION_LOGOFF else None)"

definition clearClient :: "Session \<Rightarrow> Session" where
  "clearClient s =
     s\<lparr>mClientName := [], mClientAddress := [], mClientBuildNumber := 0, mClientProductId := 0,
       mClientHardwareId := 0, mClientProtocolType := 0\<rparr>"

definition setConnectState ::
  "system \<Rightarrow> Session \<Rightarrow> WTS_CONNECTSTATE_CLASS \<Rightarrow> Session \<times> manager_effect list" where
  "setConnectState Y s state =
     (if mCurrentState s \<noteq> state
      then let stateChange = getStateChange (mCurrentState s) state;
               s = s\<lparr>mCurrentState := state, mCurrentStateChangeTime := universal_time Y\<rparr>;
               s = (if state \<noteq> WTSConnected \<and> state \<noteq> WTSActive then clearClient s else s)
           in (s, case stateChange of None \<Rightarrow> [] | Some change \<Rightarrow> [fireSessionEvent (m_SessionId s) change])
      else (s, []))"

definition delete_Session :: "system \<Rightarrow> Session \<Rightarrow> manager_effect list" where
  "delete_Session Y s =
     (let (s, effects) = setConnectState Y s WTSDown
      in effects @ [fireSessionEvent (m_SessionId s) WTS_SESSION_TERMINATE])"

definition generateUserToken :: "system \<Rightarrow> Session \<Rightarrow> bool \<times> Session" where
  "generateUserToken Y s =
     (if mUsername s = [] then (False, s)
      else let (ok, token) = LogonUserA Y (mUsername s) (mDomain s) in (ok, s\<lparr>mUserToken := token\<rparr>))"

text \<open>\<open>sprintf\<close> of a number with \<open>%d\<close>.\<close>

fun digits :: "nat \<Rightarrow> std_string" where
  "digits n = (if n < 10 then [0x30 + of_nat n] else digits (n div 10) @ [0x30 + of_nat (n mod 10)])"

declare digits.simps [simp del]

definition decimal :: "int \<Rightarrow> std_string" where
  "decimal i = (if i < 0 then 0x2d # digits (nat (- i)) else digits (nat i))"

definition generateEnvBlockAndModify :: "system \<Rightarrow> Session \<Rightarrow> bool \<times> Session" where
  "generateEnvBlockAndModify Y s =
     (if mUsername s = [] then (False, s)
      else let s = s\<lparr>mpEnvBlock := None\<rparr>
           in case getpwnam Y (mUsername s) of
                None \<Rightarrow> (False, s)
              | Some pwnam \<Rightarrow>
                  (let e = mpEnvBlock s;
                       e = SetEnvironmentVariableEBA Y e (str ''UID'') (decimal (pw_uid pwnam));
                       e = SetEnvironmentVariableEBA Y e (str ''SHELL'') (pw_shell pwnam);
                       e = SetEnvironmentVariableEBA Y e (str ''USER'') (pw_name pwnam);
                       e = SetEnvironmentVariableEBA Y e (str ''HOME'') (pw_dir pwnam)
                   in (True, s\<lparr>mpEnvBlock := e\<rparr>)))"

definition generateAuthEnvBlockAndModify :: "system \<Rightarrow> Session \<Rightarrow> bool \<times> Session" where
  "generateAuthEnvBlockAndModify Y s =
     (let e = None;
          e = (if mUsername s \<noteq> [] then SetEnvironmentVariableEBA Y e (str ''FREERDS_USER'') (mUsername s) else e);
          e = (if mDomain s \<noteq> [] then SetEnvironmentVariableEBA Y e (str ''FREERDS_DOMAIN'') (mDomain s) else e)
      in (True, s\<lparr>mpEnvBlock := e\<rparr>))"

text \<open>
  \<open>dupEnv\<close> walks over the strings of a block until two bytes of which one is NUL, and copies what it has
  passed with one byte more; the copy has two bytes more, of which the last is not set.  The block must end
  with two NUL bytes, otherwise the walk leaves it (\<open>None\<close>).
\<close>

fun env_length :: "byte list \<Rightarrow> nat option" where
  "env_length (c # d # bs) =
     (if c \<noteq> 0 \<and> d \<noteq> 0
      then let n = strlen (c # d # bs) + 1
           in if n \<le> length (c # d # bs) then map_option ((+) n) (env_length (drop n (c # d # bs))) else None
      else Some 0)"
| "env_length [c] = (if c = 0 then Some 0 else None)"
| "env_length [] = None"

definition dupEnv :: "mem_ptr \<Rightarrow> mem_ptr option" where
  "dupEnv orgBlock =
     (case orgBlock of
        None \<Rightarrow> Some None
      | Some b \<Rightarrow>
          (case env_length b of
             None \<Rightarrow> None
           | Some len \<Rightarrow> if len + 1 \<le> length b then Some (Some (take (len + 1) b)) else None))"

text \<open>
  \<open>startModule\<close> with the number of the next context.  The value is \<open>None\<close> where copying the environment
  block leaves it; otherwise the result, the pipe name the caller gets on success, the session, the next
  context number and the effects.
\<close>

record start_result =
  sr_ok :: bool
  sr_session :: Session
  sr_next :: nat
  sr_effects :: "manager_effect list"

definition start_failed :: "Session \<Rightarrow> nat \<Rightarrow> start_result" where
  "start_failed s next = \<lparr>sr_ok = False, sr_session = s, sr_next = next, sr_effects = []\<rparr>"

definition module_context :: "Session \<Rightarrow> mem_ptr \<Rightarrow> std_string \<Rightarrow> RDS_MODULE_COMMON" where
  "module_context s env configBaseName =
     \<lparr>mod_sessionId = ucast (m_SessionId s), mod_userName = mUsername s, mod_userToken = mUserToken s,
      mod_envBlock = env, mod_baseConfigPath = configBaseName,
      mod_desktopWidth = mClientDisplayWidth s, mod_desktopHeight = mClientDisplayHeight s\<rparr>"

definition startModule ::
  "'i ini_ops \<Rightarrow> 'i \<Rightarrow> system \<Rightarrow> modules_map \<Rightarrow> nat \<Rightarrow> Session \<Rightarrow> start_result option" where
  "startModule I ini Y modules next s =
     (if mSessionStarted s then Some (start_failed s next)
      else
        let configBaseName = str ''module.'' @ mModuleConfigName s;
            queryString = configBaseName @ str ''.modulename''
        in case getPropertyString I ini queryString of
             None \<Rightarrow> Some (start_failed s next)
           | Some name \<Rightarrow>
               (let s = s\<lparr>mSessionModuleName := name\<rparr>
                in case getModule modules name of
                     None \<Rightarrow> Some (start_failed s next)
                   | Some currentModule \<Rightarrow>
                       do {
                         env \<leftarrow> dupEnv (mpEnvBlock s);
                         let context = module_context s env configBaseName;
                         let s = s\<lparr>mCurrentModuleContext := Some next\<rparr>;
                         let pName = Module_start currentModule context;
                         let started = [ModuleStart name next context];
                         if pName = []
                         then Some \<lparr>sr_ok = False, sr_session = s, sr_next = next + 1, sr_effects = started\<rparr>
                         else
                           let s = s\<lparr>mPipeName := pName, mSessionStarted := True\<rparr>;
                               (s, effects) = setConnectState Y s WTSConnected
                           in Some \<lparr>sr_ok = True, sr_session = s, sr_next = next + 1,
                                    sr_effects = started @ effects\<rparr>
                       }))"

definition stopModule ::
  "system \<Rightarrow> modules_map \<Rightarrow> Session \<Rightarrow> bool \<times> Session \<times> manager_effect list" where
  "stopModule Y modules s =
     (if \<not> mSessionStarted s then (False, s, [])
      else case getModule modules (mSessionModuleName s) of
             None \<Rightarrow> (False, s, [])
           | Some currentModule \<Rightarrow>
               (let stopped = [ModuleStop (mSessionModuleName s) (mCurrentModuleContext s),
                               ModuleFree (mSessionModuleName s) (mCurrentModuleContext s)];
                    s = s\<lparr>mCurrentModuleContext := None, mPipeName := []\<rparr>;
                    (s, effects) = setConnectState Y s WTSDown
                in (True, s, stopped @ effects)))"

section \<open>Lemmas\<close>

lemma setConnectState_fields [simp]:
  "m_SessionId (fst (setConnectState Y s st)) = m_SessionId s"
  "mAuthSession (fst (setConnectState Y s st)) = mAuthSession s"
  "mSessionStarted (fst (setConnectState Y s st)) = mSessionStarted s"
  "mUsername (fst (setConnectState Y s st)) = mUsername s"
  "mDomain (fst (setConnectState Y s st)) = mDomain s"
  "mPipeName (fst (setConnectState Y s st)) = mPipeName s"
  "mCurrentModuleContext (fst (setConnectState Y s st)) = mCurrentModuleContext s"
  "mSessionModuleName (fst (setConnectState Y s st)) = mSessionModuleName s"
  "mCurrentState (fst (setConnectState Y s st)) = st"
  by (simp_all add: setConnectState_def clearClient_def Let_def)

text \<open>Leaving the connected states erases what identified the client.\<close>

definition no_client :: "Session \<Rightarrow> bool" where
  "no_client s \<longleftrightarrow>
     mClientName s = [] \<and> mClientAddress s = [] \<and> mClientBuildNumber s = 0 \<and> mClientProductId s = 0 \<and>
     mClientHardwareId s = 0 \<and> mClientProtocolType s = 0"

lemma setConnectState_clears:
  "mCurrentState s \<noteq> st \<Longrightarrow> st \<noteq> WTSConnected \<Longrightarrow> st \<noteq> WTSActive \<Longrightarrow> no_client (fst (setConnectState Y s st))"
  by (simp add: setConnectState_def clearClient_def no_client_def Let_def)

lemma setConnectState_idem:
  "setConnectState Y (fst (setConnectState Y s st)) st = (fst (setConnectState Y s st), [])"
  by (subst setConnectState_def) simp

end
