(* ===== verification/Rds_Manager_Stores.thy ===== *)
theory Rds_Manager_Stores
  imports Rds_Manager_Session
begin

text \<open>
  The stores of the session manager: \<open>manager/session/SessionStore.cpp\<close>, \<open>ConnectionStore.cpp\<close> and
  \<open>Connection.cpp\<close>, and the queue of \<open>manager/task/Executor.cpp\<close>, as one state.  A shared pointer to a session or to a
  connection is its key in the store, and writing through it is storing the new value under that key.
\<close>

section \<open>State\<close>

record Connection =
  m_ConnectionId :: UINT32
  c_SessionId :: UINT32
  m_About2SwitchSessionId :: UINT32
  m_AuthStatus :: int
  ci_with :: UINT32
  ci_height :: UINT32
  ci_colordepth :: UINT32
  m_Username :: std_string
  m_Domain :: std_string

datatype manager_task =
    TaskSwitchTo UINT32 std_string UINT32 UINT32
  | TaskEndSession UINT32
  | TaskModuleShutdown UINT32

text \<open>
  \<open>mg_contexts\<close> is the number of the next module context, and \<open>mg_log\<close> the effects so far.
\<close>

record 'i manager =
  mg_ini :: 'i
  mg_modules :: modules_map
  m_SessionMap :: "(UINT32, Session) omap"
  m_NextSessionId :: UINT32
  m_ConnectionMap :: "(UINT32, Connection) omap"
  m_Tasks :: "manager_task list"
  m_Running :: bool
  mg_contexts :: nat
  mg_log :: "manager_effect list"

definition emit :: "manager_effect list \<Rightarrow> 'i manager \<Rightarrow> 'i manager" where
  "emit es m = m\<lparr>mg_log := mg_log m @ es\<rparr>"

definition store_session :: "Session \<Rightarrow> 'i manager \<Rightarrow> 'i manager" where
  "store_session s m = m\<lparr>m_SessionMap := omap_put (m_SessionId s) s (m_SessionMap m)\<rparr>"

definition store_connection :: "Connection \<Rightarrow> 'i manager \<Rightarrow> 'i manager" where
  "store_connection c m = m\<lparr>m_ConnectionMap := omap_put (m_ConnectionId c) c (m_ConnectionMap m)\<rparr>"

section \<open>The store of sessions\<close>

definition getSession :: "'i manager \<Rightarrow> UINT32 \<Rightarrow> Session option" where
  "getSession m sessionId = omap_get (m_SessionMap m) sessionId"

text \<open>The counter wraps around; a session that still has the number is replaced and deleted.\<close>

definition createSession :: "system \<Rightarrow> 'i manager \<Rightarrow> Session \<times> 'i manager" where
  "createSession Y m =
     (let (session, effects) = new_Session (m_NextSessionId m);
          replaced = (case getSession m (m_SessionId session) of None \<Rightarrow> [] | Some old \<Rightarrow> delete_Session Y old);
          m = m\<lparr>m_NextSessionId := m_NextSessionId m + 1\<rparr>
      in (session, emit (effects @ replaced) (store_session session m)))"

definition getFirstSessionUserName :: "'i manager \<Rightarrow> std_string \<Rightarrow> std_string \<Rightarrow> Session option" where
  "getFirstSessionUserName m username domain =
     map_option snd (find (\<lambda>(_, s). mUsername s = username \<and> mDomain s = domain) (m_SessionMap m))"

definition getFirstDisconnectedSessionUserName ::
  "'i manager \<Rightarrow> std_string \<Rightarrow> std_string \<Rightarrow> Session option" where
  "getFirstDisconnectedSessionUserName m username domain =
     map_option snd
       (find (\<lambda>(_, s). mUsername s = username \<and> mDomain s = domain \<and> mCurrentState s = WTSDisconnected)
         (m_SessionMap m))"

definition removeSession :: "UINT32 \<Rightarrow> 'i manager \<Rightarrow> 'i manager" where
  "removeSession sessionId m = m\<lparr>m_SessionMap := omap_erase sessionId (m_SessionMap m)\<rparr>"

definition getAllSessions :: "'i manager \<Rightarrow> Session list" where
  "getAllSessions m = map snd (m_SessionMap m)"

section \<open>The store of connections\<close>

definition new_Connection :: "UINT32 \<Rightarrow> Connection" where
  "new_Connection connectionId =
     \<lparr>m_ConnectionId = connectionId, c_SessionId = 0, m_About2SwitchSessionId = 0, m_AuthStatus = -1,
      ci_with = 0, ci_height = 0, ci_colordepth = 0, m_Username = [], m_Domain = []\<rparr>"

definition getConnection :: "'i manager \<Rightarrow> UINT32 \<Rightarrow> Connection option" where
  "getConnection m connectionId = omap_get (m_ConnectionMap m) connectionId"

definition getOrCreateConnection :: "UINT32 \<Rightarrow> 'i manager \<Rightarrow> Connection \<times> 'i manager" where
  "getOrCreateConnection connectionId m =
     (case getConnection m connectionId of
        Some connection \<Rightarrow> (connection, m)
      | None \<Rightarrow> (let connection = new_Connection connectionId in (connection, store_connection connection m)))"

definition removeConnection :: "UINT32 \<Rightarrow> 'i manager \<Rightarrow> 'i manager" where
  "removeConnection connectionId m = m\<lparr>m_ConnectionMap := omap_erase connectionId (m_ConnectionMap m)\<rparr>"

definition getConnectionIdForSessionId :: "'i manager \<Rightarrow> UINT32 \<Rightarrow> UINT32" where
  "getConnectionIdForSessionId m sessionId =
     (case find (\<lambda>(_, c). c_SessionId c = sessionId \<or> m_About2SwitchSessionId c = sessionId) (m_ConnectionMap m) of
        None \<Rightarrow> 0
      | Some (connectionId, _) \<Rightarrow> connectionId)"

definition ConnectionStore_reset :: "'i manager \<Rightarrow> 'i manager" where
  "ConnectionStore_reset m = m\<lparr>m_ConnectionMap := []\<rparr>"

section \<open>Authentication of a connection\<close>

definition Connection_authenticateUser ::
  "'i ini_ops \<Rightarrow> system \<Rightarrow> std_string \<Rightarrow> std_string \<Rightarrow> std_string \<Rightarrow> Connection \<Rightarrow> 'i manager \<Rightarrow>
   int \<times> Connection \<times> 'i manager" where
  "Connection_authenticateUser I Y username domain password c m =
     (if m_AuthStatus c = 0 then (-1, c, m)
      else
        let authModule = (case getPropertyString I (mg_ini m) (str ''auth.module'') of
                            None \<Rightarrow> str ''PAM''
                          | Some name \<Rightarrow> name)
        in case loadFromName Y authModule of
             None \<Rightarrow> (1, c, m)
           | Some auth \<Rightarrow>
               (let status = logonUser auth username domain password;
                    m = emit [AuthCall username domain password status] m;
                    c = c\<lparr>m_AuthStatus := status\<rparr>;
                    c = (if status = 0 then c\<lparr>m_Username := username, m_Domain := domain\<rparr> else c)
                in (status, c, store_connection c m)))"

section \<open>Tasks and changes of a session\<close>

definition addTask :: "manager_task \<Rightarrow> 'i manager \<Rightarrow> 'i manager" where
  "addTask task m = (if m_Running m then m\<lparr>m_Tasks := m_Tasks m @ [task]\<rparr> else m)"

definition set_state :: "system \<Rightarrow> WTS_CONNECTSTATE_CLASS \<Rightarrow> Session \<Rightarrow> 'i manager \<Rightarrow> Session \<times> 'i manager" where
  "set_state Y state s m = (let (s, effects) = setConnectState Y s state in (s, store_session s (emit effects m)))"

definition start_session ::
  "'i ini_ops \<Rightarrow> system \<Rightarrow> Session \<Rightarrow> 'i manager \<Rightarrow> (bool \<times> Session \<times> 'i manager) option" where
  "start_session I Y s m =
     map_option
       (\<lambda>r. (sr_ok r, sr_session r,
             store_session (sr_session r) (emit (sr_effects r) (m\<lparr>mg_contexts := sr_next r\<rparr>))))
       (startModule I (mg_ini m) Y (mg_modules m) (mg_contexts m) s)"

text \<open>
  Stopping the module of a session and removing it from the store; the destructor of the session runs when
  the last pointer to it goes, at the end of the routine that removed it.
\<close>

definition stopSession :: "system \<Rightarrow> UINT32 \<Rightarrow> 'i manager \<Rightarrow> 'i manager" where
  "stopSession Y sessionId m =
     (case getSession m sessionId of
        None \<Rightarrow> m
      | Some session \<Rightarrow>
          (let (_, session, effects) = stopModule Y (mg_modules m) session
           in emit (delete_Session Y session) (removeSession sessionId (emit effects m))))"

end
