(* ===== verification/Rds_Manager_Calls.thy ===== *)
theory Rds_Manager_Calls
  imports Rds_Manager_Stores
begin

text \<open>
  The handlers of the session manager: \<open>doStuff\<close> of the incoming calls (\<open>manager/call/CallIn*.cpp\<close>),
  \<open>FDSApiHandler::authenticateUser\<close> and the queries of \<open>manager/fdsapi/FDSApiHandler.cpp\<close>, the tasks
  (\<open>TaskSwitchTo\<close>, \<open>TaskEndSession\<close>, \<open>TaskModuleShutdown\<close>, \<open>TaskSessionTimeout\<close>) and
  \<open>ApplicationContext::rpcDisconnected\<close>.  A task that waits for the answer of the server is split at that point.
  The value \<open>None\<close> is an environment block that \<open>dupEnv\<close> runs out of.
\<close>

section \<open>CallInLogonUser\<close>

record CallInLogonUser =
  lu_ConnectionId :: UINT32
  lu_UserName :: std_string
  lu_DomainName :: std_string
  lu_Password :: std_string
  lu_Width :: UINT32
  lu_Height :: UINT32
  lu_ColorDepth :: UINT32
  lu_ClientName :: std_string
  lu_ClientAddress :: std_string
  lu_ClientBuildNumber :: UINT32
  lu_ClientProductId :: UINT32
  lu_ClientHardwareId :: UINT32
  lu_ClientProtocolType :: UINT32
  lu_PipeName :: std_string
  lu_Result :: UINT32

definition set_client :: "CallInLogonUser \<Rightarrow> Session \<Rightarrow> Session" where
  "set_client c s =
     s\<lparr>mClientDisplayWidth := lu_Width c, mClientDisplayHeight := lu_Height c,
       mClientDisplayColorDepth := lu_ColorDepth c, mClientName := lu_ClientName c,
       mClientAddress := lu_ClientAddress c, mClientBuildNumber := lu_ClientBuildNumber c,
       mClientProductId := ucast (lu_ClientProductId c), mClientHardwareId := lu_ClientHardwareId c,
       mClientProtocolType := ucast (lu_ClientProtocolType c)\<rparr>"

definition winstation :: "UINT32 \<Rightarrow> std_string" where
  "winstation connectionId = str ''RDP-Tcp#'' @ decimal (sint connectionId)"

definition attach_session :: "CallInLogonUser \<Rightarrow> Session \<Rightarrow> Connection \<Rightarrow> Connection" where
  "attach_session c s conn =
     conn\<lparr>c_SessionId := m_SessionId s, ci_with := lu_Width c, ci_height := lu_Height c,
          ci_colordepth := lu_ColorDepth c\<rparr>"

definition CallInLogonUser_authenticateUser ::
  "'i ini_ops \<Rightarrow> system \<Rightarrow> CallInLogonUser \<Rightarrow> 'i manager \<Rightarrow> int \<times> 'i manager" where
  "CallInLogonUser_authenticateUser I Y c m =
     (let (currentConnection, m) = getOrCreateConnection (lu_ConnectionId c) m;
          (authStatus, _, m) = Connection_authenticateUser I Y (lu_UserName c) (lu_DomainName c) (lu_Password c)
                                 currentConnection m
      in (authStatus, m))"

text \<open>
  A new session for an authenticated user, shared by the two handlers that create one; \<open>setup\<close> sets the
  fields that only one of them sets.  The flag is \<open>False\<close> where the handler returns early.
\<close>

definition reconnect_allowed :: "'i ini_ops \<Rightarrow> 'i manager \<Rightarrow> bool" where
  "reconnect_allowed I m =
     (case getPropertyBool I (mg_ini m) (str ''session.reconnect'') of None \<Rightarrow> True | Some b \<Rightarrow> b)"

definition user_module :: "'i ini_ops \<Rightarrow> 'i manager \<Rightarrow> std_string" where
  "user_module I m =
     (case getPropertyString I (mg_ini m) (str ''module'') of None \<Rightarrow> str ''X11'' | Some name \<Rightarrow> name)"

definition new_user_session ::
  "'i ini_ops \<Rightarrow> system \<Rightarrow> std_string \<Rightarrow> std_string \<Rightarrow> (Session \<Rightarrow> Session) \<Rightarrow> 'i manager \<Rightarrow>
   bool \<times> Session \<times> 'i manager" where
  "new_user_session I Y username domain setup m =
     (let (s, m) = createSession Y m;
          s = setup (s\<lparr>mUsername := username, mDomain := domain\<rparr>);
          (ok, s) = generateUserToken Y s
      in if \<not> ok then (False, s, store_session s m)
         else let (ok, s) = generateEnvBlockAndModify Y s
              in if \<not> ok then (False, s, store_session s m)
                 else let s = s\<lparr>mModuleConfigName := user_module I m\<rparr> in (True, s, store_session s m))"

definition CallInLogonUser_getUserSession ::
  "'i ini_ops \<Rightarrow> system \<Rightarrow> CallInLogonUser \<Rightarrow> 'i manager \<Rightarrow> (CallInLogonUser \<times> 'i manager) option" where
  "CallInLogonUser_getUserSession I Y c m =
     (let (currentConnection, m) = getOrCreateConnection (lu_ConnectionId c) m;
          found = (if reconnect_allowed I m
                   then getFirstDisconnectedSessionUserName m (lu_UserName c) (lu_DomainName c) else None);
          (ok, s, m) =
            (case found of
               Some s \<Rightarrow> (let s = set_client c s in (True, s, store_session s m))
             | None \<Rightarrow> new_user_session I Y (lu_UserName c) (lu_DomainName c)
                         (\<lambda>s. (set_client c s)\<lparr>mWinStationName := winstation (lu_ConnectionId c)\<rparr>) m)
      in if \<not> ok then Some (c\<lparr>lu_Result := 1\<rparr>, m)
         else
           let m = store_connection (attach_session c s currentConnection) m
           in do {
                (ok, s, m) \<leftarrow> (if mCurrentState s = WTSDown then start_session I Y s m else Some (True, s, m));
                if \<not> ok then Some (c\<lparr>lu_Result := 1\<rparr>, m)
                else let (s, m) = set_state Y WTSActive s m in Some (c\<lparr>lu_PipeName := mPipeName s\<rparr>, m)
              })"

definition CallInLogonUser_getAuthSession ::
  "'i ini_ops \<Rightarrow> system \<Rightarrow> CallInLogonUser \<Rightarrow> 'i manager \<Rightarrow> (CallInLogonUser \<times> 'i manager) option" where
  "CallInLogonUser_getAuthSession I Y c m =
     (let (currentConnection, m) = getOrCreateConnection (lu_ConnectionId c) m;
          (s, m) = createSession Y m;
          greeter = (case getPropertyString I (mg_ini m) (str ''auth.greeter'') of
                       None \<Rightarrow> str ''Qt''
                     | Some name \<Rightarrow> name);
          s = (set_client c (s\<lparr>mModuleConfigName := greeter, mUsername := lu_UserName c, mDomain := lu_DomainName c\<rparr>))
                \<lparr>mWinStationName := winstation (lu_ConnectionId c)\<rparr>;
          (ok, s) = generateAuthEnvBlockAndModify Y s
      in if \<not> ok then Some (c\<lparr>lu_Result := 1\<rparr>, store_session s m)
         else
           let m = store_connection (attach_session c s currentConnection) m;
               s = s\<lparr>mAuthSession := True\<rparr>;
               m = store_session s m
           in do {
                (ok, s, m) \<leftarrow> start_session I Y s m;
                if \<not> ok then Some (c\<lparr>lu_Result := 1\<rparr>, m)
                else let (s, m) = set_state Y WTSConnected s m in Some (c\<lparr>lu_PipeName := mPipeName s\<rparr>, m)
              })"

definition CallInLogonUser_doStuff ::
  "'i ini_ops \<Rightarrow> system \<Rightarrow> CallInLogonUser \<Rightarrow> 'i manager \<Rightarrow> (CallInLogonUser \<times> 'i manager) option" where
  "CallInLogonUser_doStuff I Y c m =
     (let (authStatus, m) = CallInLogonUser_authenticateUser I Y c m
      in if authStatus \<noteq> 0 then CallInLogonUser_getAuthSession I Y c m
         else CallInLogonUser_getUserSession I Y c m)"

section \<open>CallInAuthenticateUser\<close>

record CallInAuthenticateUser =
  au_SessionId :: UINT32
  au_UserName :: std_string
  au_DomainName :: std_string
  au_Password :: std_string
  au_AuthStatus :: int
  au_Result :: UINT32

definition CallInAuthenticateUser_authenticateUser ::
  "'i ini_ops \<Rightarrow> system \<Rightarrow> CallInAuthenticateUser \<Rightarrow> 'i manager \<Rightarrow> int \<times> CallInAuthenticateUser \<times> 'i manager" where
  "CallInAuthenticateUser_authenticateUser I Y c m =
     (let connectionId = getConnectionIdForSessionId m (au_SessionId c)
      in case getConnection m connectionId of
           None \<Rightarrow> (-1, c\<lparr>au_AuthStatus := -1\<rparr>, m)
         | Some currentConnection \<Rightarrow>
             (let (status, _, m) = Connection_authenticateUser I Y (au_UserName c) (au_DomainName c) (au_Password c)
                                  currentConnection m
              in (status, c\<lparr>au_AuthStatus := status\<rparr>, m)))"

definition CallInAuthenticateUser_getUserSession ::
  "'i ini_ops \<Rightarrow> system \<Rightarrow> CallInAuthenticateUser \<Rightarrow> 'i manager \<Rightarrow> (CallInAuthenticateUser \<times> 'i manager) option" where
  "CallInAuthenticateUser_getUserSession I Y c m =
     (let found = (if reconnect_allowed I m
                   then getFirstDisconnectedSessionUserName m (au_UserName c) (au_DomainName c) else None);
          (ok, s, m) =
            (case found of
               None \<Rightarrow> new_user_session I Y (au_UserName c) (au_DomainName c) (\<lambda>s. s) m
             | Some s \<Rightarrow> (let (s, m) = set_state Y WTSConnectQuery s m in (True, s, m)))
      in if \<not> ok then Some (c\<lparr>au_Result := 1\<rparr>, m)
         else
           let connectionId = getConnectionIdForSessionId m (au_SessionId c);
               (conn, m) = getOrCreateConnection connectionId m;
               m = store_connection (conn\<lparr>m_About2SwitchSessionId := m_SessionId s\<rparr>) m
           in do {
                (ok, s, m) \<leftarrow> (if mCurrentState s = WTSDown then start_session I Y s m else Some (True, s, m));
                if \<not> ok then Some (c\<lparr>au_Result := 1\<rparr>, m)
                else Some (c, addTask (TaskSwitchTo connectionId (mPipeName s) (au_SessionId c) (m_SessionId s)) m)
              })"

definition CallInAuthenticateUser_doStuff ::
  "'i ini_ops \<Rightarrow> system \<Rightarrow> CallInAuthenticateUser \<Rightarrow> 'i manager \<Rightarrow> (CallInAuthenticateUser \<times> 'i manager) option" where
  "CallInAuthenticateUser_doStuff I Y c m =
     (let (status, c, m) = CallInAuthenticateUser_authenticateUser I Y c m
      in if status = 0 \<and> au_AuthStatus c = 0 then CallInAuthenticateUser_getUserSession I Y c m else Some (c, m))"

section \<open>The other incoming calls\<close>

definition session_timeout :: "'i ini_ops \<Rightarrow> 'i manager \<Rightarrow> int" where
  "session_timeout I m =
     (case getPropertyNumber I (mg_ini m) (str ''session.timeout'') of None \<Rightarrow> 0 | Some n \<Rightarrow> n)"

definition CallInDisconnectUserSession_doStuff ::
  "'i ini_ops \<Rightarrow> system \<Rightarrow> UINT32 \<Rightarrow> 'i manager \<Rightarrow> bool \<times> 'i manager" where
  "CallInDisconnectUserSession_doStuff I Y connectionId m =
     (case getConnection m connectionId of
        None \<Rightarrow> (False, m)
      | Some currentConnection \<Rightarrow>
          (case getSession m (c_SessionId currentConnection) of
             None \<Rightarrow> (False, m)
           | Some currentSession \<Rightarrow>
               (let (currentSession, m) = set_state Y WTSDisconnected currentSession m;
                    m = removeConnection connectionId m
                in (True, if session_timeout I m = 0
                          then addTask (TaskEndSession (m_SessionId currentSession)) m else m))))"

definition CallInLogOffUserSession_doStuff :: "system \<Rightarrow> UINT32 \<Rightarrow> 'i manager \<Rightarrow> bool \<times> 'i manager" where
  "CallInLogOffUserSession_doStuff Y connectionId m =
     (case getConnection m connectionId of
        None \<Rightarrow> (False, m)
      | Some currentConnection \<Rightarrow>
          (let sessionId = c_SessionId currentConnection
           in case getSession m sessionId of
                None \<Rightarrow> (False, m)
              | Some _ \<Rightarrow> (True, removeConnection connectionId (stopSession Y sessionId m))))"

definition CallInEndSession_doStuff :: "UINT32 \<Rightarrow> 'i manager \<Rightarrow> 'i manager" where
  "CallInEndSession_doStuff sessionId m = addTask (TaskEndSession sessionId) m"

section \<open>The management interface\<close>

definition copy_client :: "Session \<Rightarrow> Session \<Rightarrow> Session" where
  "copy_client a s =
     s\<lparr>mClientDisplayWidth := mClientDisplayWidth a, mClientDisplayHeight := mClientDisplayHeight a,
       mClientDisplayColorDepth := mClientDisplayColorDepth a, mClientName := mClientName a,
       mClientAddress := mClientAddress a, mClientBuildNumber := mClientBuildNumber a,
       mClientProductId := mClientProductId a, mClientHardwareId := mClientHardwareId a,
       mClientProtocolType := mClientProtocolType a, mWinStationName := mWinStationName a\<rparr>"

definition FDSApiHandler_switch ::
  "'i ini_ops \<Rightarrow> system \<Rightarrow> UINT32 \<Rightarrow> Session \<Rightarrow> UINT32 \<Rightarrow> std_string \<Rightarrow> std_string \<Rightarrow> Connection \<Rightarrow> 'i manager \<Rightarrow>
   (int \<times> 'i manager) option" where
  "FDSApiHandler_switch I Y sessionId authSession connectionId username domain connection m =
     (let found = (if reconnect_allowed I m
                   then getFirstDisconnectedSessionUserName m username domain else None);
          (isNewSession, s, m) =
            (case found of
               Some s \<Rightarrow> (False, s, m)
             | None \<Rightarrow> (let (s, m) = createSession Y m in (True, s, m)));
          s = copy_client authSession (s\<lparr>mUsername := username, mDomain := domain\<rparr>);
          (_, s) = generateUserToken Y s;
          (_, s) = generateEnvBlockAndModify Y s;
          s = s\<lparr>mModuleConfigName := user_module I m\<rparr>;
          m = store_connection (connection\<lparr>c_SessionId := m_SessionId s, ci_with := mClientDisplayWidth s,
                ci_height := mClientDisplayHeight s, ci_colordepth := mClientDisplayColorDepth s\<rparr>)
                (store_session s m)
      in do {
           (ok, s, m) \<leftarrow> (if isNewSession then start_session I Y s m else Some (True, s, m));
           if \<not> ok then Some (-1, m)
           else let m = addTask (TaskSwitchTo connectionId (mPipeName s) sessionId (m_SessionId s)) m;
                    (_, m) = set_state Y WTSActive s m
                in Some (0, m)
         })"

definition FDSApiHandler_authenticateUser ::
  "'i ini_ops \<Rightarrow> system \<Rightarrow> UINT32 \<Rightarrow> std_string \<Rightarrow> std_string \<Rightarrow> std_string \<Rightarrow> 'i manager \<Rightarrow>
   (int \<times> 'i manager) option" where
  "FDSApiHandler_authenticateUser I Y sessionId username password domain m =
     (case getSession m sessionId of
        None \<Rightarrow> Some (-1, m)
      | Some authSession \<Rightarrow>
          if \<not> mAuthSession authSession then Some (-1, m)
          else
            let connectionId = getConnectionIdForSessionId m sessionId
            in case getConnection m connectionId of
                 None \<Rightarrow> Some (-1, m)
               | Some connection \<Rightarrow>
                   (let (authStatus, connection, m) =
                          Connection_authenticateUser I Y username domain password connection m
                    in if authStatus \<noteq> 0 then Some (authStatus, m)
                       else FDSApiHandler_switch I Y sessionId authSession connectionId username domain connection m))"

text \<open>Queries; the classes of information are those of WinPR, and a value is absent where \<open>returnValue\<close> is false.\<close>

datatype WTS_INFO_CLASS =
    WTSSessionId | WTSUserName | WTSWinStationName | WTSDomainName | WTSConnectState | WTSClientBuildNumber
  | WTSClientName | WTSClientProductId | WTSClientHardwareId | WTSClientAddress | WTSClientDisplay
  | WTSClientProtocolType | WTSOtherInfo

datatype TInfoValue =
    int32Value UINT32
  | stateValue WTS_CONNECTSTATE_CLASS
  | int16Value UINT16
  | stringValue std_string
  | displayValue UINT32 UINT32 UINT32

definition querySessionInformation :: "'i manager \<Rightarrow> UINT32 \<Rightarrow> WTS_INFO_CLASS \<Rightarrow> TInfoValue option" where
  "querySessionInformation m sessionId infoClass =
     (case getSession m sessionId of
        None \<Rightarrow> None
      | Some session \<Rightarrow>
          (let connectState = mCurrentState session;
               isClientConnected = (connectState = WTSConnected \<or> connectState = WTSActive);
               client = (\<lambda>v. if isClientConnected then Some v else None)
           in case infoClass of
                WTSSessionId \<Rightarrow> Some (int32Value (m_SessionId session))
              | WTSUserName \<Rightarrow> Some (stringValue (mUsername session))
              | WTSWinStationName \<Rightarrow> Some (stringValue (mWinStationName session))
              | WTSDomainName \<Rightarrow> Some (stringValue (mDomain session))
              | WTSConnectState \<Rightarrow> Some (stateValue connectState)
              | WTSClientBuildNumber \<Rightarrow> client (int32Value (mClientBuildNumber session))
              | WTSClientName \<Rightarrow> client (stringValue (mClientName session))
              | WTSClientProductId \<Rightarrow> client (int16Value (mClientProductId session))
              | WTSClientHardwareId \<Rightarrow> client (int32Value (mClientHardwareId session))
              | WTSClientAddress \<Rightarrow> client (stringValue (mClientAddress session))
              | WTSClientDisplay \<Rightarrow>
                  client (displayValue (mClientDisplayWidth session) (mClientDisplayHeight session)
                           (mClientDisplayColorDepth session))
              | WTSClientProtocolType \<Rightarrow> client (int16Value (mClientProtocolType session))
              | WTSOtherInfo \<Rightarrow> None))"

definition enumerateSessions :: "'i manager \<Rightarrow> (UINT32 \<times> std_string \<times> WTS_CONNECTSTATE_CLASS) list" where
  "enumerateSessions m = map (\<lambda>s. (m_SessionId s, mWinStationName s, mCurrentState s)) (getAllSessions m)"

section \<open>Tasks\<close>

text \<open>What a task asks of the server, and what it does with the result of the call (0 is success).\<close>

datatype call_out =
    CallOutSwitchTo UINT32 std_string
  | CallOutLogOffUserSession UINT32

definition TaskSwitchTo_cleanUpOnError :: "system \<Rightarrow> UINT32 \<Rightarrow> UINT32 \<Rightarrow> 'i manager \<Rightarrow> 'i manager" where
  "TaskSwitchTo_cleanUpOnError Y connectionId newSessionId m =
     (let m = (case getSession m newSessionId of
                 None \<Rightarrow> m
               | Some currentSession \<Rightarrow>
                   if mCurrentState currentSession = WTSActive then stopSession Y newSessionId m
                   else if mCurrentState currentSession = WTSConnectQuery
                        then snd (set_state Y WTSDisconnected currentSession m)
                        else m)
      in case getConnection m connectionId of
           None \<Rightarrow> m
         | Some connection \<Rightarrow> store_connection (connection\<lparr>m_About2SwitchSessionId := 0\<rparr>) m)"

definition TaskSwitchTo_answered ::
  "system \<Rightarrow> UINT32 \<Rightarrow> UINT32 \<Rightarrow> UINT32 \<Rightarrow> UINT32 \<Rightarrow> 'i manager \<Rightarrow> 'i manager" where
  "TaskSwitchTo_answered Y connectionId oldSessionId newSessionId result m =
     (if result \<noteq> 0 then TaskSwitchTo_cleanUpOnError Y connectionId newSessionId m
      else
        let m = (if oldSessionId \<noteq> 0 then stopSession Y oldSessionId m else m)
        in case getConnection m connectionId of
             None \<Rightarrow> m
           | Some connection \<Rightarrow>
               store_connection (connection\<lparr>c_SessionId := newSessionId, m_About2SwitchSessionId := 0\<rparr>) m)"

definition TaskEndSession_answered ::
  "system \<Rightarrow> UINT32 \<Rightarrow> UINT32 \<Rightarrow> UINT32 \<Rightarrow> 'i manager \<Rightarrow> 'i manager" where
  "TaskEndSession_answered Y sessionId connectionId result m =
     (if result = 0 then removeConnection connectionId (stopSession Y sessionId m) else m)"

text \<open>Running a task up to its end (\<open>None\<close>) or to the call it waits for, with the connection of that call.\<close>

definition task_run ::
  "system \<Rightarrow> manager_task \<Rightarrow> 'i manager \<Rightarrow> (call_out \<times> UINT32) option \<times> 'i manager" where
  "task_run Y task m =
     (case task of
        TaskSwitchTo connectionId endpoint _ _ \<Rightarrow> (Some (CallOutSwitchTo connectionId endpoint, connectionId), m)
      | TaskEndSession sessionId \<Rightarrow>
          (let connectionId = getConnectionIdForSessionId m sessionId
           in if connectionId = 0 then (None, stopSession Y sessionId m)
              else (Some (CallOutLogOffUserSession connectionId, connectionId), m))
      | TaskModuleShutdown sessionId \<Rightarrow>
          (let connectionId = getConnectionIdForSessionId m sessionId;
               m = stopSession Y sessionId m
           in if connectionId \<noteq> 0 then (Some (CallOutLogOffUserSession connectionId, connectionId), m)
              else (None, m)))"

definition task_answered ::
  "system \<Rightarrow> manager_task \<Rightarrow> UINT32 \<Rightarrow> UINT32 \<Rightarrow> 'i manager \<Rightarrow> 'i manager" where
  "task_answered Y task connectionId result m =
     (case task of
        TaskSwitchTo _ _ oldSessionId newSessionId \<Rightarrow>
          TaskSwitchTo_answered Y connectionId oldSessionId newSessionId result m
      | TaskEndSession sessionId \<Rightarrow> TaskEndSession_answered Y sessionId connectionId result m
      | TaskModuleShutdown _ \<Rightarrow> removeConnection connectionId m)"

text \<open>
  One round of \<open>TaskSessionTimeout\<close>.  Times are whole seconds, and the division truncates towards zero.
\<close>

definition minutes_between :: "nat \<Rightarrow> nat \<Rightarrow> int" where
  "minutes_between before now =
     (let d = int now - int before in if d < 0 then - (- d div 60) else d div 60)"

definition session_timed_out :: "'i ini_ops \<Rightarrow> system \<Rightarrow> 'i manager \<Rightarrow> Session \<Rightarrow> bool" where
  "session_timed_out I Y m s \<longleftrightarrow>
     mCurrentState s = WTSDisconnected \<and> session_timeout I m \<ge> 0 \<and>
     minutes_between (mCurrentStateChangeTime s) (universal_time Y) \<ge> session_timeout I m"

definition TaskSessionTimeout_round :: "'i ini_ops \<Rightarrow> system \<Rightarrow> 'i manager \<Rightarrow> 'i manager" where
  "TaskSessionTimeout_round I Y m =
     fold (\<lambda>s m. if session_timed_out I Y m s then addTask (TaskEndSession (m_SessionId s)) m else m)
       (getAllSessions m) m"

definition CallBacks_shutdown :: "UINT32 \<Rightarrow> 'i manager \<Rightarrow> 'i manager" where
  "CallBacks_shutdown sessionId m = addTask (TaskModuleShutdown sessionId) m"

section \<open>Loss of the connection to the server\<close>

text \<open>The list of all sessions keeps the removed ones alive until the loop has ended.\<close>

fun disconnect_all :: "system \<Rightarrow> Session list \<Rightarrow> 'i manager \<Rightarrow> Session list \<times> 'i manager" where
  "disconnect_all Y [] m = ([], m)"
| "disconnect_all Y (s # ss) m =
     (if mAuthSession s
      then let (_, s, effects) = stopModule Y (mg_modules m) s;
               (removed, m) = disconnect_all Y ss (removeSession (m_SessionId s) (emit effects m))
           in (s # removed, m)
      else disconnect_all Y ss (snd (set_state Y WTSDisconnected s m)))"

definition rpcDisconnected :: "system \<Rightarrow> 'i manager \<Rightarrow> 'i manager" where
  "rpcDisconnected Y m =
     (let (removed, m) = disconnect_all Y (getAllSessions m) (ConnectionStore_reset m)
      in emit (concat (map (delete_Session Y) removed)) m)"

end
