(* ===== verification/Rds_Manager_Invariant.thy ===== *)
theory Rds_Manager_Invariant
  imports Rds_Manager_Calls
begin

text \<open>
  The session manager as a state machine: one step per handler, per start and answer of a task and per loss
  of the connection to the server.  The invariant says that the stores are well formed, that the
  owner of a user session has been authenticated, that a connection is attached to a user session only if
  that connection was authenticated as the owner, and that every module context is started once and
  released at most once.  Handlers run one at a time here.
\<close>

named_theorems manager_simps \<open>what the elementary operations do to the parts of the state\<close>

section \<open>Elementary operations\<close>

lemma getSession_ops [manager_simps]:
  "getSession (store_session s m) i = (if i = m_SessionId s then Some s else getSession m i)"
  "getSession (removeSession k m) i = (if i = k then None else getSession m i)"
  "getSession (emit es m) = getSession m"
  "getSession (store_connection c m) = getSession m"
  "getSession (removeConnection k m) = getSession m"
  "getSession (addTask t m) = getSession m"
  "getSession (ConnectionStore_reset m) = getSession m"
  "getSession (m\<lparr>mg_contexts := n\<rparr>) = getSession m"
  "getSession (m\<lparr>m_NextSessionId := j\<rparr>) = getSession m"
  "getSession (m\<lparr>m_Tasks := ts\<rparr>) = getSession m"
  by (auto simp: getSession_def store_session_def removeSession_def emit_def store_connection_def removeConnection_def
      addTask_def ConnectionStore_reset_def omap_get_put omap_get_erase fun_eq_iff)

lemma getConnection_ops [manager_simps]:
  "getConnection (store_connection c m) k = (if k = m_ConnectionId c then Some c else getConnection m k)"
  "getConnection (removeConnection k' m) k = (if k = k' then None else getConnection m k)"
  "getConnection (ConnectionStore_reset m) k = None"
  "getConnection (emit es m) = getConnection m"
  "getConnection (store_session s m) = getConnection m"
  "getConnection (removeSession i m) = getConnection m"
  "getConnection (addTask t m) = getConnection m"
  "getConnection (m\<lparr>mg_contexts := n\<rparr>) = getConnection m"
  "getConnection (m\<lparr>m_NextSessionId := j\<rparr>) = getConnection m"
  "getConnection (m\<lparr>m_Tasks := ts\<rparr>) = getConnection m"
  by (auto simp: getConnection_def store_session_def removeSession_def emit_def store_connection_def removeConnection_def
      addTask_def ConnectionStore_reset_def omap_get_put omap_get_erase omap_get_Nil fun_eq_iff)

lemma manager_fields [manager_simps]:
  "m_NextSessionId (store_session s m) = m_NextSessionId m" "m_NextSessionId (removeSession i m) = m_NextSessionId m"
  "m_NextSessionId (emit es m) = m_NextSessionId m" "m_NextSessionId (store_connection c m) = m_NextSessionId m"
  "m_NextSessionId (removeConnection k m) = m_NextSessionId m" "m_NextSessionId (addTask t m) = m_NextSessionId m"
  "m_NextSessionId (ConnectionStore_reset m) = m_NextSessionId m"
  "mg_log (store_session s m) = mg_log m" "mg_log (removeSession i m) = mg_log m"
  "mg_log (emit es m) = mg_log m @ es" "mg_log (store_connection c m) = mg_log m"
  "mg_log (removeConnection k m) = mg_log m" "mg_log (addTask t m) = mg_log m" "mg_log (ConnectionStore_reset m) = mg_log m"
  "mg_contexts (store_session s m) = mg_contexts m" "mg_contexts (removeSession i m) = mg_contexts m"
  "mg_contexts (emit es m) = mg_contexts m" "mg_contexts (store_connection c m) = mg_contexts m"
  "mg_contexts (removeConnection k m) = mg_contexts m" "mg_contexts (addTask t m) = mg_contexts m"
  "mg_contexts (ConnectionStore_reset m) = mg_contexts m"
  "m_Tasks (store_session s m) = m_Tasks m" "m_Tasks (removeSession i m) = m_Tasks m" "m_Tasks (emit es m) = m_Tasks m"
  "m_Tasks (store_connection c m) = m_Tasks m" "m_Tasks (removeConnection k m) = m_Tasks m"
  "m_Tasks (ConnectionStore_reset m) = m_Tasks m"
  "m_Tasks (addTask t m) = (if m_Running m then m_Tasks m @ [t] else m_Tasks m)"
  "mg_ini (store_session s m) = mg_ini m" "mg_ini (removeSession i m) = mg_ini m" "mg_ini (emit es m) = mg_ini m"
  "mg_ini (store_connection c m) = mg_ini m" "mg_ini (removeConnection k m) = mg_ini m" "mg_ini (addTask t m) = mg_ini m"
  "mg_modules (store_session s m) = mg_modules m" "mg_modules (removeSession i m) = mg_modules m"
  "mg_modules (emit es m) = mg_modules m" "mg_modules (store_connection c m) = mg_modules m"
  "mg_modules (removeConnection k m) = mg_modules m" "mg_modules (addTask t m) = mg_modules m"
  by (simp_all add: store_session_def removeSession_def emit_def store_connection_def removeConnection_def
      addTask_def ConnectionStore_reset_def)

section \<open>The invariant\<close>

definition granted :: "'i manager \<Rightarrow> std_string \<Rightarrow> std_string \<Rightarrow> bool" where
  "granted m username domain \<longleftrightarrow> (\<exists>password. AuthCall username domain password 0 \<in> set (mg_log m))"

text \<open>What makes it right to attach a connection to a session.\<close>

definition may_show :: "Connection \<Rightarrow> Session \<Rightarrow> bool" where
  "may_show c s \<longleftrightarrow> mAuthSession s \<or> m_AuthStatus c = 0 \<and> m_Username c = mUsername s \<and> m_Domain c = mDomain s"

definition stores_ok :: "'i manager \<Rightarrow> bool" where
  "stores_ok m \<longleftrightarrow> omap_ok (m_SessionMap m) \<and> omap_ok (m_ConnectionMap m)"

definition sessions_ok :: "'i manager \<Rightarrow> bool" where
  "sessions_ok m \<longleftrightarrow>
     (\<forall>i s. getSession m i = Some s \<longrightarrow>
        m_SessionId s = i \<and> i \<noteq> 0 \<and> i < m_NextSessionId m \<and>
        (\<not> mAuthSession s \<longrightarrow> granted m (mUsername s) (mDomain s)))"

definition connections_ok :: "'i manager \<Rightarrow> bool" where
  "connections_ok m \<longleftrightarrow>
     (\<forall>k c. getConnection m k = Some c \<longrightarrow>
        m_ConnectionId c = k \<and> c_SessionId c < m_NextSessionId m \<and>
        (m_AuthStatus c = 0 \<longrightarrow> granted m (m_Username c) (m_Domain c)) \<and>
        (\<forall>s. getSession m (c_SessionId c) = Some s \<longrightarrow> may_show c s))"

text \<open>
  \<open>R\<close> holds the numbers of the connections that have been removed.  A switch that has been asked for is right
  as long as its connection has not been removed.
\<close>

definition switch_ok :: "UINT32 set \<Rightarrow> 'i manager \<Rightarrow> manager_task \<Rightarrow> bool" where
  "switch_ok R m task \<longleftrightarrow>
     (case task of
        TaskSwitchTo k _ _ new \<Rightarrow>
          new < m_NextSessionId m \<and>
          (k \<in> R \<or> (\<exists>c. getConnection m k = Some c \<and> (\<forall>s. getSession m new = Some s \<longrightarrow> may_show c s)))
      | _ \<Rightarrow> True)"

type_synonym waiting_task = "(manager_task \<times> UINT32) option"

definition pending :: "'i manager \<Rightarrow> waiting_task \<Rightarrow> manager_task list" where
  "pending m w = m_Tasks m @ (case w of None \<Rightarrow> [] | Some (task, _) \<Rightarrow> [task])"

definition waiting_ok :: "waiting_task \<Rightarrow> bool" where
  "waiting_ok w \<longleftrightarrow> (case w of Some (TaskSwitchTo k _ _ _, k') \<Rightarrow> k' = k | _ \<Rightarrow> True)"

definition tasks_ok :: "UINT32 set \<Rightarrow> 'i manager \<Rightarrow> waiting_task \<Rightarrow> bool" where
  "tasks_ok R m w \<longleftrightarrow>
     (\<forall>task \<in> set (pending m w). switch_ok R m task) \<and> (\<forall>k \<in> R. getConnection m k = None) \<and> waiting_ok w"

text \<open>Module contexts: those that were started, stopped and released, in order.\<close>

fun started :: "manager_effect list \<Rightarrow> nat list" where
  "started [] = []"
| "started (ModuleStart _ k _ # es) = k # started es"
| "started (_ # es) = started es"

fun stopped :: "manager_effect list \<Rightarrow> nat option list" where
  "stopped [] = []"
| "stopped (ModuleStop _ k # es) = k # stopped es"
| "stopped (_ # es) = stopped es"

fun released :: "manager_effect list \<Rightarrow> nat option list" where
  "released [] = []"
| "released (ModuleFree _ k # es) = k # released es"
| "released (_ # es) = released es"

definition log_ok :: "nat \<Rightarrow> manager_effect list \<Rightarrow> bool" where
  "log_ok n log \<longleftrightarrow>
     started log = [0..<n] \<and> stopped log = released log \<and> distinct (released log) \<and>
     set (released log) \<subseteq> Some ` {0..<n}"

definition holds_context :: "'i manager \<Rightarrow> UINT32 \<Rightarrow> nat \<Rightarrow> bool" where
  "holds_context m i k \<longleftrightarrow> (\<exists>s. getSession m i = Some s \<and> mCurrentModuleContext s = Some k)"

definition contexts_ok :: "'i manager \<Rightarrow> bool" where
  "contexts_ok m \<longleftrightarrow>
     log_ok (mg_contexts m) (mg_log m) \<and>
     (\<forall>i k. holds_context m i k \<longrightarrow> k < mg_contexts m \<and> Some k \<notin> set (released (mg_log m))) \<and>
     (\<forall>i i' k. holds_context m i k \<longrightarrow> holds_context m i' k \<longrightarrow> i = i') \<and>
     (\<forall>i s. getSession m i = Some s \<longrightarrow> mSessionStarted s \<longrightarrow> (\<exists>k. mCurrentModuleContext s = Some k))"

definition manager_ok :: "UINT32 set \<Rightarrow> 'i manager \<Rightarrow> waiting_task \<Rightarrow> bool" where
  "manager_ok R m w \<longleftrightarrow>
     stores_ok m \<and> sessions_ok m \<and> connections_ok m \<and> tasks_ok R m w \<and> contexts_ok m \<and> m_NextSessionId m \<noteq> 0"

section \<open>Elementary operations keep the invariant\<close>

lemmas manager_ok_defs =
  manager_ok_def stores_ok_def sessions_ok_def connections_ok_def tasks_ok_def contexts_ok_def granted_def

lemma effects_append [simp]:
  "started (xs @ ys) = started xs @ started ys" "stopped (xs @ ys) = stopped xs @ stopped ys"
  "released (xs @ ys) = released xs @ released ys"
proof -
  show "started (xs @ ys) = started xs @ started ys" by (induction xs rule: started.induct) simp_all
  show "stopped (xs @ ys) = stopped xs @ stopped ys" by (induction xs rule: stopped.induct) simp_all
  show "released (xs @ ys) = released xs @ released ys" by (induction xs rule: released.induct) simp_all
qed

definition quiet :: "manager_effect list \<Rightarrow> bool" where
  "quiet es \<longleftrightarrow> started es = [] \<and> stopped es = [] \<and> released es = []"

lemma quiet_effects [simp]:
  "quiet []" "quiet [fireSessionEvent i e]" "quiet [AuthCall u d p r]"
  "quiet xs \<Longrightarrow> quiet ys \<Longrightarrow> quiet (xs @ ys)"
  "quiet (snd (setConnectState Y s st))" "quiet (delete_Session Y s)" "quiet (snd (new_Session j))"
  by (auto simp: quiet_def setConnectState_def delete_Session_def new_Session_def Let_def split: option.splits)

lemma stores_ok_ops [manager_simps]:
  "stores_ok m \<Longrightarrow> stores_ok (store_session s m)" "stores_ok m \<Longrightarrow> stores_ok (store_connection c m)"
  "stores_ok m \<Longrightarrow> stores_ok (removeSession i m)" "stores_ok m \<Longrightarrow> stores_ok (removeConnection k m)"
  "stores_ok (emit es m) = stores_ok m" "stores_ok (addTask t m) = stores_ok m"
  "stores_ok m \<Longrightarrow> stores_ok (ConnectionStore_reset m)"
  "stores_ok (m\<lparr>m_NextSessionId := j\<rparr>) = stores_ok m" "stores_ok (m\<lparr>mg_contexts := n\<rparr>) = stores_ok m"
  "stores_ok (m\<lparr>m_Tasks := ts\<rparr>) = stores_ok m"
  by (auto simp: stores_ok_def store_session_def store_connection_def removeSession_def removeConnection_def emit_def
      addTask_def ConnectionStore_reset_def omap_ok_put omap_ok_erase) (simp_all add: omap_ok_def)

lemma pending_ops [manager_simps]:
  "pending (store_session s m) w = pending m w" "pending (store_connection c m) w = pending m w"
  "pending (removeSession i m) w = pending m w" "pending (removeConnection k m) w = pending m w"
  "pending (emit es m) w = pending m w" "pending (ConnectionStore_reset m) w = pending m w"
  "pending (m\<lparr>m_NextSessionId := j\<rparr>) w = pending m w" "pending (m\<lparr>mg_contexts := n\<rparr>) w = pending m w"
  by (simp_all add: pending_def manager_simps)

lemma granted_emit [simp]: "granted m u d \<Longrightarrow> granted (emit es m) u d"
  by (auto simp: granted_def manager_simps)

lemma granted_ops [manager_simps]:
  "granted (store_session s m) = granted m" "granted (store_connection c m) = granted m"
  "granted (removeSession i m) = granted m" "granted (removeConnection k m) = granted m"
  "granted (addTask t m) = granted m" "granted (ConnectionStore_reset m) = granted m"
  "granted (m\<lparr>m_NextSessionId := j\<rparr>) = granted m" "granted (m\<lparr>mg_contexts := n\<rparr>) = granted m"
  "granted (m\<lparr>m_Tasks := ts\<rparr>) = granted m"
  by (simp_all add: granted_def manager_simps fun_eq_iff)

lemma switch_ok_cong:
  assumes "switch_ok R m t" and "m_NextSessionId m \<le> m_NextSessionId m'" and "R \<subseteq> R'"
    and "\<And>k c. getConnection m k = Some c \<Longrightarrow>
           k \<in> R' \<or> (\<exists>c'. getConnection m' k = Some c' \<and>
             (\<forall>s. may_show c s \<longrightarrow> may_show c' s))"
    and "\<And>i s'. i < m_NextSessionId m \<Longrightarrow> getSession m' i = Some s' \<Longrightarrow>
           \<exists>s. getSession m i = Some s \<and> (\<forall>c. may_show c s \<longrightarrow> may_show c s')"
  shows "switch_ok R' m' t"
proof (cases t)
  case (TaskSwitchTo k e old new)
  then have new: "new < m_NextSessionId m" "new < m_NextSessionId m'"
    using assms(1,2) by (auto simp: switch_ok_def)
  show ?thesis
  proof (cases "k \<in> R'")
    case False
    then obtain c where c: "getConnection m k = Some c" "\<forall>s. getSession m new = Some s \<longrightarrow> may_show c s"
      using assms(1,3) TaskSwitchTo by (auto simp: switch_ok_def)
    then obtain c' where "getConnection m' k = Some c'" "\<forall>s. may_show c s \<longrightarrow> may_show c' s"
      using assms(4) False by blast
    then show ?thesis using assms(5) [OF new(1)] c new TaskSwitchTo by (auto simp: switch_ok_def)
  qed (use new TaskSwitchTo in \<open>auto simp: switch_ok_def\<close>)
qed (simp_all add: switch_ok_def)

lemma sessions_okD:
  "manager_ok R m w \<Longrightarrow> getSession m i = Some s \<Longrightarrow>
   m_SessionId s = i \<and> i \<noteq> 0 \<and> i < m_NextSessionId m \<and> (mAuthSession s \<or> granted m (mUsername s) (mDomain s))"
  by (auto simp: manager_ok_def sessions_ok_def)

lemma connections_okD:
  "manager_ok R m w \<Longrightarrow> getConnection m k = Some c \<Longrightarrow>
   m_ConnectionId c = k \<and> c_SessionId c < m_NextSessionId m \<and> k \<notin> R \<and>
   (m_AuthStatus c = 0 \<longrightarrow> granted m (m_Username c) (m_Domain c)) \<and>
   (\<forall>s. getSession m (c_SessionId c) = Some s \<longrightarrow> may_show c s)"
  by (auto simp: manager_ok_def connections_ok_def tasks_ok_def)

lemma manager_okD:
  assumes "manager_ok R m w"
  shows "stores_ok m" and "contexts_ok m" and "m_NextSessionId m \<noteq> 0" and "k \<in> R \<Longrightarrow> getConnection m k = None"
    and "waiting_ok w"
  using assms by (simp_all add: manager_ok_def tasks_ok_def)

text \<open>Sessions that keep their owner and connections that keep their identity.\<close>

definition same_owner :: "Session \<Rightarrow> Session \<Rightarrow> bool" where
  "same_owner s s' \<longleftrightarrow>
     m_SessionId s' = m_SessionId s \<and> mAuthSession s' = mAuthSession s \<and> mUsername s' = mUsername s \<and>
     mDomain s' = mDomain s"

definition same_identity :: "Connection \<Rightarrow> Connection \<Rightarrow> bool" where
  "same_identity c c' \<longleftrightarrow>
     m_ConnectionId c' = m_ConnectionId c \<and> m_AuthStatus c' = m_AuthStatus c \<and> m_Username c' = m_Username c \<and>
     m_Domain c' = m_Domain c"

lemma may_show_same: "same_owner s s' \<Longrightarrow> same_identity c c' \<Longrightarrow> may_show c' s' = may_show c s"
  by (simp add: same_owner_def same_identity_def may_show_def)

lemma same_refl [simp]: "same_owner s s" "same_identity c c"
  by (simp_all add: same_owner_def same_identity_def)

definition kept_or_new_session :: "'i manager \<Rightarrow> 'i manager \<Rightarrow> UINT32 \<Rightarrow> Session \<Rightarrow> bool" where
  "kept_or_new_session m m' i s' \<longleftrightarrow>
     (\<exists>s. getSession m i = Some s \<and> same_owner s s') \<or>
     m_NextSessionId m \<le> i \<and> i < m_NextSessionId m' \<and> i \<noteq> 0 \<and> m_SessionId s' = i \<and>
       (mAuthSession s' \<or> granted m' (mUsername s') (mDomain s'))"

definition kept_or_good_connection :: "UINT32 set \<Rightarrow> 'i manager \<Rightarrow> 'i manager \<Rightarrow> UINT32 \<Rightarrow> Connection \<Rightarrow> bool" where
  "kept_or_good_connection R m m' k c' \<longleftrightarrow>
     (\<exists>c. getConnection m k = Some c \<and> c_SessionId c' = c_SessionId c \<and> same_identity c c') \<or>
     m_ConnectionId c' = k \<and> c_SessionId c' < m_NextSessionId m' \<and>
       (m_AuthStatus c' = 0 \<longrightarrow> granted m' (m_Username c') (m_Domain c')) \<and>
       (\<forall>s. getSession m' (c_SessionId c') = Some s \<longrightarrow> may_show c' s)"

definition connection_kept :: "UINT32 set \<Rightarrow> 'i manager \<Rightarrow> UINT32 \<Rightarrow> Connection \<Rightarrow> bool" where
  "connection_kept R m' k c \<longleftrightarrow>
     k \<in> R \<or> (\<exists>c'. getConnection m' k = Some c' \<and> (\<forall>s. may_show c s \<longrightarrow> may_show c' s))"

lemma kept_same:
  "getSession m i = Some s \<Longrightarrow> kept_or_new_session m m' i s"
  "getConnection m k = Some c \<Longrightarrow> kept_or_good_connection R m m' k c"
  "getConnection m' k = Some c \<Longrightarrow> connection_kept R m' k c"
  unfolding kept_or_new_session_def kept_or_good_connection_def connection_kept_def using same_refl by blast+

lemma kept_session:
  "kept_or_new_session m m' i s' \<Longrightarrow> i < m_NextSessionId m \<Longrightarrow> \<exists>s. getSession m i = Some s \<and> same_owner s s'"
  unfolding kept_or_new_session_def by (meson leD)

lemma manager_ok_change:
  assumes ok: "manager_ok R m w" and stores: "stores_ok m'"
    and "next": "m_NextSessionId m \<le> m_NextSessionId m'" "m_NextSessionId m' \<noteq> 0"
    and log: "\<And>u d. granted m u d \<Longrightarrow> granted m' u d"
    and sess: "\<And>i s'. getSession m' i = Some s' \<Longrightarrow> kept_or_new_session m m' i s'"
    and conn: "\<And>k c'. getConnection m' k = Some c' \<Longrightarrow> kept_or_good_connection R m m' k c'"
    and keep: "\<And>k c. getConnection m k = Some c \<Longrightarrow> connection_kept R' m' k c"
    and R: "R \<subseteq> R'" "\<And>k. k \<in> R' \<Longrightarrow> getConnection m' k = None"
    and tasks: "\<And>t. t \<in> set (pending m' w') \<Longrightarrow> t \<in> set (pending m w) \<or> switch_ok R' m' t"
    and w': "waiting_ok w'"
    and ctx: "contexts_ok m'"
  shows "manager_ok R' m' w'"
proof -
  have "sessions_ok m'"
    unfolding sessions_ok_def
  proof (intro allI impI)
    fix i s' assume s': "getSession m' i = Some s'"
    show "m_SessionId s' = i \<and> i \<noteq> 0 \<and> i < m_NextSessionId m' \<and> (\<not> mAuthSession s' \<longrightarrow> granted m' (mUsername s') (mDomain s'))"
      using sess [OF s'] unfolding kept_or_new_session_def
    proof
      assume "\<exists>s. getSession m i = Some s \<and> same_owner s s'"
      then obtain s where "getSession m i = Some s" "same_owner s s'" by blast
      then show ?thesis
        using sessions_okD [OF ok, of i s] less_le_trans [OF _ "next"(1)] log
        by (simp add: same_owner_def) metis
    qed (elim conjE, intro conjI impI, simp_all)
  qed
  moreover have "connections_ok m'"
    unfolding connections_ok_def
  proof (intro allI impI)
    fix k c' assume c': "getConnection m' k = Some c'"
    have old: "may_show c' s'" if c: "getConnection m k = Some c" "c_SessionId c' = c_SessionId c" "same_identity c c'"
      and s': "getSession m' (c_SessionId c') = Some s'" for c s'
    proof -
      have "c_SessionId c < m_NextSessionId m" using connections_okD [OF ok c(1)] by simp
      then obtain s where "getSession m (c_SessionId c) = Some s" "same_owner s s'"
        using kept_session [OF sess [OF s']] c(2) by auto
      then show ?thesis using connections_okD [OF ok c(1)] may_show_same [of s s' c c'] c(3) by auto
    qed
    show "m_ConnectionId c' = k \<and> c_SessionId c' < m_NextSessionId m' \<and>
        (m_AuthStatus c' = 0 \<longrightarrow> granted m' (m_Username c') (m_Domain c')) \<and>
        (\<forall>s. getSession m' (c_SessionId c') = Some s \<longrightarrow> may_show c' s)"
      using conn [OF c'] unfolding kept_or_good_connection_def
    proof
      assume "\<exists>c. getConnection m k = Some c \<and> c_SessionId c' = c_SessionId c \<and> same_identity c c'"
      then obtain c where c: "getConnection m k = Some c" "c_SessionId c' = c_SessionId c" "same_identity c c'" by blast
      show ?thesis
        using connections_okD [OF ok c(1)] c(2,3) old [OF c] less_le_trans [OF _ "next"(1)] log
        by (simp add: same_identity_def)
    qed simp
  qed
  moreover have "switch_ok R' m' t" if "switch_ok R m t" for t
    using that
  proof (rule switch_ok_cong)
    fix i s' assume "i < m_NextSessionId m" "getSession m' i = Some s'"
    then obtain s where "getSession m i = Some s" "same_owner s s'"
      using kept_session [OF sess, of i s'] by blast
    then show "\<exists>s. getSession m i = Some s \<and> (\<forall>c. may_show c s \<longrightarrow> may_show c s')"
      by (auto simp: same_owner_def may_show_def)
  next
    fix k c assume "getConnection m k = Some c"
    from keep [OF this] show "k \<in> R' \<or> (\<exists>c'. getConnection m' k = Some c' \<and> (\<forall>s. may_show c s \<longrightarrow> may_show c' s))"
      unfolding connection_kept_def .
  qed (rule "next" R)+
  moreover have "tasks_ok R' m' w'"
    unfolding tasks_ok_def
  proof (intro conjI ballI)
    show "switch_ok R' m' t" if "t \<in> set (pending m' w')" for t
      using tasks [OF that] ok \<open>\<And>t. switch_ok R m t \<Longrightarrow> switch_ok R' m' t\<close>
      unfolding manager_ok_def tasks_ok_def by blast
  qed (use R w' in blast)+
  ultimately show ?thesis
    using stores "next" ctx by (simp add: manager_ok_def)
qed

lemma contexts_ok_change:
  assumes ok: "contexts_ok m" and n: "mg_contexts m' = mg_contexts m" and es: "mg_log m' = mg_log m @ es" "quiet es"
    and sess: "\<And>i s'. getSession m' i = Some s' \<Longrightarrow>
      (\<exists>s. getSession m i = Some s \<and> mSessionStarted s' = mSessionStarted s \<and>
           mCurrentModuleContext s' = mCurrentModuleContext s) \<or>
      mCurrentModuleContext s' = None \<and> \<not> mSessionStarted s'"
  shows "contexts_ok m'"
proof -
  have held: "holds_context m' i k \<Longrightarrow> holds_context m i k" for i k
    using sess unfolding holds_context_def by fastforce
  have st: "\<exists>k. mCurrentModuleContext s' = Some k" if "getSession m' i = Some s'" "mSessionStarted s'" for i s'
    using sess [OF that(1)] that ok unfolding contexts_ok_def by auto
  have log: "log_ok (mg_contexts m') (mg_log m')" "released (mg_log m') = released (mg_log m)"
    using ok n es by (simp_all add: contexts_ok_def log_ok_def quiet_def)
  show ?thesis
    unfolding contexts_ok_def
  proof (intro conjI allI impI)
    fix i k assume "holds_context m' i k"
    then show "k < mg_contexts m'" "Some k \<notin> set (released (mg_log m'))"
      using held [of i k] ok n log by (auto simp: contexts_ok_def)
  next
    fix i i' k assume "holds_context m' i k" "holds_context m' i' k"
    then show "i = i'" using held [of i k] held [of i' k] ok unfolding contexts_ok_def by blast
  qed (use log st in auto)
qed

lemma manager_ok_emit:
  assumes ok: "manager_ok R m w" and es: "quiet es"
  shows "manager_ok R (emit es m) w"
proof (rule manager_ok_change [OF ok])
  show "contexts_ok (emit es m)"
    by (rule contexts_ok_change [of m _ es]) (use manager_okD(2) [OF ok] es in \<open>simp_all add: manager_simps\<close>)
qed (use manager_okD [OF ok] in \<open>simp_all add: manager_simps kept_same split: if_splits\<close>)

text \<open>A session changed in fields that the invariant does not mention.\<close>

definition same_role :: "Session \<Rightarrow> Session \<Rightarrow> bool" where
  "same_role s s' \<longleftrightarrow>
     same_owner s s' \<and> mSessionStarted s' = mSessionStarted s \<and> mCurrentModuleContext s' = mCurrentModuleContext s"

lemma manager_ok_store_session:
  assumes ok: "manager_ok R m w" and s: "getSession m i = Some s" and role: "same_role s s'"
  shows "manager_ok R (store_session s' m) w"
proof (rule manager_ok_change [OF ok])
  have i: "m_SessionId s' = i" using sessions_okD [OF ok s] role by (simp add: same_role_def same_owner_def)
  have old: "\<exists>u. getSession m j = Some u \<and> same_role u t" if "getSession (store_session s' m) j = Some t" for j t
    using that s role i by (auto simp: manager_simps same_role_def split: if_splits)
  then show "kept_or_new_session m (store_session s' m) j t" if "getSession (store_session s' m) j = Some t" for j t
    using that by (auto simp: kept_or_new_session_def same_role_def)
  show "contexts_ok (store_session s' m)"
  proof (rule contexts_ok_change [of m _ "[]"])
    fix j t assume "getSession (store_session s' m) j = Some t"
    then show "(\<exists>s. getSession m j = Some s \<and> mSessionStarted t = mSessionStarted s \<and>
        mCurrentModuleContext t = mCurrentModuleContext s) \<or> mCurrentModuleContext t = None \<and> \<not> mSessionStarted t"
      using old [of j t] by (auto simp: same_role_def)
  qed (use manager_okD(2) [OF ok] in \<open>simp_all add: manager_simps\<close>)
qed (use manager_okD [OF ok] in \<open>simp_all add: manager_simps kept_same split: if_splits\<close>)

lemma next_id: "(n :: UINT32) + 1 \<noteq> 0 \<Longrightarrow> n < n + 1"
  by (metis add.commute lessI unatSuc word_less_nat_alt)

text \<open>A new session takes the next number.\<close>

lemma manager_ok_new_session:
  assumes ok: "manager_ok R m w" and "next": "m_NextSessionId m + 1 \<noteq> 0" and i: "m_SessionId s = m_NextSessionId m"
    and own: "mAuthSession s \<or> granted m (mUsername s) (mDomain s)"
    and ctx: "mCurrentModuleContext s = None" "\<not> mSessionStarted s"
  shows "manager_ok R (store_session s (m\<lparr>m_NextSessionId := m_NextSessionId m + 1\<rparr>)) w"
    (is "manager_ok R ?m w")
proof (rule manager_ok_change [OF ok])
  note lt = next_id [OF "next"]
  show "m_NextSessionId m \<le> m_NextSessionId ?m" using lt by (simp add: manager_simps)
  show "kept_or_new_session m ?m j t" if "getSession ?m j = Some t" for j t
    using that i own lt manager_okD(3) [OF ok] by (auto simp: kept_or_new_session_def manager_simps split: if_splits)
  show "contexts_ok ?m"
    by (rule contexts_ok_change [of m _ "[]"])
      (use manager_okD(2) [OF ok] ctx in \<open>auto simp: manager_simps split: if_splits\<close>)
qed (use manager_okD [OF ok] "next" in \<open>simp_all add: manager_simps kept_same split: if_splits\<close>)

lemma manager_ok_removeSession:
  assumes ok: "manager_ok R m w"
  shows "manager_ok R (removeSession i m) w"
proof (rule manager_ok_change [OF ok])
  show "contexts_ok (removeSession i m)"
    by (rule contexts_ok_change [of m _ "[]"])
      (use manager_okD(2) [OF ok] in \<open>auto simp: manager_simps split: if_splits\<close>)
qed (use manager_okD [OF ok] in \<open>simp_all add: manager_simps kept_same split: if_splits\<close>)

lemma contexts_ok_connections [manager_simps]:
  "contexts_ok (store_connection c m) = contexts_ok m" "contexts_ok (removeConnection k m) = contexts_ok m"
  "contexts_ok (addTask t m) = contexts_ok m" "contexts_ok (ConnectionStore_reset m) = contexts_ok m"
  "contexts_ok (m\<lparr>m_Tasks := ts\<rparr>) = contexts_ok m"
  by (simp_all add: contexts_ok_def holds_context_def manager_simps)

lemma manager_ok_store_connection:
  assumes ok: "manager_ok R m w" and c: "getConnection m k = Some c" and same: "same_identity c c'"
    and "session": "c_SessionId c' < m_NextSessionId m" "\<And>s. getSession m (c_SessionId c') = Some s \<Longrightarrow> may_show c' s"
  shows "manager_ok R (store_connection c' m) w"
proof (rule manager_ok_change [OF ok])
  have k: "m_ConnectionId c' = k" "k \<notin> R" using connections_okD [OF ok c] same by (simp_all add: same_identity_def)
  show "kept_or_good_connection R m (store_connection c' m) j d" if "getConnection (store_connection c' m) j = Some d" for j d
    using that k connections_okD [OF ok c] same "session"
    by (auto simp: kept_or_good_connection_def manager_simps same_identity_def split: if_splits)
  show "connection_kept R (store_connection c' m) j d" if "getConnection m j = Some d" for j d
    using that k c same may_show_same [of _ _ c c']
    by (auto simp: connection_kept_def manager_simps may_show_def same_identity_def)
  show "getConnection (store_connection c' m) j = None" if "j \<in> R" for j
    using that k manager_okD(4) [OF ok] by (auto simp: manager_simps)
qed (use manager_okD [OF ok] in \<open>simp_all add: manager_simps kept_same split: if_splits\<close>)

lemma new_Connection_fields [simp]:
  "m_ConnectionId (new_Connection k) = k" "c_SessionId (new_Connection k) = 0" "m_AuthStatus (new_Connection k) = -1"
  by (simp_all add: new_Connection_def)

lemma manager_ok_getOrCreateConnection:
  assumes ok: "manager_ok R m w" and k: "k \<notin> R" and run: "getOrCreateConnection k m = (c, m')"
  shows "manager_ok R m' w" and "getConnection m' k = Some c" and "m_NextSessionId m' = m_NextSessionId m"
    and "getSession m' = getSession m" and "mg_log m' = mg_log m" and "mg_ini m' = mg_ini m"
proof -
  have "manager_ok R (store_connection (new_Connection k) m) w" if new: "getConnection m k = None"
  proof (rule manager_ok_change [OF ok])
    have "getSession m 0 = None" using sessions_okD [OF ok, of 0] by (cases "getSession m 0") auto
    moreover have "0 < m_NextSessionId m" using ok by (simp add: manager_ok_def word_neq_0_conv)
    ultimately show "kept_or_good_connection R m (store_connection (new_Connection k) m) j d"
      if "getConnection (store_connection (new_Connection k) m) j = Some d" for j d
      using that by (auto simp: kept_or_good_connection_def manager_simps split: if_splits)
    show "connection_kept R (store_connection (new_Connection k) m) j d" if "getConnection m j = Some d" for j d
      using that new by (auto simp: connection_kept_def manager_simps)
  qed (use manager_okD [OF ok] k in \<open>auto simp: manager_simps kept_same\<close>)
  then show "manager_ok R m' w" "getConnection m' k = Some c" "m_NextSessionId m' = m_NextSessionId m"
    "getSession m' = getSession m" "mg_log m' = mg_log m" "mg_ini m' = mg_ini m"
    using run ok
    by (auto simp: getOrCreateConnection_def Let_def manager_simps split: option.splits)
qed

lemma manager_ok_removeConnection:
  assumes ok: "manager_ok R m w"
  shows "manager_ok (R \<union> (if getConnection m k = None then {} else {k})) (removeConnection k m) w"
proof (rule manager_ok_change [OF ok])
  show "kept_or_good_connection R m (removeConnection k m) j c" if "getConnection (removeConnection k m) j = Some c" for j c
    using that by (auto simp: manager_simps kept_same split: if_splits)
  show "connection_kept (R \<union> (if getConnection m k = None then {} else {k})) (removeConnection k m) j c"
    if "getConnection m j = Some c" for j c
    using that by (auto simp: connection_kept_def manager_simps)
qed (use manager_okD [OF ok] in \<open>auto simp: manager_simps kept_same split: if_splits\<close>)

lemma manager_ok_reset:
  assumes ok: "manager_ok R m w"
  shows "manager_ok (R \<union> {k. getConnection m k \<noteq> None}) (ConnectionStore_reset m) w"
proof (rule manager_ok_change [OF ok])
  show "connection_kept (R \<union> {k. getConnection m k \<noteq> None}) (ConnectionStore_reset m) j c"
    if "getConnection m j = Some c" for j c
    using that by (auto simp: connection_kept_def manager_simps)
qed (use manager_okD [OF ok] in \<open>auto simp: manager_simps kept_same\<close>)

lemma switch_ok_addTask [manager_simps]: "switch_ok R (addTask t m) t' = switch_ok R m t'"
  by (cases t') (simp_all add: switch_ok_def manager_simps)

lemma manager_ok_addTask:
  assumes ok: "manager_ok R m w" and task: "switch_ok R m t"
  shows "manager_ok R (addTask t m) w"
proof (rule manager_ok_change [OF ok])
  show "t' \<in> set (pending m w) \<or> switch_ok R (addTask t m) t'" if "t' \<in> set (pending (addTask t m) w)" for t'
    using that task by (auto simp: pending_def manager_simps split: if_splits)
qed (use manager_okD [OF ok] in \<open>auto simp: manager_simps kept_same\<close>)

lemma switch_ok_trivial [simp]: "switch_ok R m (TaskEndSession i)" "switch_ok R m (TaskModuleShutdown i)"
  by (simp_all add: switch_ok_def)

text \<open>A task leaves the queue and may wait.\<close>

lemma manager_ok_pop:
  assumes ok: "manager_ok R m None" and t: "m_Tasks m = t # ts" and w: "waiting_ok w" "w = None \<or> (\<exists>k. w = Some (t, k))"
  shows "manager_ok R (m\<lparr>m_Tasks := ts\<rparr>) w"
proof (rule manager_ok_change [OF ok])
  show "t' \<in> set (pending m None) \<or> switch_ok R (m\<lparr>m_Tasks := ts\<rparr>) t'" if "t' \<in> set (pending (m\<lparr>m_Tasks := ts\<rparr>) w)" for t'
    using that t w(2) by (auto simp: pending_def)
qed (use manager_okD [OF ok] w in \<open>auto simp: manager_simps kept_same\<close>)

lemma manager_ok_answered:
  assumes ok: "manager_ok R m w"
  shows "manager_ok R m None"
proof (rule manager_ok_change [OF ok])
  show "t \<in> set (pending m w) \<or> switch_ok R m t" if "t \<in> set (pending m None)" for t
    using that by (auto simp: pending_def)
qed (use manager_okD [OF ok] in \<open>auto simp: manager_simps kept_same waiting_ok_def\<close>)

lemma manager_ok_set_state:
  assumes ok: "manager_ok R m w" and s: "getSession m i = Some s" and run: "set_state Y st s m = (s', m')"
  shows "manager_ok R m' w" and "getSession m' i = Some s'" and "same_role s s'" and "mCurrentState s' = st"
    and "mPipeName s' = mPipeName s" and "getConnection m' = getConnection m" and "m_NextSessionId m' = m_NextSessionId m"
    and "j \<noteq> i \<Longrightarrow> getSession m' j = getSession m j"
proof -
  obtain es where es: "setConnectState Y s st = (s', es)" and m': "m' = store_session s' (emit es m)"
    using run by (auto simp: set_state_def split: prod.splits)
  have s': "s' = fst (setConnectState Y s st)" and q: "quiet es"
    using es quiet_effects(5) [of Y s st] by simp_all
  show role: "same_role s s'" by (simp add: s' same_role_def same_owner_def)
  show "mCurrentState s' = st" "mPipeName s' = mPipeName s" by (simp_all add: s')
  have "manager_ok R (emit es m) w" using ok q by (rule manager_ok_emit)
  then show "manager_ok R m' w"
    unfolding m' by (rule manager_ok_store_session [OF _ _ role, where i = i]) (simp add: manager_simps s)
  have "m_SessionId s' = i" using role sessions_okD [OF ok s] by (simp add: same_role_def same_owner_def)
  then show "getSession m' i = Some s'" "j \<noteq> i \<Longrightarrow> getSession m' j = getSession m j"
    by (simp_all add: m' manager_simps)
  show "getConnection m' = getConnection m" "m_NextSessionId m' = m_NextSessionId m"
    by (simp_all add: m' manager_simps)
qed

lemma startModule_result:
  assumes "startModule I ini Y modules n s = Some r"
  shows "sr_next r = n \<and> sr_effects r = [] \<and> \<not> sr_ok r \<and> same_role s (sr_session r) \<or>
         sr_next r = n + 1 \<and> (\<exists>name context es. sr_effects r = ModuleStart name n context # es \<and> quiet es) \<and>
         same_owner s (sr_session r) \<and> mCurrentModuleContext (sr_session r) = Some n"
    and "sr_ok r \<Longrightarrow> mSessionStarted (sr_session r) \<and> mPipeName (sr_session r) \<noteq> [] \<and>
         mCurrentState (sr_session r) = WTSConnected"
proof -
  have "quiet (snd (setConnectState Y u st))" for u st by simp
  then have q: "quiet es" if "setConnectState Y u st = (v, es)" for u st v es
    using that by (metis snd_conv)
  have f: "m_SessionId v = m_SessionId u" "mAuthSession v = mAuthSession u" "mUsername v = mUsername u"
    "mDomain v = mDomain u" "mCurrentModuleContext v = mCurrentModuleContext u" "mSessionStarted v = mSessionStarted u"
    "mPipeName v = mPipeName u" "mCurrentState v = st"
    if "setConnectState Y u st = (v, es)" for u st v es
    using that setConnectState_fields [of Y u st] by simp_all
  show "sr_next r = n \<and> sr_effects r = [] \<and> \<not> sr_ok r \<and> same_role s (sr_session r) \<or>
         sr_next r = n + 1 \<and> (\<exists>name context es. sr_effects r = ModuleStart name n context # es \<and> quiet es) \<and>
         same_owner s (sr_session r) \<and> mCurrentModuleContext (sr_session r) = Some n"
    using assms
    by (auto simp: startModule_def start_failed_def Let_def same_role_def same_owner_def bind_eq_Some_conv f q
        split: if_splits option.splits prod.splits)
  show "mSessionStarted (sr_session r) \<and> mPipeName (sr_session r) \<noteq> [] \<and> mCurrentState (sr_session r) = WTSConnected"
    if "sr_ok r"
    using assms that
    by (auto simp: startModule_def start_failed_def Let_def bind_eq_Some_conv f
        split: if_splits option.splits prod.splits)
qed

lemma contexts_ok_start:
  assumes ok: "contexts_ok m" and s: "mCurrentModuleContext s' = Some (mg_contexts m)"
    and es: "es = ModuleStart name (mg_contexts m) context # es'" "quiet es'"
  shows "contexts_ok (store_session s' (emit es (m\<lparr>mg_contexts := mg_contexts m + 1\<rparr>)))" (is "contexts_ok ?m")
proof -
  have held: "holds_context ?m i k \<Longrightarrow> i = m_SessionId s' \<and> k = mg_contexts m \<or> i \<noteq> m_SessionId s' \<and> holds_context m i k" for i k
    using s by (auto simp: holds_context_def manager_simps split: if_splits)
  have rel: "released (mg_log ?m) = released (mg_log m)"
    using es by (simp add: manager_simps quiet_def)
  have fresh: "Some (mg_contexts m) \<notin> set (released (mg_log m))"
    using ok unfolding contexts_ok_def log_ok_def by auto
  show ?thesis
    unfolding contexts_ok_def
  proof (intro conjI allI impI)
    show "log_ok (mg_contexts ?m) (mg_log ?m)"
      using ok es unfolding contexts_ok_def log_ok_def by (auto simp: manager_simps quiet_def)
    fix i k assume "holds_context ?m i k"
    then show "k < mg_contexts ?m" "Some k \<notin> set (released (mg_log ?m))"
      using held [of i k] ok rel fresh unfolding contexts_ok_def by (auto simp: manager_simps intro: less_SucI)
  next
    fix i i' k assume "holds_context ?m i k" "holds_context ?m i' k"
    then show "i = i'" using held [of i k] held [of i' k] ok unfolding contexts_ok_def by blast
  next
    fix i t assume "getSession ?m i = Some t" "mSessionStarted t"
    then show "\<exists>k. mCurrentModuleContext t = Some k"
      using ok s unfolding contexts_ok_def by (auto simp: manager_simps split: if_splits)
  qed
qed

lemma manager_ok_start_session:
  assumes ok: "manager_ok R m w" and s: "getSession m i = Some s" and run: "start_session I Y s m = Some (b, s', m')"
  shows "manager_ok R m' w" and "getSession m' i = Some s'" and "same_owner s s'"
    and "getConnection m' = getConnection m" and "m_NextSessionId m' = m_NextSessionId m"
    and "b \<Longrightarrow> mSessionStarted s' \<and> mPipeName s' \<noteq> [] \<and> mCurrentState s' = WTSConnected"
    and "j \<noteq> i \<Longrightarrow> getSession m' j = getSession m j"
proof -
  obtain r where r: "startModule I (mg_ini m) Y (mg_modules m) (mg_contexts m) s = Some r" "b = sr_ok r" "s' = sr_session r"
    and m': "m' = store_session s' (emit (sr_effects r) (m\<lparr>mg_contexts := sr_next r\<rparr>))"
    using run by (auto simp: start_session_def)
  note result = startModule_result [OF r(1)]
  show own: "same_owner s s'" using result(1) r(3) by (auto simp: same_role_def)
  then have i: "m_SessionId s' = i" using sessions_okD [OF ok s] by (simp add: same_owner_def)
  show "getSession m' i = Some s'" "getConnection m' = getConnection m" "m_NextSessionId m' = m_NextSessionId m"
    "j \<noteq> i \<Longrightarrow> getSession m' j = getSession m j"
    using i by (simp_all add: m' manager_simps)
  show "mSessionStarted s' \<and> mPipeName s' \<noteq> [] \<and> mCurrentState s' = WTSConnected" if b
    using result(2) r(2,3) that by simp
  show "manager_ok R m' w"
  proof (cases "sr_next r = mg_contexts m")
    case True
    then have "m' = store_session s' m" and "same_role s s'"
      using result(1) m' r(3) by (auto simp: emit_def)
    then show ?thesis using manager_ok_store_session [OF ok s] by simp
  next
    case False
    then obtain name cx es where es: "sr_effects r = ModuleStart name (mg_contexts m) cx # es" "quiet es"
      and "next": "sr_next r = mg_contexts m + 1" and ctx: "mCurrentModuleContext s' = Some (mg_contexts m)"
      using result(1) r(3) by auto
    show ?thesis
    proof (rule manager_ok_change [OF ok])
      show "contexts_ok m'"
        unfolding m' "next" by (rule contexts_ok_start [OF manager_okD(2) [OF ok] ctx es])
      show "kept_or_new_session m m' j t" if "getSession m' j = Some t" for j t
        using that s own i by (auto simp: m' manager_simps kept_same kept_or_new_session_def split: if_splits)
    qed (use manager_okD [OF ok] in \<open>auto simp: m' manager_simps kept_same\<close>)
  qed
qed

lemma stopModule_result:
  assumes "stopModule Y modules s = (b, s', es)" and "mSessionStarted s \<longrightarrow> (\<exists>k. mCurrentModuleContext s = Some k)"
  shows "same_owner s s'"
    and "s' = s \<and> es = [] \<or>
         (\<exists>k name es'. mCurrentModuleContext s = Some k \<and>
            es = [ModuleStop name (Some k), ModuleFree name (Some k)] @ es' \<and> quiet es')"
proof -
  have q: "quiet es" if "setConnectState Y u st = (v, es)" for u st v es
    using that quiet_effects(5) [of Y u st] by simp
  have f: "m_SessionId v = m_SessionId u" "mAuthSession v = mAuthSession u" "mUsername v = mUsername u" "mDomain v = mDomain u"
    if "setConnectState Y u st = (v, es)" for u st v es
    using that setConnectState_fields [of Y u st] by simp_all
  show "same_owner s s'"
    using assms(1) by (auto simp: stopModule_def Let_def same_owner_def f split: if_splits option.splits prod.splits)
  show "s' = s \<and> es = [] \<or>
         (\<exists>k name es'. mCurrentModuleContext s = Some k \<and>
            es = [ModuleStop name (Some k), ModuleFree name (Some k)] @ es' \<and> quiet es')"
    using assms by (auto simp: stopModule_def Let_def q split: if_splits option.splits prod.splits)
qed

text \<open>Stopping the module of a stored session and removing it.\<close>

lemma contexts_ok_stop:
  assumes ok: "contexts_ok m" and s: "getSession m i = Some s" "mCurrentModuleContext s = Some k"
    and es: "es = [ModuleStop name (Some k), ModuleFree name (Some k)] @ es'" "quiet es'"
  shows "contexts_ok (removeSession i (emit es m))" (is "contexts_ok ?m")
proof -
  have held: "holds_context ?m j n \<Longrightarrow> holds_context m j n \<and> n \<noteq> k" for j n
    using s ok unfolding contexts_ok_def by (auto simp: holds_context_def manager_simps split: if_splits)
  have k: "k < mg_contexts m" "Some k \<notin> set (released (mg_log m))"
    using ok s unfolding contexts_ok_def holds_context_def by blast+
  have rel: "released (mg_log ?m) = released (mg_log m) @ [Some k]"
    using es by (simp add: manager_simps quiet_def)
  show ?thesis
    unfolding contexts_ok_def
  proof (intro conjI allI impI)
    show "log_ok (mg_contexts ?m) (mg_log ?m)"
      using ok es k unfolding contexts_ok_def log_ok_def by (auto simp: manager_simps quiet_def)
    fix j n assume "holds_context ?m j n"
    then show "n < mg_contexts ?m" "Some n \<notin> set (released (mg_log ?m))"
      using held [of j n] ok rel unfolding contexts_ok_def by (auto simp: manager_simps)
  next
    fix j j' n assume "holds_context ?m j n" "holds_context ?m j' n"
    then show "j = j'" using held [of j n] held [of j' n] ok unfolding contexts_ok_def by blast
  next
    fix j t assume "getSession ?m j = Some t" "mSessionStarted t"
    then show "\<exists>n. mCurrentModuleContext t = Some n"
      using ok unfolding contexts_ok_def by (auto simp: manager_simps split: if_splits)
  qed
qed

lemma manager_ok_stop:
  assumes ok: "manager_ok R m w" and s: "getSession m i = Some s" and run: "stopModule Y modules s = (b, s', es)"
  shows "manager_ok R (removeSession i (emit es m)) w" and "same_owner s s'"
proof -
  have "mSessionStarted s \<longrightarrow> (\<exists>k. mCurrentModuleContext s = Some k)"
    using manager_okD(2) [OF ok] s unfolding contexts_ok_def by blast
  note result = stopModule_result [OF run this]
  show "same_owner s s'" by (rule result(1))
  have "contexts_ok (removeSession i (emit es m))"
    using result(2)
  proof (elim disjE exE conjE)
    assume "es = []"
    then show ?thesis using manager_okD(2) [OF manager_ok_removeSession [OF ok, of i]] by (simp add: emit_def)
  next
    fix k name es' assume "mCurrentModuleContext s = Some k"
      "es = [ModuleStop name (Some k), ModuleFree name (Some k)] @ es'" "quiet es'"
    then show ?thesis by (rule contexts_ok_stop [OF manager_okD(2) [OF ok] s])
  qed
  then show "manager_ok R (removeSession i (emit es m)) w"
    by (intro manager_ok_change [OF ok]) (use manager_okD [OF ok] in \<open>auto simp: manager_simps kept_same split: if_splits\<close>)
qed

lemma manager_ok_stopSession:
  assumes ok: "manager_ok R m w"
  shows "manager_ok R (stopSession Y i m) w" and "getConnection (stopSession Y i m) = getConnection m"
    and "m_NextSessionId (stopSession Y i m) = m_NextSessionId m"
    and "getSession (stopSession Y i m) j = (if j = i then None else getSession m j)"
proof -
  have "manager_ok R (emit (delete_Session Y s') (removeSession i (emit es m))) w"
    if "getSession m i = Some s" "stopModule Y (mg_modules m) s = (b, s', es)" for s b s' es
    by (rule manager_ok_emit [OF manager_ok_stop(1) [OF ok that]]) simp
  then show "manager_ok R (stopSession Y i m) w"
    using ok by (auto simp: stopSession_def split: option.splits prod.splits)
  show "getConnection (stopSession Y i m) = getConnection m" "m_NextSessionId (stopSession Y i m) = m_NextSessionId m"
    "getSession (stopSession Y i m) j = (if j = i then None else getSession m j)"
    by (auto simp: stopSession_def manager_simps split: option.splits prod.splits)
qed

lemma manager_ok_authenticate:
  assumes ok: "manager_ok R m w" and c: "getConnection m k = Some c"
    and run: "Connection_authenticateUser I Y u d p c m = (status, c', m')"
  shows "manager_ok R m' w" and "getConnection m' k = Some c'" and "getSession m' = getSession m"
    and "m_NextSessionId m' = m_NextSessionId m" and "mg_ini m' = mg_ini m"
    and "status = 0 \<Longrightarrow> m_AuthStatus c' = 0 \<and> m_Username c' = u \<and> m_Domain c' = d"
    and "c_SessionId c' = c_SessionId c" "m_About2SwitchSessionId c' = m_About2SwitchSessionId c" "m_ConnectionId c' = k"
    and "j \<noteq> k \<Longrightarrow> getConnection m' j = getConnection m j"
proof -
  have k: "m_ConnectionId c = k" "k \<notin> R" using connections_okD [OF ok c] by simp_all
  have new: "manager_ok R (store_connection c1 (emit [AuthCall u d p r] m)) w"
    if old: "m_AuthStatus c \<noteq> 0" and c1: "m_ConnectionId c1 = k" "c_SessionId c1 = c_SessionId c" "m_AuthStatus c1 = r"
      "r = 0 \<longrightarrow> m_Username c1 = u \<and> m_Domain c1 = d" for c1 r
  proof (rule manager_ok_change [OF ok])
    let ?m = "store_connection c1 (emit [AuthCall u d p r] m)"
    have greeter: "mAuthSession s" if "may_show c s" for s using that old by (simp add: may_show_def)
    show "kept_or_good_connection R m ?m j e" if "getConnection ?m j = Some e" for j e
      using that c1 connections_okD [OF ok c] greeter
      by (auto simp: manager_simps kept_same kept_or_good_connection_def granted_def may_show_def split: if_splits)
    show "connection_kept R ?m j e" if "getConnection m j = Some e" for j e
      using that c1 c old by (auto simp: manager_simps connection_kept_def may_show_def)
    show "contexts_ok ?m"
      using manager_okD(2) [OF manager_ok_emit [OF ok, of "[AuthCall u d p r]"]] by (simp add: manager_simps)
  qed (use manager_okD [OF ok] k c1 in \<open>auto simp: manager_simps kept_same\<close>)
  show "manager_ok R m' w"
    using run ok new k by (auto simp: Connection_authenticateUser_def Let_def split: if_splits option.splits)
  show "getConnection m' k = Some c'" "getSession m' = getSession m" "m_NextSessionId m' = m_NextSessionId m" "mg_ini m' = mg_ini m"
    "status = 0 \<Longrightarrow> m_AuthStatus c' = 0 \<and> m_Username c' = u \<and> m_Domain c' = d" "c_SessionId c' = c_SessionId c"
    "m_About2SwitchSessionId c' = m_About2SwitchSessionId c" "m_ConnectionId c' = k"
    "j \<noteq> k \<Longrightarrow> getConnection m' j = getConnection m j"
    using run c k by (auto simp: Connection_authenticateUser_def Let_def manager_simps split: if_splits option.splits)
qed

end
