(* ===== verification/Rds_Manager_Machine.thy ===== *)
theory Rds_Manager_Machine
  imports Rds_Manager_Invariant
begin

text \<open>
  The step relation of the session manager, and the proof that every step keeps the invariant.
\<close>

section \<open>Sessions that the handlers create\<close>

lemma createSession_result:
  assumes run: "createSession Y m = (s0, m1)"
  shows "m_SessionId s0 = m_NextSessionId m" "\<not> mAuthSession s0" "mCurrentModuleContext s0 = None" "\<not> mSessionStarted s0"
    "mCurrentState s0 = WTSDown"
    "getConnection m1 = getConnection m" "m_NextSessionId m1 = m_NextSessionId m + 1" "mg_ini m1 = mg_ini m"
    "j \<noteq> m_NextSessionId m \<Longrightarrow> getSession m1 j = getSession m j"
    "getConnectionIdForSessionId m1 = getConnectionIdForSessionId m"
  using run
  by (auto simp: createSession_def new_Session_def manager_simps split: prod.splits)
     (simp_all add: getConnectionIdForSessionId_def emit_def store_session_def fun_eq_iff)

lemma createSession_store:
  assumes run: "createSession Y m = (s0, m1)" and i: "m_SessionId s = m_NextSessionId m"
  shows "\<exists>es. quiet es \<and> store_session s m1 = emit es (store_session s (m\<lparr>m_NextSessionId := m_NextSessionId m + 1\<rparr>))"
proof -
  obtain es where es: "quiet es" "m1 = emit es (store_session s0 (m\<lparr>m_NextSessionId := m_NextSessionId m + 1\<rparr>))"
    using run unfolding createSession_def
    by (auto simp: Let_def split: prod.splits option.splits)
       (metis quiet_effects(1,4,6,7) snd_conv append_Nil2)+
  have "m_SessionId s0 = m_SessionId s" using createSession_result(1) [OF run] i by simp
  then have "store_session s m1 = emit es (store_session s (m\<lparr>m_NextSessionId := m_NextSessionId m + 1\<rparr>))"
    by (simp add: es store_session_def emit_def omap_put_put)
  then show ?thesis using es(1) by blast
qed

lemma manager_ok_create:
  assumes ok: "manager_ok R m w" and "next": "m_NextSessionId m + 1 \<noteq> 0" and run: "createSession Y m = (s0, m1)"
    and i: "m_SessionId s = m_NextSessionId m" and own: "mAuthSession s \<or> granted m (mUsername s) (mDomain s)"
    and ctx: "mCurrentModuleContext s = None" "\<not> mSessionStarted s"
  shows "manager_ok R (store_session s m1) w"
proof -
  obtain es where "quiet es" "store_session s m1 = emit es (store_session s (m\<lparr>m_NextSessionId := m_NextSessionId m + 1\<rparr>))"
    using createSession_store [OF run i] by blast
  then show ?thesis
    using manager_ok_emit [OF manager_ok_new_session [OF ok "next" i own ctx]] by simp
qed

text \<open>Fields of a new session that the handlers set do not matter to the invariant.\<close>

definition harmless :: "(Session \<Rightarrow> Session) \<Rightarrow> bool" where
  "harmless f \<longleftrightarrow> (\<forall>s. same_role s (f s) \<and> mCurrentState (f s) = mCurrentState s)"

lemma harmlessD:
  "harmless f \<Longrightarrow> m_SessionId (f s) = m_SessionId s \<and> mAuthSession (f s) = mAuthSession s \<and> mUsername (f s) = mUsername s \<and>
     mDomain (f s) = mDomain s \<and> mSessionStarted (f s) = mSessionStarted s \<and>
     mCurrentModuleContext (f s) = mCurrentModuleContext s \<and> mCurrentState (f s) = mCurrentState s"
  by (simp add: harmless_def same_role_def same_owner_def)

lemma harmless_setups:
  "harmless (\<lambda>s. s)" "harmless (set_client c)" "harmless (\<lambda>s. (set_client c s)\<lparr>mWinStationName := n\<rparr>)"
  "harmless (\<lambda>s. snd (generateUserToken Y s))" "harmless (\<lambda>s. snd (generateEnvBlockAndModify Y s))"
  "harmless (copy_client a)" "harmless (\<lambda>s. snd (generateAuthEnvBlockAndModify Y s))"
  "harmless (\<lambda>s. s\<lparr>mModuleConfigName := n\<rparr>)" "harmless (\<lambda>s. s\<lparr>mWinStationName := n\<rparr>)"
  by (auto simp: harmless_def same_role_def same_owner_def set_client_def generateUserToken_def
      generateEnvBlockAndModify_def generateAuthEnvBlockAndModify_def copy_client_def Let_def split: prod.splits option.splits)

lemma new_user_session_result:
  assumes ok: "manager_ok R m w" and "next": "m_NextSessionId m + 1 \<noteq> 0" and own: "granted m u d" and harmless: "harmless setup"
    and run: "new_user_session I Y u d setup m = (b, s, m')"
  shows "manager_ok R m' w" "getSession m' (m_SessionId s) = Some s" "m_SessionId s = m_NextSessionId m"
    "mUsername s = u" "mDomain s = d" "\<not> mAuthSession s" "mCurrentState s = WTSDown" "getConnection m' = getConnection m"
    "m_NextSessionId m' = m_NextSessionId m + 1" "getConnectionIdForSessionId m' = getConnectionIdForSessionId m"
proof -
  obtain s0 m1 where create: "createSession Y m = (s0, m1)" by fastforce
  define f where "f = (\<lambda>s. setup (s\<lparr>mUsername := u, mDomain := d\<rparr>))"
  define g where "g = (\<lambda>s. snd (generateUserToken Y s))"
  define h where "h = (\<lambda>s. snd (generateEnvBlockAndModify Y s))"
  define k where "k = (\<lambda>s. s\<lparr>mModuleConfigName := user_module I m1\<rparr> :: Session)"
  have m': "m' = store_session s m1" and s: "s \<in> {g (f s0), h (g (f s0)), k (h (g (f s0)))}"
    using run create unfolding new_user_session_def f_def g_def h_def k_def
    by (auto simp: Let_def split: prod.splits if_splits)
  have fs: "m_SessionId (f s0) = m_NextSessionId m \<and> mUsername (f s0) = u \<and> mDomain (f s0) = d \<and> \<not> mAuthSession (f s0) \<and>
      \<not> mSessionStarted (f s0) \<and> mCurrentModuleContext (f s0) = None \<and> mCurrentState (f s0) = WTSDown"
    using harmlessD [OF harmless] createSession_result [OF create] by (simp add: f_def)
  have "harmless g" "harmless h" "harmless k"
    using harmless_setups(4,5,8) by (simp_all add: g_def h_def k_def)
  then have role: "m_SessionId s = m_NextSessionId m \<and> mUsername s = u \<and> mDomain s = d \<and> \<not> mAuthSession s \<and>
      \<not> mSessionStarted s \<and> mCurrentModuleContext s = None \<and> mCurrentState s = WTSDown"
    using s fs harmlessD by auto
  then show "m_SessionId s = m_NextSessionId m" "mUsername s = u" "mDomain s = d" "\<not> mAuthSession s" "mCurrentState s = WTSDown"
    by simp_all
  show next': "m_NextSessionId m' = m_NextSessionId m + 1" "getConnection m' = getConnection m"
      "getConnectionIdForSessionId m' = getConnectionIdForSessionId m"
    using createSession_result [OF create] by (simp_all add: m' manager_simps)
      (simp add: getConnectionIdForSessionId_def store_session_def fun_eq_iff)
  show "manager_ok R m' w"
    unfolding m' using role own by (intro manager_ok_create [OF ok "next" create]) simp_all
  show "getSession m' (m_SessionId s) = Some s" by (simp add: m' manager_simps)
qed

text \<open>Removing more connections in hindsight.\<close>

lemma manager_ok_retired:
  assumes ok: "manager_ok R m w" and R: "R \<subseteq> R'" "\<And>k. k \<in> R' \<Longrightarrow> getConnection m k = None"
  shows "manager_ok R' m w"
  by (rule manager_ok_change [OF ok]) (use manager_okD [OF ok] R in \<open>auto simp: kept_same\<close>)

lemma found_session:
  assumes ok: "manager_ok R m w" and f: "getFirstDisconnectedSessionUserName m u d = Some s"
  shows "getSession m (m_SessionId s) = Some s" "mUsername s = u" "mDomain s = d" "mCurrentState s = WTSDisconnected"
proof -
  obtain i where "find (\<lambda>(_, s). mUsername s = u \<and> mDomain s = d \<and> mCurrentState s = WTSDisconnected) (m_SessionMap m) = Some (i, s)"
    using f by (auto simp: getFirstDisconnectedSessionUserName_def)
  then have *: "getSession m i = Some s \<and> mUsername s = u \<and> mDomain s = d \<and> mCurrentState s = WTSDisconnected"
    using find_omap [of "\<lambda>_ s. mUsername s = u \<and> mDomain s = d \<and> mCurrentState s = WTSDisconnected" "m_SessionMap m" i s]
      manager_okD(1) [OF ok] by (simp add: getSession_def stores_ok_def)
  then show "getSession m (m_SessionId s) = Some s" "mUsername s = u" "mDomain s = d" "mCurrentState s = WTSDisconnected"
    using sessions_okD [OF ok, of i s] by simp_all
qed

lemma manager_ok_attach:
  assumes ok: "manager_ok R m w" and c: "getConnection m k = Some c" and s: "getSession m i = Some s"
    and show_s: "may_show c s" and c': "same_identity c c'" "c_SessionId c' = i"
  shows "manager_ok R (store_connection c' m) w"
  by (rule manager_ok_store_connection [OF ok c c'(1)])
    (use sessions_okD [OF ok s] s show_s c' in \<open>auto simp: may_show_same [OF same_refl(1) c'(1)]\<close>)

definition ensure_started ::
  "'i ini_ops \<Rightarrow> system \<Rightarrow> Session \<Rightarrow> 'i manager \<Rightarrow> (bool \<times> Session \<times> 'i manager) option" where
  "ensure_started I Y s m = (if mCurrentState s = WTSDown then start_session I Y s m else Some (True, s, m))"

lemma manager_ok_ensure_started:
  assumes ok: "manager_ok R m w" and s: "getSession m i = Some s" and run: "ensure_started I Y s m = Some (b, s', m')"
  shows "manager_ok R m' w \<and> getSession m' i = Some s' \<and> same_owner s s' \<and> getConnection m' = getConnection m \<and>
         m_NextSessionId m' = m_NextSessionId m \<and> (\<forall>j. j \<noteq> i \<longrightarrow> getSession m' j = getSession m j)"
  using run ok s manager_ok_start_session [OF ok s] by (auto simp: ensure_started_def split: if_splits)

lemma getOrCreateConnection_Some:
  "getConnection m k = Some c \<Longrightarrow> getOrCreateConnection k m = (c, m)"
  by (simp add: getOrCreateConnection_def)

text \<open>A session for a user whose connection has been authenticated.\<close>

definition authenticated_as :: "Connection \<Rightarrow> std_string \<Rightarrow> std_string \<Rightarrow> bool" where
  "authenticated_as c u d \<longleftrightarrow> m_AuthStatus c = 0 \<and> m_Username c = u \<and> m_Domain c = d"

lemma authenticated_granted:
  "manager_ok R m w \<Longrightarrow> getConnection m k = Some c \<Longrightarrow> authenticated_as c u d \<Longrightarrow> granted m u d"
  using connections_okD [of R m w k c] by (auto simp: authenticated_as_def)

lemma logon_choice:
  assumes ok: "manager_ok R m w" and own: "granted m u d" and "next": "m_NextSessionId m + 1 \<noteq> 0"
    and run: "(case (if reconnect_allowed I m then getFirstDisconnectedSessionUserName m u d else None) of
        Some s \<Rightarrow> (let s = set_client c s in (True, s, store_session s m))
      | None \<Rightarrow> new_user_session I Y u d (\<lambda>s. (set_client c s)\<lparr>mWinStationName := n\<rparr>) m) = (b, s, m1)"
      (is "(case ?found of Some s \<Rightarrow> _ | _ \<Rightarrow> _) = _")
  shows "manager_ok R m1 w \<and> getSession m1 (m_SessionId s) = Some s \<and> getConnection m1 = getConnection m \<and>
      mUsername s = u \<and> mDomain s = d"
proof (cases ?found)
  case (Some s0)
  then have f: "getFirstDisconnectedSessionUserName m u d = Some s0" by (simp split: if_splits)
  note found = found_session [OF ok f]
  show ?thesis
    using Some run found manager_ok_store_session [OF ok found(1), of "set_client c s0"] harmless_setups(2) [of c]
    by (auto simp: Let_def manager_simps harmless_def same_role_def same_owner_def)
next
  case None
  then have "new_user_session I Y u d (\<lambda>s. (set_client c s)\<lparr>mWinStationName := n\<rparr>) m = (b, s, m1)" using run by simp
  from new_user_session_result [OF ok "next" own harmless_setups(3) this] show ?thesis by simp
qed

lemma getUserSession_ok:
  assumes ok: "manager_ok R m w" and conn: "getConnection m (lu_ConnectionId c) = Some cc"
    and auth: "authenticated_as cc (lu_UserName c) (lu_DomainName c)"
    and run: "CallInLogonUser_getUserSession I Y c m = Some (c', m')" and "next": "m_NextSessionId m + 1 \<noteq> 0"
  shows "manager_ok R m' w"
proof -
  define sel where "sel = (case (if reconnect_allowed I m
      then getFirstDisconnectedSessionUserName m (lu_UserName c) (lu_DomainName c) else None) of
        Some s \<Rightarrow> (let s = set_client c s in (True, s, store_session s m))
      | None \<Rightarrow> new_user_session I Y (lu_UserName c) (lu_DomainName c)
                  (\<lambda>s. (set_client c s)\<lparr>mWinStationName := winstation (lu_ConnectionId c)\<rparr>) m)"
  obtain b s m1 where sel: "sel = (b, s, m1)" by (cases sel) auto
  note run = run [unfolded CallInLogonUser_getUserSession_def getOrCreateConnection_Some [OF conn] Let_def [of "(cc, m)"] prod.case,
      folded sel_def, unfolded Let_def [of "if _ then _ else _"], folded sel_def]
  note m1 = logon_choice [OF ok authenticated_granted [OF ok conn auth] "next" sel [unfolded sel_def]]
  define m2 where "m2 = store_connection (attach_session c s cc) m1"
  have cc: "same_identity cc (attach_session c s cc)" "c_SessionId (attach_session c s cc) = m_SessionId s"
    by (simp_all add: attach_session_def same_identity_def)
  have m2: "manager_ok R m2 w" "getSession m2 (m_SessionId s) = Some s"
    using m1 conn auth manager_ok_attach [of R m1 w "lu_ConnectionId c" cc "m_SessionId s" s, OF _ _ _ _ cc]
    by (simp_all add: m2_def manager_simps may_show_def authenticated_as_def)
  show ?thesis
  proof (cases b)
    case False
    then show ?thesis using run m1 sel by (simp add: Let_def)
  next
    case True
    then obtain b' s' m3 where st: "ensure_started I Y s m2 = Some (b', s', m3)"
      and m': "m' = m3 \<or> m' = snd (set_state Y WTSActive s' m3)"
      using run sel by (auto simp: Let_def ensure_started_def m2_def split: bind_splits if_splits prod.splits)
    then show ?thesis
      using manager_ok_ensure_started [OF m2 st] manager_ok_set_state(1) [of R m3 w _ s' Y WTSActive]
      by (metis prod.collapse)
  qed
qed

lemma getAuthSession_ok:
  assumes ok: "manager_ok R m w" and conn: "getConnection m (lu_ConnectionId c) = Some cc"
    and run: "CallInLogonUser_getAuthSession I Y c m = Some (c', m')" and "next": "m_NextSessionId m + 1 \<noteq> 0"
  shows "manager_ok R m' w"
proof -
  obtain s0 m1 where create: "createSession Y m = (s0, m1)" by fastforce
  note created = createSession_result [OF create]
  define s1 where "s1 = snd (generateAuthEnvBlockAndModify Y
     ((set_client c (s0\<lparr>mModuleConfigName := case getPropertyString I (mg_ini m1) (str ''auth.greeter'') of
          None \<Rightarrow> str ''Qt'' | Some name \<Rightarrow> name, mUsername := lu_UserName c, mDomain := lu_DomainName c\<rparr>))
            \<lparr>mWinStationName := winstation (lu_ConnectionId c)\<rparr>))"
  define s where "s = s1\<lparr>mAuthSession := True\<rparr>"
  define m2 where "m2 = store_connection (attach_session c s1 cc) (store_session s m1)"
  have s: "m_SessionId s = m_NextSessionId m" "mAuthSession s" "mCurrentModuleContext s = None" "\<not> mSessionStarted s"
    using created by (simp_all add: s_def s1_def set_client_def generateAuthEnvBlockAndModify_def Let_def)
  have m1': "manager_ok R (store_session s m1) w"
    by (rule manager_ok_create [OF ok "next" create]) (use s in simp_all)
  have "same_identity cc (attach_session c s1 cc)" "c_SessionId (attach_session c s1 cc) = m_SessionId s"
    by (simp_all add: attach_session_def same_identity_def s_def)
  then have m2: "manager_ok R m2 w" "getSession m2 (m_SessionId s) = Some s"
    using s(2) conn created manager_ok_attach [OF m1', of "lu_ConnectionId c" cc "m_SessionId s" s]
    by (simp_all add: m2_def manager_simps may_show_def)
  have swap: "store_session t (store_connection k m1) = store_connection k (store_session t m1)" for t k
    by (simp add: store_session_def store_connection_def)
  have gen: "generateAuthEnvBlockAndModify Y u = (True, snd (generateAuthEnvBlockAndModify Y u))" for u
    by (simp add: generateAuthEnvBlockAndModify_def Let_def)
  have gen: "generateAuthEnvBlockAndModify Y
     ((set_client c (s0\<lparr>mModuleConfigName := case getPropertyString I (mg_ini m1) (str ''auth.greeter'') of
          None \<Rightarrow> str ''Qt'' | Some name \<Rightarrow> name, mUsername := lu_UserName c, mDomain := lu_DomainName c\<rparr>))
            \<lparr>mWinStationName := winstation (lu_ConnectionId c)\<rparr>) = (True, s1)"
    unfolding s1_def by (rule gen)
  obtain b s' m3 where st: "start_session I Y s m2 = Some (b, s', m3)"
      and m': "m' = m3 \<or> m' = snd (set_state Y WTSConnected s' m3)"
    using run unfolding CallInLogonUser_getAuthSession_def getOrCreateConnection_Some [OF conn] Let_def create prod.case gen
    by (auto simp: swap m2_def s_def split: bind_splits if_splits prod.splits)
  then show ?thesis
    using manager_ok_start_session(1,2) [OF m2 st] manager_ok_set_state(1) [of R m3 w _ s' Y WTSConnected]
    by (metis prod.collapse)
qed

lemma CallInLogonUser_ok:
  assumes ok: "manager_ok R m w" and fresh: "lu_ConnectionId c \<notin> R"
    and run: "CallInLogonUser_doStuff I Y c m = Some (c', m')" and "next": "m_NextSessionId m + 1 \<noteq> 0"
  shows "manager_ok R m' w"
proof -
  obtain cc m1 where cc: "getOrCreateConnection (lu_ConnectionId c) m = (cc, m1)" by fastforce
  note created = manager_ok_getOrCreateConnection [OF ok fresh cc]
  obtain status cc' m2 where au: "Connection_authenticateUser I Y (lu_UserName c) (lu_DomainName c) (lu_Password c) cc m1 =
      (status, cc', m2)" by (metis prod_cases3)
  note auth = manager_ok_authenticate [OF created(1,2) au]
  have nx: "m_NextSessionId m2 + 1 \<noteq> 0" using "next" created(3) auth(4) by simp
  show ?thesis
  proof (cases "status = 0")
    case True
    then have "CallInLogonUser_getUserSession I Y c m2 = Some (c', m')"
      using run cc au by (simp add: CallInLogonUser_doStuff_def CallInLogonUser_authenticateUser_def)
    then show ?thesis
      using getUserSession_ok [OF auth(1,2) _ _ nx] auth(6) [OF True] by (simp add: authenticated_as_def)
  next
    case False
    then have "CallInLogonUser_getAuthSession I Y c m2 = Some (c', m')"
      using run cc au by (simp add: CallInLogonUser_doStuff_def CallInLogonUser_authenticateUser_def)
    then show ?thesis using getAuthSession_ok [OF auth(1,2) _ nx] by blast
  qed
qed

lemma find_omap_put:
  "omap_ok m \<Longrightarrow> omap_get m k = Some v \<Longrightarrow> P v' = P v \<Longrightarrow>
   map_option fst (find (\<lambda>(_, v). P v) (omap_put k v' m)) = map_option fst (find (\<lambda>(_, v). P v) m)"
proof (induction k v' m rule: omap_put.induct)
  case (2 k x k' v' m)
  have "k' < k" if "omap_get m k = Some v" using that 2(2) by (auto simp: omap_ok_def omap_get_def dest!: map_of_SomeD)
  then show ?case using 2 by (auto simp: omap_ok_def omap_get_def split: if_splits)
qed (simp add: omap_get_def)

lemma getConnectionIdForSessionId_eq:
  "getConnectionIdForSessionId m i =
     (case map_option fst (find (\<lambda>(_, c). c_SessionId c = i \<or> m_About2SwitchSessionId c = i) (m_ConnectionMap m)) of
        None \<Rightarrow> 0 | Some k \<Rightarrow> k)"
  by (auto simp: getConnectionIdForSessionId_def split: option.splits)

lemma getConnectionIdForSessionId_ops [manager_simps]:
  "getConnectionIdForSessionId (store_session s m) = getConnectionIdForSessionId m"
  "getConnectionIdForSessionId (removeSession i m) = getConnectionIdForSessionId m"
  "getConnectionIdForSessionId (emit es m) = getConnectionIdForSessionId m"
  "getConnectionIdForSessionId (addTask t m) = getConnectionIdForSessionId m"
  by (simp_all add: getConnectionIdForSessionId_def store_session_def removeSession_def emit_def addTask_def fun_eq_iff)

lemma getConnectionIdForSessionId_store:
  assumes ok: "stores_ok m" and c: "getConnection m k = Some c" "m_ConnectionId c' = k"
    and same: "c_SessionId c' = c_SessionId c" "m_About2SwitchSessionId c' = m_About2SwitchSessionId c"
  shows "getConnectionIdForSessionId (store_connection c' m) i = getConnectionIdForSessionId m i"
  using find_omap_put [of "m_ConnectionMap m" k c "\<lambda>c. c_SessionId c = i \<or> m_About2SwitchSessionId c = i" c'] assms
  by (simp add: getConnectionIdForSessionId_eq store_connection_def stores_ok_def getConnection_def)

lemma authenticate_keeps_id:
  assumes ok: "manager_ok R m w" and c: "getConnection m k = Some c"
    and run: "Connection_authenticateUser I Y u d p c m = (status, c', m')"
  shows "getConnectionIdForSessionId m' = getConnectionIdForSessionId m"
proof
  fix i
  have k: "m_ConnectionId c = k" using connections_okD [OF ok c] by simp
  show "getConnectionIdForSessionId m' i = getConnectionIdForSessionId m i"
    using run getConnectionIdForSessionId_store [of "emit es m" k c _ i for es] c k manager_okD(1) [OF ok]
    by (auto simp: Connection_authenticateUser_def Let_def manager_simps split: if_splits option.splits)
qed

lemma switch_allowed:
  assumes ok: "manager_ok R m w" and c: "getConnection m k = Some c" and s: "getSession m i = Some s" and "may_show c s"
  shows "switch_ok R m (TaskSwitchTo k e old i)"
  using assms sessions_okD [OF ok s] by (auto simp: switch_ok_def)

lemma authenticate_choice:
  assumes ok: "manager_ok R m w" and own: "granted m u d" and "next": "m_NextSessionId m + 1 \<noteq> 0"
    and run: "(case (if reconnect_allowed I m then getFirstDisconnectedSessionUserName m u d else None) of
        None \<Rightarrow> new_user_session I Y u d (\<lambda>s. s) m
      | Some s \<Rightarrow> (let (s, m) = set_state Y WTSConnectQuery s m in (True, s, m))) = (b, s, m1)"
      (is "(case ?found of None \<Rightarrow> _ | Some s \<Rightarrow> _) = _")
  shows "manager_ok R m1 w \<and> getSession m1 (m_SessionId s) = Some s \<and> getConnection m1 = getConnection m \<and>
      mUsername s = u \<and> mDomain s = d \<and> getConnectionIdForSessionId m1 = getConnectionIdForSessionId m"
proof (cases ?found)
  case (Some s0)
  then have f: "getFirstDisconnectedSessionUserName m u d = Some s0" by (simp split: if_splits)
  note found = found_session [OF ok f]
  have "set_state Y WTSConnectQuery s0 m = (s, m1)"
    using Some run by (auto split: prod.splits)
  from manager_ok_set_state [OF ok found(1) this] this show ?thesis
    using found by (auto simp: same_role_def same_owner_def set_state_def manager_simps split: prod.splits)
next
  case None
  then have "new_user_session I Y u d (\<lambda>s. s) m = (b, s, m1)" using run by simp
  from new_user_session_result [OF ok "next" own harmless_setups(1) this] show ?thesis by simp
qed

lemma AuthenticateUser_getUserSession_ok:
  assumes ok: "manager_ok R m w" and conn: "getConnection m (getConnectionIdForSessionId m (au_SessionId c)) = Some cc"
    and auth: "authenticated_as cc (au_UserName c) (au_DomainName c)"
    and run: "CallInAuthenticateUser_getUserSession I Y c m = Some (c', m')" and "next": "m_NextSessionId m + 1 \<noteq> 0"
  shows "manager_ok R m' w"
proof -
  define sel where "sel = (case (if reconnect_allowed I m
      then getFirstDisconnectedSessionUserName m (au_UserName c) (au_DomainName c) else None) of
        None \<Rightarrow> new_user_session I Y (au_UserName c) (au_DomainName c) (\<lambda>s. s) m
      | Some s \<Rightarrow> (let (s, m) = set_state Y WTSConnectQuery s m in (True, s, m)))"
  obtain b s m1 where sel: "sel = (b, s, m1)" by (cases sel) auto
  define k where "k = getConnectionIdForSessionId m (au_SessionId c)"
  note run = run [unfolded CallInAuthenticateUser_getUserSession_def Let_def [of "if _ then _ else _"], folded sel_def]
  note m1 = authenticate_choice [OF ok authenticated_granted [OF ok conn auth] "next" sel [unfolded sel_def]]
  define cc' where "cc' = cc\<lparr>m_About2SwitchSessionId := m_SessionId s\<rparr>"
  define m2 where "m2 = store_connection cc' m1"
  have ck: "getConnection m1 k = Some cc" using m1 conn by (simp add: k_def)
  have cc': "same_identity cc cc'" "c_SessionId cc' = c_SessionId cc" "m_ConnectionId cc' = k"
    using connections_okD [OF conjunct1 [OF m1] ck] by (simp_all add: cc'_def same_identity_def)
  have m2: "manager_ok R m2 w" "getSession m2 (m_SessionId s) = Some s" "getConnection m2 k = Some cc'"
    using m1 cc' manager_ok_store_connection [OF conjunct1 [OF m1] ck cc'(1)] connections_okD [OF conjunct1 [OF m1] ck]
      may_show_same [OF same_refl(1) cc'(1)]
    by (simp_all add: m2_def manager_simps)
  show ?thesis
  proof (cases b)
    case False
    then show ?thesis using run m1 sel by (simp add: Let_def)
  next
    case True
    then obtain b' s' m3 where st: "ensure_started I Y s m2 = Some (b', s', m3)"
      and m': "m' = m3 \<or> m' = addTask (TaskSwitchTo k (mPipeName s') (au_SessionId c) (m_SessionId s')) m3"
      using run sel m1 getOrCreateConnection_Some [OF ck]
      by (auto simp: Let_def ensure_started_def m2_def cc'_def k_def split: bind_splits if_splits prod.splits)
    note m3 = manager_ok_ensure_started [OF m2(1,2) st]
    then have "getSession m3 (m_SessionId s') = Some s'" "may_show cc' s'" "getConnection m3 k = Some cc'"
      using m1 auth cc'(1) m2(3) by (auto simp: same_owner_def same_identity_def may_show_def authenticated_as_def)
    then show ?thesis using m' m3 manager_ok_addTask switch_allowed by metis
  qed
qed

lemma CallInAuthenticateUser_ok:
  assumes ok: "manager_ok R m w" and run: "CallInAuthenticateUser_doStuff I Y c m = Some (c', m')"
    and "next": "m_NextSessionId m + 1 \<noteq> 0"
  shows "manager_ok R m' w"
proof -
  define k where "k = getConnectionIdForSessionId m (au_SessionId c)"
  show ?thesis
  proof (cases "getConnection m k")
    case None
    then show ?thesis using run ok
      by (simp add: CallInAuthenticateUser_doStuff_def CallInAuthenticateUser_authenticateUser_def k_def)
  next
    case (Some cc)
    obtain status cc' m2 where au: "Connection_authenticateUser I Y (au_UserName c) (au_DomainName c) (au_Password c) cc m =
        (status, cc', m2)" by (metis prod_cases3)
    note auth = manager_ok_authenticate [OF ok Some au]
    have k2: "getConnectionIdForSessionId m2 = getConnectionIdForSessionId m"
      by (rule authenticate_keeps_id [OF ok Some au])
    have run': "(if status = 0 then CallInAuthenticateUser_getUserSession I Y (c\<lparr>au_AuthStatus := status\<rparr>) m2
        else Some (c\<lparr>au_AuthStatus := status\<rparr>, m2)) = Some (c', m')"
      using run Some au by (auto simp: CallInAuthenticateUser_doStuff_def CallInAuthenticateUser_authenticateUser_def k_def)
    show ?thesis
    proof (cases "status = 0")
      case True
      then show ?thesis
        using AuthenticateUser_getUserSession_ok [OF auth(1), of "c\<lparr>au_AuthStatus := status\<rparr>" cc' I Y c' m'] run' auth(2,4,6) "next" k2
        by (simp add: k_def authenticated_as_def)
    qed (use run' auth(1) in simp)
  qed
qed

definition prepare_session :: "'i ini_ops \<Rightarrow> system \<Rightarrow> Session \<Rightarrow> std_string \<Rightarrow> std_string \<Rightarrow> 'i manager \<Rightarrow> Session \<Rightarrow> Session" where
  "prepare_session I Y a u d m s =
     (snd (generateEnvBlockAndModify Y (snd (generateUserToken Y (copy_client a (s\<lparr>mUsername := u, mDomain := d\<rparr>))))))
       \<lparr>mModuleConfigName := user_module I m\<rparr>"

lemma prepare_session_fields:
  "m_SessionId (prepare_session I Y a u d m s) = m_SessionId s" "mAuthSession (prepare_session I Y a u d m s) = mAuthSession s"
  "mUsername (prepare_session I Y a u d m s) = u" "mDomain (prepare_session I Y a u d m s) = d"
  "mSessionStarted (prepare_session I Y a u d m s) = mSessionStarted s"
  "mCurrentModuleContext (prepare_session I Y a u d m s) = mCurrentModuleContext s"
  using harmlessD [OF harmless_setups(4), of Y] harmlessD [OF harmless_setups(5), of Y] harmlessD [OF harmless_setups(6), of a]
  by (simp_all add: prepare_session_def)

lemma FDSApi_choice:
  assumes ok: "manager_ok R m w" and own: "granted m u d" and "next": "m_NextSessionId m + 1 \<noteq> 0"
    and sel: "(case (if reconnect_allowed I m then getFirstDisconnectedSessionUserName m u d else None) of
               Some s \<Rightarrow> (False, s, m) | None \<Rightarrow> (let (s, m) = createSession Y m in (True, s, m))) = (b, s0, m0)"
      (is "(case ?found of Some s \<Rightarrow> _ | None \<Rightarrow> _) = _")
    and s: "s = prepare_session I Y a u d m0 s0"
  shows "manager_ok R (store_session s m0) w" "getConnection m0 = getConnection m"
proof -
  have "manager_ok R (store_session s m0) w \<and> getConnection m0 = getConnection m"
  proof (cases ?found)
    case (Some s1)
    then have f: "getFirstDisconnectedSessionUserName m u d = Some s1" by (simp split: if_splits)
    note found = found_session [OF ok f]
    have "same_role s1 (prepare_session I Y a u d m s1)"
      using found by (simp add: same_role_def same_owner_def prepare_session_fields)
    then show ?thesis
      using Some sel manager_ok_store_session [OF ok found(1)] by (auto simp: s)
  next
    case None
    then have create: "createSession Y m = (s0, m0)" using sel by (auto split: prod.splits)
    note created = createSession_result [OF create]
    have "manager_ok R (store_session s m0) w"
      by (rule manager_ok_create [OF ok "next" create]) (use created own in \<open>simp_all add: s prepare_session_fields\<close>)
    then show ?thesis using created by simp
  qed
  then show "manager_ok R (store_session s m0) w" "getConnection m0 = getConnection m" by simp_all
qed

lemma FDSApiHandler_switch_ok:
  assumes ok: "manager_ok R m w" and conn: "getConnection m k = Some cc" and auth: "authenticated_as cc u d"
    and run: "FDSApiHandler_switch I Y i a k u d cc m = Some (r, m')" and "next": "m_NextSessionId m + 1 \<noteq> 0"
  shows "manager_ok R m' w"
proof -
  define sel where "sel = (case (if reconnect_allowed I m then getFirstDisconnectedSessionUserName m u d else None) of
               Some s \<Rightarrow> (False, s, m) | None \<Rightarrow> (let (s, m) = createSession Y m in (True, s, m)))"
  obtain b s0 m0 where sel: "sel = (b, s0, m0)" by (cases sel) auto
  define s where "s = prepare_session I Y a u d m0 s0"
  note choice = FDSApi_choice [OF ok authenticated_granted [OF ok conn auth] "next" sel [unfolded sel_def] s_def]
  define cc' where "cc' = cc\<lparr>c_SessionId := m_SessionId s, ci_with := mClientDisplayWidth s,
                ci_height := mClientDisplayHeight s, ci_colordepth := mClientDisplayColorDepth s\<rparr>"
  define m1 where "m1 = store_connection cc' (store_session s m0)"
  have cc': "same_identity cc cc'" "c_SessionId cc' = m_SessionId s" "m_ConnectionId cc' = k"
    using connections_okD [OF ok conn] by (simp_all add: cc'_def same_identity_def)
  have m1: "manager_ok R m1 w" "getSession m1 (m_SessionId s) = Some s" "getConnection m1 k = Some cc'"
    using manager_ok_attach [OF choice(1) _ _ _ cc'(1,2), of k s] choice(2) conn cc'(3) auth
    by (simp_all add: m1_def manager_simps may_show_def authenticated_as_def s_def prepare_session_fields)
  obtain b' s' m2 where st: "(if b then start_session I Y s m1 else Some (True, s, m1)) = Some (b', s', m2)"
    and m': "m' = m2 \<or> m' = snd (set_state Y WTSActive s' (addTask (TaskSwitchTo k (mPipeName s') i (m_SessionId s')) m2))"
    using run sel unfolding FDSApiHandler_switch_def Let_def [of "if _ then _ else _"] sel_def [symmetric]
    by (auto simp: Let_def m1_def cc'_def s_def prepare_session_def split: bind_splits if_splits prod.splits)
  have m2: "manager_ok R m2 w" "getSession m2 (m_SessionId s) = Some s'" "same_owner s s'" "getConnection m2 k = Some cc'"
    using st m1 manager_ok_start_session [OF m1(1,2)] by (auto split: if_splits)
  then have s': "getSession m2 (m_SessionId s') = Some s'" "may_show cc' s'"
    using auth cc'(1) by (auto simp: same_owner_def same_identity_def may_show_def authenticated_as_def s_def prepare_session_fields)
  note task = manager_ok_addTask [OF m2(1) switch_allowed [OF m2(1,4) s']]
  have "manager_ok R (snd (set_state Y WTSActive s' (addTask (TaskSwitchTo k (mPipeName s') i (m_SessionId s')) m2))) w"
    by (rule manager_ok_set_state(1) [OF task _ prod.collapse [symmetric]]) (use s'(1) in \<open>simp add: manager_simps\<close>)
  then show ?thesis using m' m2(1) by blast
qed

lemma FDSApiHandler_authenticateUser_ok:
  assumes ok: "manager_ok R m w" and run: "FDSApiHandler_authenticateUser I Y i u p d m = Some (r, m')"
    and "next": "m_NextSessionId m + 1 \<noteq> 0"
  shows "manager_ok R m' w"
proof (cases "m' = m")
  case False
  define k where "k = getConnectionIdForSessionId m i"
  obtain a cc where a: "getSession m i = Some a" "mAuthSession a" and cc: "getConnection m k = Some cc"
    using run False by (auto simp: FDSApiHandler_authenticateUser_def k_def Let_def split: option.splits if_splits)
  obtain status cc' m2 where au: "Connection_authenticateUser I Y u d p cc m = (status, cc', m2)" by (metis prod_cases3)
  note auth = manager_ok_authenticate [OF ok cc au]
  have "(if status \<noteq> 0 then Some (status, m2) else FDSApiHandler_switch I Y i a k u d cc' m2) = Some (r, m')"
    using run a cc au by (simp add: FDSApiHandler_authenticateUser_def k_def split: if_splits)
  then show ?thesis
    using FDSApiHandler_switch_ok [OF auth(1,2)] auth(1,4,6) "next" by (auto simp: authenticated_as_def split: if_splits)
qed (use ok in simp)

section \<open>The handlers that remove connections\<close>

definition retired :: "UINT32 set \<Rightarrow> 'i manager \<Rightarrow> 'i manager \<Rightarrow> UINT32 set" where
  "retired R m m' = R \<union> {k. getConnection m k \<noteq> None \<and> getConnection m' k = None}"

lemma retired_same [simp]: "retired R m m = R"
  by (auto simp: retired_def)

lemma manager_ok_retiredI:
  assumes "manager_ok R' m' w'" and "R' \<subseteq> retired R m m'" and "\<And>k. k \<in> R \<Longrightarrow> k \<in> R'"
  shows "manager_ok (retired R m m') m' w'"
proof (rule manager_ok_retired [OF assms(1,2)])
  fix k assume "k \<in> retired R m m'"
  then show "getConnection m' k = None"
    using assms(3) manager_okD(4) [OF assms(1)] unfolding retired_def by blast
qed

lemma manager_ok_remove_after:
  assumes ok: "manager_ok R m1 w" and same: "getConnection m1 = getConnection m"
  shows "manager_ok (retired R m (removeConnection k m1)) (removeConnection k m1) w"
  by (rule manager_ok_retiredI [OF manager_ok_removeConnection [OF ok]])
    (auto simp: retired_def same manager_simps)

lemma retired_addTask [manager_simps]: "retired R m (addTask t m') = retired R m m'"
  by (simp add: retired_def manager_simps)

lemma CallInDisconnectUserSession_ok:
  assumes ok: "manager_ok R m w" and run: "CallInDisconnectUserSession_doStuff I Y k m = (b, m')"
  shows "manager_ok (retired R m m') m' w"
proof (cases "b")
  case False
  then have "m' = m" using run by (auto simp: CallInDisconnectUserSession_doStuff_def Let_def split: option.splits prod.splits)
  then show ?thesis using ok by simp
next
  case True
  then obtain c s s' m1 where c: "getConnection m k = Some c" "getSession m (c_SessionId c) = Some s"
    "set_state Y WTSDisconnected s m = (s', m1)"
    and m': "m' = removeConnection k m1 \<or> m' = addTask (TaskEndSession (m_SessionId s')) (removeConnection k m1)"
    using run by (auto simp: CallInDisconnectUserSession_doStuff_def Let_def split: option.splits prod.splits)
  note m1 = manager_ok_set_state [OF ok c(2,3)]
  note removed = manager_ok_remove_after [OF m1(1) m1(6), of k]
  show ?thesis
    using m'
  proof
    assume "m' = removeConnection k m1"
    then show ?thesis using removed by simp
  next
    assume "m' = addTask (TaskEndSession (m_SessionId s')) (removeConnection k m1)"
    then show ?thesis using manager_ok_addTask [OF removed switch_ok_trivial(1)] by (simp add: retired_addTask)
  qed
qed

lemma CallInLogOffUserSession_ok:
  assumes ok: "manager_ok R m w" and run: "CallInLogOffUserSession_doStuff Y k m = (b, m')"
  shows "manager_ok (retired R m m') m' w"
proof (cases b)
  case False
  then have "m' = m" using run by (auto simp: CallInLogOffUserSession_doStuff_def Let_def split: option.splits)
  then show ?thesis using ok by simp
next
  case True
  then obtain i where "m' = removeConnection k (stopSession Y i m)"
    using run by (auto simp: CallInLogOffUserSession_doStuff_def Let_def split: option.splits)
  then show ?thesis using manager_ok_remove_after [OF manager_ok_stopSession(1,2) [OF ok]] by blast
qed

lemma TaskSessionTimeout_round_ok:
  assumes ok: "manager_ok R m w"
  shows "manager_ok R (TaskSessionTimeout_round I Y m) w"
proof -
  have "manager_ok R (fold (\<lambda>s m. if session_timed_out I Y m s then addTask (TaskEndSession (m_SessionId s)) m else m) ss m) w"
    if "manager_ok R m w" for ss m
    using that by (induction ss arbitrary: m) (simp_all add: manager_ok_addTask)
  then show ?thesis using ok by (simp add: TaskSessionTimeout_round_def)
qed

section \<open>Tasks\<close>

lemma waiting_ok_simps [simp]:
  "waiting_ok None" "waiting_ok (Some (TaskSwitchTo k e i j, k')) \<longleftrightarrow> k' = k" "waiting_ok (Some (TaskEndSession i, k))"
  "waiting_ok (Some (TaskModuleShutdown i, k))"
  by (simp_all add: waiting_ok_def)

lemma getConnection_tasks [manager_simps]: "getConnection (m\<lparr>m_Tasks := ts\<rparr>) = getConnection m"
  by (simp add: getConnection_def fun_eq_iff)

lemma task_run_ok:
  assumes ok: "manager_ok R m None" and t: "m_Tasks m = t # ts"
    and run: "task_run Y t (m\<lparr>m_Tasks := ts\<rparr>) = (call, m')"
  shows "manager_ok R m' (map_option (\<lambda>(_, k). (t, k)) call) \<and> getConnection m' = getConnection m"
proof -
  define w where "w = map_option (\<lambda>(_, k). (t, k)) call"
  have "waiting_ok w" "w = None \<or> (\<exists>k. w = Some (t, k))"
    using run by (cases t; auto simp: w_def task_run_def Let_def split: if_splits)+
  note pop = manager_ok_pop [OF ok t this]
  have "m' = m\<lparr>m_Tasks := ts\<rparr> \<or> (\<exists>i. m' = stopSession Y i (m\<lparr>m_Tasks := ts\<rparr>))"
    using run by (cases t) (auto simp: task_run_def Let_def split: if_splits)
  then show ?thesis
    using pop manager_ok_stopSession(1,2) [OF pop, of Y] by (auto simp: w_def [symmetric] manager_simps)
qed

lemma TaskSwitchTo_answered_ok:
  assumes ok: "manager_ok R m (Some (TaskSwitchTo k e old new, k'))"
  shows "manager_ok R (TaskSwitchTo_answered Y k' old new result m) None \<and>
         (\<forall>j. getConnection (TaskSwitchTo_answered Y k' old new result m) j = None \<longleftrightarrow> getConnection m j = None)"
proof -
  have k: "k' = k" and task: "switch_ok R m (TaskSwitchTo k e old new)"
    using ok by (auto simp: manager_ok_def tasks_ok_def waiting_ok_def pending_def)
  note ok' = manager_ok_answered [OF ok]
  note stop = manager_ok_stopSession [OF ok', of Y]
  show ?thesis
  proof (cases "result = 0")
    case True
    define m1 where "m1 = (if old \<noteq> 0 then stopSession Y old m else m)"
    have m1: "manager_ok R m1 None" "getConnection m1 = getConnection m" "m_NextSessionId m1 = m_NextSessionId m"
      "\<And>i s. getSession m1 i = Some s \<Longrightarrow> getSession m i = Some s"
      using stop ok' by (auto simp: m1_def split: if_splits)
    have "manager_ok R (store_connection (c\<lparr>c_SessionId := new, m_About2SwitchSessionId := 0\<rparr>) m1) None"
      if c: "getConnection m1 k = Some c" for c
    proof (rule manager_ok_store_connection [OF m1(1) c])
      have "k \<notin> R" using connections_okD [OF m1(1) c] by simp
      then show "may_show (c\<lparr>c_SessionId := new, m_About2SwitchSessionId := 0\<rparr>) s"
        if "getSession m1 (c_SessionId (c\<lparr>c_SessionId := new, m_About2SwitchSessionId := 0\<rparr>)) = Some s" for s
        using that c task m1(2,4) by (auto simp: switch_ok_def may_show_def)
    qed (use task m1(3) in \<open>simp_all add: switch_ok_def same_identity_def\<close>)
    then show ?thesis
      using True k m1 connections_okD [OF m1(1), of k]
      by (auto simp: TaskSwitchTo_answered_def m1_def [symmetric] manager_simps split: option.splits)
  next
    case False
    define m1 where "m1 = (case getSession m new of
                 None \<Rightarrow> m
               | Some s \<Rightarrow>
                   if mCurrentState s = WTSActive then stopSession Y new m
                   else if mCurrentState s = WTSConnectQuery then snd (set_state Y WTSDisconnected s m) else m)"
    have m1: "manager_ok R m1 None" "getConnection m1 = getConnection m"
      using ok' stop manager_ok_set_state(1,6) [OF ok' _ prod.collapse [symmetric]]
      by (auto simp: m1_def split: option.splits)
    have "manager_ok R (store_connection (c\<lparr>m_About2SwitchSessionId := 0\<rparr>) m1) None" if c: "getConnection m1 k = Some c" for c
      by (rule manager_ok_store_connection [OF m1(1) c])
        (use connections_okD [OF m1(1) c] in \<open>simp_all add: same_identity_def may_show_def\<close>)
    then show ?thesis
      using False k m1 connections_okD [OF m1(1), of k]
      by (auto simp: TaskSwitchTo_answered_def TaskSwitchTo_cleanUpOnError_def m1_def [symmetric] manager_simps split: option.splits)
  qed
qed

lemma task_answered_ok:
  assumes ok: "manager_ok R m (Some (t, k))"
  shows "manager_ok (retired R m (task_answered Y t k result m)) (task_answered Y t k result m) None"
proof (cases t)
  case (TaskSwitchTo k' e old new)
  note answered = TaskSwitchTo_answered_ok [OF ok [unfolded TaskSwitchTo], of Y result]
  show ?thesis
    by (rule manager_ok_retiredI [of R]) (use answered in \<open>auto simp: TaskSwitchTo task_answered_def retired_def\<close>)
next
  case (TaskEndSession i)
  note ok' = manager_ok_answered [OF ok]
  show ?thesis
    using manager_ok_remove_after [OF manager_ok_stopSession(1,2) [OF ok', of Y i], of k] ok'
    by (simp add: TaskEndSession task_answered_def TaskEndSession_answered_def)
next
  case (TaskModuleShutdown i)
  show ?thesis
    using manager_ok_remove_after [OF manager_ok_answered [OF ok] refl, of k]
    by (simp add: TaskModuleShutdown task_answered_def)
qed

section \<open>Loss of the server\<close>

definition listed :: "'i manager \<Rightarrow> Session list \<Rightarrow> bool" where
  "listed m ss \<longleftrightarrow> distinct (map m_SessionId ss) \<and> (\<forall>s \<in> set ss. getSession m (m_SessionId s) = Some s)"

lemma getAllSessions_iff:
  assumes ok: "manager_ok R m w"
  shows "s \<in> set (getAllSessions m) \<longleftrightarrow> getSession m (m_SessionId s) = Some s"
proof -
  have o: "omap_ok (m_SessionMap m)" using manager_okD(1) [OF ok] by (simp add: stores_ok_def)
  have "s \<in> set (getAllSessions m) \<longleftrightarrow> (\<exists>i. getSession m i = Some s)"
    by (auto simp: getAllSessions_def getSession_def omap_in_set [OF o, symmetric] image_iff)
       (metis snd_conv)
  then show ?thesis using sessions_okD [OF ok] by blast
qed

lemma getAllSessions_ids:
  assumes ok: "manager_ok R m w"
  shows "map m_SessionId (getAllSessions m) = map fst (m_SessionMap m)"
proof -
  have o: "omap_ok (m_SessionMap m)" using manager_okD(1) [OF ok] by (simp add: stores_ok_def)
  have "m_SessionId (snd p) = fst p" if "p \<in> set (m_SessionMap m)" for p
    using that omap_in_set [OF o, of "fst p" "snd p"] sessions_okD [OF ok, of "fst p" "snd p"] by (simp add: getSession_def)
  then show ?thesis by (simp add: getAllSessions_def)
qed

lemma listed_getAllSessions:
  assumes ok: "manager_ok R m w"
  shows "listed m (getAllSessions m)"
  using getAllSessions_iff [OF ok] getAllSessions_ids [OF ok] manager_okD(1) [OF ok]
  by (simp add: listed_def stores_ok_def omap_ok_def strict_sorted_iff)

lemma listed_Cons:
  "listed m (s # ss) \<Longrightarrow> (\<And>j. j \<noteq> m_SessionId s \<Longrightarrow> getSession m' j = getSession m j) \<Longrightarrow> listed m' ss"
  unfolding listed_def by (metis distinct.simps(2) list.simps(9) image_eqI list.set_intros(2) list.set_map)

text \<open>What the loop leaves of a session: nothing of a greeter, and the others are disconnected.\<close>

definition after_disconnect :: "Session \<Rightarrow> Session option \<Rightarrow> bool" where
  "after_disconnect s r \<longleftrightarrow>
     (if mAuthSession s then r = None else \<exists>s'. r = Some s' \<and> same_role s s' \<and> mCurrentState s' = WTSDisconnected \<and>
        mPipeName s' = mPipeName s)"

lemma disconnect_all_ok:
  "manager_ok R m w \<Longrightarrow> listed m ss \<Longrightarrow> disconnect_all Y ss m = (removed, m') \<Longrightarrow>
   manager_ok R m' w \<and> getConnection m' = getConnection m \<and> m_NextSessionId m' = m_NextSessionId m \<and>
   (\<forall>s \<in> set ss. after_disconnect s (getSession m' (m_SessionId s))) \<and>
   (\<forall>j. j \<notin> m_SessionId ` set ss \<longrightarrow> getSession m' j = getSession m j)"
proof (induction ss arbitrary: m removed)
  case (Cons s ss)
  have s: "getSession m (m_SessionId s) = Some s" and fresh: "m_SessionId s \<notin> m_SessionId ` set ss"
    using Cons.prems(2) by (auto simp: listed_def)
  show ?case
  proof (cases "mAuthSession s")
    case True
    obtain b s' es where stop: "stopModule Y (mg_modules m) s = (b, s', es)" by (metis prod_cases3)
    define m1 where "m1 = removeSession (m_SessionId s') (emit es m)"
    note stopped = manager_ok_stop [OF Cons.prems(1) s stop]
    have i: "m_SessionId s' = m_SessionId s" using stopped(2) by (simp add: same_owner_def)
    have m1: "manager_ok R m1 w" "getConnection m1 = getConnection m" "m_NextSessionId m1 = m_NextSessionId m"
      "\<And>j. getSession m1 j = (if j = m_SessionId s then None else getSession m j)"
      using stopped(1) by (simp_all add: m1_def i manager_simps)
    obtain rest where "disconnect_all Y ss m1 = (rest, m')"
      using Cons.prems(3) True stop by (auto simp: m1_def split: prod.splits)
    then show ?thesis
      using Cons.IH [OF m1(1) listed_Cons [OF Cons.prems(2)]] m1 fresh True
      by (simp add: after_disconnect_def)
  next
    case False
    obtain s' m1 where set: "set_state Y WTSDisconnected s m = (s', m1)" by fastforce
    note m1 = manager_ok_set_state [OF Cons.prems(1) s set]
    have "disconnect_all Y ss m1 = (removed, m')"
      using Cons.prems(3) False set by simp
    then show ?thesis
      using Cons.IH [OF m1(1) listed_Cons [OF Cons.prems(2)]] m1 fresh False
      by (auto simp: after_disconnect_def)
  qed
qed simp

lemma rpcDisconnected_result:
  assumes ok: "manager_ok R m w"
  shows "manager_ok (retired R m (rpcDisconnected Y m)) (rpcDisconnected Y m) w"
    "getConnection (rpcDisconnected Y m) k = None" "m_NextSessionId (rpcDisconnected Y m) = m_NextSessionId m"
    "getSession m i = Some s \<Longrightarrow> after_disconnect s (getSession (rpcDisconnected Y m) i)"
    "getSession m i = None \<Longrightarrow> getSession (rpcDisconnected Y m) i = None"
proof -
  let ?m0 = "ConnectionStore_reset m"
  note reset = manager_ok_reset [OF ok]
  have all: "getAllSessions m = getAllSessions ?m0" by (simp add: getAllSessions_def ConnectionStore_reset_def)
  obtain removed m1 where d: "disconnect_all Y (getAllSessions m) ?m0 = (removed, m1)" by fastforce
  note res = disconnect_all_ok [OF reset listed_getAllSessions [OF reset, folded all] d]
  have m': "rpcDisconnected Y m = emit (concat (map (delete_Session Y) removed)) m1"
    using d by (simp add: rpcDisconnected_def)
  have q: "quiet (concat (map (delete_Session Y) removed))"
    by (induction removed) simp_all
  show c: "getConnection (rpcDisconnected Y m) k = None" for k using res by (simp add: m' manager_simps)
  show "m_NextSessionId (rpcDisconnected Y m) = m_NextSessionId m" using res by (simp add: m' manager_simps)
  have "retired R m (rpcDisconnected Y m) = R \<union> {k. getConnection m k \<noteq> None}" using c by (simp add: retired_def)
  then show "manager_ok (retired R m (rpcDisconnected Y m)) (rpcDisconnected Y m) w"
    using manager_ok_emit [OF conjunct1 [OF res] q] by (simp add: m')
  show "after_disconnect s (getSession (rpcDisconnected Y m) i)" if "getSession m i = Some s"
    using that res getAllSessions_iff [OF ok, of s] sessions_okD [OF ok that] by (auto simp: m' manager_simps)
  show "getSession (rpcDisconnected Y m) i = None" if i: "getSession m i = None"
  proof -
    have "i \<notin> m_SessionId ` set (getAllSessions m)" using i getAllSessions_iff [OF ok] by auto
    then show ?thesis using res i by (simp add: m' manager_simps)
  qed
qed

end
