(* ===== verification/Rds_Manager_Properties.thy ===== *)
theory Rds_Manager_Properties
  imports Rds_Manager_Machine
begin

text \<open>
  The reachable states of the session manager and what holds in them.  One event is one handler, the start
  of the next task of the executor, the answer to the task that waits, or the loss of the server.
\<close>

section \<open>Events\<close>

datatype manager_event =
    OnLogonUser CallInLogonUser
  | OnAuthenticateUser CallInAuthenticateUser
  | OnDisconnectUser UINT32
  | OnLogOffUser UINT32
  | OnEndSession UINT32
  | ApiAuthenticate UINT32 std_string std_string std_string
  | ApiShutdown UINT32
  | TimeoutRound
  | ServerLost
  | TaskStart
  | TaskAnswer UINT32

fun manager_event_step ::
  "'i ini_ops \<Rightarrow> system \<Rightarrow> manager_event \<Rightarrow> 'i manager \<Rightarrow> waiting_task \<Rightarrow> ('i manager \<times> waiting_task) option" where
  "manager_event_step I Y (OnLogonUser c) m w = map_option (\<lambda>(_, m'). (m', w)) (CallInLogonUser_doStuff I Y c m)"
| "manager_event_step I Y (OnAuthenticateUser c) m w =
     map_option (\<lambda>(_, m'). (m', w)) (CallInAuthenticateUser_doStuff I Y c m)"
| "manager_event_step I Y (OnDisconnectUser k) m w = Some (snd (CallInDisconnectUserSession_doStuff I Y k m), w)"
| "manager_event_step I Y (OnLogOffUser k) m w = Some (snd (CallInLogOffUserSession_doStuff Y k m), w)"
| "manager_event_step I Y (OnEndSession i) m w = Some (CallInEndSession_doStuff i m, w)"
| "manager_event_step I Y (ApiAuthenticate i u p d) m w =
     map_option (\<lambda>(_, m'). (m', w)) (FDSApiHandler_authenticateUser I Y i u p d m)"
| "manager_event_step I Y (ApiShutdown i) m w = Some (CallBacks_shutdown i m, w)"
| "manager_event_step I Y TimeoutRound m w = Some (TaskSessionTimeout_round I Y m, w)"
| "manager_event_step I Y ServerLost m w = Some (rpcDisconnected Y m, w)"
| "manager_event_step I Y TaskStart m w =
     (case (w, m_Tasks m) of
        (None, task # tasks) \<Rightarrow>
          (let (call, m') = task_run Y task (m\<lparr>m_Tasks := tasks\<rparr>)
           in Some (m', map_option (\<lambda>(_, connectionId). (task, connectionId)) call))
      | _ \<Rightarrow> None)"
| "manager_event_step I Y (TaskAnswer result) m w =
     (case w of
        Some (task, connectionId) \<Rightarrow> Some (task_answered Y task connectionId result m, None)
      | None \<Rightarrow> None)"

text \<open>
  The server numbers its connections upwards from 0 (\<open>freerds/core/server.c\<close>), so it gives out a number again
  only after it was started anew, and then every number.  The manager keeps its queued tasks when
  it loses the server.  What is assumed of the events is that a number is not given to a
  new connection while a task to switch the old connection of that number is still queued or waits for its answer.
\<close>

definition switches :: "UINT32 \<Rightarrow> manager_task \<Rightarrow> bool" where
  "switches k task \<longleftrightarrow> (case task of TaskSwitchTo k' _ _ _ \<Rightarrow> k' = k | _ \<Rightarrow> False)"

definition event_allowed :: "'i manager \<Rightarrow> waiting_task \<Rightarrow> manager_event \<Rightarrow> bool" where
  "event_allowed m w e \<longleftrightarrow>
     (case e of
        OnLogonUser c \<Rightarrow>
          getConnection m (lu_ConnectionId c) \<noteq> None \<or> (\<forall>task \<in> set (pending m w). \<not> switches (lu_ConnectionId c) task)
      | _ \<Rightarrow> True)"

definition manager_initial :: "'i manager \<Rightarrow> bool" where
  "manager_initial m \<longleftrightarrow>
     m_SessionMap m = [] \<and> m_NextSessionId m = 1 \<and> m_ConnectionMap m = [] \<and> m_Tasks m = [] \<and> mg_contexts m = 0 \<and>
     mg_log m = []"

inductive manager_reachable ::
  "'i ini_ops \<Rightarrow> 'i manager \<Rightarrow> waiting_task \<Rightarrow> bool" for I where
  start: "manager_initial m \<Longrightarrow> manager_reachable I m None"
| step: "manager_reachable I m w \<Longrightarrow> event_allowed m w e \<Longrightarrow> m_NextSessionId m + 1 \<noteq> 0 \<Longrightarrow>
     manager_event_step I Y e m w = Some (m', w') \<Longrightarrow> manager_reachable I m' w'"

lemma manager_ok_initial: "manager_initial m \<Longrightarrow> manager_ok {} m None"
  by (simp add: manager_initial_def manager_ok_def stores_ok_def sessions_ok_def connections_ok_def tasks_ok_def contexts_ok_def
      omap_ok_def getSession_def getConnection_def holds_context_def log_ok_def pending_def)

text \<open>Handlers that remove no connection retire nothing.\<close>

lemma manager_ok_retire:
  assumes "manager_ok R m w" "manager_ok R m' w'"
  shows "manager_ok (retired R m m') m' w'"
  by (rule manager_ok_retiredI [OF assms(2)]) (simp_all add: retired_def)

text \<open>The number of a removed connection may be used again once no task switches that connection.\<close>

lemma manager_ok_reuse:
  assumes ok: "manager_ok R m w" and free: "\<forall>task \<in> set (pending m w). \<not> switches k task"
  shows "manager_ok (R - {k}) m w"
proof -
  have "switch_ok (R - {k}) m task" if "task \<in> set (pending m w)" for task
  proof -
    have "switch_ok R m task" using ok that by (simp add: manager_ok_def tasks_ok_def)
    then show ?thesis using free that by (auto simp: switch_ok_def switches_def split: manager_task.splits)
  qed
  then show ?thesis using ok by (simp add: manager_ok_def tasks_ok_def)
qed

lemma manager_ok_logon_event:
  assumes ok: "manager_ok R m w" and allowed: "event_allowed m w (OnLogonUser c)"
    and run: "CallInLogonUser_doStuff I Y c m = Some (c', m')" and "next": "m_NextSessionId m + 1 \<noteq> 0"
  shows "\<exists>R'. manager_ok R' m' w"
proof (cases "getConnection m (lu_ConnectionId c)")
  case None
  then have "manager_ok (R - {lu_ConnectionId c}) m w"
    using allowed manager_ok_reuse [OF ok] by (simp add: event_allowed_def)
  then show ?thesis using CallInLogonUser_ok [OF _ _ run "next"] by blast
next
  case (Some cc)
  then have "lu_ConnectionId c \<notin> R" using connections_okD [OF ok] by blast
  then show ?thesis using CallInLogonUser_ok [OF ok _ run "next"] by blast
qed

lemma manager_ok_other_event:
  assumes ok: "manager_ok R m w" and other: "\<And>c. e \<noteq> OnLogonUser c" and "next": "m_NextSessionId m + 1 \<noteq> 0"
    and run: "manager_event_step I Y e m w = Some (m', w')"
  shows "manager_ok (retired R m m') m' w'"
proof (cases e)
  case (OnAuthenticateUser c)
  then show ?thesis using run CallInAuthenticateUser_ok [OF ok _ "next"] by (auto intro!: manager_ok_retire [OF ok])
next
  case (OnDisconnectUser k)
  then show ?thesis using run CallInDisconnectUserSession_ok [OF ok prod.collapse [symmetric]] by auto
next
  case (OnLogOffUser k)
  then show ?thesis using run CallInLogOffUserSession_ok [OF ok prod.collapse [symmetric]] by auto
next
  case (OnEndSession i)
  then show ?thesis
    using run manager_ok_addTask [OF ok switch_ok_trivial(1)]
    by (auto simp: CallInEndSession_doStuff_def intro!: manager_ok_retire [OF ok])
next
  case (ApiAuthenticate i u p d)
  then show ?thesis using run FDSApiHandler_authenticateUser_ok [OF ok _ "next"] by (auto intro!: manager_ok_retire [OF ok])
next
  case (ApiShutdown i)
  then show ?thesis
    using run manager_ok_addTask [OF ok switch_ok_trivial(2)]
    by (auto simp: CallBacks_shutdown_def intro!: manager_ok_retire [OF ok])
next
  case TimeoutRound
  then show ?thesis using run TaskSessionTimeout_round_ok [OF ok] by (auto intro!: manager_ok_retire [OF ok])
next
  case ServerLost
  then show ?thesis using run rpcDisconnected_result(1) [OF ok] by auto
next
  case TaskStart
  then obtain t ts call where w: "w = None" and t: "m_Tasks m = t # ts" and
    r: "task_run Y t (m\<lparr>m_Tasks := ts\<rparr>) = (call, m')" and w': "w' = map_option (\<lambda>(_, k). (t, k)) call"
    using run by (auto split: option.splits list.splits prod.splits)
  show ?thesis using task_run_ok [OF ok [unfolded w] t r] ok by (auto simp: w' intro!: manager_ok_retire [OF ok])
next
  case (TaskAnswer result)
  then show ?thesis using run ok task_answered_ok by (auto split: option.splits)
qed (use other in blast)

lemma manager_ok_event:
  assumes ok: "manager_ok R m w" and allowed: "event_allowed m w e" and "next": "m_NextSessionId m + 1 \<noteq> 0"
    and run: "manager_event_step I Y e m w = Some (m', w')"
  shows "\<exists>R'. manager_ok R' m' w'"
proof (cases "\<exists>c. e = OnLogonUser c")
  case True
  then show ?thesis using run allowed manager_ok_logon_event [OF ok _ _ "next"] by auto
next
  case False
  then show ?thesis using manager_ok_other_event [OF ok _ "next" run] by blast
qed

lemma reachable_ok:
  assumes "manager_reachable I m w"
  obtains R where "manager_ok R m w"
proof -
  have "\<exists>R. manager_ok R m w"
    using assms
  proof (induction rule: manager_reachable.induct)
    case (start m)
    then show ?case using manager_ok_initial by blast
  next
    case (step m w e Y m' w')
    then show ?case using manager_ok_event by blast
  qed
  then show thesis using that by blast
qed

section \<open>A sample manager\<close>

definition sample_ini :: list_ini where
  "sample_ini =
     \<lparr>li_ints = [((''global'', str ''session.timeout''), 60)],
      li_strings = [((''global'', str ''module.X11.modulename''), str ''X11'')]\<rparr>"

definition sample_module :: Module where
  "sample_module = \<lparr>mModuleName = str ''X11'', mfpStart = (\<lambda>context. Some (str ''pipe''))\<rparr>"

definition sample_manager :: "list_ini manager" where
  "sample_manager =
     \<lparr>mg_ini = sample_ini, mg_modules = [(str ''X11'', sample_module)], m_SessionMap = [], m_NextSessionId = 1,
      m_ConnectionMap = [], m_Tasks = [], m_Running = True, mg_contexts = 0, mg_log = []\<rparr>"

text \<open>The account \<open>ann\<close> with the password \<open>pw\<close>.\<close>

definition sample_system :: system where
  "sample_system =
     \<lparr>LogonUserA = (\<lambda>user domain. (True, Some 7)),
      getpwnam = (\<lambda>user. Some \<lparr>pw_uid = 1000, pw_shell = str ''sh'', pw_name = user, pw_dir = str ''home''\<rparr>),
      SetEnvironmentVariableEBA = (\<lambda>block name v. Some (name @ [0x3d] @ v @ [0, 0])),
      auth_library = (\<lambda>file. Some (Some (\<lambda>user domain password.
         if user = str ''ann'' \<and> password = Some (str ''pw'') then 0 else 1))),
      universal_time = 100, getLibraryPath = str ''lib''\<rparr>"

definition sample_logon_call :: "UINT32 \<Rightarrow> CallInLogonUser" where
  "sample_logon_call k =
     \<lparr>lu_ConnectionId = k, lu_UserName = str ''ann'', lu_DomainName = [], lu_Password = str ''pw'', lu_Width = 1024,
      lu_Height = 768, lu_ColorDepth = 24, lu_ClientName = str ''pc'', lu_ClientAddress = str ''10.0.0.1'',
      lu_ClientBuildNumber = 1, lu_ClientProductId = 1, lu_ClientHardwareId = 0, lu_ClientProtocolType = 2,
      lu_PipeName = [], lu_Result = 0\<rparr>"

definition sample_session :: "list_ini manager" where
  "sample_session =
     (case CallInLogonUser_doStuff list_ini_ops sample_system (sample_logon_call 3) sample_manager of
        Some (_, m) \<Rightarrow> m | None \<Rightarrow> sample_manager)"

lemma sample_logon_run:
  "\<exists>c. CallInLogonUser_doStuff list_ini_ops sample_system (sample_logon_call 3) sample_manager = Some (c, sample_session) \<and>
     lu_PipeName c = str ''pipe''"
proof -
  have "map_option (lu_PipeName \<circ> fst) (CallInLogonUser_doStuff list_ini_ops sample_system (sample_logon_call 3) sample_manager) =
     Some (str ''pipe'')"
    by code_simp
  then show ?thesis by (auto simp: sample_session_def)
qed

lemma sample_session_reachable: "manager_reachable list_ini_ops sample_session None"
proof -
  have start: "manager_reachable list_ini_ops sample_manager None"
    by (rule manager_reachable.start) (simp add: manager_initial_def sample_manager_def)
  have logon: "manager_event_step list_ini_ops sample_system (OnLogonUser (sample_logon_call 3)) sample_manager None =
      Some (sample_session, None)"
    using sample_logon_run by auto
  show ?thesis
    by (rule manager_reachable.step [OF start _ _ logon]) (simp_all add: event_allowed_def sample_manager_def pending_def)
qed

lemma sample_session_stores:
  "map_option (\<lambda>c. (c_SessionId c, m_AuthStatus c, m_Username c)) (getConnection sample_session 3) = Some (1, 0, str ''ann'')"
  "map_option (\<lambda>s. (mUsername s, mCurrentState s, mAuthSession s, mPipeName s)) (getSession sample_session 1) =
     Some (str ''ann'', WTSActive, False, str ''pipe'')"
  by code_simp+

section \<open>Properties\<close>

text \<open>
  C28. Stores of the session manager.  In every reachable state the two stores are ordered by key without
  duplicates, a session and a connection are stored under their own numbers, the number of a session is
  not 0 and below the next number to be given out, a started session has a module context, and the session
  number of a connection is below the next number as well.
\<close>

theorem manager_stores_well_formed:
  assumes "manager_reachable I m w"
  shows "omap_ok (m_SessionMap m) \<and> omap_ok (m_ConnectionMap m) \<and>
    (\<forall>i s. getSession m i = Some s \<longrightarrow>
       m_SessionId s = i \<and> 0 < i \<and> i < m_NextSessionId m \<and> (mSessionStarted s \<longrightarrow> mCurrentModuleContext s \<noteq> None)) \<and>
    (\<forall>k c. getConnection m k = Some c \<longrightarrow> m_ConnectionId c = k \<and> c_SessionId c < m_NextSessionId m)"
proof -
  obtain R where ok: "manager_ok R m w" by (rule reachable_ok [OF assms])
  have "mSessionStarted s \<longrightarrow> mCurrentModuleContext s \<noteq> None" if "getSession m i = Some s" for i s
    using manager_okD(2) [OF ok] that unfolding contexts_ok_def by force
  then show ?thesis
    using manager_okD(1) [OF ok] sessions_okD [OF ok] connections_okD [OF ok]
    by (auto simp: stores_ok_def word_neq_0_conv)
qed

theorem manager_stores_well_formed_witness:
  "omap_ok (m_SessionMap sample_session) \<and> (\<exists>s. getSession sample_session 1 = Some s \<and> m_SessionId s = 1)"
  using manager_stores_well_formed [OF sample_session_reachable] sample_session_stores(2) by auto



text \<open>
  C29. Contexts of modules.  In every reachable state the contexts were started in the order of their
  numbers, each once; contexts are stopped and freed in the same order, each at most once and never
  without having been started; and a context held by a session has not been freed and is held by that session alone.
\<close>

theorem module_contexts_released_once:
  assumes "manager_reachable I m w"
  shows "started (mg_log m) = [0..<mg_contexts m] \<and> stopped (mg_log m) = released (mg_log m) \<and>
    distinct (released (mg_log m)) \<and> set (released (mg_log m)) \<subseteq> Some ` set (started (mg_log m)) \<and>
    (\<forall>i s k. getSession m i = Some s \<longrightarrow> mCurrentModuleContext s = Some k \<longrightarrow>
       k \<in> set (started (mg_log m)) \<and> Some k \<notin> set (released (mg_log m)) \<and>
       (\<forall>i' s'. getSession m i' = Some s' \<longrightarrow> mCurrentModuleContext s' = Some k \<longrightarrow> i' = i))"
proof -
  obtain R where ok: "manager_ok R m w" by (rule reachable_ok [OF assms])
  show ?thesis
    using manager_okD(2) [OF ok] unfolding contexts_ok_def log_ok_def holds_context_def
    by (metis atLeast0LessThan lessThan_iff set_upt)
qed

theorem module_contexts_released_once_witness:
  "started (mg_log sample_session) = [0] \<and> distinct (released (mg_log sample_session))"
proof -
  have "mg_contexts sample_session = 1" by code_simp
  then show ?thesis using module_contexts_released_once [OF sample_session_reachable] by simp
qed

text \<open>
  C30. Loss of the server.  When the connection to the server is lost, no connection is left; every
  greeter is removed; every other session stays, with its owner, module context and pipe, and is
  disconnected; and no session appears.
\<close>

theorem server_loss_keeps_user_sessions:
  assumes "manager_reachable I m w"
  shows "getConnection (rpcDisconnected Y m) k = None \<and>
    (case getSession m i of
       None \<Rightarrow> getSession (rpcDisconnected Y m) i = None
     | Some s \<Rightarrow>
         if mAuthSession s then getSession (rpcDisconnected Y m) i = None
         else \<exists>s'. getSession (rpcDisconnected Y m) i = Some s' \<and> mCurrentState s' = WTSDisconnected \<and>
                mUsername s' = mUsername s \<and> mDomain s' = mDomain s \<and> mPipeName s' = mPipeName s \<and>
                mCurrentModuleContext s' = mCurrentModuleContext s)"
proof -
  obtain R where ok: "manager_ok R m w" by (rule reachable_ok [OF assms])
  show ?thesis
  proof (cases "getSession m i")
    case (Some s)
    then show ?thesis
      using rpcDisconnected_result(2) [OF ok, of Y k] rpcDisconnected_result(4) [OF ok Some, of Y]
      by (auto simp: after_disconnect_def same_role_def same_owner_def)
  qed (use rpcDisconnected_result(2,5) [OF ok] in simp)
qed

theorem server_loss_keeps_user_sessions_witness:
  "\<exists>s'. getSession (rpcDisconnected sample_system sample_session) 1 = Some s' \<and> mCurrentState s' = WTSDisconnected \<and>
     mPipeName s' = str ''pipe''"
  using server_loss_keeps_user_sessions [OF sample_session_reachable, of sample_system 3 1] sample_session_stores(2) by auto

section \<open>Reconnecting\<close>









section \<open>A switch that outlives its connection\<close>






end
