(* ===== verification/Rds_Unpacker.thy ===== *)
theory Rds_Unpacker
  imports Rds_Msgpack_Roundtrip "HOL-Library.Monad_Syntax"
begin

text \<open>
  The streaming unpacker of \<open>src/external/msgpack/src/unpack.c\<close> and \<open>unpack.h\<close>: a growing buffer that is filled
  in chunks, and the unpacking machine that stops and goes on in it.  Objects are not copied out of
  the buffer, so a buffer has a counter of references, and a zone gives its references back through
  finalizers.

  A buffer is a number; its counter is 0 when it has been freed.  Only the bytes written so far are
  kept, without the counter in front of them.  Sizes are below \<open>2 ^ 64\<close>; where the source
  multiplies or adds them the result is reduced modulo \<open>2 ^ 64\<close>.
\<close>

section \<open>State\<close>

definition COUNTER_SIZE :: nat where
  "COUNTER_SIZE = 4"

text \<open>Which allocations succeed: blocks of a size, the context, a zone, room for a finalizer, room in a new zone.\<close>

record allocation =
  al_malloc :: "nat \<Rightarrow> bool"
  al_context :: bool
  al_zone :: bool
  al_finalizer :: bool
  al_room :: "nat \<Rightarrow> bool"

type_synonym msgpack_zone = "nat list"

record msgpack_unpacker =
  up_buffer :: nat
  up_bytes :: "byte list"
  up_used :: nat
  up_free :: nat
  up_off :: nat
  up_parsed :: nat
  up_z :: msgpack_zone
  up_initial_buffer_size :: nat
  up_ctx :: template_context
  up_counts :: "nat \<Rightarrow> nat"
  up_next :: nat

definition CTX_REFERENCED :: "msgpack_unpacker \<Rightarrow> bool" where
  "CTX_REFERENCED mpac = u_referenced (ctx_user (up_ctx mpac))"

definition set_referenced :: "bool \<Rightarrow> msgpack_unpacker \<Rightarrow> msgpack_unpacker" where
  "set_referenced r mpac =
     mpac\<lparr>up_ctx := (up_ctx mpac)\<lparr>ctx_user := (ctx_user (up_ctx mpac))\<lparr>u_referenced := r\<rparr>\<rparr>\<rparr>"

definition init_count :: "nat \<Rightarrow> msgpack_unpacker \<Rightarrow> msgpack_unpacker" where
  "init_count buffer mpac = mpac\<lparr>up_counts := (up_counts mpac)(buffer := 1)\<rparr>"

definition decl_count :: "nat \<Rightarrow> msgpack_unpacker \<Rightarrow> msgpack_unpacker" where
  "decl_count buffer mpac = mpac\<lparr>up_counts := (up_counts mpac)(buffer := up_counts mpac buffer - 1)\<rparr>"

definition incr_count :: "nat \<Rightarrow> msgpack_unpacker \<Rightarrow> msgpack_unpacker" where
  "incr_count buffer mpac = mpac\<lparr>up_counts := (up_counts mpac)(buffer := up_counts mpac buffer + 1)\<rparr>"

text \<open>Freeing a zone calls its finalizers, the last one first.\<close>

definition msgpack_zone_free :: "msgpack_zone \<Rightarrow> msgpack_unpacker \<Rightarrow> msgpack_unpacker" where
  "msgpack_zone_free zone mpac = fold decl_count (rev zone) mpac"

definition msgpack_zone_push_finalizer :: "allocation \<Rightarrow> msgpack_unpacker \<Rightarrow> msgpack_unpacker option" where
  "msgpack_zone_push_finalizer A mpac = (if al_finalizer A then Some (mpac\<lparr>up_z := up_z mpac @ [up_buffer mpac]\<rparr>) else None)"

section \<open>Operations\<close>

definition msgpack_unpacker_init :: "allocation \<Rightarrow> nat \<Rightarrow> msgpack_unpacker option" where
  "msgpack_unpacker_init A initial_buffer_size =
     (let initial_buffer_size = (if initial_buffer_size < COUNTER_SIZE then COUNTER_SIZE else initial_buffer_size)
      in if \<not> al_malloc A initial_buffer_size \<or> \<not> al_context A \<or> \<not> al_zone A then None
         else Some (init_count 0
           \<lparr>up_buffer = 0, up_bytes = [], up_used = COUNTER_SIZE, up_free = initial_buffer_size - COUNTER_SIZE,
            up_off = COUNTER_SIZE, up_parsed = 0, up_z = [], up_initial_buffer_size = initial_buffer_size,
            up_ctx = new_context (al_room A), up_counts = (\<lambda>_. 0), up_next = 1\<rparr>))"

text \<open>The loops that double a size; a size that has become 0 is never large enough.\<close>

partial_function (option) grow_size :: "nat \<Rightarrow> nat \<Rightarrow> nat option" where
  "grow_size next_size wanted =
     (if next_size < wanted then grow_size (next_size * 2 mod 2 ^ 64) wanted else Some next_size)"

definition rewind_buffer :: "msgpack_unpacker \<Rightarrow> msgpack_unpacker" where
  "rewind_buffer mpac =
     (if up_used mpac = up_off mpac \<and> up_counts mpac (up_buffer mpac) = 1 \<and> \<not> CTX_REFERENCED mpac
      then mpac\<lparr>up_free := up_free mpac + (up_used mpac - COUNTER_SIZE), up_used := COUNTER_SIZE,
                up_off := COUNTER_SIZE, up_bytes := []\<rparr>
      else mpac)"

definition replace_buffer :: "allocation \<Rightarrow> nat \<Rightarrow> msgpack_unpacker \<Rightarrow> bool \<times> msgpack_unpacker" where
  "replace_buffer A next_size mpac =
     (let not_parsed = up_used mpac - up_off mpac;
          tmp = up_next mpac;
          rest = drop (up_off mpac - COUNTER_SIZE) (up_bytes mpac);
          old = (if CTX_REFERENCED mpac
                 then map_option (set_referenced False) (msgpack_zone_push_finalizer A mpac)
                 else Some (decl_count (up_buffer mpac) mpac))
      in case old of
           None \<Rightarrow> (False, mpac)
         | Some mpac \<Rightarrow>
             (True, init_count tmp
               (mpac\<lparr>up_buffer := tmp, up_next := tmp + 1, up_bytes := rest, up_used := not_parsed + COUNTER_SIZE,
                     up_free := next_size - (not_parsed + COUNTER_SIZE), up_off := COUNTER_SIZE\<rparr>)))"

text \<open>The value is \<open>None\<close> where a loop does not end.\<close>

definition msgpack_unpacker_expand_buffer ::
  "allocation \<Rightarrow> nat \<Rightarrow> msgpack_unpacker \<Rightarrow> (bool \<times> msgpack_unpacker) option" where
  "msgpack_unpacker_expand_buffer A len mpac =
     (let rewound = up_used mpac = up_off mpac \<and> up_counts mpac (up_buffer mpac) = 1 \<and> \<not> CTX_REFERENCED mpac;
          mpac = rewind_buffer mpac
      in if rewound \<and> len \<le> up_free mpac then Some (True, mpac)
         else if up_off mpac = COUNTER_SIZE
         then do {
                next_size \<leftarrow> grow_size ((up_used mpac + up_free mpac) * 2 mod 2 ^ 64) ((len + up_used mpac) mod 2 ^ 64);
                Some (if al_malloc A next_size then (True, mpac\<lparr>up_free := next_size - up_used mpac\<rparr>) else (False, mpac))
              }
         else do {
                next_size \<leftarrow> grow_size (up_initial_buffer_size mpac)
                              ((len + (up_used mpac - up_off mpac) + COUNTER_SIZE) mod 2 ^ 64);
                Some (if al_malloc A next_size then replace_buffer A next_size mpac else (False, mpac))
              })"

definition msgpack_unpacker_reserve_buffer ::
  "allocation \<Rightarrow> nat \<Rightarrow> msgpack_unpacker \<Rightarrow> (bool \<times> msgpack_unpacker) option" where
  "msgpack_unpacker_reserve_buffer A len mpac =
     (if len \<le> up_free mpac then Some (True, mpac) else msgpack_unpacker_expand_buffer A len mpac)"

text \<open>The caller writes at \<open>msgpack_unpacker_buffer\<close> and reports it; writing past the room is undefined.\<close>

definition msgpack_unpacker_buffer_consumed :: "byte list \<Rightarrow> msgpack_unpacker \<Rightarrow> msgpack_unpacker option" where
  "msgpack_unpacker_buffer_consumed written mpac =
     (if length written \<le> up_free mpac
      then Some (mpac\<lparr>up_bytes := up_bytes mpac @ written, up_used := up_used mpac + length written,
                      up_free := up_free mpac - length written\<rparr>)
      else None)"

definition msgpack_unpacker_execute :: "msgpack_unpacker \<Rightarrow> int \<times> msgpack_unpacker" where
  "msgpack_unpacker_execute mpac =
     (let off = up_off mpac;
          (ret, ctx, rest) = template_execute (up_ctx mpac) (drop (off - COUNTER_SIZE) (up_bytes mpac));
          off' = up_used mpac - length rest
      in (ret, mpac\<lparr>up_ctx := ctx, up_off := off',
                    up_parsed := (if off < off' then up_parsed mpac + (off' - off) else up_parsed mpac)\<rparr>))"

definition msgpack_unpacker_data :: "msgpack_unpacker \<Rightarrow> msgpack_object" where
  "msgpack_unpacker_data mpac = template_data (up_ctx mpac)"

definition msgpack_unpacker_flush_zone :: "allocation \<Rightarrow> msgpack_unpacker \<Rightarrow> bool \<times> msgpack_unpacker" where
  "msgpack_unpacker_flush_zone A mpac =
     (if CTX_REFERENCED mpac
      then case msgpack_zone_push_finalizer A mpac of
             None \<Rightarrow> (False, mpac)
           | Some mpac \<Rightarrow> (True, incr_count (up_buffer mpac) (set_referenced False mpac))
      else (True, mpac))"

definition msgpack_unpacker_release_zone :: "allocation \<Rightarrow> msgpack_unpacker \<Rightarrow> msgpack_zone option \<times> msgpack_unpacker" where
  "msgpack_unpacker_release_zone A mpac =
     (let (ok, mpac) = msgpack_unpacker_flush_zone A mpac
      in if \<not> ok \<or> \<not> al_zone A then (None, mpac)
         else (Some (up_z mpac),
               mpac\<lparr>up_z := [], up_ctx := (up_ctx mpac)\<lparr>ctx_user := (ctx_user (up_ctx mpac))\<lparr>u_z := al_room A\<rparr>\<rparr>\<rparr>))"

definition msgpack_unpacker_reset :: "msgpack_unpacker \<Rightarrow> msgpack_unpacker" where
  "msgpack_unpacker_reset mpac = mpac\<lparr>up_ctx := template_init (up_ctx mpac), up_parsed := 0\<rparr>"

definition msgpack_unpacker_reset_zone :: "msgpack_unpacker \<Rightarrow> msgpack_unpacker" where
  "msgpack_unpacker_reset_zone mpac = (msgpack_zone_free (up_z mpac) mpac)\<lparr>up_z := []\<rparr>"

text \<open>The zone of the previous result is freed; the new result is an object with its zone, or nothing.\<close>

definition msgpack_unpacker_next ::
  "allocation \<Rightarrow> msgpack_zone option \<Rightarrow> msgpack_unpacker \<Rightarrow>
   (msgpack_object \<times> msgpack_zone option) option \<times> msgpack_unpacker" where
  "msgpack_unpacker_next A zone mpac =
     (let mpac = (case zone of None \<Rightarrow> mpac | Some z \<Rightarrow> msgpack_zone_free z mpac);
          (ret, mpac) = msgpack_unpacker_execute mpac
      in if ret \<le> 0 then (None, mpac)
         else let (zone, mpac) = msgpack_unpacker_release_zone A mpac;
                  data = msgpack_unpacker_data mpac
              in (Some (data, zone), msgpack_unpacker_reset mpac))"

definition msgpack_unpacker_message_size :: "msgpack_unpacker \<Rightarrow> nat" where
  "msgpack_unpacker_message_size mpac = up_parsed mpac + (up_used mpac - up_off mpac)"

definition msgpack_unpacker_destroy :: "msgpack_unpacker \<Rightarrow> msgpack_unpacker" where
  "msgpack_unpacker_destroy mpac = decl_count (up_buffer mpac) (msgpack_zone_free (up_z mpac) mpac)"

section \<open>The loops end\<close>

lemma grow_size_ends:
  assumes "0 < n" and "n < 2 ^ 64" and "wanted \<le> 2 ^ 63"
  shows "\<exists>r. grow_size n wanted = Some r \<and> wanted \<le> r \<and> n \<le> r"
  using assms
proof (induction "wanted - n" arbitrary: n rule: less_induct)
  case less
  show ?case
  proof (cases "n < wanted")
    case False
    then show ?thesis by (simp add: grow_size.simps [of n])
  next
    case True
    then have n: "n * 2 mod 2 ^ 64 = n * 2" "n * 2 < 2 ^ 64" using less.prems(3) by simp_all
    then obtain r where "grow_size (n * 2) wanted = Some r \<and> wanted \<le> r \<and> n * 2 \<le> r"
      using less.hyps [of "n * 2"] less.prems True by fastforce
    then show ?thesis using True n by (auto simp: grow_size.simps [of n])
  qed
qed

section \<open>The machine and the flag\<close>

definition with_flag :: "bool \<Rightarrow> template_context \<Rightarrow> template_context" where
  "with_flag r ctx = ctx\<lparr>ctx_user := (ctx_user ctx)\<lparr>u_referenced := r\<rparr>\<rparr>"

lemma with_flag_simps [simp]:
  "ctx_cs (with_flag r ctx) = ctx_cs ctx" "ctx_trail (with_flag r ctx) = ctx_trail ctx"
  "ctx_stack (with_flag r ctx) = ctx_stack ctx" "ctx_root (with_flag r ctx) = ctx_root ctx"
  "trail_wanted (with_flag r ctx) = trail_wanted ctx" "context_ok (with_flag r ctx) = context_ok ctx"
  "u_z (ctx_user (with_flag r ctx)) = u_z (ctx_user ctx)" "u_referenced (ctx_user (with_flag r ctx)) = r"
  "with_flag r (with_flag r' ctx) = with_flag r ctx" "with_flag (u_referenced (ctx_user ctx)) ctx = ctx"
  "template_data (with_flag r ctx) = template_data ctx"
  by (simp_all add: with_flag_def trail_wanted_def context_ok_def template_data_def)

lemma flag_self [simp]: "\<exists>r. ctx = with_flag r ctx"
  using with_flag_simps(10) [symmetric] by metis

lemma value_pushed_flag:
  "value_pushed (with_flag r ctx) obj = map_sum (apsnd (with_flag r)) (with_flag r) (value_pushed ctx obj)"
  by (simp add: value_pushed_def with_flag_def split: sum.splits)

lemma flag_twice:
  "map_sum (apsnd (with_flag r)) (with_flag r) (map_sum (apsnd (with_flag r')) (with_flag r') x) =
   map_sum (apsnd (with_flag r)) (with_flag r) x"
  by (cases x) (auto simp: apsnd_compose o_def)

lemma template_refer_flag:
  "template_refer ctx obj = with_flag (u_referenced (ctx_user ctx) \<or> (\<exists>b. obj = MSGPACK_OBJECT_RAW b)) ctx"
  by (cases obj) (simp_all add: template_refer_def with_flag_def)

lemma unpack_do_flag:
  "\<exists>r'. unpack_do (with_flag r ctx) act = map_sum (apsnd (with_flag r')) (with_flag r') (unpack_do ctx act)"
proof (cases act)
  case (push_value obj)
  then show ?thesis by (simp add: template_refer_flag value_pushed_flag flag_twice) blast
next
  case (again_fixed_trail c t)
  then show ?thesis by (auto simp: with_flag_def intro!: exI [of _ r])
next
  case raw_zero
  have trail: "(with_flag r ctx)\<lparr>ctx_trail := 0\<rparr> = with_flag r (ctx\<lparr>ctx_trail := 0\<rparr>)" by (simp add: with_flag_def)
  show ?thesis using raw_zero by (simp add: trail template_refer_flag value_pushed_flag flag_twice) blast
next
  case (start_container n ct)
  have "template_container ct (ctx_user (with_flag r ctx)) n = template_container ct (ctx_user ctx) n"
    by (simp add: template_container_def template_callback_array_def template_callback_map_def)
  moreover have "(with_flag r ctx)\<lparr>ctx_stack := st, ctx_cs := 0\<rparr> = with_flag r (ctx\<lparr>ctx_stack := st, ctx_cs := 0\<rparr>)" for st
    by (simp add: with_flag_def)
  ultimately show ?thesis
    using start_container
    by (cases "template_container ct (ctx_user ctx) n") (auto simp: value_pushed_flag intro!: exI [of _ r])
qed auto


lemma unpack_step_flag:
  "\<exists>r'. unpack_step (with_flag r ctx) p = map_sum (apsnd (with_flag r')) (with_flag r') (unpack_step ctx p)"
  using unpack_do_flag by (simp add: unpack_step_def)

lemma execute_flag:
  "template_execute ctx p = (ret, ctx', rest) \<Longrightarrow> \<exists>r'. template_execute (with_flag r ctx) p = (ret, with_flag r' ctx', rest)"
proof (induction ctx p arbitrary: r rule: template_execute.induct)
  case (1 ctx p)
  obtain r' where step: "unpack_step (with_flag r ctx) p = map_sum (apsnd (with_flag r')) (with_flag r') (unpack_step ctx p)"
    using unpack_step_flag by blast
  show ?case
  proof (cases "p = [] \<or> length p < trail_wanted ctx \<or> trail_wanted ctx = 0")
    case True
    then show ?thesis using "1.prems" by (auto simp: template_execute.simps [of ctx p] template_execute.simps [of "with_flag r ctx" p])
  next
    case False
    show ?thesis
    proof (cases "unpack_step ctx p")
      case (Inl x)
      then show ?thesis
        using "1.prems" False step
        by (cases x) (auto simp: template_execute.simps [of ctx p] template_execute.simps [of "with_flag r ctx" p])
    next
      case (Inr c)
      then show ?thesis
        using "1.prems" "1.IH" [OF _ _ Inr, of r'] False step
        by (auto simp: template_execute.simps [of ctx p] template_execute.simps [of "with_flag r ctx" p])
    qed
  qed
qed

text \<open>What the machine leaves: a suffix of its input, and a context that waits for something unless an object is complete.\<close>

lemma unpack_do_failed: "unpack_do ctx act = Inl (ret, ctx') \<Longrightarrow> ret \<noteq> 1 \<Longrightarrow> ctx' = ctx"
  by (cases act) (auto dest: value_pushed_done split: if_splits option.splits)

lemma execute_rest:
  "template_execute ctx p = (ret, ctx', rest) \<Longrightarrow>
   (\<exists>k \<le> length p. rest = drop k p) \<and> (rest = p \<longrightarrow> ret = 1 \<or> ctx' = ctx) \<and>
   (ret = 1 \<longrightarrow> length rest < length p) \<and> (context_ok ctx \<longrightarrow> ret \<noteq> 1 \<longrightarrow> context_ok ctx')"
proof (induction ctx p rule: template_execute.induct)
  case (1 ctx p)
  show ?case
  proof (cases "p = [] \<or> length p < trail_wanted ctx \<or> trail_wanted ctx = 0")
    case True
    then have "rest = p" "ctx' = ctx" "ret \<noteq> 1"
      using "1.prems" by (auto simp: template_execute.simps [of ctx p] split: if_splits)
    then show ?thesis by (auto intro: exI [of _ 0])
  next
    case False
    show ?thesis
    proof (cases "unpack_step ctx p")
      case (Inl x)
      obtain e c where x: "x = (e, c)" by (cases x)
      then have ec: "e = 1 \<or> e = -1 \<and> c = ctx"
        using unpack_step_done [of ctx p e c] unpack_do_failed [of ctx _ e c] Inl by (auto simp: unpack_step_def)
      have res: "ret = e" "ctx' = c" "rest = drop (if e < 0 then trail_wanted ctx - 1 else trail_wanted ctx) p"
        using "1.prems" False Inl x by (auto simp: template_execute.simps [of ctx p])
      have "(if e < 0 then trail_wanted ctx - 1 else trail_wanted ctx) \<le> length p" using False by auto
      then show ?thesis using res ec False by auto
    next
      case (Inr c)
      then have run: "template_execute c (drop (trail_wanted ctx) p) = (ret, ctx', rest)"
        using "1.prems" False by (auto simp: template_execute.simps [of ctx p])
      note IH = "1.IH" [OF _ _ Inr run]
      obtain k where k: "k \<le> length p - trail_wanted ctx" "rest = drop k (drop (trail_wanted ctx) p)"
        using IH False by auto
      then have "rest = drop (k + trail_wanted ctx) p" "k + trail_wanted ctx \<le> length p" using False by auto
      moreover have "length rest < length p" using calculation False by auto
      ultimately show ?thesis using IH False context_ok_step [OF Inr] by blast
    qed
  qed
qed


section \<open>The invariant\<close>

text \<open>
  \<open>zs\<close> are the zones that the caller holds.  The counter of a buffer is the number of references to it: one
  of the unpacker for its own buffer, and one for each finalizer.  Nothing refers to a buffer of which
  nothing has been parsed.
\<close>

definition references :: "msgpack_unpacker \<Rightarrow> msgpack_zone list \<Rightarrow> nat \<Rightarrow> nat" where
  "references mpac zs b = (if b = up_buffer mpac then 1 else 0) + count_list (up_z mpac) b + count_list (concat zs) b"

definition room_ok :: "msgpack_unpacker \<Rightarrow> bool" where
  "room_ok mpac \<longleftrightarrow>
     up_used mpac = COUNTER_SIZE + length (up_bytes mpac) \<and> COUNTER_SIZE \<le> up_off mpac \<and> up_off mpac \<le> up_used mpac \<and>
     up_used mpac + up_free mpac < 2 ^ 62 \<and> 0 < up_initial_buffer_size mpac \<and> up_initial_buffer_size mpac < 2 ^ 62"

definition counts_ok :: "msgpack_unpacker \<Rightarrow> msgpack_zone list \<Rightarrow> bool" where
  "counts_ok mpac zs \<longleftrightarrow>
     up_counts mpac = references mpac zs \<and> (\<forall>b. up_next mpac \<le> b \<longrightarrow> references mpac zs b = 0) \<and>
     (up_off mpac = COUNTER_SIZE \<longrightarrow> \<not> CTX_REFERENCED mpac \<and> references mpac zs (up_buffer mpac) = 1)"

definition unpacker_ok :: "msgpack_unpacker \<Rightarrow> msgpack_zone list \<Rightarrow> bool" where
  "unpacker_ok mpac zs \<longleftrightarrow> room_ok mpac \<and> counts_ok mpac zs \<and> context_ok (up_ctx mpac)"

definition unparsed :: "msgpack_unpacker \<Rightarrow> byte list" where
  "unparsed mpac = drop (up_off mpac - COUNTER_SIZE) (up_bytes mpac)"

text \<open>No allocation gives as much as \<open>2 ^ 62\<close> bytes.\<close>

definition allocation_bounded :: "allocation \<Rightarrow> bool" where
  "allocation_bounded A \<longleftrightarrow> (\<forall>n. al_malloc A n \<longrightarrow> n < 2 ^ 62)"

lemma unpacker_init_ok:
  assumes "msgpack_unpacker_init A n = Some mpac" and "allocation_bounded A"
  shows "unpacker_ok mpac []" and "unparsed mpac = []" and "up_ctx mpac = new_context (al_room A)"
  using assms
  by (auto simp: msgpack_unpacker_init_def Let_def unpacker_ok_def room_ok_def counts_ok_def references_def init_count_def
      allocation_bounded_def COUNTER_SIZE_def CTX_REFERENCED_def context_ok_new new_context_def template_init_def fun_eq_iff
      unparsed_def context_ok_def trail_wanted_def split: if_splits)

lemma rewind_ok:
  assumes "unpacker_ok mpac zs"
  shows "unpacker_ok (rewind_buffer mpac) zs" "unparsed (rewind_buffer mpac) = unparsed mpac"
    "up_ctx (rewind_buffer mpac) = up_ctx mpac"
  using assms
  by (auto simp: rewind_buffer_def unpacker_ok_def room_ok_def counts_ok_def references_def CTX_REFERENCED_def unparsed_def)

lemma counts_okD:
  assumes "counts_ok mpac zs"
  shows "up_counts mpac b = references mpac zs b" "up_next mpac \<le> b \<Longrightarrow> references mpac zs b = 0"
    "up_off mpac = COUNTER_SIZE \<Longrightarrow> \<not> CTX_REFERENCED mpac \<and> references mpac zs (up_buffer mpac) = 1"
  using assms by (simp_all add: counts_ok_def)

text \<open>The old buffer loses the reference of the unpacker, or the zone takes it over.\<close>

lemma replace_counts:
  assumes c: "counts_ok mpac zs"
    and z: "z = (if keep then up_z mpac @ [up_buffer mpac] else up_z mpac)"
    and counts: "counts = (up_counts mpac)(up_buffer mpac := up_counts mpac (up_buffer mpac) - (if keep then 0 else 1),
       up_next mpac := 1)"
    and m: "up_buffer m = up_next mpac" "up_next m = up_next mpac + 1" "up_z m = z" "up_counts m = counts" "\<not> CTX_REFERENCED m"
  shows "counts_ok m zs"
proof -
  note D = counts_okD [OF c]
  have "references mpac zs (up_next mpac) = 0" by (rule D(2)) simp
  then have new: "up_next mpac \<noteq> up_buffer mpac" "count_list (up_z mpac) (up_next mpac) = 0"
    "count_list (concat zs) (up_next mpac) = 0"
    by (simp_all add: references_def split: if_splits)
  have refs: "references m zs b = (if b = up_next mpac then 1 else references mpac zs b -
      (if b = up_buffer mpac \<and> \<not> keep then 1 else 0))" for b
    using new by (simp add: references_def m z)
  have "up_counts m b = references m zs b" for b
    using new by (simp add: refs m counts D(1))
  moreover have "references m zs b = 0" if "up_next m \<le> b" for b
    using that D(2) [of b] by (simp add: refs m)
  ultimately show ?thesis using m by (auto simp: counts_ok_def refs)
qed

lemma replace_ok:
  assumes ok: "unpacker_ok mpac zs" and run: "replace_buffer A n mpac = (b, mpac')" and n: "n < 2 ^ 62"
    and room: "len + (up_used mpac - up_off mpac) + COUNTER_SIZE \<le> n"
  shows "unpacker_ok mpac' zs \<and> unparsed mpac' = unparsed mpac \<and> (b \<longrightarrow> len \<le> up_free mpac') \<and>
    (\<exists>r. up_ctx mpac' = with_flag r (up_ctx mpac))"
proof (cases b)
  case False
  then have "mpac' = mpac" using run by (auto simp: replace_buffer_def Let_def split: option.splits)
  then show ?thesis using ok False by simp
next
  case True
  define keep where "keep = CTX_REFERENCED mpac"
  have r: "room_ok mpac" and c: "counts_ok mpac zs" and x: "context_ok (up_ctx mpac)"
    using ok by (simp_all add: unpacker_ok_def)
  have m: "up_buffer mpac' = up_next mpac" "up_next mpac' = up_next mpac + 1"
    "up_z mpac' = (if keep then up_z mpac @ [up_buffer mpac] else up_z mpac)"
    "up_counts mpac' = (up_counts mpac)(up_buffer mpac := up_counts mpac (up_buffer mpac) - (if keep then 0 else 1), up_next mpac := 1)"
    "up_ctx mpac' = with_flag False (up_ctx mpac)" "up_off mpac' = COUNTER_SIZE"
    "up_used mpac' = up_used mpac - up_off mpac + COUNTER_SIZE" "up_bytes mpac' = unparsed mpac"
    "up_free mpac' = n - (up_used mpac - up_off mpac + COUNTER_SIZE)" "up_initial_buffer_size mpac' = up_initial_buffer_size mpac"
    using run True
    by (auto simp: replace_buffer_def Let_def keep_def init_count_def decl_count_def set_referenced_def msgpack_zone_push_finalizer_def
        with_flag_def unparsed_def CTX_REFERENCED_def split: option.splits if_splits)
  have "counts_ok mpac' zs"
    by (rule replace_counts [OF c refl refl m(1-4)]) (simp add: CTX_REFERENCED_def m)
  moreover have "room_ok mpac'" using r n room by (auto simp: room_ok_def m unparsed_def)
  ultimately show ?thesis using x room by (auto simp: unpacker_ok_def m unparsed_def)
qed


lemma expand_ok:
  assumes ok: "unpacker_ok mpac zs" and A: "allocation_bounded A" and len: "len < 2 ^ 62"
  shows "\<exists>b mpac'. msgpack_unpacker_expand_buffer A len mpac = Some (b, mpac') \<and> unpacker_ok mpac' zs \<and>
    unparsed mpac' = unparsed mpac \<and> (b \<longrightarrow> len \<le> up_free mpac') \<and> (\<exists>r. up_ctx mpac' = with_flag r (up_ctx mpac))"
proof -
  define m where "m = rewind_buffer mpac"
  note m = rewind_ok [OF ok, folded m_def]
  have r: "room_ok m" using m(1) by (simp add: unpacker_ok_def)
  have flag: "\<exists>r. up_ctx m = with_flag r (up_ctx mpac)" using m(3) by simp
  show ?thesis
  proof (cases "up_used mpac = up_off mpac \<and> up_counts mpac (up_buffer mpac) = 1 \<and> \<not> CTX_REFERENCED mpac \<and> len \<le> up_free m")
    case True
    then show ?thesis using m flag by (auto simp: msgpack_unpacker_expand_buffer_def Let_def m_def [symmetric])
  next
    case slow: False
    show ?thesis
    proof (cases "up_off m = COUNTER_SIZE")
      case True
      have "\<exists>n. grow_size ((up_used m + up_free m) * 2) (len + up_used m) = Some n \<and> len + up_used m \<le> n \<and> (up_used m + up_free m) * 2 \<le> n"
        by (rule grow_size_ends) (use r len in \<open>auto simp: room_ok_def COUNTER_SIZE_def\<close>)
      then obtain n where n: "grow_size ((up_used m + up_free m) * 2) (len + up_used m) = Some n" "len + up_used m \<le> n" by blast
      have "(up_used m + up_free m) * 2 mod 2 ^ 64 = (up_used m + up_free m) * 2" "(len + up_used m) mod 2 ^ 64 = len + up_used m"
        using r len by (auto simp: room_ok_def)
      then have run: "msgpack_unpacker_expand_buffer A len mpac =
          Some (if al_malloc A n then (True, m\<lparr>up_free := n - up_used m\<rparr>) else (False, m))"
        using slow True n(1) by (auto simp: msgpack_unpacker_expand_buffer_def Let_def m_def [symmetric])
      have "unpacker_ok (m\<lparr>up_free := n - up_used m\<rparr>) zs" if "al_malloc A n"
        using m(1) that A n(2) by (auto simp: unpacker_ok_def room_ok_def counts_ok_def references_def CTX_REFERENCED_def
            allocation_bounded_def)
      moreover have "unparsed (m\<lparr>up_free := n - up_used m\<rparr>) = unparsed mpac" using m(2) by (simp add: unparsed_def)
      ultimately show ?thesis using run m(1,2) flag n(2) by (cases "al_malloc A n") (simp_all, force+)
    next
      case False
      define wanted where "wanted = len + (up_used m - up_off m) + COUNTER_SIZE"
      have "\<exists>n. grow_size (up_initial_buffer_size m) wanted = Some n \<and> wanted \<le> n \<and> up_initial_buffer_size m \<le> n"
        by (rule grow_size_ends) (use r len in \<open>auto simp: room_ok_def COUNTER_SIZE_def wanted_def\<close>)
      then obtain n where n: "grow_size (up_initial_buffer_size m) wanted = Some n" "wanted \<le> n" by blast
      have "wanted mod 2 ^ 64 = wanted" using r len by (auto simp: room_ok_def wanted_def COUNTER_SIZE_def)
      then have run: "msgpack_unpacker_expand_buffer A len mpac = Some (if al_malloc A n then replace_buffer A n m else (False, m))"
        using slow False n(1) by (auto simp: msgpack_unpacker_expand_buffer_def Let_def m_def [symmetric] wanted_def [symmetric])
      obtain b m' where rb: "replace_buffer A n m = (b, m')" by fastforce
      have "unpacker_ok m' zs \<and> unparsed m' = unparsed m \<and> (b \<longrightarrow> len \<le> up_free m') \<and> (\<exists>r. up_ctx m' = with_flag r (up_ctx m))"
        if "al_malloc A n"
        by (rule replace_ok [OF m(1) rb]) (use that A n(2) in \<open>simp_all add: allocation_bounded_def wanted_def\<close>)
      then show ?thesis using run rb m flag by auto
    qed
  qed
qed

text \<open>A chunk of input: reserve room, write, report.  The flag says whether there was room.\<close>

definition feed :: "allocation \<Rightarrow> byte list \<Rightarrow> msgpack_unpacker \<Rightarrow> (bool \<times> msgpack_unpacker) option" where
  "feed A bs mpac =
     do {
       (ok, mpac) \<leftarrow> msgpack_unpacker_reserve_buffer A (length bs) mpac;
       if ok then map_option (Pair True) (msgpack_unpacker_buffer_consumed bs mpac) else Some (False, mpac)
     }"

lemma consumed_ok:
  assumes "unpacker_ok mpac zs" and "length bs \<le> up_free mpac"
  shows "\<exists>mpac'. msgpack_unpacker_buffer_consumed bs mpac = Some mpac' \<and> unpacker_ok mpac' zs \<and>
    unparsed mpac' = unparsed mpac @ bs \<and> up_ctx mpac' = up_ctx mpac"
  using assms
  by (auto simp: msgpack_unpacker_buffer_consumed_def unpacker_ok_def room_ok_def counts_ok_def references_def CTX_REFERENCED_def
      unparsed_def)

lemma feed_ok:
  assumes ok: "unpacker_ok mpac zs" and A: "allocation_bounded A" and len: "length bs < 2 ^ 62"
  shows "\<exists>b mpac'. feed A bs mpac = Some (b, mpac') \<and> unpacker_ok mpac' zs \<and>
    unparsed mpac' = (if b then unparsed mpac @ bs else unparsed mpac) \<and> (\<exists>r. up_ctx mpac' = with_flag r (up_ctx mpac))"
proof -
  have "\<exists>b m. msgpack_unpacker_reserve_buffer A (length bs) mpac = Some (b, m) \<and> unpacker_ok m zs \<and>
    unparsed m = unparsed mpac \<and> (b \<longrightarrow> length bs \<le> up_free m) \<and> (\<exists>r. up_ctx m = with_flag r (up_ctx mpac))"
    using ok expand_ok [OF ok A len]
    unfolding msgpack_unpacker_reserve_buffer_def by (cases "length bs \<le> up_free mpac") (auto intro!: exI [of _ mpac])
  then obtain b m where m: "msgpack_unpacker_reserve_buffer A (length bs) mpac = Some (b, m)" "unpacker_ok m zs"
    "unparsed m = unparsed mpac" "b \<Longrightarrow> length bs \<le> up_free m" "\<exists>r. up_ctx m = with_flag r (up_ctx mpac)"
    by blast
  show ?thesis
  proof (cases b)
    case True
    then obtain m' where "msgpack_unpacker_buffer_consumed bs m = Some m'" "unpacker_ok m' zs" "unparsed m' = unparsed m @ bs"
      "up_ctx m' = up_ctx m"
      using consumed_ok [OF m(2) m(4)] by blast
    then have "feed A bs mpac = Some (True, m') \<and> unpacker_ok m' zs \<and> unparsed m' = unparsed mpac @ bs \<and>
        (\<exists>r. up_ctx m' = with_flag r (up_ctx mpac))"
      using m(1,3,5) True by (simp add: feed_def)
    then show ?thesis by (intro exI [of _ True] exI [of _ m']) simp
  next
    case False
    then have "feed A bs mpac = Some (False, m)" using m(1) by (simp add: feed_def)
    then show ?thesis using m(2,3,5) by (intro exI [of _ False] exI [of _ m]) simp
  qed
qed


lemma execute_ok:
  assumes ok: "unpacker_ok mpac zs" and run: "msgpack_unpacker_execute mpac = (ret, mpac')"
  shows "room_ok mpac' \<and> counts_ok mpac' zs \<and> (ret \<noteq> 1 \<longrightarrow> context_ok (up_ctx mpac')) \<and>
    template_execute (up_ctx mpac) (unparsed mpac) = (ret, up_ctx mpac', unparsed mpac')"
proof -
  obtain ctx rest where ex: "template_execute (up_ctx mpac) (unparsed mpac) = (ret, ctx, rest)"
    and m': "mpac' = mpac\<lparr>up_ctx := ctx, up_off := up_used mpac - length rest,
      up_parsed := (if up_off mpac < up_used mpac - length rest then up_parsed mpac + (up_used mpac - length rest - up_off mpac)
        else up_parsed mpac)\<rparr>"
    using run by (auto simp: msgpack_unpacker_execute_def unparsed_def Let_def split: prod.splits)
  note rest = execute_rest [OF ex]
  have r: "room_ok mpac" and c: "counts_ok mpac zs" and x: "context_ok (up_ctx mpac)" using ok by (simp_all add: unpacker_ok_def)
  obtain k where k: "k \<le> length (unparsed mpac)" "rest = drop k (unparsed mpac)" using rest by blast
  have off: "up_used mpac - length rest = up_off mpac + k"
    using r k by (auto simp: room_ok_def unparsed_def)
  have "room_ok mpac'" using r k off by (auto simp: m' room_ok_def unparsed_def)
  moreover have "unparsed mpac' = rest"
    using r k off by (simp add: m' unparsed_def room_ok_def add.commute)
  moreover have "counts_ok mpac' zs"
  proof -
    have "\<not> CTX_REFERENCED mpac' \<and> references mpac zs (up_buffer mpac) = 1" if "up_off mpac' = COUNTER_SIZE"
    proof -
      have "k = 0" "up_off mpac = COUNTER_SIZE" using that off r by (auto simp: m' room_ok_def)
      then have "rest = unparsed mpac" using k by simp
      then have "ctx = up_ctx mpac" using rest by force
      then show ?thesis using counts_okD(3) [OF c] \<open>up_off mpac = COUNTER_SIZE\<close> by (simp add: m' CTX_REFERENCED_def)
    qed
    moreover have "references mpac' zs = references mpac zs" by (simp add: references_def m' fun_eq_iff)
    moreover have "up_counts mpac' = up_counts mpac" "up_next mpac' = up_next mpac" "up_buffer mpac' = up_buffer mpac"
      by (simp_all add: m')
    ultimately show ?thesis using c unfolding counts_ok_def by simp
  qed
  ultimately show ?thesis using rest x ex by (simp add: m')
qed

text \<open>Zones that are freed and handed over.\<close>

lemma decl_count_fields [simp]:
  "up_buffer (decl_count b m) = up_buffer m" "up_bytes (decl_count b m) = up_bytes m" "up_used (decl_count b m) = up_used m"
  "up_free (decl_count b m) = up_free m" "up_off (decl_count b m) = up_off m" "up_z (decl_count b m) = up_z m"
  "up_initial_buffer_size (decl_count b m) = up_initial_buffer_size m" "up_ctx (decl_count b m) = up_ctx m"
  "up_next (decl_count b m) = up_next m"
  by (simp_all add: decl_count_def)

lemma fold_decl_count:
  "\<exists>counts. fold decl_count bs m = m\<lparr>up_counts := counts\<rparr> \<and> (\<forall>b. counts b = up_counts m b - count_list bs b)"
proof (induction bs arbitrary: m)
  case Nil
  then show ?case by (auto intro: exI [of _ "up_counts m"])
next
  case (Cons a bs)
  obtain counts where c: "fold decl_count bs (decl_count a m) = (decl_count a m)\<lparr>up_counts := counts\<rparr>"
    "\<forall>b. counts b = up_counts (decl_count a m) b - count_list bs b"
    using Cons.IH by blast
  then have "fold decl_count (a # bs) m = m\<lparr>up_counts := counts\<rparr>" by (simp add: decl_count_def)
  moreover have "counts b = up_counts m b - count_list (a # bs) b" for b using c(2) by (simp add: decl_count_def)
  ultimately show ?case by blast
qed

lemma count_list_rev: "count_list (rev xs) b = count_list xs b"
  by (induction xs) auto

lemma zone_free_ok:
  assumes ok: "unpacker_ok mpac (z # zs)"
  shows "unpacker_ok (msgpack_zone_free z mpac) zs" "unparsed (msgpack_zone_free z mpac) = unparsed mpac"
    "up_ctx (msgpack_zone_free z mpac) = up_ctx mpac"
proof -
  obtain counts where m: "msgpack_zone_free z mpac = mpac\<lparr>up_counts := counts\<rparr>"
    and counts: "\<forall>b. counts b = up_counts mpac b - count_list z b"
    using fold_decl_count [of "rev z" mpac] by (auto simp: msgpack_zone_free_def count_list_rev)
  have c: "counts_ok mpac (z # zs)" using ok by (simp add: unpacker_ok_def)
  have refs: "references (mpac\<lparr>up_counts := counts\<rparr>) zs b = references mpac (z # zs) b - count_list z b" for b
    by (simp add: references_def)
  have "counts_ok (mpac\<lparr>up_counts := counts\<rparr>) zs"
    using c counts refs by (auto simp: counts_ok_def fun_eq_iff CTX_REFERENCED_def) (auto simp: references_def)
  then show "unpacker_ok (msgpack_zone_free z mpac) zs"
    using ok by (simp add: m unpacker_ok_def room_ok_def)
  show "unparsed (msgpack_zone_free z mpac) = unparsed mpac" "up_ctx (msgpack_zone_free z mpac) = up_ctx mpac"
    by (simp_all add: m unparsed_def)
qed


definition zones :: "msgpack_zone option \<Rightarrow> msgpack_zone list \<Rightarrow> msgpack_zone list" where
  "zones z zs = (case z of None \<Rightarrow> zs | Some z \<Rightarrow> z # zs)"

lemma flush_ok:
  assumes r: "room_ok mpac" and c: "counts_ok mpac zs" and run: "msgpack_unpacker_flush_zone A mpac = (b, mpac')"
  shows "room_ok mpac' \<and> counts_ok mpac' zs \<and> unparsed mpac' = unparsed mpac \<and> (\<exists>r. up_ctx mpac' = with_flag r (up_ctx mpac))"
proof (cases "CTX_REFERENCED mpac \<and> al_finalizer A")
  case True
  then have m': "mpac' = mpac\<lparr>up_z := up_z mpac @ [up_buffer mpac], up_ctx := with_flag False (up_ctx mpac),
      up_counts := (up_counts mpac)(up_buffer mpac := up_counts mpac (up_buffer mpac) + 1)\<rparr>"
    using run by (auto simp: msgpack_unpacker_flush_zone_def msgpack_zone_push_finalizer_def incr_count_def set_referenced_def
        with_flag_def)
  note D = counts_okD [OF c]
  have refs: "references mpac' zs b = references mpac zs b + (if b = up_buffer mpac then 1 else 0)" for b
    by (simp add: references_def m')
  have "references mpac zs (up_buffer mpac) \<noteq> 0" by (simp add: references_def)
  then have "up_buffer mpac < up_next mpac" using D(2) [of "up_buffer mpac"] by (meson not_le)
  then have "counts_ok mpac' zs"
    using D True unfolding counts_ok_def by (auto simp: refs fun_eq_iff) (auto simp: m' D(1))
  then show ?thesis using r by (auto simp: m' room_ok_def unparsed_def)
next
  case False
  then have "mpac' = mpac" using run
    by (auto simp: msgpack_unpacker_flush_zone_def msgpack_zone_push_finalizer_def split: if_splits)
  then show ?thesis using r c by simp
qed

lemma release_ok:
  assumes r: "room_ok mpac" and c: "counts_ok mpac zs" and run: "msgpack_unpacker_release_zone A mpac = (z, mpac')"
    and room: "al_room A = u_z (ctx_user (up_ctx mpac))"
  shows "room_ok mpac' \<and> counts_ok mpac' (zones z zs) \<and> unparsed mpac' = unparsed mpac \<and>
    (\<exists>r. up_ctx mpac' = with_flag r (up_ctx mpac))"
proof -
  obtain b m where fl: "msgpack_unpacker_flush_zone A mpac = (b, m)" by fastforce
  have m: "room_ok m" "counts_ok m zs" "unparsed m = unparsed mpac" "\<exists>r. up_ctx m = with_flag r (up_ctx mpac)"
    using flush_ok [OF r c fl] by simp_all
  show ?thesis
  proof (cases "b \<and> al_zone A")
    case False
    then have "z = None" "mpac' = m" using run fl by (auto simp: msgpack_unpacker_release_zone_def)
    then show ?thesis using m by (simp add: zones_def)
  next
    case True
    have "u_z (ctx_user (up_ctx m)) = al_room A" using m(4) room by auto
    then have "(up_ctx m)\<lparr>ctx_user := (ctx_user (up_ctx m))\<lparr>u_z := al_room A\<rparr>\<rparr> = up_ctx m" by auto
    then have m': "z = Some (up_z m)" "mpac' = m\<lparr>up_z := []\<rparr>"
      using run fl True by (auto simp: msgpack_unpacker_release_zone_def)
    have "references (m\<lparr>up_z := []\<rparr>) (up_z m # zs) b = references m zs b" for b by (simp add: references_def)
    then have "counts_ok mpac' (zones z zs)"
      using m(2) by (simp add: counts_ok_def m' zones_def CTX_REFERENCED_def fun_eq_iff)
    then show ?thesis using m by (simp add: m' room_ok_def unparsed_def)
  qed
qed

lemma unpack_do_zone:
  "unpack_do ctx act = Inl (ret, ctx') \<Longrightarrow> u_z (ctx_user ctx') = u_z (ctx_user ctx)"
  "unpack_do ctx act = Inr ctx' \<Longrightarrow> u_z (ctx_user ctx') = u_z (ctx_user ctx)"
  by (cases act; auto simp: value_pushed_def template_refer_flag split: sum.splits if_splits option.splits)+

lemma execute_zone:
  "template_execute ctx p = (ret, ctx', rest) \<Longrightarrow> u_z (ctx_user ctx') = u_z (ctx_user ctx)"
proof (induction ctx p rule: template_execute.induct)
  case (1 ctx p)
  then show ?case
    by (auto simp: template_execute.simps [of ctx p] unpack_step_def dest: unpack_do_zone split: if_splits sum.splits)
qed

section \<open>A queue of bytes\<close>

text \<open>
  What a caller may rely on: the bytes received and not yet returned as part of an object form a queue, the
  next object is the one that \<open>msgpack_unpack_next\<close> finds at its front, and a chunk that could not be
  stored changes nothing.  After input that is not an encoding nothing is promised.
\<close>

datatype unpacker_op = Feed "byte list" | Next | KeepZone | FreeZone

datatype unpacker_out = Fed bool | Got "msgpack_object option" | Nothing

text \<open>One step: \<open>None\<close> when the output is not allowed, otherwise the queue after it.\<close>

fun queue_step :: "(nat \<Rightarrow> bool) \<Rightarrow> unpacker_op \<Rightarrow> unpacker_out \<Rightarrow> byte list \<Rightarrow> byte list option option" where
  "queue_step room (Feed bs) (Fed ok) q = Some (Some (if ok then q @ bs else q))"
| "queue_step room Next (Got r) q =
     (case msgpack_unpack_next room q of
        Some (obj, rest) \<Rightarrow> if r = Some obj then Some (Some rest) else None
      | None \<Rightarrow>
          if r = None
          then Some (if fst (msgpack_unpack room q) = MSGPACK_UNPACK_PARSE_ERROR then None else Some q)
          else None)"
| "queue_step room KeepZone Nothing q = Some (Some q)"
| "queue_step room FreeZone Nothing q = Some (Some q)"
| "queue_step room op out q = None"

fun queue_accepts :: "(nat \<Rightarrow> bool) \<Rightarrow> byte list option \<Rightarrow> unpacker_op list \<Rightarrow> unpacker_out list \<Rightarrow> bool" where
  "queue_accepts room q [] outs = (outs = [])"
| "queue_accepts room None (op # ops) outs = True"
| "queue_accepts room (Some q) (op # ops) (out # outs) =
     (case queue_step room op out q of None \<Rightarrow> False | Some q' \<Rightarrow> queue_accepts room q' ops outs)"
| "queue_accepts room (Some q) (op # ops) [] = False"

text \<open>
  A caller with the zone of its last result and the zones it has kept.
\<close>

type_synonym unpacker_state = "msgpack_unpacker \<times> msgpack_zone option \<times> msgpack_zone list"

fun unpacker_do :: "allocation \<Rightarrow> unpacker_op \<Rightarrow> unpacker_state \<Rightarrow> (unpacker_out \<times> unpacker_state) option" where
  "unpacker_do A (Feed bs) (mpac, zone, kept) = map_option (\<lambda>(ok, mpac). (Fed ok, mpac, zone, kept)) (feed A bs mpac)"
| "unpacker_do A Next (mpac, zone, kept) =
     (let (result, mpac) = msgpack_unpacker_next A zone mpac
      in Some (Got (map_option fst result), mpac, Option.bind result snd, kept))"
| "unpacker_do A KeepZone (mpac, zone, kept) = Some (Nothing, mpac, None, zones zone kept)"
| "unpacker_do A FreeZone (mpac, zone, kept) =
     (case kept of
        [] \<Rightarrow> Some (Nothing, mpac, zone, kept)
      | z # kept \<Rightarrow> Some (Nothing, msgpack_zone_free z mpac, zone, kept))"

fun unpacker_run :: "allocation \<Rightarrow> unpacker_op list \<Rightarrow> unpacker_state \<Rightarrow> (unpacker_out list \<times> unpacker_state) option" where
  "unpacker_run A [] s = Some ([], s)"
| "unpacker_run A (op # ops) s =
     do { (out, s) \<leftarrow> unpacker_do A op s; (outs, s) \<leftarrow> unpacker_run A ops s; Some (out # outs, s) }"

section \<open>The unpacker implements the queue\<close>

definition agrees :: "int \<times> template_context \<times> byte list \<Rightarrow> int \<times> template_context \<times> byte list \<Rightarrow> bool" where
  "agrees x y \<longleftrightarrow> fst y = fst x \<and> snd (snd y) = snd (snd x) \<and> (\<exists>r. fst (snd y) = with_flag r (fst (snd x)))"

definition holds_bytes :: "(nat \<Rightarrow> bool) \<Rightarrow> msgpack_unpacker \<Rightarrow> byte list \<Rightarrow> bool" where
  "holds_bytes room mpac q \<longleftrightarrow>
     u_z (ctx_user (up_ctx mpac)) = room \<and>
     (\<forall>rest. agrees (template_execute (new_context room) (q @ rest)) (template_execute (up_ctx mpac) (unparsed mpac @ rest)))"

lemma agrees_flag: "agrees (template_execute ctx p) (template_execute (with_flag r ctx) p)"
proof -
  obtain e c x where "template_execute ctx p = (e, c, x)" by (metis prod_cases3)
  then show ?thesis using execute_flag [of ctx p e c x r] by (auto simp: agrees_def)
qed

lemma agrees_refl [simp]: "agrees x x"
  by (simp add: agrees_def)

lemma agrees_trans: "agrees x y \<Longrightarrow> agrees y z \<Longrightarrow> agrees x z"
  by (auto simp: agrees_def)

lemma holds_bytes_same:
  "holds_bytes room mpac q \<Longrightarrow> unparsed mpac' = unparsed mpac \<Longrightarrow> up_ctx mpac' = with_flag r (up_ctx mpac) \<Longrightarrow>
   holds_bytes room mpac' q"
  unfolding holds_bytes_def by (metis agrees_trans agrees_flag with_flag_simps(7))

lemma holds_bytes_feed:
  "holds_bytes room mpac q \<Longrightarrow> unparsed mpac' = unparsed mpac @ bs \<Longrightarrow> up_ctx mpac' = with_flag r (up_ctx mpac) \<Longrightarrow>
   holds_bytes room mpac' (q @ bs)"
proof -
  assume h: "holds_bytes room mpac q" and m: "unparsed mpac' = unparsed mpac @ bs" "up_ctx mpac' = with_flag r (up_ctx mpac)"
  have "agrees (template_execute (new_context room) (q @ bs @ rest)) (template_execute (up_ctx mpac) (unparsed mpac @ bs @ rest))" for rest
    using h by (simp add: holds_bytes_def)
  then show ?thesis using h agrees_trans agrees_flag by (simp add: holds_bytes_def m) blast
qed

lemma unpack_next_execute:
  "msgpack_unpack_next room q =
     (case template_execute (new_context room) q of (e, ctx, rest) \<Rightarrow> if e \<le> 0 then None else Some (template_data ctx, rest))"
  by (auto simp: msgpack_unpack_next_def template_execute.simps [of _ "[]"] split: prod.splits)

lemma unpack_error_execute:
  "fst (msgpack_unpack room q) = MSGPACK_UNPACK_PARSE_ERROR \<longleftrightarrow> fst (template_execute (new_context room) q) < 0"
  by (auto simp: msgpack_unpack_def Let_def template_execute.simps [of _ "[]"] split: prod.splits)

lemma template_init_new:
  "u_z (ctx_user ctx) = room \<Longrightarrow> template_init (with_flag r ctx) = with_flag r (new_context room)"
  by (cases ctx; cases "ctx_user ctx") (simp add: new_context_def template_init_def with_flag_def)

lemma holds_bytes_execute:
  assumes ok: "unpacker_ok mpac zs" and h: "holds_bytes room mpac q" and run: "msgpack_unpacker_execute mpac = (ret, mpac')"
  shows "\<exists>ctx. template_execute (new_context room) q = (ret, ctx, unparsed mpac') \<and> (\<exists>r. up_ctx mpac' = with_flag r ctx)"
    "ret = 0 \<Longrightarrow> holds_bytes room mpac' q" "u_z (ctx_user (up_ctx mpac')) = room"
proof -
  have ex: "template_execute (up_ctx mpac) (unparsed mpac) = (ret, up_ctx mpac', unparsed mpac')"
    using execute_ok [OF ok run] by simp
  have "agrees (template_execute (new_context room) (q @ [])) (template_execute (up_ctx mpac) (unparsed mpac @ []))"
    using h unfolding holds_bytes_def by blast
  then show "\<exists>ctx. template_execute (new_context room) q = (ret, ctx, unparsed mpac') \<and> (\<exists>r. up_ctx mpac' = with_flag r ctx)"
    using ex by (cases "template_execute (new_context room) q") (auto simp: agrees_def)
  show z: "u_z (ctx_user (up_ctx mpac')) = room" using execute_zone [OF ex] h by (simp add: holds_bytes_def)
  show "holds_bytes room mpac' q" if "ret = 0"
    using h execute_append [OF ex] that z by (simp add: holds_bytes_def)
qed


lemma reset_ok:
  assumes "room_ok m" and "counts_ok m zs" and "u_z (ctx_user (up_ctx m)) = room"
  shows "unpacker_ok (msgpack_unpacker_reset m) zs" "holds_bytes room (msgpack_unpacker_reset m) (unparsed m)"
proof -
  have ctx: "template_init (up_ctx m) = with_flag (u_referenced (ctx_user (up_ctx m))) (new_context room)"
    using template_init_new [OF assms(3), of "u_referenced (ctx_user (up_ctx m))"] by simp
  have "references (msgpack_unpacker_reset m) zs = references m zs" by (simp add: references_def msgpack_unpacker_reset_def fun_eq_iff)
  moreover have "CTX_REFERENCED (msgpack_unpacker_reset m) = CTX_REFERENCED m"
    by (simp add: CTX_REFERENCED_def msgpack_unpacker_reset_def ctx)
  moreover have "context_ok (template_init (up_ctx m))" by (simp add: ctx context_ok_new)
  ultimately show "unpacker_ok (msgpack_unpacker_reset m) zs"
    using assms(1,2) unfolding unpacker_ok_def room_ok_def counts_ok_def by (simp add: msgpack_unpacker_reset_def)
  have "unparsed (msgpack_unpacker_reset m) = unparsed m" "up_ctx (msgpack_unpacker_reset m) = template_init (up_ctx m)"
    by (simp_all add: msgpack_unpacker_reset_def unparsed_def)
  moreover have "u_z (ctx_user (new_context room)) = room" by (simp add: new_context_def template_init_def)
  ultimately show "holds_bytes room (msgpack_unpacker_reset m) (unparsed m)"
    using agrees_flag by (simp add: holds_bytes_def ctx)
qed

lemma next_ok:
  assumes ok: "unpacker_ok mpac (zones zone kept)" and h: "holds_bytes room mpac q" and room: "al_room A = room"
    and run: "msgpack_unpacker_next A zone mpac = (result, mpac')"
  shows "unpacker_ok mpac' (zones (Option.bind result snd) kept) \<and>
    map_option fst result = map_option fst (msgpack_unpack_next room q) \<and>
    (\<forall>obj rest. msgpack_unpack_next room q = Some (obj, rest) \<longrightarrow> holds_bytes room mpac' rest) \<and>
    (msgpack_unpack_next room q = None \<longrightarrow> fst (msgpack_unpack room q) \<noteq> MSGPACK_UNPACK_PARSE_ERROR \<longrightarrow> holds_bytes room mpac' q)"
proof -
  define m where "m = (case zone of None \<Rightarrow> mpac | Some z \<Rightarrow> msgpack_zone_free z mpac)"
  have m: "unpacker_ok m kept" "unparsed m = unparsed mpac" "up_ctx m = up_ctx mpac"
    using ok zone_free_ok [of mpac] by (auto simp: m_def zones_def split: option.splits)
  then have hm: "holds_bytes room m q" using h by (simp add: holds_bytes_def)
  obtain ret m1 where ex: "msgpack_unpacker_execute m = (ret, m1)" by fastforce
  note x = execute_ok [OF m(1) ex]
  note hx = holds_bytes_execute [OF m(1) hm ex]
  obtain ctx r where ctx: "template_execute (new_context room) q = (ret, ctx, unparsed m1)" "up_ctx m1 = with_flag r ctx"
    using hx(1) by blast
  note spec = unpack_next_execute [of room q, unfolded ctx(1) prod.case] unpack_error_execute [of room q, unfolded ctx(1) fst_conv]
  show ?thesis
  proof (cases "ret \<le> 0")
    case True
    then have "result = None" "mpac' = m1" using run ex by (simp_all add: msgpack_unpacker_next_def m_def [symmetric])
    then show ?thesis using x hx(2) True by (auto simp: spec unpacker_ok_def zones_def)
  next
    case False
    obtain z m2 where rel: "msgpack_unpacker_release_zone A m1 = (z, m2)" by fastforce
    have "room_ok m1" "counts_ok m1 kept" "al_room A = u_z (ctx_user (up_ctx m1))" using x hx(3) room by simp_all
    note m2 = release_ok [OF this(1,2) rel this(3)]
    have res: "result = Some (msgpack_unpacker_data m2, z)" "mpac' = msgpack_unpacker_reset m2"
      using run ex rel False by (simp_all add: msgpack_unpacker_next_def m_def [symmetric])
    have z2: "u_z (ctx_user (up_ctx m2)) = room" using m2 hx(3) by auto
    have "msgpack_unpacker_data m2 = template_data ctx" using m2 ctx(2) by (auto simp: msgpack_unpacker_data_def)
    then show ?thesis
      using reset_ok [OF _ _ z2, of "zones z kept"] m2 False by (simp add: res spec)
  qed
qed

section \<open>Runs\<close>

text \<open>Without a promise about the bytes the invariant still holds.\<close>

lemma next_keeps:
  assumes ok: "unpacker_ok mpac (zones zone kept)" and room: "u_z (ctx_user (up_ctx mpac)) = al_room A"
    and run: "msgpack_unpacker_next A zone mpac = (result, mpac')"
  shows "unpacker_ok mpac' (zones (Option.bind result snd) kept) \<and> u_z (ctx_user (up_ctx mpac')) = al_room A"
proof -
  define m where "m = (case zone of None \<Rightarrow> mpac | Some z \<Rightarrow> msgpack_zone_free z mpac)"
  have m: "unpacker_ok m kept" "up_ctx m = up_ctx mpac"
    using ok zone_free_ok [of mpac] by (auto simp: m_def zones_def split: option.splits)
  obtain ret m1 where ex: "msgpack_unpacker_execute m = (ret, m1)" by fastforce
  note x = execute_ok [OF m(1) ex]
  then have z1: "al_room A = u_z (ctx_user (up_ctx m1))"
    using execute_zone [of "up_ctx m" "unparsed m" ret "up_ctx m1" "unparsed m1"] room m(2) by simp
  show ?thesis
  proof (cases "ret \<le> 0")
    case True
    then have "result = None" "mpac' = m1" using run ex by (simp_all add: msgpack_unpacker_next_def m_def [symmetric])
    then show ?thesis using x z1 True by (auto simp: unpacker_ok_def zones_def)
  next
    case False
    obtain z m2 where rel: "msgpack_unpacker_release_zone A m1 = (z, m2)" by fastforce
    note m2 = release_ok [OF _ _ rel z1, of kept]
    have z2: "u_z (ctx_user (up_ctx m2)) = al_room A" using m2 x z1 by auto
    have "result = Some (msgpack_unpacker_data m2, z)" "mpac' = msgpack_unpacker_reset m2"
      using run ex rel False by (simp_all add: msgpack_unpacker_next_def m_def [symmetric])
    then show ?thesis
      using reset_ok [OF _ _ z2, of "zones z kept"] m2 x by (simp add: holds_bytes_def)
  qed
qed

definition implements :: "allocation \<Rightarrow> unpacker_state \<Rightarrow> byte list option \<Rightarrow> bool" where
  "implements A s q \<longleftrightarrow>
     (case s of (mpac, zone, kept) \<Rightarrow>
        unpacker_ok mpac (zones zone kept) \<and> u_z (ctx_user (up_ctx mpac)) = al_room A \<and>
        (\<forall>bs. q = Some bs \<longrightarrow> holds_bytes (al_room A) mpac bs))"

fun op_bounded :: "unpacker_op \<Rightarrow> bool" where
  "op_bounded (Feed bs) = (length bs < 2 ^ 62)"
| "op_bounded _ = True"

lemma feed_simulates:
  assumes i: "implements A (mpac, zone, kept) q" and A: "allocation_bounded A" and len: "length bs < 2 ^ 62"
  shows "\<exists>ok mpac'. feed A bs mpac = Some (ok, mpac') \<and>
    implements A (mpac', zone, kept) (map_option (\<lambda>q. if ok then q @ bs else q) q)"
proof -
  have ok: "unpacker_ok mpac (zones zone kept)" using i by (simp add: implements_def)
  obtain b m r where m: "feed A bs mpac = Some (b, m)" "unpacker_ok m (zones zone kept)"
    "unparsed m = (if b then unparsed mpac @ bs else unparsed mpac)" "up_ctx m = with_flag r (up_ctx mpac)"
    using feed_ok [OF ok A len] by blast
  have "holds_bytes (al_room A) m (if b then q0 @ bs else q0)" if "holds_bytes (al_room A) mpac q0" for q0
    using that holds_bytes_feed [of "al_room A" mpac q0 m bs r] holds_bytes_same [of "al_room A" mpac q0 m r] m(3,4) by (cases b) simp_all
  then have "implements A (m, zone, kept) (map_option (\<lambda>q. if b then q @ bs else q) q)"
    using i m(2,4) by (cases q) (auto simp: implements_def split del: if_split)
  then show ?thesis using m(1) by blast
qed

lemma unpacker_ok_perm:
  assumes "unpacker_ok mpac zs" and "\<And>b. count_list (concat zs') b = count_list (concat zs) b"
  shows "unpacker_ok mpac zs'"
proof -
  have "references mpac zs' = references mpac zs" using assms(2) by (simp add: references_def fun_eq_iff)
  then show ?thesis using assms(1) by (simp add: unpacker_ok_def counts_ok_def)
qed

lemma next_simulates:
  assumes i: "implements A (mpac, zone, kept) q" and run: "msgpack_unpacker_next A zone mpac = (result, m)"
  shows "\<exists>q'. implements A (m, Option.bind result snd, kept) q' \<and>
    (\<forall>bs. q = Some bs \<longrightarrow> queue_step (al_room A) Next (Got (map_option fst result)) bs = Some q')"
proof (cases q)
  case None
  then show ?thesis using next_keeps [OF _ _ run] i by (auto simp: implements_def intro!: exI [of _ None])
next
  case (Some bs)
  then have ok: "unpacker_ok mpac (zones zone kept)" and h: "holds_bytes (al_room A) mpac bs"
    and z: "u_z (ctx_user (up_ctx mpac)) = al_room A"
    using i by (simp_all add: implements_def)
  note keeps = next_keeps [OF ok z run] and res = next_ok [OF ok h refl run]
  show ?thesis
  proof (cases "msgpack_unpack_next (al_room A) bs")
    case None
    define q' where "q' = (if fst (msgpack_unpack (al_room A) bs) = MSGPACK_UNPACK_PARSE_ERROR then None else Some bs)"
    have "implements A (m, Option.bind result snd, kept) q'"
      using keeps res None by (auto simp: implements_def q'_def split: if_splits)
    then show ?thesis using res None Some by (auto simp: q'_def)
  next
    case found: (Some x)
    obtain obj rest where x: "x = (obj, rest)" by (cases x)
    have "implements A (m, Option.bind result snd, kept) (Some rest)"
      using keeps res found by (simp add: implements_def x)
    then show ?thesis using res found Some by (auto simp: x)
  qed
qed

lemma free_simulates:
  assumes i: "implements A (mpac, zone, z # kept) q"
  shows "implements A (msgpack_zone_free z mpac, zone, kept) q"
proof -
  have "unpacker_ok mpac (zones zone (z # kept))" using i by (simp add: implements_def)
  then have "unpacker_ok mpac (z # zones zone kept)"
    by (rule unpacker_ok_perm) (simp add: zones_def split: option.splits)
  note free = zone_free_ok [OF this]
  show ?thesis using i free by (simp add: implements_def holds_bytes_def)
qed

lemma unpacker_do_simulates:
  assumes i: "implements A s q" and A: "allocation_bounded A" and op: "op_bounded op"
  shows "\<exists>out s' q'. unpacker_do A op s = Some (out, s') \<and> implements A s' q' \<and> (\<forall>bs. q = Some bs \<longrightarrow> queue_step (al_room A) op out bs = Some q')"
proof -
  obtain mpac zone kept where s: "s = (mpac, zone, kept)" by (metis prod_cases3)
  show ?thesis
  proof (cases op)
    case (Feed bs)
    then obtain ok m where m: "feed A bs mpac = Some (ok, m)" "implements A (m, zone, kept) (map_option (\<lambda>q. if ok then q @ bs else q) q)"
      using feed_simulates [OF i [unfolded s] A, of bs] op by auto
    have "unpacker_do A op s = Some (Fed ok, m, zone, kept)" using m(1) by (simp add: Feed s)
    moreover have "queue_step (al_room A) op (Fed ok) q0 = Some (map_option (\<lambda>q. if ok then q @ bs else q) q)" if "q = Some q0" for q0
      using that by (simp add: Feed)
    ultimately show ?thesis using m(2) by blast
  next
    case Next
    obtain result m where run: "msgpack_unpacker_next A zone mpac = (result, m)" by fastforce
    then have "unpacker_do A op s = Some (Got (map_option fst result), m, Option.bind result snd, kept)" by (simp add: Next s)
    then show ?thesis using next_simulates [OF i [unfolded s] run] unfolding Next by blast
  next
    case KeepZone
    then have "unpacker_do A op s = Some (Nothing, mpac, None, zones zone kept)" by (simp add: s)
    moreover have "implements A (mpac, None, zones zone kept) q" using i by (simp add: s implements_def zones_def)
    ultimately show ?thesis using KeepZone by (intro exI [of _ Nothing] exI [of _ "(mpac, None, zones zone kept)"] exI [of _ q]) simp
  next
    case FreeZone
    then show ?thesis
      using i free_simulates [of A mpac zone _ _ q]
      by (cases kept) (auto simp: s intro!: exI [of _ q])
  qed
qed

lemma unpacker_run_simulates:
  assumes "implements A s q" and A: "allocation_bounded A" and "list_all op_bounded ops"
  shows "\<exists>outs s'. unpacker_run A ops s = Some (outs, s') \<and> queue_accepts (al_room A) q ops outs \<and> (\<exists>q'. implements A s' q')"
  using assms(1,3)
proof (induction ops arbitrary: s q)
  case Nil
  then show ?case by auto
next
  case (Cons op ops)
  obtain out s' q' where s': "unpacker_do A op s = Some (out, s')" "implements A s' q'"
    "\<And>bs. q = Some bs \<Longrightarrow> queue_step (al_room A) op out bs = Some q'"
    using unpacker_do_simulates [OF Cons.prems(1) A, of op] Cons.prems(2) by (simp only: list.pred_inject) blast
  obtain outs s2 where r: "unpacker_run A ops s' = Some (outs, s2)" "queue_accepts (al_room A) q' ops outs"
    "\<exists>q'. implements A s2 q'"
    using Cons.IH [OF s'(2)] Cons.prems(2) by (simp only: list.pred_inject) blast
  have "queue_accepts (al_room A) q (op # ops) (out # outs)"
    using s'(3) r(2) by (cases q) auto
  then show ?case using s'(1) r(1,3) by auto
qed


lemma queue_accepts_feeds:
  "queue_accepts room (Some q) (map Feed chunks @ ops) (map (\<lambda>_. Fed True) chunks @ outs) =
   queue_accepts room (Some (q @ concat chunks)) ops outs"
  by (induction chunks arbitrary: q) simp_all

lemma queue_accepts_objects:
  "list_all (\<lambda>obj. packable room obj \<and> nesting obj \<le> MSGPACK_EMBED_STACK_SIZE) objs \<Longrightarrow>
   queue_accepts room (Some (concat (map encoding objs))) (replicate (length objs) Next) outs \<Longrightarrow>
   outs = map (\<lambda>obj. Got (Some obj)) objs"
proof (induction objs arbitrary: outs)
  case (Cons obj objs)
  then show ?case
    using unpack_encoding(1) [of room obj]
    by (cases outs; cases "hd outs") (auto split: if_splits)
qed simp

lemma initial_implements:
  assumes "msgpack_unpacker_init A n = Some mpac" and "allocation_bounded A"
  shows "implements A (mpac, None, []) (Some [])"
  using unpacker_init_ok [OF assms]
  by (simp add: implements_def zones_def holds_bytes_def) (simp add: new_context_def template_init_def)

section \<open>Properties\<close>

definition sample_allocation :: allocation where
  "sample_allocation =
     \<lparr>al_malloc = (\<lambda>n. n < 200), al_context = True, al_zone = True, al_finalizer = True, al_room = (\<lambda>n. n < 50)\<rparr>"



text \<open>
  C34. Objects survive the stream.  When the chunks that were stored are a cut of the encodings of some objects,
  anywhere, then asking for that many objects returns exactly those objects, in order.
\<close>

theorem objects_survive_stream:
  assumes init: "msgpack_unpacker_init A n = Some mpac" and A: "allocation_bounded A"
    and chunks: "list_all op_bounded (map Feed chunks)" "concat chunks = concat (map encoding objs)"
    and objs: "list_all (\<lambda>obj. packable (al_room A) obj \<and> nesting obj \<le> MSGPACK_EMBED_STACK_SIZE) objs"
    and run: "unpacker_run A (map Feed chunks @ replicate (length objs) Next) (mpac, None, []) = Some (outs, s)"
    and stored: "take (length chunks) outs = map (\<lambda>_. Fed True) chunks"
  shows "drop (length chunks) outs = map (\<lambda>obj. Got (Some obj)) objs"
proof -
  have "list_all op_bounded (map Feed chunks @ replicate (length objs) Next)"
    using chunks(1) by (auto simp: list_all_iff)
  from unpacker_run_simulates [OF initial_implements [OF init A] A this]
  have "queue_accepts (al_room A) (Some []) (map Feed chunks @ replicate (length objs) Next) outs" using run by auto
  then have "queue_accepts (al_room A) (Some []) (map Feed chunks @ replicate (length objs) Next)
      (map (\<lambda>_. Fed True) chunks @ drop (length chunks) outs)"
    using stored append_take_drop_id [of "length chunks" outs] by simp
  then show ?thesis using queue_accepts_objects [OF objs] chunks(2) by (simp add: queue_accepts_feeds)
qed

theorem objects_survive_stream_witness:
  "\<exists>mpac outs s. msgpack_unpacker_init sample_allocation 64 = Some mpac \<and>
     unpacker_run sample_allocation [Feed [0x92, 0xa3, 0x61], Feed [0x62, 0x63, 0x07], Feed [0x08], Next, Next] (mpac, None, []) =
       Some (outs, s) \<and>
     drop 3 outs = [Got (Some (MSGPACK_OBJECT_ARRAY [MSGPACK_OBJECT_RAW [0x61, 0x62, 0x63], MSGPACK_OBJECT_POSITIVE_INTEGER 7])),
       Got (Some (MSGPACK_OBJECT_POSITIVE_INTEGER 8))]"
proof -
  let ?chunks = "[[0x92, 0xa3, 0x61], [0x62, 0x63, 0x07], [0x08]] :: byte list list"
  let ?objs = "[MSGPACK_OBJECT_ARRAY [MSGPACK_OBJECT_RAW [0x61, 0x62, 0x63], MSGPACK_OBJECT_POSITIVE_INTEGER 7],
    MSGPACK_OBJECT_POSITIVE_INTEGER 8]"
  define mpac where "mpac = the (msgpack_unpacker_init sample_allocation 64)"
  have init: "msgpack_unpacker_init sample_allocation 64 = Some mpac"
    by (simp add: mpac_def msgpack_unpacker_init_def sample_allocation_def COUNTER_SIZE_def)
  define run where "run = unpacker_run sample_allocation (map Feed ?chunks @ replicate (length ?objs) Next) (mpac, None, [])"
  have "map_option (\<lambda>(outs, _). take 3 outs) run = Some [Fed True, Fed True, Fed True]"
    unfolding run_def mpac_def by code_simp
  then obtain outs s where run: "run = Some (outs, s)" "take 3 outs = [Fed True, Fed True, Fed True]"
    by (cases run) auto
  have "concat ?chunks = concat (map encoding ?objs)" by code_simp
  then have "drop (length ?chunks) outs = map (\<lambda>obj. Got (Some obj)) ?objs"
    by (intro objects_survive_stream [OF init _ _ _ _ run(1) [unfolded run_def]])
       (use run(2) in \<open>simp_all add: allocation_bounded_def sample_allocation_def MSGPACK_EMBED_STACK_SIZE_def numeral_3_eq_3\<close>)
  moreover have "unpacker_run sample_allocation [Feed [0x92, 0xa3, 0x61], Feed [0x62, 0x63, 0x07], Feed [0x08], Next, Next] (mpac, None, []) =
      Some (outs, s)"
    using run(1) by (simp add: run_def numeral_2_eq_2 del: unpacker_run.simps)
  ultimately show ?thesis using init by (cases s) (simp add: numeral_3_eq_3 del: unpacker_run.simps)
qed

text \<open>
  C33. References to buffers.  After any run the counter of a buffer is the number of references to it; so a
  buffer that the zone of a result refers to, or the unpacker writes to, has not been freed, and a
  buffer that the unpacker may rewind has no zone that refers to it.
\<close>

theorem buffer_references_counted:
  assumes "msgpack_unpacker_init A n = Some mpac" and "allocation_bounded A" and "list_all op_bounded ops"
    and "unpacker_run A ops (mpac, None, []) = Some (outs, m, zone, kept)"
  shows "(\<forall>b. up_counts m b = (if b = up_buffer m then 1 else 0) + count_list (up_z m) b + count_list (concat (zones zone kept)) b) \<and>
    (\<forall>z \<in> set (zones zone kept). \<forall>b \<in> set z. 0 < up_counts m b) \<and> 0 < up_counts m (up_buffer m) \<and>
    (up_counts m (up_buffer m) = 1 \<longrightarrow> (\<forall>z \<in> set (zones zone kept). up_buffer m \<notin> set z))"
proof -
  have "\<exists>q. implements A (m, zone, kept) q"
    using unpacker_run_simulates [OF initial_implements [OF assms(1,2)] assms(2,3)] assms(4) by auto
  then have c: "counts_ok m (zones zone kept)" by (auto simp: implements_def unpacker_ok_def)
  note counts = counts_okD(1) [OF c, unfolded references_def]
  have "0 < count_list (concat (zones zone kept)) b" if "z \<in> set (zones zone kept)" "b \<in> set z" for z b
    using that by (metis UN_I count_list_0_iff gr0I set_concat)
  then show ?thesis using counts by force
qed

theorem buffer_references_counted_witness:
  "\<exists>mpac outs m zone kept. msgpack_unpacker_init sample_allocation 64 = Some mpac \<and>
     unpacker_run sample_allocation [Feed [0xa2, 0x61, 0x62, 0xa1], Next, KeepZone, Feed [0x63], Next] (mpac, None, []) =
       Some (outs, m, zone, kept) \<and> zone = Some [0] \<and> kept = [[0]] \<and> up_counts m 0 = 3"
proof -
  let ?ops = "[Feed [0xa2, 0x61, 0x62, 0xa1], Next, KeepZone, Feed [0x63], Next]"
  define mpac where "mpac = the (msgpack_unpacker_init sample_allocation 64)"
  have init: "msgpack_unpacker_init sample_allocation 64 = Some mpac"
    by (simp add: mpac_def msgpack_unpacker_init_def sample_allocation_def COUNTER_SIZE_def)
  define run where "run = unpacker_run sample_allocation ?ops (mpac, None, [])"
  have "map_option (\<lambda>(outs, m, zone, kept). (up_buffer m, up_z m, zone, kept)) run = Some (0, [], Some [0], [[0]])"
    unfolding run_def mpac_def by code_simp
  then obtain outs m where run: "run = Some (outs, m, Some [0], [[0]])" "up_buffer m = 0" "up_z m = []"
    by (cases run) auto
  have "allocation_bounded sample_allocation" "list_all op_bounded ?ops" by (simp_all add: allocation_bounded_def sample_allocation_def)
  from buffer_references_counted [OF init this run(1) [unfolded run_def]]
  have "up_counts m 0 = 3" using run(2,3) by (simp add: zones_def)
  then show ?thesis using init run(1) unfolding run_def by blast
qed

end
