(* ===== verification/Rds_Encoder.thy ===== *)
theory Rds_Encoder
  imports Rds_Prelude "HOL-Library.Multiset" "HOL-Library.Monad_Syntax" "HOL-Library.Signed_Division"
begin

text \<open>
  The encoder of a server connection, from \<open>freerds/core/encoder.c\<close>: the grid of tile buffers, the codec
  contexts that are created when a codec is first used, and the list of frames the client has not
  acknowledged, from which the frame rate is derived.  The theory shows that every object the encoder
  creates is released exactly once whatever allocations fail, the frames apart, and that the tile buffers
  never overlap.

  The codecs, the dictionary and the allocator are not part of these sources.  An allocation is a step of
  an explicit heap: a parameter says which allocations return a null pointer, and releasing an object that
  is not live is undefined.
\<close>

section \<open>Signed arithmetic\<close>

text \<open>A signed result outside the range of \<open>int\<close> is undefined.\<close>

definition c_int :: "int \<Rightarrow> int option" where
  "c_int n = (if - 2147483648 \<le> n \<and> n \<le> 2147483647 then Some n else None)"

section \<open>Objects outside the encoder\<close>

datatype enc_object =
    EncoderBlock | GridBufferBlock | GridBlock | StreamBlock | RfxContext | NscContext | PlanarContext
  | InterleavedContext | FrameDictionary | FrameBlock

type_synonym enc_handle = "enc_object \<times> nat"

record enc_heap =
  next_object :: nat
  live_objects :: "enc_handle list"

type_synonym enc_allocator = "enc_object \<Rightarrow> nat \<Rightarrow> bool"

definition enc_new :: "enc_allocator \<Rightarrow> enc_object \<Rightarrow> enc_heap \<Rightarrow> enc_handle option \<times> enc_heap" where
  "enc_new A k h =
     (let n = next_object h; h = h\<lparr>next_object := Suc n\<rparr> in
      if A k n then (Some (k, n), h\<lparr>live_objects := (k, n) # live_objects h\<rparr>) else (None, h))"

definition enc_release :: "enc_handle \<Rightarrow> enc_heap \<Rightarrow> enc_heap option" where
  "enc_release b h =
     (if b \<in> set (live_objects h) then Some (h\<lparr>live_objects := remove1 b (live_objects h)\<rparr>) else None)"

text \<open>The guarded release of the sources: \<open>if (p) free(p)\<close>.\<close>

definition release_opt :: "enc_handle option \<Rightarrow> enc_heap \<Rightarrow> enc_heap option" where
  "release_opt b h = (case b of None \<Rightarrow> Some h | Some b \<Rightarrow> enc_release b h)"

text \<open>
  The constants of FreeRDP the encoder uses, and what it relies on: the four codecs have bits of their own.
\<close>

record codec_constants =
  FREERDP_CODEC_REMOTEFX :: UINT32
  FREERDP_CODEC_NSCODEC :: UINT32
  FREERDP_CODEC_PLANAR :: UINT32
  FREERDP_CODEC_INTERLEAVED :: UINT32
  PLANAR_FORMAT_HEADER_NA :: UINT32
  PLANAR_FORMAT_HEADER_RLE :: UINT32
  RLGR3 :: UINT32
  RDP_PIXEL_FORMAT_B8G8R8A8 :: UINT32

definition codec_bits :: "codec_constants \<Rightarrow> bool" where
  "codec_bits K \<longleftrightarrow>
     FREERDP_CODEC_REMOTEFX K \<noteq> 0 \<and> FREERDP_CODEC_NSCODEC K \<noteq> 0 \<and>
     FREERDP_CODEC_PLANAR K \<noteq> 0 \<and> FREERDP_CODEC_INTERLEAVED K \<noteq> 0 \<and>
     FREERDP_CODEC_REMOTEFX K AND FREERDP_CODEC_NSCODEC K = 0 \<and>
     FREERDP_CODEC_REMOTEFX K AND FREERDP_CODEC_PLANAR K = 0 \<and>
     FREERDP_CODEC_REMOTEFX K AND FREERDP_CODEC_INTERLEAVED K = 0 \<and>
     FREERDP_CODEC_NSCODEC K AND FREERDP_CODEC_PLANAR K = 0 \<and>
     FREERDP_CODEC_NSCODEC K AND FREERDP_CODEC_INTERLEAVED K = 0 \<and>
     FREERDP_CODEC_PLANAR K AND FREERDP_CODEC_INTERLEAVED K = 0"

text \<open>
  The dictionary of WinPR, keyed by a frame id.  The encoder adds to it and counts it; the value of a key
  is a frame.
\<close>

record 'd dictionary_ops =
  ListDictionary_New :: 'd
  ListDictionary_Count :: "'d \<Rightarrow> int"
  ListDictionary_Add :: "'d \<Rightarrow> UINT32 \<Rightarrow> enc_handle \<Rightarrow> 'd"
  ListDictionary_GetItemValue :: "'d \<Rightarrow> UINT32 \<Rightarrow> enc_handle option"
  ListDictionary_Remove :: "'d \<Rightarrow> UINT32 \<Rightarrow> 'd"

section \<open>The encoder\<close>

record rfx_context =
  rfx_handle :: enc_handle
  rfx_mode :: UINT32
  rfx_width :: int
  rfx_height :: int
  rfx_pixel_format :: UINT32

record nsc_context =
  nsc_handle :: enc_handle
  nsc_pixel_format :: UINT32
  ColorLossLevel :: UINT32
  ChromaSubsamplingLevel :: UINT32
  DynamicColorFidelity :: bool

record planar_context =
  planar_handle :: enc_handle
  planar_flags :: UINT32
  planar_maxWidth :: int
  planar_maxHeight :: int

record 'd rds_encoder =
  enc_handle :: enc_handle
  enc_width :: int
  enc_height :: int
  enc_codecs :: UINT32
  enc_grid :: "(enc_handle \<times> int list) option"
  enc_gridWidth :: int
  enc_gridHeight :: int
  enc_gridBuffer :: "(enc_handle \<times> int) option"
  maxTileWidth :: int
  maxTileHeight :: int
  enc_bs :: "enc_handle option"
  enc_rfx :: "rfx_context option"
  enc_nsc :: "nsc_context option"
  enc_planar :: "planar_context option"
  enc_interleaved :: "enc_handle option"
  enc_fps :: int
  enc_maxFps :: int
  enc_frameAck :: int
  enc_frameId :: UINT32
  enc_frameList :: "(enc_handle \<times> 'd) option"

text \<open>The settings of a connection that its encoder, its drawing and its callbacks read.\<close>

record rdpSettings =
  DesktopWidth :: UINT32
  DesktopHeight :: UINT32
  ColorDepth :: UINT32
  KeyboardLayout :: UINT32
  KeyboardType :: UINT32
  KeyboardSubType :: UINT32
  MultifragMaxRequestSize :: UINT32
  RemoteFxCodec :: bool
  RemoteFxCodecId :: UINT32
  NSCodec :: bool
  NSCodecId :: UINT32
  NSCodecColorLossLevel :: UINT32
  NSCodecAllowSubsampling :: bool
  NSCodecAllowDynamicColorFidelity :: bool
  FrameAcknowledge :: UINT32
  SurfaceFrameMarkerEnabled :: bool
  DrawAllowSkipAlpha :: bool
  ClientDir :: mem_ptr

subsection \<open>Frames in flight\<close>

definition freerds_encoder_create_frame_id ::
  "'d dictionary_ops \<Rightarrow> enc_allocator \<Rightarrow> 'd rds_encoder \<Rightarrow> enc_heap \<Rightarrow>
   (int \<times> 'd rds_encoder \<times> enc_heap) option" where
  "freerds_encoder_create_frame_id D A encoder h =
     do {
       (dict, frames) \<leftarrow> enc_frameList encoder;
       let inFlightFrames = ListDictionary_Count D frames;
       fps \<leftarrow> (if inFlightFrames > enc_frameAck encoder
               then c_int ((100 sdiv (inFlightFrames + 1) * enc_maxFps encoder) sdiv 100)
               else do {
                 fps \<leftarrow> c_int (enc_fps encoder + 2);
                 Some (if fps > enc_maxFps encoder then enc_maxFps encoder else fps)
               });
       let fps = (if fps < 1 then 1 else fps);
       let encoder = encoder\<lparr>enc_fps := fps\<rparr>;
       case enc_new A FrameBlock h of
         (None, h) \<Rightarrow> Some (-1, encoder, h)
       | (Some frame, h) \<Rightarrow>
           let frameId = enc_frameId encoder + 1;
               encoder = encoder\<lparr>enc_frameId := frameId,
                                 enc_frameList := Some (dict, ListDictionary_Add D frames frameId frame)\<rparr>
           in Some (sint frameId, encoder, h)
     }"

subsection \<open>The grid of tiles\<close>

definition freerds_encoder_init_grid ::
  "enc_allocator \<Rightarrow> 'd rds_encoder \<Rightarrow> enc_heap \<Rightarrow> (int \<times> 'd rds_encoder \<times> enc_heap) option" where
  "freerds_encoder_init_grid A encoder h =
     do {
       w \<leftarrow> c_int (enc_width encoder + (maxTileWidth encoder - 1));
       let encoder = encoder\<lparr>enc_gridWidth := w sdiv maxTileWidth encoder\<rparr>;
       w \<leftarrow> c_int (enc_height encoder + (maxTileHeight encoder - 1));
       let encoder = encoder\<lparr>enc_gridHeight := w sdiv maxTileHeight encoder\<rparr>;
       tileSize \<leftarrow> c_int (maxTileWidth encoder * maxTileHeight encoder * 4);
       tileCount \<leftarrow> c_int (enc_gridWidth encoder * enc_gridHeight encoder);
       size \<leftarrow> c_int (tileSize * tileCount);
       case enc_new A GridBufferBlock h of
         (None, h) \<Rightarrow> Some (-1, encoder\<lparr>enc_gridBuffer := None\<rparr>, h)
       | (Some buffer, h) \<Rightarrow>
           let encoder = encoder\<lparr>enc_gridBuffer := Some (buffer, size)\<rparr> in
           case enc_new A GridBlock h of
             (None, h) \<Rightarrow> Some (-1, encoder\<lparr>enc_grid := None\<rparr>, h)
           | (Some grid, h) \<Rightarrow>
               let tiles = concat (map (\<lambda>i. map (\<lambda>j. (i * enc_gridWidth encoder + j) * tileSize)
                                               [0..enc_gridWidth encoder - 1]) [0..enc_gridHeight encoder - 1])
               in Some (0, encoder\<lparr>enc_grid := Some (grid, tiles)\<rparr>, h)
     }"

definition freerds_encoder_uninit_grid ::
  "'d rds_encoder \<Rightarrow> enc_heap \<Rightarrow> (int \<times> 'd rds_encoder \<times> enc_heap) option" where
  "freerds_encoder_uninit_grid encoder h =
     do {
       h \<leftarrow> release_opt (map_option fst (enc_gridBuffer encoder)) h;
       let encoder = encoder\<lparr>enc_gridBuffer := None\<rparr>;
       h \<leftarrow> release_opt (map_option fst (enc_grid encoder)) h;
       let encoder = encoder\<lparr>enc_grid := None\<rparr>;
       Some (0, encoder\<lparr>enc_gridWidth := 0, enc_gridHeight := 0\<rparr>, h)
     }"

subsection \<open>Creating the codecs\<close>

text \<open>
  The block that both \<open>freerds_encoder_init_rfx\<close> and \<open>freerds_encoder_init_nsc\<close> run when there is no list of
  frames yet.
\<close>

definition init_frame_list ::
  "'d dictionary_ops \<Rightarrow> enc_allocator \<Rightarrow> rdpSettings \<Rightarrow> 'd rds_encoder \<Rightarrow> enc_heap \<Rightarrow> 'd rds_encoder \<times> enc_heap" where
  "init_frame_list D A settings encoder h =
     (case enc_frameList encoder of
        Some _ \<Rightarrow> (encoder, h)
      | None \<Rightarrow>
          let (dict, h) = enc_new A FrameDictionary h in
          (encoder\<lparr>enc_fps := 16, enc_maxFps := 32, enc_frameId := 0,
                   enc_frameList := map_option (\<lambda>b. (b, ListDictionary_New D)) dict,
                   enc_frameAck := (if SurfaceFrameMarkerEnabled settings then 1 else 0)\<rparr>, h))"

definition freerds_encoder_init_rfx ::
  "codec_constants \<Rightarrow> 'd dictionary_ops \<Rightarrow> enc_allocator \<Rightarrow> rdpSettings \<Rightarrow> 'd rds_encoder \<Rightarrow> enc_heap \<Rightarrow>
   int \<times> 'd rds_encoder \<times> enc_heap" where
  "freerds_encoder_init_rfx K D A settings encoder h =
     (let (b, h) = (case enc_rfx encoder of Some rfx \<Rightarrow> (Some (rfx_handle rfx), h) | None \<Rightarrow> enc_new A RfxContext h)
      in case b of
        None \<Rightarrow> (-1, encoder\<lparr>enc_rfx := None\<rparr>, h)
      | Some b \<Rightarrow>
          let encoder = encoder\<lparr>enc_rfx := Some \<lparr>rfx_handle = b, rfx_mode = RLGR3 K,
                  rfx_width = enc_width encoder, rfx_height = enc_height encoder,
                  rfx_pixel_format = RDP_PIXEL_FORMAT_B8G8R8A8 K\<rparr>\<rparr>;
              (encoder, h) = init_frame_list D A settings encoder h
          in (1, encoder\<lparr>enc_codecs := enc_codecs encoder OR FREERDP_CODEC_REMOTEFX K\<rparr>, h))"

definition freerds_encoder_init_nsc ::
  "codec_constants \<Rightarrow> 'd dictionary_ops \<Rightarrow> enc_allocator \<Rightarrow> rdpSettings \<Rightarrow> 'd rds_encoder \<Rightarrow> enc_heap \<Rightarrow>
   int \<times> 'd rds_encoder \<times> enc_heap" where
  "freerds_encoder_init_nsc K D A settings encoder h =
     (let (b, h) = (case enc_nsc encoder of Some nsc \<Rightarrow> (Some (nsc_handle nsc), h) | None \<Rightarrow> enc_new A NscContext h)
      in case b of
        None \<Rightarrow> (-1, encoder\<lparr>enc_nsc := None\<rparr>, h)
      | Some b \<Rightarrow>
          let (encoder, h) = init_frame_list D A settings encoder h;
              encoder = encoder\<lparr>enc_nsc := Some \<lparr>nsc_handle = b, nsc_pixel_format = RDP_PIXEL_FORMAT_B8G8R8A8 K,
                  ColorLossLevel = NSCodecColorLossLevel settings,
                  ChromaSubsamplingLevel = (if NSCodecAllowSubsampling settings then 1 else 0),
                  DynamicColorFidelity = NSCodecAllowDynamicColorFidelity settings\<rparr>\<rparr>
          in (1, encoder\<lparr>enc_codecs := enc_codecs encoder OR FREERDP_CODEC_NSCODEC K\<rparr>, h))"

definition freerds_encoder_init_planar ::
  "codec_constants \<Rightarrow> enc_allocator \<Rightarrow> rdpSettings \<Rightarrow> 'd rds_encoder \<Rightarrow> enc_heap \<Rightarrow>
   int \<times> 'd rds_encoder \<times> enc_heap" where
  "freerds_encoder_init_planar K A settings encoder h =
     (let planarFlags = (if DrawAllowSkipAlpha settings then PLANAR_FORMAT_HEADER_NA K else 0);
          planarFlags = planarFlags OR PLANAR_FORMAT_HEADER_RLE K;
          (planar, h) = (case enc_planar encoder of
              Some planar \<Rightarrow> (Some planar, h)
            | None \<Rightarrow> let (b, h) = enc_new A PlanarContext h in
                (map_option (\<lambda>b. \<lparr>planar_handle = b, planar_flags = planarFlags,
                   planar_maxWidth = maxTileWidth encoder, planar_maxHeight = maxTileHeight encoder\<rparr>) b, h));
          encoder = encoder\<lparr>enc_planar := planar\<rparr>
      in if planar = None then (-1, encoder, h)
         else (1, encoder\<lparr>enc_codecs := enc_codecs encoder OR FREERDP_CODEC_PLANAR K\<rparr>, h))"

definition freerds_encoder_init_interleaved ::
  "codec_constants \<Rightarrow> enc_allocator \<Rightarrow> 'd rds_encoder \<Rightarrow> enc_heap \<Rightarrow> int \<times> 'd rds_encoder \<times> enc_heap" where
  "freerds_encoder_init_interleaved K A encoder h =
     (let (b, h) = (case enc_interleaved encoder of Some b \<Rightarrow> (Some b, h) | None \<Rightarrow> enc_new A InterleavedContext h);
          encoder = encoder\<lparr>enc_interleaved := b\<rparr>
      in if b = None then (-1, encoder, h)
         else (1, encoder\<lparr>enc_codecs := enc_codecs encoder OR FREERDP_CODEC_INTERLEAVED K\<rparr>, h))"

definition freerds_encoder_init ::
  "enc_allocator \<Rightarrow> 'd rds_encoder \<Rightarrow> enc_heap \<Rightarrow> (int \<times> 'd rds_encoder \<times> enc_heap) option" where
  "freerds_encoder_init A encoder h =
     do {
       let encoder = encoder\<lparr>maxTileWidth := 64, maxTileHeight := 64\<rparr>;
       (_, encoder, h) \<leftarrow> freerds_encoder_init_grid A encoder h;
       let (bs, h) = (case enc_bs encoder of Some b \<Rightarrow> (Some b, h) | None \<Rightarrow> enc_new A StreamBlock h);
       let encoder = encoder\<lparr>enc_bs := bs\<rparr>;
       Some (if bs = None then -1 else 1, encoder, h)
     }"

subsection \<open>Releasing the codecs\<close>

definition freerds_encoder_uninit_rfx ::
  "codec_constants \<Rightarrow> 'd rds_encoder \<Rightarrow> enc_heap \<Rightarrow> (int \<times> 'd rds_encoder \<times> enc_heap) option" where
  "freerds_encoder_uninit_rfx K encoder h =
     do {
       let encoder = encoder\<lparr>enc_frameId := 0\<rparr>;
       h \<leftarrow> release_opt (map_option rfx_handle (enc_rfx encoder)) h;
       let encoder = encoder\<lparr>enc_rfx := None\<rparr>;
       h \<leftarrow> release_opt (map_option fst (enc_frameList encoder)) h;
       let encoder = encoder\<lparr>enc_frameList := None\<rparr>;
       Some (1, encoder\<lparr>enc_codecs := enc_codecs encoder AND NOT (FREERDP_CODEC_REMOTEFX K)\<rparr>, h)
     }"

definition freerds_encoder_uninit_nsc ::
  "codec_constants \<Rightarrow> 'd rds_encoder \<Rightarrow> enc_heap \<Rightarrow> (int \<times> 'd rds_encoder \<times> enc_heap) option" where
  "freerds_encoder_uninit_nsc K encoder h =
     do {
       h \<leftarrow> release_opt (map_option nsc_handle (enc_nsc encoder)) h;
       let encoder = encoder\<lparr>enc_nsc := None\<rparr>;
       h \<leftarrow> release_opt (map_option fst (enc_frameList encoder)) h;
       let encoder = encoder\<lparr>enc_frameList := None\<rparr>;
       Some (1, encoder\<lparr>enc_codecs := enc_codecs encoder AND NOT (FREERDP_CODEC_NSCODEC K)\<rparr>, h)
     }"

definition freerds_encoder_uninit_planar ::
  "codec_constants \<Rightarrow> 'd rds_encoder \<Rightarrow> enc_heap \<Rightarrow> (int \<times> 'd rds_encoder \<times> enc_heap) option" where
  "freerds_encoder_uninit_planar K encoder h =
     do {
       h \<leftarrow> release_opt (map_option planar_handle (enc_planar encoder)) h;
       let encoder = encoder\<lparr>enc_planar := None\<rparr>;
       Some (1, encoder\<lparr>enc_codecs := enc_codecs encoder AND NOT (FREERDP_CODEC_PLANAR K)\<rparr>, h)
     }"

definition freerds_encoder_uninit_interleaved ::
  "codec_constants \<Rightarrow> 'd rds_encoder \<Rightarrow> enc_heap \<Rightarrow> (int \<times> 'd rds_encoder \<times> enc_heap) option" where
  "freerds_encoder_uninit_interleaved K encoder h =
     do {
       h \<leftarrow> release_opt (enc_interleaved encoder) h;
       let encoder = encoder\<lparr>enc_interleaved := None\<rparr>;
       Some (1, encoder\<lparr>enc_codecs := enc_codecs encoder AND NOT (FREERDP_CODEC_INTERLEAVED K)\<rparr>, h)
     }"

definition freerds_encoder_uninit ::
  "codec_constants \<Rightarrow> 'd rds_encoder \<Rightarrow> enc_heap \<Rightarrow> (int \<times> 'd rds_encoder \<times> enc_heap) option" where
  "freerds_encoder_uninit K encoder h =
     do {
       (_, encoder, h) \<leftarrow> freerds_encoder_uninit_grid encoder h;
       h \<leftarrow> release_opt (enc_bs encoder) h;
       let encoder = encoder\<lparr>enc_bs := None\<rparr>;
       (_, encoder, h) \<leftarrow> (if enc_codecs encoder AND FREERDP_CODEC_REMOTEFX K \<noteq> 0
                           then freerds_encoder_uninit_rfx K encoder h else Some (1, encoder, h));
       (_, encoder, h) \<leftarrow> (if enc_codecs encoder AND FREERDP_CODEC_NSCODEC K \<noteq> 0
                           then freerds_encoder_uninit_nsc K encoder h else Some (1, encoder, h));
       (_, encoder, h) \<leftarrow> (if enc_codecs encoder AND FREERDP_CODEC_PLANAR K \<noteq> 0
                           then freerds_encoder_uninit_planar K encoder h else Some (1, encoder, h));
       (_, encoder, h) \<leftarrow> (if enc_codecs encoder AND FREERDP_CODEC_INTERLEAVED K \<noteq> 0
                           then freerds_encoder_uninit_interleaved K encoder h else Some (1, encoder, h));
       Some (1, encoder, h)
     }"

subsection \<open>The interface of the encoder\<close>

definition freerds_encoder_prepare ::
  "codec_constants \<Rightarrow> 'd dictionary_ops \<Rightarrow> enc_allocator \<Rightarrow> rdpSettings \<Rightarrow> UINT32 \<Rightarrow> 'd rds_encoder \<Rightarrow> enc_heap \<Rightarrow>
   int \<times> 'd rds_encoder \<times> enc_heap" where
  "freerds_encoder_prepare K D A settings codecs encoder h =
     (let wanted = (\<lambda>encoder bit. codecs AND bit \<noteq> 0 \<and> enc_codecs encoder AND bit = 0);
          (status, encoder, h) = (if wanted encoder (FREERDP_CODEC_REMOTEFX K)
                                  then freerds_encoder_init_rfx K D A settings encoder h else (1, encoder, h))
      in if status < 0 then (-1, encoder, h)
         else let (status, encoder, h) = (if wanted encoder (FREERDP_CODEC_NSCODEC K)
                                  then freerds_encoder_init_nsc K D A settings encoder h else (1, encoder, h))
      in if status < 0 then (-1, encoder, h)
         else let (status, encoder, h) = (if wanted encoder (FREERDP_CODEC_PLANAR K)
                                  then freerds_encoder_init_planar K A settings encoder h else (1, encoder, h))
      in if status < 0 then (-1, encoder, h)
         else let (status, encoder, h) = (if wanted encoder (FREERDP_CODEC_INTERLEAVED K)
                                  then freerds_encoder_init_interleaved K A encoder h else (1, encoder, h))
      in if status < 0 then (-1, encoder, h) else (1, encoder, h))"

definition freerds_encoder_reset ::
  "codec_constants \<Rightarrow> 'd dictionary_ops \<Rightarrow> enc_allocator \<Rightarrow> rdpSettings \<Rightarrow> 'd rds_encoder \<Rightarrow> enc_heap \<Rightarrow>
   (int \<times> 'd rds_encoder \<times> enc_heap) option" where
  "freerds_encoder_reset K D A settings encoder h =
     do {
       let codecs = enc_codecs encoder;
       (status, encoder, h) \<leftarrow> freerds_encoder_uninit K encoder h;
       if status < 0 then Some (-1, encoder, h)
       else do {
         (status, encoder, h) \<leftarrow> freerds_encoder_init A encoder h;
         if status < 0 then Some (-1, encoder, h)
         else let (status, encoder, h) = freerds_encoder_prepare K D A settings codecs encoder h
              in Some (if status < 0 then -1 else 1, encoder, h)
       }
     }"

text \<open>\<open>calloc\<close>: every field of a fresh encoder is zero.\<close>

definition encoder_zero :: "enc_handle \<Rightarrow> 'd rds_encoder" where
  "encoder_zero b =
     \<lparr>enc_handle = b, enc_width = 0, enc_height = 0, enc_codecs = 0, enc_grid = None, enc_gridWidth = 0,
      enc_gridHeight = 0, enc_gridBuffer = None, maxTileWidth = 0, maxTileHeight = 0, enc_bs = None,
      enc_rfx = None, enc_nsc = None, enc_planar = None, enc_interleaved = None, enc_fps = 0, enc_maxFps = 0,
      enc_frameAck = 0, enc_frameId = 0, enc_frameList = None\<rparr>"

definition freerds_encoder_new ::
  "enc_allocator \<Rightarrow> int \<Rightarrow> int \<Rightarrow> enc_heap \<Rightarrow> ('d rds_encoder option \<times> enc_heap) option" where
  "freerds_encoder_new A width height h =
     (case enc_new A EncoderBlock h of
        (None, h) \<Rightarrow> Some (None, h)
      | (Some b, h) \<Rightarrow>
          do {
            let encoder = (encoder_zero b)\<lparr>enc_fps := 16, enc_maxFps := 32, enc_width := width, enc_height := height\<rparr>;
            (status, encoder, h) \<leftarrow> freerds_encoder_init A encoder h;
            if status < 0
            then do { h \<leftarrow> enc_release (enc_handle encoder) h; Some (None, h) }
            else Some (Some encoder, h)
          })"


section \<open>Releasing everything once\<close>

fun opt_mset :: "'a option \<Rightarrow> 'a multiset" where
  "opt_mset None = {#}"
| "opt_mset (Some a) = {#a#}"

definition encoder_handles :: "'d rds_encoder \<Rightarrow> enc_handle multiset" where
  "encoder_handles e =
     opt_mset (map_option fst (enc_gridBuffer e)) + opt_mset (map_option fst (enc_grid e)) +
     opt_mset (enc_bs e) + opt_mset (map_option rfx_handle (enc_rfx e)) +
     opt_mset (map_option nsc_handle (enc_nsc e)) + opt_mset (map_option planar_handle (enc_planar e)) +
     opt_mset (enc_interleaved e) + opt_mset (map_option fst (enc_frameList e))"

definition codecs_ok :: "codec_constants \<Rightarrow> 'd rds_encoder \<Rightarrow> bool" where
  "codecs_ok K e \<longleftrightarrow>
     (enc_codecs e AND FREERDP_CODEC_REMOTEFX K \<noteq> 0 \<longleftrightarrow> enc_rfx e \<noteq> None) \<and>
     (enc_codecs e AND FREERDP_CODEC_NSCODEC K \<noteq> 0 \<longleftrightarrow> enc_nsc e \<noteq> None) \<and>
     (enc_codecs e AND FREERDP_CODEC_PLANAR K \<noteq> 0 \<longleftrightarrow> enc_planar e \<noteq> None) \<and>
     (enc_codecs e AND FREERDP_CODEC_INTERLEAVED K \<noteq> 0 \<longleftrightarrow> enc_interleaved e \<noteq> None) \<and>
     (enc_frameList e \<noteq> None \<longrightarrow> enc_rfx e \<noteq> None \<or> enc_nsc e \<noteq> None)"

definition grid_size :: "int \<Rightarrow> int \<Rightarrow> int" where
  "grid_size w h = ((w + 63) div 64) * ((h + 63) div 64)"

definition grid_ok :: "'d rds_encoder \<Rightarrow> bool" where
  "grid_ok e \<longleftrightarrow>
     maxTileWidth e = 64 \<and> maxTileHeight e = 64 \<and>
     enc_gridWidth e = (enc_width e + 63) div 64 \<and> enc_gridHeight e = (enc_height e + 63) div 64 \<and>
     (\<forall>b size. enc_gridBuffer e = Some (b, size) \<longrightarrow> size = 16384 * grid_size (enc_width e) (enc_height e)) \<and>
     (\<forall>b tiles. enc_grid e = Some (b, tiles) \<longrightarrow>
        enc_gridBuffer e \<noteq> None \<and>
        tiles = map (\<lambda>k. 16384 * int k) [0..<nat (grid_size (enc_width e) (enc_height e))])"

definition rate_ok :: "'d rds_encoder \<Rightarrow> bool" where
  "rate_ok e \<longleftrightarrow> 1 \<le> enc_fps e \<and> enc_fps e \<le> enc_maxFps e \<and> enc_maxFps e = 32 \<and> enc_frameAck e \<in> {0, 1}"

definition desktop_fits :: "int \<Rightarrow> int \<Rightarrow> bool" where
  "desktop_fits w h \<longleftrightarrow> 0 \<le> w \<and> 0 \<le> h \<and> w + 63 < 2 ^ 31 \<and> h + 63 < 2 ^ 31 \<and> grid_size w h < 131072"

definition encoder_ok :: "codec_constants \<Rightarrow> enc_handle multiset \<Rightarrow> 'd rds_encoder \<Rightarrow> enc_heap \<Rightarrow> bool" where
  "encoder_ok K rest e h \<longleftrightarrow>
     mset (live_objects h) = add_mset (enc_handle e) (encoder_handles e + rest) \<and>
     codecs_ok K e \<and> grid_ok e \<and> rate_ok e \<and> desktop_fits (enc_width e) (enc_height e)"

lemma enc_release_ok:
  assumes "mset (live_objects h) = add_mset b M"
  shows "\<exists>h'. enc_release b h = Some h' \<and> mset (live_objects h') = M"
proof -
  have "b \<in># mset (live_objects h)" unfolding assms by simp
  then have "b \<in> set (live_objects h)" by simp
  then show ?thesis by (simp add: enc_release_def assms)
qed

lemma release_opt_ok:
  assumes "mset (live_objects h) = opt_mset b + M"
  shows "\<exists>h'. release_opt b h = Some h' \<and> mset (live_objects h') = M"
  using assms by (cases b) (simp_all add: release_opt_def enc_release_ok)

lemma enc_new_cases:
  obtains (null) h' where "enc_new A k h = (None, h')" "mset (live_objects h') = mset (live_objects h)"
    | (object) b h' where "enc_new A k h = (Some b, h')" "fst b = k"
        "mset (live_objects h') = add_mset b (mset (live_objects h))"
  by (cases "A k (next_object h)") (simp_all add: enc_new_def Let_def)

lemma and_not_self [simp]: "(a AND NOT b) AND b = (0 :: UINT32)"
  by (rule bit_word_eqI) (auto simp: bit_simps)

lemma disjoint_bits: "b AND c = (0 :: UINT32) \<Longrightarrow> \<not> (bit b n \<and> bit c n)"
  by (metis bit_0_eq bit_and_iff bot_apply bot_bool_def)

lemma and_not_other: "b AND c = 0 \<Longrightarrow> (a AND NOT b) AND c = (a AND c :: UINT32)"
  by (rule bit_word_eqI) (auto simp: bit_simps dest: disjoint_bits)

lemma or_and_self [simp]: "(a OR b) AND b = (b :: UINT32)"
  by (rule bit_word_eqI) (auto simp: bit_simps)

lemma or_and_other: "b AND c = 0 \<Longrightarrow> (a OR b) AND c = (a AND c :: UINT32)"
  by (rule bit_word_eqI) (auto simp: bit_simps dest: disjoint_bits)

lemma and_not_absent: "a AND b = 0 \<Longrightarrow> a AND NOT b = (a :: UINT32)"
  by (rule bit_word_eqI) (auto simp: bit_simps dest: disjoint_bits)

text \<open>The bits of the four codecs do not disturb each other.\<close>

lemma codec_bits_disjoint:
  assumes "codec_bits K"
  shows "FREERDP_CODEC_REMOTEFX K AND FREERDP_CODEC_NSCODEC K = 0"
    "FREERDP_CODEC_REMOTEFX K AND FREERDP_CODEC_PLANAR K = 0"
    "FREERDP_CODEC_REMOTEFX K AND FREERDP_CODEC_INTERLEAVED K = 0"
    "FREERDP_CODEC_NSCODEC K AND FREERDP_CODEC_REMOTEFX K = 0"
    "FREERDP_CODEC_NSCODEC K AND FREERDP_CODEC_PLANAR K = 0"
    "FREERDP_CODEC_NSCODEC K AND FREERDP_CODEC_INTERLEAVED K = 0"
    "FREERDP_CODEC_PLANAR K AND FREERDP_CODEC_REMOTEFX K = 0"
    "FREERDP_CODEC_PLANAR K AND FREERDP_CODEC_NSCODEC K = 0"
    "FREERDP_CODEC_PLANAR K AND FREERDP_CODEC_INTERLEAVED K = 0"
    "FREERDP_CODEC_INTERLEAVED K AND FREERDP_CODEC_REMOTEFX K = 0"
    "FREERDP_CODEC_INTERLEAVED K AND FREERDP_CODEC_NSCODEC K = 0"
    "FREERDP_CODEC_INTERLEAVED K AND FREERDP_CODEC_PLANAR K = 0"
  using assms by (simp_all add: codec_bits_def and.commute)

lemma codec_bits_separate:
  assumes "codec_bits K"
  shows "(a AND NOT (FREERDP_CODEC_REMOTEFX K)) AND FREERDP_CODEC_NSCODEC K = a AND FREERDP_CODEC_NSCODEC K"
    "(a AND NOT (FREERDP_CODEC_REMOTEFX K)) AND FREERDP_CODEC_PLANAR K = a AND FREERDP_CODEC_PLANAR K"
    "(a AND NOT (FREERDP_CODEC_REMOTEFX K)) AND FREERDP_CODEC_INTERLEAVED K = a AND FREERDP_CODEC_INTERLEAVED K"
    "(a AND NOT (FREERDP_CODEC_NSCODEC K)) AND FREERDP_CODEC_REMOTEFX K = a AND FREERDP_CODEC_REMOTEFX K"
    "(a AND NOT (FREERDP_CODEC_NSCODEC K)) AND FREERDP_CODEC_PLANAR K = a AND FREERDP_CODEC_PLANAR K"
    "(a AND NOT (FREERDP_CODEC_NSCODEC K)) AND FREERDP_CODEC_INTERLEAVED K = a AND FREERDP_CODEC_INTERLEAVED K"
    "(a AND NOT (FREERDP_CODEC_PLANAR K)) AND FREERDP_CODEC_REMOTEFX K = a AND FREERDP_CODEC_REMOTEFX K"
    "(a AND NOT (FREERDP_CODEC_PLANAR K)) AND FREERDP_CODEC_NSCODEC K = a AND FREERDP_CODEC_NSCODEC K"
    "(a AND NOT (FREERDP_CODEC_PLANAR K)) AND FREERDP_CODEC_INTERLEAVED K = a AND FREERDP_CODEC_INTERLEAVED K"
    "(a AND NOT (FREERDP_CODEC_INTERLEAVED K)) AND FREERDP_CODEC_REMOTEFX K = a AND FREERDP_CODEC_REMOTEFX K"
    "(a AND NOT (FREERDP_CODEC_INTERLEAVED K)) AND FREERDP_CODEC_NSCODEC K = a AND FREERDP_CODEC_NSCODEC K"
    "(a AND NOT (FREERDP_CODEC_INTERLEAVED K)) AND FREERDP_CODEC_PLANAR K = a AND FREERDP_CODEC_PLANAR K"
    "(a OR FREERDP_CODEC_REMOTEFX K) AND FREERDP_CODEC_NSCODEC K = a AND FREERDP_CODEC_NSCODEC K"
    "(a OR FREERDP_CODEC_REMOTEFX K) AND FREERDP_CODEC_PLANAR K = a AND FREERDP_CODEC_PLANAR K"
    "(a OR FREERDP_CODEC_REMOTEFX K) AND FREERDP_CODEC_INTERLEAVED K = a AND FREERDP_CODEC_INTERLEAVED K"
    "(a OR FREERDP_CODEC_NSCODEC K) AND FREERDP_CODEC_REMOTEFX K = a AND FREERDP_CODEC_REMOTEFX K"
    "(a OR FREERDP_CODEC_NSCODEC K) AND FREERDP_CODEC_PLANAR K = a AND FREERDP_CODEC_PLANAR K"
    "(a OR FREERDP_CODEC_NSCODEC K) AND FREERDP_CODEC_INTERLEAVED K = a AND FREERDP_CODEC_INTERLEAVED K"
    "(a OR FREERDP_CODEC_PLANAR K) AND FREERDP_CODEC_REMOTEFX K = a AND FREERDP_CODEC_REMOTEFX K"
    "(a OR FREERDP_CODEC_PLANAR K) AND FREERDP_CODEC_NSCODEC K = a AND FREERDP_CODEC_NSCODEC K"
    "(a OR FREERDP_CODEC_PLANAR K) AND FREERDP_CODEC_INTERLEAVED K = a AND FREERDP_CODEC_INTERLEAVED K"
    "(a OR FREERDP_CODEC_INTERLEAVED K) AND FREERDP_CODEC_REMOTEFX K = a AND FREERDP_CODEC_REMOTEFX K"
    "(a OR FREERDP_CODEC_INTERLEAVED K) AND FREERDP_CODEC_NSCODEC K = a AND FREERDP_CODEC_NSCODEC K"
    "(a OR FREERDP_CODEC_INTERLEAVED K) AND FREERDP_CODEC_PLANAR K = a AND FREERDP_CODEC_PLANAR K"
  using codec_bits_disjoint [OF assms] by (simp_all add: and_not_other or_and_other)

lemma rfx_step:
  assumes "enc_codecs e AND FREERDP_CODEC_REMOTEFX K \<noteq> 0 \<longleftrightarrow> enc_rfx e \<noteq> None"
    and "mset (live_objects h) = opt_mset (map_option rfx_handle (enc_rfx e)) +
           opt_mset (if enc_rfx e = None then None else map_option fst (enc_frameList e)) + M"
  shows "\<exists>fid h'. (if enc_codecs e AND FREERDP_CODEC_REMOTEFX K \<noteq> 0
                  then freerds_encoder_uninit_rfx K e h else Some (1, e, h)) =
           Some (1, e\<lparr>enc_rfx := None, enc_frameList := (if enc_rfx e = None then enc_frameList e else None),
                      enc_codecs := enc_codecs e AND NOT (FREERDP_CODEC_REMOTEFX K), enc_frameId := fid\<rparr>, h') \<and>
         mset (live_objects h') = M"
proof (cases "enc_rfx e")
  case None
  with assms have "e\<lparr>enc_rfx := None, enc_frameList := enc_frameList e,
      enc_codecs := enc_codecs e AND NOT (FREERDP_CODEC_REMOTEFX K), enc_frameId := enc_frameId e\<rparr> = e"
    by (simp add: and_not_absent)
  with None assms show ?thesis
    by (intro exI [of _ "enc_frameId e"] exI [of _ h]) simp
next
  case (Some rfx)
  then obtain h1 where 1: "release_opt (Some (rfx_handle rfx)) h = Some h1"
    "mset (live_objects h1) = opt_mset (map_option fst (enc_frameList e)) + M"
    using assms(2) release_opt_ok [of h "Some (rfx_handle rfx)"] by (auto simp: add.assoc)
  then obtain h2 where 2: "release_opt (map_option fst (enc_frameList e)) h1 = Some h2" "mset (live_objects h2) = M"
    using release_opt_ok by blast
  show ?thesis
    by (rule exI [of _ 0], rule exI [of _ h2])
       (use Some assms(1) 1 2 in \<open>simp add: freerds_encoder_uninit_rfx_def\<close>)
qed

lemma nsc_step:
  assumes "enc_codecs e AND FREERDP_CODEC_NSCODEC K \<noteq> 0 \<longleftrightarrow> enc_nsc e \<noteq> None"
    and "mset (live_objects h) = opt_mset (map_option nsc_handle (enc_nsc e)) +
           opt_mset (if enc_nsc e = None then None else map_option fst (enc_frameList e)) + M"
  shows "\<exists>h'. (if enc_codecs e AND FREERDP_CODEC_NSCODEC K \<noteq> 0
                  then freerds_encoder_uninit_nsc K e h else Some (1, e, h)) =
           Some (1, e\<lparr>enc_nsc := None, enc_frameList := (if enc_nsc e = None then enc_frameList e else None),
                      enc_codecs := enc_codecs e AND NOT (FREERDP_CODEC_NSCODEC K)\<rparr>, h') \<and>
         mset (live_objects h') = M"
proof (cases "enc_nsc e")
  case None
  with assms have "e\<lparr>enc_nsc := None, enc_frameList := enc_frameList e,
      enc_codecs := enc_codecs e AND NOT (FREERDP_CODEC_NSCODEC K)\<rparr> = e"
    by (simp add: and_not_absent)
  with None assms show ?thesis
    by (intro exI [of _ h]) simp
next
  case (Some nsc)
  then obtain h1 where 1: "release_opt (Some (nsc_handle nsc)) h = Some h1"
    "mset (live_objects h1) = opt_mset (map_option fst (enc_frameList e)) + M"
    using assms(2) release_opt_ok [of h "Some (nsc_handle nsc)"] by (auto simp: add.assoc)
  then obtain h2 where 2: "release_opt (map_option fst (enc_frameList e)) h1 = Some h2" "mset (live_objects h2) = M"
    using release_opt_ok by blast
  show ?thesis
    by (rule exI [of _ h2]) (use Some assms(1) 1 2 in \<open>simp add: freerds_encoder_uninit_nsc_def\<close>)
qed

lemma planar_step:
  assumes "enc_codecs e AND FREERDP_CODEC_PLANAR K \<noteq> 0 \<longleftrightarrow> enc_planar e \<noteq> None"
    and "mset (live_objects h) = opt_mset (map_option planar_handle (enc_planar e)) + M"
  shows "\<exists>h'. (if enc_codecs e AND FREERDP_CODEC_PLANAR K \<noteq> 0
                  then freerds_encoder_uninit_planar K e h else Some (1, e, h)) =
           Some (1, e\<lparr>enc_planar := None, enc_codecs := enc_codecs e AND NOT (FREERDP_CODEC_PLANAR K)\<rparr>, h') \<and>
         mset (live_objects h') = M"
proof (cases "enc_planar e")
  case None
  with assms have "e\<lparr>enc_planar := None, enc_codecs := enc_codecs e AND NOT (FREERDP_CODEC_PLANAR K)\<rparr> = e"
    by (simp add: and_not_absent)
  with None assms show ?thesis
    by (intro exI [of _ h]) simp
next
  case (Some planar)
  with assms(2) obtain h1 where "release_opt (Some (planar_handle planar)) h = Some h1" "mset (live_objects h1) = M"
    using release_opt_ok [of h "Some (planar_handle planar)"] by auto
  with Some assms(1) show ?thesis
    by (intro exI [of _ h1]) (simp add: freerds_encoder_uninit_planar_def)
qed

lemma interleaved_step:
  assumes "enc_codecs e AND FREERDP_CODEC_INTERLEAVED K \<noteq> 0 \<longleftrightarrow> enc_interleaved e \<noteq> None"
    and "mset (live_objects h) = opt_mset (enc_interleaved e) + M"
  shows "\<exists>h'. (if enc_codecs e AND FREERDP_CODEC_INTERLEAVED K \<noteq> 0
                  then freerds_encoder_uninit_interleaved K e h else Some (1, e, h)) =
           Some (1, e\<lparr>enc_interleaved := None,
                      enc_codecs := enc_codecs e AND NOT (FREERDP_CODEC_INTERLEAVED K)\<rparr>, h') \<and>
         mset (live_objects h') = M"
proof (cases "enc_interleaved e")
  case None
  with assms have "e\<lparr>enc_interleaved := None, enc_codecs := enc_codecs e AND NOT (FREERDP_CODEC_INTERLEAVED K)\<rparr> = e"
    by (simp add: and_not_absent)
  with None assms show ?thesis
    by (intro exI [of _ h]) simp
next
  case (Some b)
  with assms(2) obtain h1 where "release_opt (Some b) h = Some h1" "mset (live_objects h1) = M"
    using release_opt_ok [of h "Some b"] by auto
  with Some assms(1) show ?thesis
    by (intro exI [of _ h1]) (simp add: freerds_encoder_uninit_interleaved_def)
qed

text \<open>What \<open>freerds_encoder_uninit\<close> leaves of an encoder.\<close>

definition encoder_cleared :: "codec_constants \<Rightarrow> 'd rds_encoder \<Rightarrow> 'd rds_encoder \<Rightarrow> bool" where
  "encoder_cleared K e e' \<longleftrightarrow>
     encoder_handles e' = {#} \<and> codecs_ok K e' \<and> enc_handle e' = enc_handle e \<and>
     enc_width e' = enc_width e \<and> enc_height e' = enc_height e \<and> rate_ok e' = rate_ok e \<and>
     enc_frameAck e' = enc_frameAck e"

lemma uninit_rfx_nsc_ok:
  assumes K: "codec_bits K" and ok: "codecs_ok K e"
    and m: "mset (live_objects h) = opt_mset (map_option rfx_handle (enc_rfx e)) +
      opt_mset (map_option nsc_handle (enc_nsc e)) + opt_mset (map_option fst (enc_frameList e)) + M"
  shows "\<exists>e1 e2 fid h1 h2.
    (if enc_codecs e AND FREERDP_CODEC_REMOTEFX K \<noteq> 0
     then freerds_encoder_uninit_rfx K e h else Some (1, e, h)) = Some (1, e1, h1) \<and>
    (if enc_codecs e1 AND FREERDP_CODEC_NSCODEC K \<noteq> 0
     then freerds_encoder_uninit_nsc K e1 h1 else Some (1, e1, h1)) = Some (1, e2, h2) \<and>
    mset (live_objects h2) = M \<and>
    e2 = e\<lparr>enc_rfx := None, enc_nsc := None, enc_frameList := None, enc_frameId := fid,
           enc_codecs := (enc_codecs e AND NOT (FREERDP_CODEC_REMOTEFX K)) AND NOT (FREERDP_CODEC_NSCODEC K)\<rparr>"
proof -
  let ?fl = "if enc_rfx e = None then enc_frameList e else None"
  let ?N = "opt_mset (map_option nsc_handle (enc_nsc e)) + opt_mset (map_option fst ?fl)"
  have m3: "mset (live_objects h) = opt_mset (map_option rfx_handle (enc_rfx e)) +
      opt_mset (if enc_rfx e = None then None else map_option fst (enc_frameList e)) + (?N + M)"
    using m by (cases "enc_rfx e") simp_all
  have "enc_codecs e AND FREERDP_CODEC_REMOTEFX K \<noteq> 0 \<longleftrightarrow> enc_rfx e \<noteq> None"
    using ok by (simp add: codecs_ok_def)
  from rfx_step [OF this m3] obtain fid e1 h1 where 4: "(if enc_codecs e AND FREERDP_CODEC_REMOTEFX K \<noteq> 0
        then freerds_encoder_uninit_rfx K e h else Some (1, e, h)) = Some (1, e1, h1)"
    "mset (live_objects h1) = ?N + M" and e1: "e1 = e\<lparr>enc_rfx := None, enc_frameList := ?fl,
       enc_codecs := enc_codecs e AND NOT (FREERDP_CODEC_REMOTEFX K), enc_frameId := fid\<rparr>"
    by blast
  have fl: "enc_nsc e = None \<Longrightarrow> ?fl = None"
    using ok by (auto simp: codecs_ok_def)
  have m4: "mset (live_objects h1) = opt_mset (map_option nsc_handle (enc_nsc e1)) +
      opt_mset (if enc_nsc e1 = None then None else map_option fst (enc_frameList e1)) + M"
    using 4(2) fl by (cases "enc_nsc e") (simp_all add: e1)
  have "enc_codecs e1 AND FREERDP_CODEC_NSCODEC K \<noteq> 0 \<longleftrightarrow> enc_nsc e1 \<noteq> None"
    using ok by (simp add: codecs_ok_def codec_bits_separate [OF K] e1)
  from nsc_step [OF this m4] obtain e2 h2 where 5: "(if enc_codecs e1 AND FREERDP_CODEC_NSCODEC K \<noteq> 0
        then freerds_encoder_uninit_nsc K e1 h1 else Some (1, e1, h1)) = Some (1, e2, h2)"
    "mset (live_objects h2) = M" and e2: "e2 = e1\<lparr>enc_nsc := None,
       enc_frameList := (if enc_nsc e1 = None then enc_frameList e1 else None),
       enc_codecs := enc_codecs e1 AND NOT (FREERDP_CODEC_NSCODEC K)\<rparr>"
    by blast
  have "e2 = e\<lparr>enc_rfx := None, enc_nsc := None, enc_frameList := None, enc_frameId := fid,
      enc_codecs := (enc_codecs e AND NOT (FREERDP_CODEC_REMOTEFX K)) AND NOT (FREERDP_CODEC_NSCODEC K)\<rparr>"
    using fl by (cases "enc_nsc e") (simp_all add: e1 e2)
  with 4(1) 5 show ?thesis by blast
qed

lemma uninit_planar_interleaved_ok:
  assumes K: "codec_bits K"
    and flags: "enc_codecs e AND FREERDP_CODEC_PLANAR K \<noteq> 0 \<longleftrightarrow> enc_planar e \<noteq> None"
      "enc_codecs e AND FREERDP_CODEC_INTERLEAVED K \<noteq> 0 \<longleftrightarrow> enc_interleaved e \<noteq> None"
    and m: "mset (live_objects h) = opt_mset (map_option planar_handle (enc_planar e)) + (opt_mset (enc_interleaved e) + M)"
  shows "\<exists>e1 e2 h1 h2.
    (if enc_codecs e AND FREERDP_CODEC_PLANAR K \<noteq> 0
     then freerds_encoder_uninit_planar K e h else Some (1, e, h)) = Some (1, e1, h1) \<and>
    (if enc_codecs e1 AND FREERDP_CODEC_INTERLEAVED K \<noteq> 0
     then freerds_encoder_uninit_interleaved K e1 h1 else Some (1, e1, h1)) = Some (1, e2, h2) \<and>
    mset (live_objects h2) = M \<and>
    e2 = e\<lparr>enc_planar := None, enc_interleaved := None,
           enc_codecs := (enc_codecs e AND NOT (FREERDP_CODEC_PLANAR K)) AND NOT (FREERDP_CODEC_INTERLEAVED K)\<rparr>"
proof -
  from planar_step [OF flags(1) m] obtain e1 h1 where 6: "(if enc_codecs e AND FREERDP_CODEC_PLANAR K \<noteq> 0
        then freerds_encoder_uninit_planar K e h else Some (1, e, h)) = Some (1, e1, h1)"
    "mset (live_objects h1) = opt_mset (enc_interleaved e) + M"
    and e1: "e1 = e\<lparr>enc_planar := None, enc_codecs := enc_codecs e AND NOT (FREERDP_CODEC_PLANAR K)\<rparr>"
    by blast
  have m6: "mset (live_objects h1) = opt_mset (enc_interleaved e1) + M"
    using 6(2) by (simp add: e1)
  have "enc_codecs e1 AND FREERDP_CODEC_INTERLEAVED K \<noteq> 0 \<longleftrightarrow> enc_interleaved e1 \<noteq> None"
    using flags by (simp add: codec_bits_separate [OF K] e1)
  from interleaved_step [OF this m6] obtain e2 h2 where 7: "(if enc_codecs e1 AND FREERDP_CODEC_INTERLEAVED K \<noteq> 0
        then freerds_encoder_uninit_interleaved K e1 h1 else Some (1, e1, h1)) = Some (1, e2, h2)"
    "mset (live_objects h2) = M"
    and e2: "e2 = e1\<lparr>enc_interleaved := None, enc_codecs := enc_codecs e1 AND NOT (FREERDP_CODEC_INTERLEAVED K)\<rparr>"
    by blast
  have "e2 = e\<lparr>enc_planar := None, enc_interleaved := None,
      enc_codecs := (enc_codecs e AND NOT (FREERDP_CODEC_PLANAR K)) AND NOT (FREERDP_CODEC_INTERLEAVED K)\<rparr>"
    by (simp add: e1 e2)
  with 6(1) 7 show ?thesis by blast
qed

lemma uninit_front_ok:
  assumes live: "mset (live_objects h) = encoder_handles e + M"
  shows "\<exists>h1 h2. freerds_encoder_uninit_grid e h =
      Some (0, e\<lparr>enc_gridBuffer := None, enc_grid := None, enc_gridWidth := 0, enc_gridHeight := 0\<rparr>, h1) \<and>
    release_opt (enc_bs e) h1 = Some h2 \<and>
    mset (live_objects h2) = encoder_handles (e\<lparr>enc_gridBuffer := None, enc_grid := None, enc_bs := None\<rparr>) + M"
proof -
  obtain h1 where 1: "release_opt (map_option fst (enc_gridBuffer e)) h = Some h1"
    "mset (live_objects h1) = encoder_handles (e\<lparr>enc_gridBuffer := None\<rparr>) + M"
    using release_opt_ok [of h "map_option fst (enc_gridBuffer e)"] live
    by (auto simp: encoder_handles_def ac_simps)
  obtain h2 where 2: "release_opt (map_option fst (enc_grid e)) h1 = Some h2"
    "mset (live_objects h2) = encoder_handles (e\<lparr>enc_gridBuffer := None, enc_grid := None\<rparr>) + M"
    using release_opt_ok [of h1 "map_option fst (enc_grid e)"] 1(2)
    by (auto simp: encoder_handles_def ac_simps)
  let ?e = "e\<lparr>enc_gridBuffer := None, enc_grid := None, enc_bs := None\<rparr>"
  obtain h3 where 3: "release_opt (enc_bs e) h2 = Some h3" "mset (live_objects h3) = encoder_handles ?e + M"
    using release_opt_ok [of h2 "enc_bs e"] 2(2) by (auto simp: encoder_handles_def ac_simps)
  show ?thesis
    by (rule exI [of _ h2], rule exI [of _ h3]) (use 1(1) 2(1) 3 in \<open>simp add: freerds_encoder_uninit_grid_def\<close>)
qed

lemma encoder_uninit_ok:
  assumes K: "codec_bits K" and live: "mset (live_objects h) = encoder_handles e + M" and ok: "codecs_ok K e"
  shows "\<exists>e' h'. freerds_encoder_uninit K e h = Some (1, e', h') \<and> mset (live_objects h') = M \<and> encoder_cleared K e e'"
proof -
  obtain h1 h2 where 1: "freerds_encoder_uninit_grid e h =
      Some (0, e\<lparr>enc_gridBuffer := None, enc_grid := None, enc_gridWidth := 0, enc_gridHeight := 0\<rparr>, h1)"
    "release_opt (enc_bs e) h1 = Some h2"
    "mset (live_objects h2) = encoder_handles (e\<lparr>enc_gridBuffer := None, enc_grid := None, enc_bs := None\<rparr>) + M"
    using uninit_front_ok [OF live] by blast
  define e0 where "e0 = e\<lparr>enc_gridBuffer := None, enc_grid := None, enc_gridWidth := 0, enc_gridHeight := 0, enc_bs := None\<rparr>"
  have bs: "enc_bs (e\<lparr>enc_gridBuffer := None, enc_grid := None, enc_gridWidth := 0, enc_gridHeight := 0\<rparr>) = enc_bs e"
    by simp
  let ?Q = "opt_mset (map_option planar_handle (enc_planar e)) + (opt_mset (enc_interleaved e) + M)"
  have "codecs_ok K e0" using ok by (simp add: codecs_ok_def e0_def)
  moreover have "mset (live_objects h2) = opt_mset (map_option rfx_handle (enc_rfx e0)) +
      opt_mset (map_option nsc_handle (enc_nsc e0)) + opt_mset (map_option fst (enc_frameList e0)) + ?Q"
    using 1(3) by (simp add: encoder_handles_def e0_def)
  ultimately obtain e1 e2 fid h3 h4 where 2: "(if enc_codecs e0 AND FREERDP_CODEC_REMOTEFX K \<noteq> 0
     then freerds_encoder_uninit_rfx K e0 h2 else Some (1, e0, h2)) = Some (1, e1, h3)"
    "(if enc_codecs e1 AND FREERDP_CODEC_NSCODEC K \<noteq> 0
     then freerds_encoder_uninit_nsc K e1 h3 else Some (1, e1, h3)) = Some (1, e2, h4)"
    "mset (live_objects h4) = ?Q"
    and e2: "e2 = e0\<lparr>enc_rfx := None, enc_nsc := None, enc_frameList := None, enc_frameId := fid,
           enc_codecs := (enc_codecs e0 AND NOT (FREERDP_CODEC_REMOTEFX K)) AND NOT (FREERDP_CODEC_NSCODEC K)\<rparr>"
    using uninit_rfx_nsc_ok [OF K] by blast
  have fl: "enc_codecs e2 AND FREERDP_CODEC_PLANAR K \<noteq> 0 \<longleftrightarrow> enc_planar e2 \<noteq> None"
      "enc_codecs e2 AND FREERDP_CODEC_INTERLEAVED K \<noteq> 0 \<longleftrightarrow> enc_interleaved e2 \<noteq> None"
    using ok by (simp_all add: codecs_ok_def e2 e0_def codec_bits_separate [OF K])
  have "mset (live_objects h4) = opt_mset (map_option planar_handle (enc_planar e2)) + (opt_mset (enc_interleaved e2) + M)"
    using 2(3) by (simp add: e2 e0_def)
  from uninit_planar_interleaved_ok [OF K fl this] obtain e3 e4 h5 h6 where 3:
    "(if enc_codecs e2 AND FREERDP_CODEC_PLANAR K \<noteq> 0
     then freerds_encoder_uninit_planar K e2 h4 else Some (1, e2, h4)) = Some (1, e3, h5)"
    "(if enc_codecs e3 AND FREERDP_CODEC_INTERLEAVED K \<noteq> 0
     then freerds_encoder_uninit_interleaved K e3 h5 else Some (1, e3, h5)) = Some (1, e4, h6)"
    "mset (live_objects h6) = M"
    and e4: "e4 = e2\<lparr>enc_planar := None, enc_interleaved := None,
           enc_codecs := (enc_codecs e2 AND NOT (FREERDP_CODEC_PLANAR K)) AND NOT (FREERDP_CODEC_INTERLEAVED K)\<rparr>"
    by blast
  have "freerds_encoder_uninit K e h = Some (1, e4, h6)"
    unfolding freerds_encoder_uninit_def
    by (simp only: 1(1) bs 1(2) Let_def Option.bind.bind_lunit prod.case e0_def [symmetric] 2(1,2) 3(1,2))
  moreover have "encoder_cleared K e e4"
    by (simp add: encoder_cleared_def encoder_handles_def codecs_ok_def rate_ok_def e4 e2 e0_def
          codec_bits_separate [OF K])
  ultimately show ?thesis using 3(3) by blast
qed

section \<open>Creating the tiles\<close>

lemma upto_int_map: "[0..int n - 1] = map int [0..<n]"
proof (induction n)
  case (Suc n)
  have "[0..int (Suc n) - 1] = [0..int n - 1] @ [int n]"
    by (subst upto_rec2) auto
  with Suc show ?case by simp
qed simp

lemma concat_rows: "concat (map (\<lambda>i. map (\<lambda>j. f (i * w + j)) [0..<w]) [0..<n]) = map f [0..<n * w]" for w n :: nat
proof (induction n)
  case (Suc n)
  have "map (\<lambda>j. f (n * w + j)) [0..<w] = map f [n * w..<n * w + w]"
    by (rule nth_equalityI) simp_all
  moreover have "[0..<Suc n * w] = [0..<n * w] @ [n * w..<n * w + w]"
    using upt_add_eq_append [of 0 "n * w" w] by (simp add: add.commute)
  ultimately show ?case using Suc by simp
qed simp

lemma tiles_in_order:
  assumes "0 \<le> gw" "0 \<le> gh"
  shows "concat (map (\<lambda>i. map (\<lambda>j. (i * gw + j) * s) [0..gw - 1]) [0..gh - 1]) =
         map (\<lambda>k. s * int k) [0..<nat (gw * gh)]"
proof -
  obtain w n where wn: "gw = int w" "gh = int n"
    using assms by (metis nonneg_int_cases)
  have *: "(int i * int w + int j) * s = s * int (i * w + j)" for i j by simp
  have "nat (gw * gh) = n * w" by (simp add: wn nat_mult_distrib)
  then show ?thesis
    using concat_rows [of "\<lambda>k. s * int k" w n] unfolding wn upto_int_map map_map
    by (simp only: comp_def *)
qed

lemma sdiv_nonneg [simp]: "0 \<le> a \<Longrightarrow> 0 \<le> b \<Longrightarrow> (a :: int) sdiv b = a div b"
  by (simp add: signed_divide_int_def sgn_if)

lemma c_int_in: "- 2147483648 \<le> n \<Longrightarrow> n \<le> 2147483647 \<Longrightarrow> c_int n = Some n"
  by (simp add: c_int_def)

lemma grid_size_bounds:
  assumes "desktop_fits w h"
  shows "0 \<le> (w + 63) div 64" "0 \<le> (h + 63) div 64" "0 \<le> grid_size w h" "grid_size w h < 131072"
    "0 \<le> w" "0 \<le> h" "w + 63 \<le> 2147483647" "h + 63 \<le> 2147483647"
  using assms by (simp_all add: desktop_fits_def grid_size_def pos_imp_zdiv_nonneg_iff)

lemma init_grid_ok:
  assumes "maxTileWidth e = 64" "maxTileHeight e = 64" "enc_grid e = None" "enc_gridBuffer e = None"
    and fit: "desktop_fits (enc_width e) (enc_height e)"
  shows "\<exists>s b g gw gh h'. freerds_encoder_init_grid A e h =
      Some (s, e\<lparr>enc_gridWidth := gw, enc_gridHeight := gh, enc_gridBuffer := b, enc_grid := g\<rparr>, h') \<and>
    grid_ok (e\<lparr>enc_gridWidth := gw, enc_gridHeight := gh, enc_gridBuffer := b, enc_grid := g\<rparr>) \<and>
    mset (live_objects h') = opt_mset (map_option fst b) + opt_mset (map_option fst g) + mset (live_objects h)"
proof -
  let ?gw = "(enc_width e + 63) div 64" and ?gh = "(enc_height e + 63) div 64"
  note b = grid_size_bounds [OF fit]
  have size: "?gw * ?gh = grid_size (enc_width e) (enc_height e)" by (simp add: grid_size_def)
  have c: "c_int (enc_width e + 63) = Some (enc_width e + 63)" "c_int (enc_height e + 63) = Some (enc_height e + 63)"
    "c_int 16384 = Some 16384" "c_int (?gw * ?gh) = Some (?gw * ?gh)" "c_int (16384 * (?gw * ?gh)) = Some (16384 * (?gw * ?gh))"
    using b by (simp_all add: c_int_def size)
  note tiles = tiles_in_order [OF b(1,2), of 16384]
  show ?thesis
  proof (cases A GridBufferBlock h rule: enc_new_cases)
    case (null h1)
    show ?thesis
      by (rule exI [of _ "-1"], rule exI [of _ None], rule exI [of _ "enc_grid e"], rule exI [of _ ?gw],
          rule exI [of _ ?gh], rule exI [of _ h1])
         (use assms(1-4) b c null in \<open>simp add: freerds_encoder_init_grid_def grid_ok_def\<close>)
  next
    case buffer: (object p h1)
    show ?thesis
    proof (cases A GridBlock h1 rule: enc_new_cases)
      case (null h2)
      show ?thesis
        by (rule exI [of _ "-1"], rule exI [of _ "Some (p, 16384 * (?gw * ?gh))"], rule exI [of _ None],
            rule exI [of _ ?gw], rule exI [of _ ?gh], rule exI [of _ h2])
           (use assms(1-4) b c buffer null in \<open>simp add: freerds_encoder_init_grid_def grid_ok_def size\<close>)
    next
      case (object g h2)
      show ?thesis
        by (rule exI [of _ 0], rule exI [of _ "Some (p, 16384 * (?gw * ?gh))"],
            rule exI [of _ "Some (g, map (\<lambda>k. 16384 * int k) [0..<nat (?gw * ?gh)])"],
            rule exI [of _ ?gw], rule exI [of _ ?gh], rule exI [of _ h2])
           (use assms(1-4) b c buffer object tiles in \<open>simp add: freerds_encoder_init_grid_def grid_ok_def size\<close>)
    qed
  qed
qed

text \<open>
  \<open>freerds_encoder_init\<close> on an encoder without objects: whatever it could not create, the invariant holds
  afterwards.
\<close>

lemma encoder_init_ok:
  assumes none: "encoder_handles e = {#}" and ok: "codecs_ok K e" "rate_ok e"
    and fit: "desktop_fits (enc_width e) (enc_height e)"
    and live: "mset (live_objects h) = add_mset (enc_handle e) rest"
  shows "\<exists>s e' h'. freerds_encoder_init A e h = Some (s, e', h') \<and> encoder_ok K rest e' h' \<and>
    enc_handle e' = enc_handle e \<and> (s < 0 \<longleftrightarrow> enc_bs e' = None)"
proof -
  have "opt_mset x = {#} \<longleftrightarrow> x = None" for x :: "enc_handle option"
    by (cases x) simp_all
  with none have none': "enc_gridBuffer e = None" "enc_grid e = None" "enc_bs e = None"
    by (simp_all add: encoder_handles_def)
  let ?e = "e\<lparr>maxTileWidth := 64, maxTileHeight := 64\<rparr>"
  obtain s b g gw gh h1 where 1: "freerds_encoder_init_grid A ?e h =
      Some (s, ?e\<lparr>enc_gridWidth := gw, enc_gridHeight := gh, enc_gridBuffer := b, enc_grid := g\<rparr>, h1)"
    "grid_ok (?e\<lparr>enc_gridWidth := gw, enc_gridHeight := gh, enc_gridBuffer := b, enc_grid := g\<rparr>)"
    "mset (live_objects h1) = opt_mset (map_option fst b) + opt_mset (map_option fst g) + mset (live_objects h)"
    using init_grid_ok [of ?e A h] none' fit by auto
  obtain bs h2 where 2: "enc_new A StreamBlock h1 = (bs, h2)"
    "mset (live_objects h2) = opt_mset bs + mset (live_objects h1)"
    by (cases A StreamBlock h1 rule: enc_new_cases) auto
  let ?e' = "?e\<lparr>enc_gridWidth := gw, enc_gridHeight := gh, enc_gridBuffer := b, enc_grid := g, enc_bs := bs\<rparr>"
  have "freerds_encoder_init A e h = Some (if bs = None then -1 else 1, ?e', h2)"
    using 1(1) 2(1) none' by (simp add: freerds_encoder_init_def)
  moreover have "encoder_ok K rest ?e' h2"
    using 1(2,3) 2(2) none ok fit live none'
    by (simp add: encoder_ok_def codecs_ok_def rate_ok_def grid_ok_def encoder_handles_def)
  ultimately show ?thesis by (intro exI conjI) (assumption, assumption, simp_all)
qed


section \<open>Creating the codecs\<close>

lemma init_frame_list_ok:
  assumes "mset (live_objects h) = opt_mset (map_option fst (enc_frameList e)) + M" and "rate_ok e"
  shows "\<exists>fid fps mx ack fl h'. init_frame_list D A settings e h =
      (e\<lparr>enc_fps := fps, enc_maxFps := mx, enc_frameId := fid, enc_frameList := fl, enc_frameAck := ack\<rparr>, h') \<and>
    mset (live_objects h') = opt_mset (map_option fst fl) + M \<and>
    rate_ok (e\<lparr>enc_fps := fps, enc_maxFps := mx, enc_frameId := fid, enc_frameList := fl, enc_frameAck := ack\<rparr>)"
proof (cases "enc_frameList e")
  case (Some fl)
  then have "e\<lparr>enc_fps := enc_fps e, enc_maxFps := enc_maxFps e, enc_frameId := enc_frameId e,
      enc_frameList := Some fl, enc_frameAck := enc_frameAck e\<rparr> = e" by simp
  with Some assms show ?thesis
    by - (rule exI [of _ "enc_frameId e"], rule exI [of _ "enc_fps e"], rule exI [of _ "enc_maxFps e"],
        rule exI [of _ "enc_frameAck e"], rule exI [of _ "Some fl"], rule exI [of _ h],
        simp add: init_frame_list_def rate_ok_def)
next
  case None
  obtain d h1 where d: "enc_new A FrameDictionary h = (d, h1)"
    "mset (live_objects h1) = opt_mset d + mset (live_objects h)"
    by (cases A FrameDictionary h rule: enc_new_cases) auto
  have "map_option fst (map_option (\<lambda>b. (b, ListDictionary_New D)) d) = d" by (cases d) simp_all
  with None d assms show ?thesis
    by - (rule exI [of _ 0], rule exI [of _ 16], rule exI [of _ 32],
        rule exI [of _ "if SurfaceFrameMarkerEnabled settings then 1 else 0"],
        rule exI [of _ "map_option (\<lambda>b. (b, ListDictionary_New D)) d"], rule exI [of _ h1],
        simp add: init_frame_list_def rate_ok_def)
qed

lemma init_rfx_ok:
  assumes K: "codec_bits K" and ok: "encoder_ok K rest e h" and new: "enc_codecs e AND FREERDP_CODEC_REMOTEFX K = 0"
    and run: "freerds_encoder_init_rfx K D A settings e h = (s, e', h')"
  shows "encoder_ok K rest e' h' \<and> enc_handle e' = enc_handle e"
proof -
  have none: "enc_rfx e = None" using ok new unfolding encoder_ok_def codecs_ok_def by blast
  show ?thesis
  proof (cases A RfxContext h rule: enc_new_cases)
    case (null h1)
    have "e\<lparr>enc_rfx := None\<rparr> = e" using none by simp
    moreover have "e' = e\<lparr>enc_rfx := None\<rparr>" "h' = h1" using run none null(1) by (simp_all add: freerds_encoder_init_rfx_def)
    ultimately have "e' = e" "h' = h1" by (blast intro: trans)+
    with ok null(2) show ?thesis by (simp add: encoder_ok_def)
  next
    case (object b h1)
    let ?e = "e\<lparr>enc_rfx := Some \<lparr>rfx_handle = b, rfx_mode = RLGR3 K, rfx_width = enc_width e,
      rfx_height = enc_height e, rfx_pixel_format = RDP_PIXEL_FORMAT_B8G8R8A8 K\<rparr>\<rparr>"
    let ?M = "add_mset (enc_handle e) (encoder_handles (?e\<lparr>enc_frameList := None\<rparr>) + rest)"
    have "mset (live_objects h1) = opt_mset (map_option fst (enc_frameList ?e)) + ?M" "rate_ok ?e"
      using ok object none by (simp_all add: encoder_ok_def encoder_handles_def rate_ok_def)
    then obtain fid fps mx ack fl h2 where fl: "init_frame_list D A settings ?e h1 =
        (?e\<lparr>enc_fps := fps, enc_maxFps := mx, enc_frameId := fid, enc_frameList := fl, enc_frameAck := ack\<rparr>, h2)"
      "mset (live_objects h2) = opt_mset (map_option fst fl) + ?M"
      "rate_ok (?e\<lparr>enc_fps := fps, enc_maxFps := mx, enc_frameId := fid, enc_frameList := fl, enc_frameAck := ack\<rparr>)"
      using init_frame_list_ok by blast
    have e': "e' = ?e\<lparr>enc_fps := fps, enc_maxFps := mx, enc_frameId := fid, enc_frameList := fl, enc_frameAck := ack,
        enc_codecs := enc_codecs e OR FREERDP_CODEC_REMOTEFX K\<rparr>" "h' = h2"
      using run none object(1) fl(1) by (simp_all add: freerds_encoder_init_rfx_def)
    have "FREERDP_CODEC_REMOTEFX K \<noteq> 0" using K by (simp add: codec_bits_def)
    with fl(2,3) ok show ?thesis
      by (simp add: e' encoder_ok_def codecs_ok_def grid_ok_def rate_ok_def encoder_handles_def codec_bits_separate [OF K])
  qed
qed

lemma init_nsc_ok:
  assumes K: "codec_bits K" and ok: "encoder_ok K rest e h" and new: "enc_codecs e AND FREERDP_CODEC_NSCODEC K = 0"
    and run: "freerds_encoder_init_nsc K D A settings e h = (s, e', h')"
  shows "encoder_ok K rest e' h' \<and> enc_handle e' = enc_handle e"
proof -
  have none: "enc_nsc e = None" using ok new unfolding encoder_ok_def codecs_ok_def by blast
  show ?thesis
  proof (cases A NscContext h rule: enc_new_cases)
    case (null h1)
    have "e\<lparr>enc_nsc := None\<rparr> = e" using none by simp
    moreover have "e' = e\<lparr>enc_nsc := None\<rparr>" "h' = h1" using run none null(1) by (simp_all add: freerds_encoder_init_nsc_def)
    ultimately have "e' = e" "h' = h1" by (blast intro: trans)+
    with ok null(2) show ?thesis by (simp add: encoder_ok_def)
  next
    case (object b h1)
    let ?M = "add_mset b (add_mset (enc_handle e) (encoder_handles (e\<lparr>enc_frameList := None\<rparr>) + rest))"
    have "mset (live_objects h1) = opt_mset (map_option fst (enc_frameList e)) + ?M" "rate_ok e"
      using ok object none by (simp_all add: encoder_ok_def encoder_handles_def rate_ok_def)
    then obtain fid fps mx ack fl h2 where fl: "init_frame_list D A settings e h1 =
        (e\<lparr>enc_fps := fps, enc_maxFps := mx, enc_frameId := fid, enc_frameList := fl, enc_frameAck := ack\<rparr>, h2)"
      "mset (live_objects h2) = opt_mset (map_option fst fl) + ?M"
      "rate_ok (e\<lparr>enc_fps := fps, enc_maxFps := mx, enc_frameId := fid, enc_frameList := fl, enc_frameAck := ack\<rparr>)"
      using init_frame_list_ok by blast
    define nsc where "nsc = \<lparr>nsc_handle = b, nsc_pixel_format = RDP_PIXEL_FORMAT_B8G8R8A8 K,
        ColorLossLevel = NSCodecColorLossLevel settings,
        ChromaSubsamplingLevel = (if NSCodecAllowSubsampling settings then 1 else 0),
        DynamicColorFidelity = NSCodecAllowDynamicColorFidelity settings\<rparr>"
    have nsc: "nsc_handle nsc = b" by (simp add: nsc_def)
    have e': "e' = e\<lparr>enc_fps := fps, enc_maxFps := mx, enc_frameId := fid,
        enc_frameList := fl, enc_frameAck := ack, enc_nsc := Some nsc,
        enc_codecs := enc_codecs e OR FREERDP_CODEC_NSCODEC K\<rparr>" "h' = h2"
      using run none object(1) fl(1) by (simp_all add: freerds_encoder_init_nsc_def nsc_def)
    have "FREERDP_CODEC_NSCODEC K \<noteq> 0" using K by (simp add: codec_bits_def)
    with fl(2,3) ok nsc none show ?thesis
      by (simp add: e' encoder_ok_def codecs_ok_def grid_ok_def rate_ok_def encoder_handles_def codec_bits_separate [OF K])
  qed
qed

lemma init_planar_ok:
  assumes K: "codec_bits K" and ok: "encoder_ok K rest e h" and new: "enc_codecs e AND FREERDP_CODEC_PLANAR K = 0"
    and run: "freerds_encoder_init_planar K A settings e h = (s, e', h')"
  shows "encoder_ok K rest e' h' \<and> enc_handle e' = enc_handle e"
proof -
  have none: "enc_planar e = None" using ok new unfolding encoder_ok_def codecs_ok_def by blast
  show ?thesis
  proof (cases A PlanarContext h rule: enc_new_cases)
    case (null h1)
    have "e\<lparr>enc_planar := None\<rparr> = e" using none by simp
    moreover have "e' = e\<lparr>enc_planar := None\<rparr>" "h' = h1"
      using run none null(1) by (simp_all add: freerds_encoder_init_planar_def)
    ultimately have "e' = e" "h' = h1" by (blast intro: trans)+
    with ok null(2) show ?thesis by (simp add: encoder_ok_def)
  next
    case (object b h1)
    define planar where "planar = \<lparr>planar_handle = b,
        planar_flags = (if DrawAllowSkipAlpha settings then PLANAR_FORMAT_HEADER_NA K else 0) OR PLANAR_FORMAT_HEADER_RLE K,
        planar_maxWidth = maxTileWidth e, planar_maxHeight = maxTileHeight e\<rparr>"
    have "planar_handle planar = b" by (simp add: planar_def)
    moreover have "e' = e\<lparr>enc_planar := Some planar, enc_codecs := enc_codecs e OR FREERDP_CODEC_PLANAR K\<rparr>" "h' = h1"
      using run none object(1) by (simp_all add: freerds_encoder_init_planar_def planar_def Let_def)
    moreover have "FREERDP_CODEC_PLANAR K \<noteq> 0" using K by (simp add: codec_bits_def)
    ultimately show ?thesis using ok object none
      by (simp add: encoder_ok_def codecs_ok_def grid_ok_def rate_ok_def encoder_handles_def codec_bits_separate [OF K])
  qed
qed

lemma init_interleaved_ok:
  assumes K: "codec_bits K" and ok: "encoder_ok K rest e h" and new: "enc_codecs e AND FREERDP_CODEC_INTERLEAVED K = 0"
    and run: "freerds_encoder_init_interleaved K A e h = (s, e', h')"
  shows "encoder_ok K rest e' h' \<and> enc_handle e' = enc_handle e"
proof -
  have none: "enc_interleaved e = None" using ok new unfolding encoder_ok_def codecs_ok_def by blast
  show ?thesis
  proof (cases A InterleavedContext h rule: enc_new_cases)
    case (null h1)
    have "e\<lparr>enc_interleaved := None\<rparr> = e" using none by simp
    moreover have "e' = e\<lparr>enc_interleaved := None\<rparr>" "h' = h1"
      using run none null(1) by (simp_all add: freerds_encoder_init_interleaved_def)
    ultimately have "e' = e" "h' = h1" by (blast intro: trans)+
    with ok null(2) show ?thesis by (simp add: encoder_ok_def)
  next
    case (object b h1)
    then have e': "e' = e\<lparr>enc_interleaved := Some b, enc_codecs := enc_codecs e OR FREERDP_CODEC_INTERLEAVED K\<rparr>" "h' = h1"
      using run none by (simp_all add: freerds_encoder_init_interleaved_def)
    moreover have "FREERDP_CODEC_INTERLEAVED K \<noteq> 0" using K by (simp add: codec_bits_def)
    ultimately show ?thesis using ok object none
      by (simp add: encoder_ok_def codecs_ok_def grid_ok_def rate_ok_def encoder_handles_def codec_bits_separate [OF K])
  qed
qed

lemma prepare_step:
  assumes "encoder_ok K rest e h \<and> enc_handle e = b"
    and "\<And>s e' h'. P \<Longrightarrow> f = (s, e', h') \<Longrightarrow> encoder_ok K rest e' h' \<and> enc_handle e' = b"
    and "(if P then f else (1, e, h)) = (s, e', h')"
  shows "encoder_ok K rest e' h' \<and> enc_handle e' = b"
  using assms by (cases P) auto

text \<open>Whatever \<open>freerds_encoder_prepare\<close> manages to create, the invariant is kept.\<close>

lemma encoder_prepare_ok:
  assumes K: "codec_bits K" and ok: "encoder_ok K rest e h"
    and run: "freerds_encoder_prepare K D A settings codecs e h = (s, e', h')"
  shows "encoder_ok K rest e' h' \<and> enc_handle e' = enc_handle e"
proof -
  let ?w = "\<lambda>e bit. codecs AND bit \<noteq> 0 \<and> enc_codecs e AND bit = 0"
  obtain s1 e1 h1 where 1: "(if ?w e (FREERDP_CODEC_REMOTEFX K)
      then freerds_encoder_init_rfx K D A settings e h else (1, e, h)) = (s1, e1, h1)"
    by (metis prod_cases3)
  have ok1: "encoder_ok K rest e1 h1 \<and> enc_handle e1 = enc_handle e"
    using prepare_step [OF conjI [OF ok refl] _ 1] init_rfx_ok [OF K ok] by blast
  obtain s2 e2 h2 where 2: "(if ?w e1 (FREERDP_CODEC_NSCODEC K)
      then freerds_encoder_init_nsc K D A settings e1 h1 else (1, e1, h1)) = (s2, e2, h2)"
    by (metis prod_cases3)
  have ok2: "encoder_ok K rest e2 h2 \<and> enc_handle e2 = enc_handle e"
    using prepare_step [OF ok1 _ 2] init_nsc_ok [OF K conjunct1 [OF ok1]] ok1 by metis
  obtain s3 e3 h3 where 3: "(if ?w e2 (FREERDP_CODEC_PLANAR K)
      then freerds_encoder_init_planar K A settings e2 h2 else (1, e2, h2)) = (s3, e3, h3)"
    by (metis prod_cases3)
  have ok3: "encoder_ok K rest e3 h3 \<and> enc_handle e3 = enc_handle e"
    using prepare_step [OF ok2 _ 3] init_planar_ok [OF K conjunct1 [OF ok2]] ok2 by metis
  obtain s4 e4 h4 where 4: "(if ?w e3 (FREERDP_CODEC_INTERLEAVED K)
      then freerds_encoder_init_interleaved K A e3 h3 else (1, e3, h3)) = (s4, e4, h4)"
    by (metis prod_cases3)
  have ok4: "encoder_ok K rest e4 h4 \<and> enc_handle e4 = enc_handle e"
    using prepare_step [OF ok3 _ 4] init_interleaved_ok [OF K conjunct1 [OF ok3]] ok3 by metis
  have "(e', h') \<in> {(e1, h1), (e2, h2), (e3, h3), (e4, h4)}"
    using run unfolding freerds_encoder_prepare_def Let_def 1 prod.case 2 3 4 by (simp split: if_splits)
  with ok1 ok2 ok3 ok4 show ?thesis by auto
qed

lemma encoder_reset_ok:
  assumes K: "codec_bits K" and ok: "encoder_ok K rest e h"
  shows "\<exists>s e' h'. freerds_encoder_reset K D A settings e h = Some (s, e', h') \<and> encoder_ok K rest e' h'"
proof -
  have live: "mset (live_objects h) = encoder_handles e + add_mset (enc_handle e) rest"
    and parts: "codecs_ok K e" "rate_ok e" "desktop_fits (enc_width e) (enc_height e)"
    using ok by (simp_all add: encoder_ok_def)
  obtain e1 h1 where 1: "freerds_encoder_uninit K e h = Some (1, e1, h1)"
    "mset (live_objects h1) = add_mset (enc_handle e) rest" "encoder_cleared K e e1"
    using encoder_uninit_ok [OF K live parts(1)] by blast
  then obtain s2 e2 h2 where 2: "freerds_encoder_init A e1 h1 = Some (s2, e2, h2)" "encoder_ok K rest e2 h2"
    using encoder_init_ok [of e1 K h1 rest A] parts by (auto simp: encoder_cleared_def)
  obtain s3 e3 h3 where 3: "freerds_encoder_prepare K D A settings (enc_codecs e) e2 h2 = (s3, e3, h3)"
    by (metis prod_cases3)
  have "encoder_ok K rest e3 h3"
    using encoder_prepare_ok [OF K 2(2) 3] by blast
  with 1(1) 2 3 show ?thesis
    by (cases "s2 < 0") (simp_all add: freerds_encoder_reset_def)
qed


section \<open>Frames in flight\<close>

lemma frame_rate:
  assumes "0 \<le> n"
  shows "\<exists>fps. c_int ((100 sdiv (n + 1) * 32) sdiv 100) = Some fps \<and> fps \<le> 32"
proof -
  have q: "0 \<le> 100 div (n + 1)" "100 div (n + 1) \<le> 100"
    using assms zdiv_mono2 [of 100 1 "n + 1"] by (simp_all add: pos_imp_zdiv_nonneg_iff)
  then have "100 div (n + 1) * 32 \<le> 3200" "0 \<le> 100 div (n + 1) * 32" by simp_all
  then have "100 div (n + 1) * 32 div 100 \<le> 32" "0 \<le> 100 div (n + 1) * 32 div 100"
    using zdiv_mono1 [of "100 div (n + 1) * 32" 3200 100] by simp_all
  then show ?thesis using assms q by (simp add: c_int_def)
qed

text \<open>
  What the server relies on of the dictionary: a new one is empty, and adding a frame under an unused key
  is seen by the count and by the lookup.
\<close>

locale frame_dictionary =
  fixes D :: "'d dictionary_ops"
  assumes Count_New: "ListDictionary_Count D (ListDictionary_New D) = 0"
    and Count_nonneg: "0 \<le> ListDictionary_Count D d"
    and Get_New: "ListDictionary_GetItemValue D (ListDictionary_New D) k = None"
    and Count_Add: "ListDictionary_GetItemValue D d k = None \<Longrightarrow>
      ListDictionary_Count D (ListDictionary_Add D d k v) = ListDictionary_Count D d + 1"
    and Get_Add: "ListDictionary_GetItemValue D d k = None \<Longrightarrow>
      ListDictionary_GetItemValue D (ListDictionary_Add D d k v) k' =
        (if k' = k then Some v else ListDictionary_GetItemValue D d k')"
begin

lemma create_frame_ok:
  assumes ok: "encoder_ok K rest e h" and fl: "enc_frameList e = Some (b, frames)"
  shows "\<exists>s e' h' new. freerds_encoder_create_frame_id D A e h = Some (s, e', h') \<and>
    encoder_ok K (new + rest) e' h' \<and> (\<forall>f \<in># new. fst f = FrameBlock) \<and>
    enc_frameList e' \<noteq> None \<and> enc_frameAck e' = enc_frameAck e \<and> (s = -1 \<or> size new = 1)"
proof -
  have rate: "1 \<le> enc_fps e" "enc_fps e \<le> 32" "enc_maxFps e = 32" "enc_frameAck e \<in> {0, 1}"
    using ok by (auto simp: encoder_ok_def rate_ok_def)
  let ?n = "ListDictionary_Count D frames"
  let ?fps = "if ?n > enc_frameAck e then c_int ((100 sdiv (?n + 1) * 32) sdiv 100)
      else do { fps \<leftarrow> c_int (enc_fps e + 2); Some (if fps > 32 then 32 else fps) }"
  have "\<exists>fps. ?fps = Some fps \<and> fps \<le> 32"
  proof (cases "?n > enc_frameAck e")
    case True
    then show ?thesis using frame_rate [OF Count_nonneg [of frames]] by simp
  next
    case False
    then show ?thesis using rate by (simp add: c_int_def)
  qed
  then obtain fps where fps: "?fps = Some fps" "fps \<le> 32" by blast
  let ?e = "e\<lparr>enc_fps := if fps < 1 then 1 else fps\<rparr>"
  show ?thesis
  proof (cases A FrameBlock h rule: enc_new_cases)
    case (null h1)
    have "encoder_ok K ({#} + rest) ?e h1"
      using ok null(2) fps(2) by (simp add: encoder_ok_def codecs_ok_def grid_ok_def rate_ok_def encoder_handles_def)
    moreover have "freerds_encoder_create_frame_id D A e h = Some (-1, ?e, h1)"
      unfolding freerds_encoder_create_frame_id_def fl rate(3)
      by (simp only: Option.bind.bind_lunit prod.case option.case Let_def fps(1) null(1))
    ultimately show ?thesis using fl by (intro exI conjI) (assumption, assumption, simp_all)
  next
    case (object f h1)
    let ?id = "enc_frameId e + 1"
    let ?e' = "?e\<lparr>enc_frameId := ?id, enc_frameList := Some (b, ListDictionary_Add D frames ?id f)\<rparr>"
    have "encoder_ok K ({#f#} + rest) ?e' h1"
      using ok object(3) fps(2) fl
      by (simp add: encoder_ok_def codecs_ok_def grid_ok_def rate_ok_def encoder_handles_def)
    moreover have "freerds_encoder_create_frame_id D A e h = Some (sint ?id, ?e', h1)"
      unfolding freerds_encoder_create_frame_id_def fl rate(3)
      by (simp only: Option.bind.bind_lunit prod.case option.case Let_def fps(1) object(1)) simp
    ultimately show ?thesis using object(2) by (intro exI conjI) (assumption, assumption, simp_all)
  qed
qed

end

text \<open>The dictionary as an association list.\<close>

definition alist_dictionary :: "(UINT32 \<times> enc_handle) list dictionary_ops" where
  "alist_dictionary =
     \<lparr>ListDictionary_New = [], ListDictionary_Count = (\<lambda>d. int (length d)),
      ListDictionary_Add = (\<lambda>d k v. d @ [(k, v)]), ListDictionary_GetItemValue = map_of,
      ListDictionary_Remove = (\<lambda>d k. filter (\<lambda>e. fst e \<noteq> k) d)\<rparr>"

interpretation alist: frame_dictionary alist_dictionary
  by unfold_locales (auto simp: alist_dictionary_def map_add_def map_of_append split: option.splits)

section \<open>The life of an encoder\<close>

text \<open>
  What a connection does with its encoder.  A frame is only created when the encoder was told that the
  client acknowledges frames, as \<open>freerds_send_surface_bits\<close> does it.
\<close>

datatype encoder_op = EncoderPrepare UINT32 | EncoderReset | EncoderFrame

fun encoder_step ::
  "codec_constants \<Rightarrow> 'd dictionary_ops \<Rightarrow> enc_allocator \<Rightarrow> rdpSettings \<Rightarrow> encoder_op \<Rightarrow> 'd rds_encoder \<Rightarrow> enc_heap \<Rightarrow>
   (int \<times> 'd rds_encoder \<times> enc_heap) option" where
  "encoder_step K D A settings (EncoderPrepare codecs) e h = Some (freerds_encoder_prepare K D A settings codecs e h)"
| "encoder_step K D A settings EncoderReset e h = freerds_encoder_reset K D A settings e h"
| "encoder_step K D A settings EncoderFrame e h =
     (if enc_frameAck e \<noteq> 0 then freerds_encoder_create_frame_id D A e h else Some (0, e, h))"

fun encoder_run ::
  "codec_constants \<Rightarrow> 'd dictionary_ops \<Rightarrow> enc_allocator \<Rightarrow> rdpSettings \<Rightarrow> encoder_op list \<Rightarrow> 'd rds_encoder \<Rightarrow> enc_heap \<Rightarrow>
   ('d rds_encoder \<times> enc_heap) option" where
  "encoder_run K D A settings [] e h = Some (e, h)"
| "encoder_run K D A settings (op # ops) e h =
     do { (_, e, h) \<leftarrow> encoder_step K D A settings op e h; encoder_run K D A settings ops e h }"

context frame_dictionary
begin

lemma encoder_step_ok:
  assumes K: "codec_bits K" and ok: "encoder_ok K rest e h" and run: "encoder_step K D A settings op e h = Some (s, e', h')"
  shows "\<exists>new. encoder_ok K (new + rest) e' h' \<and> (\<forall>f \<in># new. fst f = FrameBlock)"
proof (cases op)
  case (EncoderPrepare codecs)
  with run encoder_prepare_ok [OF K ok] show ?thesis
    by (intro exI [of _ "{#}"]) simp
next
  case EncoderReset
  with run encoder_reset_ok [OF K ok, of D A settings] show ?thesis
    by (intro exI [of _ "{#}"]) auto
next
  case EncoderFrame
  show ?thesis
  proof (cases "enc_frameAck e \<noteq> 0")
    case True
    with run EncoderFrame obtain b frames where "enc_frameList e = Some (b, frames)"
      by (cases "enc_frameList e") (auto simp: freerds_encoder_create_frame_id_def)
    with create_frame_ok [OF ok, of b frames A] True run EncoderFrame show ?thesis by auto
  next
    case False
    with run EncoderFrame ok show ?thesis by (intro exI [of _ "{#}"]) simp
  qed
qed

lemma encoder_run_ok:
  assumes K: "codec_bits K"
  shows "encoder_ok K rest e h \<Longrightarrow> encoder_run K D A settings ops e h = Some (e', h') \<Longrightarrow>
    \<exists>frames. encoder_ok K (frames + rest) e' h' \<and> (\<forall>f \<in># frames. fst f = FrameBlock)"
proof (induction ops arbitrary: rest e h)
  case Nil
  then show ?case by (intro exI [of _ "{#}"]) simp
next
  case (Cons op ops)
  from Cons.prems(2) obtain s e1 h1 where 1: "encoder_step K D A settings op e h = Some (s, e1, h1)"
    "encoder_run K D A settings ops e1 h1 = Some (e', h')"
    by (auto split: bind_splits)
  obtain new where new: "encoder_ok K (new + rest) e1 h1" "\<forall>f \<in># new. fst f = FrameBlock"
    using encoder_step_ok [OF K Cons.prems(1) 1(1)] by blast
  from Cons.IH [OF new(1) 1(2)] obtain frames where "encoder_ok K (frames + (new + rest)) e' h'"
    "\<forall>f \<in># frames. fst f = FrameBlock" by blast
  with new(2) show ?case by (intro exI [of _ "frames + new"]) (auto simp: add.assoc)
qed

end

section \<open>An encoder whose allocations succeed\<close>

text \<open>Without failed allocations an encoder that counts frames always has its list of frames.\<close>

definition frames_ready :: "'d rds_encoder \<Rightarrow> bool" where
  "frames_ready e \<longleftrightarrow> (enc_frameAck e \<noteq> 0 \<or> enc_rfx e \<noteq> None \<or> enc_nsc e \<noteq> None \<longrightarrow> enc_frameList e \<noteq> None)"

lemma init_frame_list_ready:
  assumes "\<forall>k n. A k n" and "init_frame_list D A settings e h = (e', h')"
  shows "enc_frameList e' \<noteq> None"
  using assms by (auto simp: init_frame_list_def enc_new_def Let_def split: option.splits)

lemma init_rfx_ready:
  assumes "\<forall>k n. A k n" and "freerds_encoder_init_rfx K D A settings e h = (s, e', h')"
  shows "s = 1 \<and> enc_frameList e' \<noteq> None"
  using assms init_frame_list_ready [OF assms(1)]
  by (fastforce simp: freerds_encoder_init_rfx_def enc_new_def Let_def split: option.splits prod.splits)

lemma init_nsc_ready:
  assumes "\<forall>k n. A k n" and "freerds_encoder_init_nsc K D A settings e h = (s, e', h')"
  shows "s = 1 \<and> enc_frameList e' \<noteq> None"
  using assms init_frame_list_ready [OF assms(1)]
  by (fastforce simp: freerds_encoder_init_nsc_def enc_new_def Let_def split: option.splits prod.splits)

lemma init_planar_ready:
  assumes "\<forall>k n. A k n" and "freerds_encoder_init_planar K A settings e h = (s, e', h')"
  shows "s = 1 \<and> enc_frameList e' = enc_frameList e \<and> enc_frameAck e' = enc_frameAck e \<and>
    enc_rfx e' = enc_rfx e \<and> enc_nsc e' = enc_nsc e"
  using assms by (auto simp: freerds_encoder_init_planar_def enc_new_def Let_def split: option.splits if_splits)

lemma init_interleaved_ready:
  assumes "\<forall>k n. A k n" and "freerds_encoder_init_interleaved K A e h = (s, e', h')"
  shows "s = 1 \<and> enc_frameList e' = enc_frameList e \<and> enc_frameAck e' = enc_frameAck e \<and>
    enc_rfx e' = enc_rfx e \<and> enc_nsc e' = enc_nsc e"
  using assms by (auto simp: freerds_encoder_init_interleaved_def enc_new_def Let_def split: option.splits if_splits)

lemma prepare_ready:
  assumes A: "\<forall>k n. A k n" and run: "freerds_encoder_prepare K D A settings codecs e h = (s, e', h')"
  shows "enc_frameList e' \<noteq> None \<or>
    \<not> (codecs AND FREERDP_CODEC_REMOTEFX K \<noteq> 0 \<and> enc_codecs e AND FREERDP_CODEC_REMOTEFX K = 0) \<and>
    \<not> (codecs AND FREERDP_CODEC_NSCODEC K \<noteq> 0 \<and> enc_codecs e AND FREERDP_CODEC_NSCODEC K = 0) \<and>
    enc_frameList e' = enc_frameList e \<and> enc_frameAck e' = enc_frameAck e \<and>
    enc_rfx e' = enc_rfx e \<and> enc_nsc e' = enc_nsc e"
proof -
  let ?w = "\<lambda>e bit. codecs AND bit \<noteq> 0 \<and> enc_codecs e AND bit = 0"
  let ?same = "\<lambda>e e' :: 'a rds_encoder. enc_frameList e' = enc_frameList e \<and> enc_frameAck e' = enc_frameAck e \<and>
    enc_rfx e' = enc_rfx e \<and> enc_nsc e' = enc_nsc e"
  obtain s1 e1 h1 where 1: "(if ?w e (FREERDP_CODEC_REMOTEFX K)
      then freerds_encoder_init_rfx K D A settings e h else (1, e, h)) = (s1, e1, h1)"
    by (metis prod_cases3)
  have r1: "s1 = 1" "if ?w e (FREERDP_CODEC_REMOTEFX K) then enc_frameList e1 \<noteq> None else e1 = e"
    using 1 init_rfx_ready [OF A, of K D settings e h s1 e1 h1] by (auto split: if_splits)
  obtain s2 e2 h2 where 2: "(if ?w e1 (FREERDP_CODEC_NSCODEC K)
      then freerds_encoder_init_nsc K D A settings e1 h1 else (1, e1, h1)) = (s2, e2, h2)"
    by (metis prod_cases3)
  have r2: "s2 = 1" "if ?w e1 (FREERDP_CODEC_NSCODEC K) then enc_frameList e2 \<noteq> None else e2 = e1"
    using 2 init_nsc_ready [OF A, of K D settings e1 h1 s2 e2 h2] by (auto split: if_splits)
  obtain s3 e3 h3 where 3: "(if ?w e2 (FREERDP_CODEC_PLANAR K)
      then freerds_encoder_init_planar K A settings e2 h2 else (1, e2, h2)) = (s3, e3, h3)"
    by (metis prod_cases3)
  have r3: "s3 = 1" "?same e2 e3"
    using 3 init_planar_ready [OF A, of K settings e2 h2 s3 e3 h3] by (auto split: if_splits)
  obtain s4 e4 h4 where 4: "(if ?w e3 (FREERDP_CODEC_INTERLEAVED K)
      then freerds_encoder_init_interleaved K A e3 h3 else (1, e3, h3)) = (s4, e4, h4)"
    by (metis prod_cases3)
  have r4: "s4 = 1" "?same e3 e4"
    using 4 init_interleaved_ready [OF A, of K e3 h3 s4 e4 h4] by (auto split: if_splits)
  have "e' = e4"
    using run r1(1) r2(1) r3(1) r4(1) unfolding freerds_encoder_prepare_def Let_def 1 prod.case 2 3 4 by simp
  then have e': "?same e2 e'" using r3(2) r4(2) by simp
  show ?thesis
  proof (cases "?w e1 (FREERDP_CODEC_NSCODEC K)")
    case True
    then show ?thesis using r2(2) e' by simp
  next
    case False
    then have "e2 = e1" using r2(2) by (simp split: if_splits)
    with False r1(2) e' show ?thesis by (cases "?w e (FREERDP_CODEC_REMOTEFX K)") auto
  qed
qed

lemma encoder_init_keeps:
  assumes "freerds_encoder_init A e h = Some (s, e', h')"
  shows "enc_frameList e' = enc_frameList e \<and> enc_frameAck e' = enc_frameAck e \<and> enc_rfx e' = enc_rfx e \<and>
    enc_nsc e' = enc_nsc e \<and> enc_codecs e' = enc_codecs e \<and> ((\<forall>k n. A k n) \<longrightarrow> s = 1)"
  using assms
  by (auto simp: freerds_encoder_init_def freerds_encoder_init_grid_def enc_new_def Let_def
        split: bind_splits option.splits if_splits)

lemma no_handles:
  assumes "encoder_handles e = {#}"
  shows "enc_frameList e = None \<and> enc_rfx e = None \<and> enc_nsc e = None"
proof -
  have "opt_mset x = {#} \<longleftrightarrow> x = None" for x :: "enc_handle option"
    by (cases x) simp_all
  with assms show ?thesis by (simp add: encoder_handles_def)
qed

lemma reset_ready:
  assumes K: "codec_bits K" and A: "\<forall>k n. A k n" and ok: "encoder_ok K rest e h" and ready: "frames_ready e"
    and run: "freerds_encoder_reset K D A settings e h = Some (s, e', h')"
  shows "frames_ready e'"
proof -
  have live: "mset (live_objects h) = encoder_handles e + add_mset (enc_handle e) rest" and c: "codecs_ok K e"
    using ok by (simp_all add: encoder_ok_def)
  obtain e1 h1 where 1: "freerds_encoder_uninit K e h = Some (1, e1, h1)" and cl: "encoder_cleared K e e1"
    using encoder_uninit_ok [OF K live c] by blast
  obtain s2 e2 h2 where 2: "freerds_encoder_init A e1 h1 = Some (s2, e2, h2)"
    using run 1 by (cases "freerds_encoder_init A e1 h1") (auto simp: freerds_encoder_reset_def)
  note keeps = encoder_init_keeps [OF 2]
  have none: "enc_frameList e2 = None" "enc_rfx e2 = None" "enc_nsc e2 = None" "enc_frameAck e2 = enc_frameAck e"
    and bits: "enc_codecs e2 AND FREERDP_CODEC_REMOTEFX K = 0" "enc_codecs e2 AND FREERDP_CODEC_NSCODEC K = 0"
    using no_handles [of e1] cl keeps by (auto simp: encoder_cleared_def codecs_ok_def)
  obtain s3 h3 where 3: "freerds_encoder_prepare K D A settings (enc_codecs e) e2 h2 = (s3, e', h3)"
    using run 1 2 keeps A by (auto simp: freerds_encoder_reset_def split: prod.splits)
  show ?thesis
  proof (cases "enc_frameList e'")
    case None
    with prepare_ready [OF A 3] bits have "enc_codecs e AND FREERDP_CODEC_REMOTEFX K = 0"
      "enc_codecs e AND FREERDP_CODEC_NSCODEC K = 0" and same: "enc_frameAck e' = enc_frameAck e2"
      "enc_rfx e' = enc_rfx e2" "enc_nsc e' = enc_nsc e2" by auto
    with c have "enc_frameList e = None" unfolding codecs_ok_def by blast
    with ready have "enc_frameAck e = 0" by (auto simp: frames_ready_def)
    with none same show ?thesis by (simp add: frames_ready_def)
  qed (simp add: frames_ready_def)
qed

context frame_dictionary
begin

lemma encoder_step_total:
  assumes K: "codec_bits K" and A: "\<forall>k n. A k n" and ok: "encoder_ok K rest e h" and ready: "frames_ready e"
  shows "\<exists>s e' h'. encoder_step K D A settings op e h = Some (s, e', h') \<and> frames_ready e'"
proof (cases op)
  case (EncoderPrepare codecs)
  obtain s e' h' where run: "freerds_encoder_prepare K D A settings codecs e h = (s, e', h')" by (metis prod_cases3)
  then have "frames_ready e'" using prepare_ready [OF A run] ready by (auto simp: frames_ready_def)
  with run EncoderPrepare show ?thesis by simp
next
  case EncoderReset
  obtain s e' h' where run: "freerds_encoder_reset K D A settings e h = Some (s, e', h')"
    using encoder_reset_ok [OF K ok] by blast
  with reset_ready [OF K A ok ready run] EncoderReset show ?thesis by simp
next
  case EncoderFrame
  show ?thesis
  proof (cases "enc_frameAck e \<noteq> 0")
    case True
    with ready obtain b frames where "enc_frameList e = Some (b, frames)" by (auto simp: frames_ready_def)
    from create_frame_ok [OF ok this] obtain s e' h' where
      "freerds_encoder_create_frame_id D A e h = Some (s, e', h')" "enc_frameList e' \<noteq> None" by blast
    with True EncoderFrame show ?thesis by (simp add: frames_ready_def)
  next
    case False
    with EncoderFrame ready show ?thesis by simp
  qed
qed

lemma encoder_run_total:
  assumes K: "codec_bits K" and A: "\<forall>k n. A k n"
  shows "encoder_ok K rest e h \<Longrightarrow> frames_ready e \<Longrightarrow> \<exists>e' h'. encoder_run K D A settings ops e h = Some (e', h')"
proof (induction ops arbitrary: rest e h)
  case (Cons op ops)
  obtain s e1 h1 where 1: "encoder_step K D A settings op e h = Some (s, e1, h1)" "frames_ready e1"
    using encoder_step_total [OF K A Cons.prems] by blast
  obtain new where "encoder_ok K (new + rest) e1 h1"
    using encoder_step_ok [OF K Cons.prems(1) 1(1)] by blast
  with Cons.IH 1(2) obtain e' h' where "encoder_run K D A settings ops e1 h1 = Some (e', h')" by blast
  with 1(1) show ?case by simp
qed simp

end

section \<open>Acknowledging frames\<close>

text \<open>
  \<open>freerds_update_frame_acknowledge\<close> of \<open>freerds/core/process.c\<close>.  It looks the frame up in the list of the
  connection, which \<open>freerds_peer_context_new\<close> creates; the encoder keeps its frames in a list of its own.
\<close>

definition freerds_update_frame_acknowledge ::
  "'d dictionary_ops \<Rightarrow> 'd \<Rightarrow> UINT32 \<Rightarrow> enc_heap \<Rightarrow> ('d \<times> enc_heap) option" where
  "freerds_update_frame_acknowledge D FrameList frameId h =
     (case ListDictionary_GetItemValue D FrameList frameId of
        None \<Rightarrow> Some (FrameList, h)
      | Some frame \<Rightarrow>
          do { h \<leftarrow> enc_release frame h; Some (ListDictionary_Remove D FrameList frameId, h) })"

datatype frame_event = FrameSent | FrameAcknowledged UINT32

fun frame_run ::
  "'d dictionary_ops \<Rightarrow> enc_allocator \<Rightarrow> frame_event list \<Rightarrow> 'd \<Rightarrow> 'd rds_encoder \<Rightarrow> enc_heap \<Rightarrow>
   ('d \<times> 'd rds_encoder \<times> enc_heap) option" where
  "frame_run D A [] FrameList e h = Some (FrameList, e, h)"
| "frame_run D A (FrameSent # evs) FrameList e h =
     do { (_, e, h) \<leftarrow> freerds_encoder_create_frame_id D A e h; frame_run D A evs FrameList e h }"
| "frame_run D A (FrameAcknowledged i # evs) FrameList e h =
     do { (FrameList, h) \<leftarrow> freerds_update_frame_acknowledge D FrameList i h; frame_run D A evs FrameList e h }"

definition frames_sent :: "frame_event list \<Rightarrow> nat" where
  "frames_sent evs = length (filter (\<lambda>ev. ev = FrameSent) evs)"

text \<open>The rate the encoder settles on with \<open>n\<close> frames in flight.\<close>

definition throttled :: "nat \<Rightarrow> 'd rds_encoder \<Rightarrow> bool" where
  "throttled n e \<longleftrightarrow> (51 \<le> n \<longrightarrow> enc_fps e = 1)"

definition in_flight :: "'d dictionary_ops \<Rightarrow> nat \<Rightarrow> 'd rds_encoder \<Rightarrow> bool" where
  "in_flight D n e \<longleftrightarrow>
     enc_frameId e = of_nat n \<and> enc_frameAck e = 1 \<and> enc_maxFps e = 32 \<and> 1 \<le> enc_fps e \<and> enc_fps e \<le> 32 \<and>
     throttled n e \<and>
     (\<exists>b d. enc_frameList e = Some (b, d) \<and> ListDictionary_Count D d = int n \<and>
        (\<forall>k. ListDictionary_GetItemValue D d k \<noteq> None \<longrightarrow> unat k \<le> n))"

lemma frame_rate_low:
  assumes "50 \<le> n"
  shows "(100 sdiv (n + 1) * 32) sdiv 100 = (0 :: int)"
proof -
  have q: "0 \<le> 100 div (n + 1)" "100 div (n + 1) \<le> 100 div 51"
    using assms zdiv_mono2 [of 100 51 "n + 1"] by (simp_all add: pos_imp_zdiv_nonneg_iff)
  have "100 sdiv (n + 1) = 100 div (n + 1)" using assms by simp
  moreover have "(100 div (n + 1) * 32) div 100 = 0" using q by (simp add: div_pos_pos_trivial)
  ultimately show ?thesis using q(1) by simp
qed

context frame_dictionary
begin

lemma next_rate:
  assumes "enc_frameAck e = 1" "enc_maxFps e = 32" "1 \<le> enc_fps e" "enc_fps e \<le> 32"
  shows "\<exists>fps. (if int n > enc_frameAck e then c_int ((100 sdiv (int n + 1) * enc_maxFps e) sdiv 100)
      else do { fps \<leftarrow> c_int (enc_fps e + 2); Some (if fps > enc_maxFps e then enc_maxFps e else fps) }) = Some fps \<and>
    fps \<le> 32 \<and> (51 \<le> Suc n \<longrightarrow> fps < 1)"
proof (cases "1 < n")
  case True
  moreover have "51 \<le> Suc n \<Longrightarrow> c_int ((100 sdiv (int n + 1) * 32) sdiv 100) = Some 0"
    using frame_rate_low [of "int n"] by (simp add: c_int_def del: sdiv_nonneg)
  ultimately show ?thesis using frame_rate [of "int n"] assms(1,2) by (cases "51 \<le> Suc n") auto
next
  case False
  then show ?thesis using assms by (simp add: c_int_def)
qed

lemma send_frame_in_flight:
  assumes A: "\<forall>n. A FrameBlock n" and fl: "in_flight D n e" and n: "Suc n < 2 ^ 32"
  shows "\<exists>s e' h'. freerds_encoder_create_frame_id D A e h = Some (s, e', h') \<and> in_flight D (Suc n) e'"
proof -
  from fl obtain b d where d: "enc_frameList e = Some (b, d)" "ListDictionary_Count D d = int n"
    "\<And>k. ListDictionary_GetItemValue D d k \<noteq> None \<Longrightarrow> unat k \<le> n"
    and e: "enc_frameId e = of_nat n" "enc_frameAck e = 1" "enc_maxFps e = 32" "1 \<le> enc_fps e" "enc_fps e \<le> 32"
    unfolding in_flight_def by blast
  let ?id = "enc_frameId e + 1"
  have ids: "?id = of_nat (Suc n)" by (simp add: e(1))
  have id: "unat ?id = Suc n"
    unfolding ids using n by (simp only: unsigned_of_nat) (simp add: take_bit_nat_eq_self)
  then have new: "ListDictionary_GetItemValue D d ?id = None" using d(3) [of ?id] by fastforce
  from next_rate [OF e(2-5), of n] obtain fps where fps: "(if int n > enc_frameAck e
      then c_int ((100 sdiv (int n + 1) * enc_maxFps e) sdiv 100)
      else do { fps \<leftarrow> c_int (enc_fps e + 2); Some (if fps > enc_maxFps e then enc_maxFps e else fps) }) = Some fps"
    "fps \<le> 32" "51 \<le> Suc n \<Longrightarrow> fps < 1" by blast
  obtain f h1 where f: "enc_new A FrameBlock h = (Some f, h1)" using A by (simp add: enc_new_def Let_def)
  let ?e = "e\<lparr>enc_fps := if fps < 1 then 1 else fps, enc_frameId := ?id, enc_frameList := Some (b, ListDictionary_Add D d ?id f)\<rparr>"
  have run: "freerds_encoder_create_frame_id D A e h = Some (sint ?id, ?e, h1)"
    unfolding freerds_encoder_create_frame_id_def d(1)
    by (simp only: Option.bind.bind_lunit prod.case option.case Let_def d(2) fps(1) f) simp
  have "unat k \<le> Suc n" if "ListDictionary_GetItemValue D (ListDictionary_Add D d ?id f) k \<noteq> None" for k
  proof (cases "k = ?id")
    case False
    with that d(3) [of k] show ?thesis by (simp add: Get_Add [OF new])
  qed (simp add: id)
  moreover have "ListDictionary_Count D (ListDictionary_Add D d ?id f) = int (Suc n)"
    by (simp add: Count_Add [OF new] d(2))
  ultimately have "in_flight D (Suc n) ?e"
    using e(2-5) fps(2,3) ids by (simp add: in_flight_def throttled_def del: of_nat_Suc)
  with run show ?thesis by blast
qed

lemma frames_pile_up:
  assumes A: "\<forall>n. A FrameBlock n"
  shows "in_flight D n e \<Longrightarrow> n + frames_sent evs < 2 ^ 32 \<Longrightarrow>
    \<exists>e' h'. frame_run D A evs (ListDictionary_New D) e h = Some (ListDictionary_New D, e', h') \<and>
      in_flight D (n + frames_sent evs) e'"
proof (induction evs arbitrary: n e h)
  case (Cons ev evs)
  show ?case
  proof (cases ev)
    case FrameSent
    then have "Suc n < 2 ^ 32" using Cons.prems(2) by (simp add: frames_sent_def)
    from send_frame_in_flight [of A, OF A Cons.prems(1) this, of h] obtain s e1 h1 where
      1: "freerds_encoder_create_frame_id D A e h = Some (s, e1, h1)" "in_flight D (Suc n) e1" by blast
    have "Suc n + frames_sent evs < 2 ^ 32" using FrameSent Cons.prems(2) by (simp add: frames_sent_def)
    from Cons.IH [OF 1(2) this, of h1] 1(1) FrameSent show ?thesis by (simp add: frames_sent_def)
  next
    case (FrameAcknowledged i)
    with Cons.IH [OF Cons.prems(1), of h] Cons.prems(2) show ?thesis
      by (simp add: frames_sent_def freerds_update_frame_acknowledge_def Get_New)
  qed
qed (simp add: frames_sent_def)

end

section \<open>The grid is kept\<close>

lemma init_frame_list_grid: "enc_grid (fst (init_frame_list D A settings e h)) = enc_grid e"
  by (simp add: init_frame_list_def split: option.splits prod.splits)

lemma init_rfx_grid: "enc_grid (fst (snd (freerds_encoder_init_rfx K D A settings e h))) = enc_grid e"
  by (simp add: freerds_encoder_init_rfx_def init_frame_list_def Let_def split: option.splits prod.splits)

lemma init_nsc_grid: "enc_grid (fst (snd (freerds_encoder_init_nsc K D A settings e h))) = enc_grid e"
  by (simp add: freerds_encoder_init_nsc_def init_frame_list_def Let_def split: option.splits prod.splits)

lemma init_planar_grid: "enc_grid (fst (snd (freerds_encoder_init_planar K A settings e h))) = enc_grid e"
  by (simp add: freerds_encoder_init_planar_def Let_def split: option.splits prod.splits)

lemma init_interleaved_grid: "enc_grid (fst (snd (freerds_encoder_init_interleaved K A e h))) = enc_grid e"
  by (simp add: freerds_encoder_init_interleaved_def Let_def split: option.splits prod.splits)

lemma prepare_grid:
  assumes run: "freerds_encoder_prepare K D A settings codecs e h = (s, e', h')"
  shows "enc_grid e' = enc_grid e"
proof -
  let ?w = "\<lambda>e bit. codecs AND bit \<noteq> 0 \<and> enc_codecs e AND bit = 0"
  obtain s1 e1 h1 where 1: "(if ?w e (FREERDP_CODEC_REMOTEFX K)
      then freerds_encoder_init_rfx K D A settings e h else (1, e, h)) = (s1, e1, h1)"
    by (metis prod_cases3)
  then have g1: "enc_grid e1 = enc_grid e" using init_rfx_grid [of K D A settings e h] by (auto split: if_splits)
  obtain s2 e2 h2 where 2: "(if ?w e1 (FREERDP_CODEC_NSCODEC K)
      then freerds_encoder_init_nsc K D A settings e1 h1 else (1, e1, h1)) = (s2, e2, h2)"
    by (metis prod_cases3)
  then have g2: "enc_grid e2 = enc_grid e" using g1 init_nsc_grid [of K D A settings e1 h1] by (auto split: if_splits)
  obtain s3 e3 h3 where 3: "(if ?w e2 (FREERDP_CODEC_PLANAR K)
      then freerds_encoder_init_planar K A settings e2 h2 else (1, e2, h2)) = (s3, e3, h3)"
    by (metis prod_cases3)
  then have g3: "enc_grid e3 = enc_grid e" using g2 init_planar_grid [of K A settings e2 h2] by (auto split: if_splits)
  obtain s4 e4 h4 where 4: "(if ?w e3 (FREERDP_CODEC_INTERLEAVED K)
      then freerds_encoder_init_interleaved K A e3 h3 else (1, e3, h3)) = (s4, e4, h4)"
    by (metis prod_cases3)
  then have g4: "enc_grid e4 = enc_grid e" using g3 init_interleaved_grid [of K A e3 h3] by (auto split: if_splits)
  have "e' \<in> {e1, e2, e3, e4}"
    using run unfolding freerds_encoder_prepare_def Let_def 1 prod.case 2 3 4 by (simp split: if_splits)
  with g1 g2 g3 g4 show ?thesis by auto
qed

lemma init_grid_present:
  assumes "\<forall>k n. A k n" and "freerds_encoder_init A e h = Some (s, e', h')"
  shows "enc_grid e' \<noteq> None"
  using assms
  by (auto simp: freerds_encoder_init_def freerds_encoder_init_grid_def enc_new_def Let_def
        split: bind_splits option.splits if_splits)

lemma reset_grid_present:
  assumes A: "\<forall>k n. A k n" and run: "freerds_encoder_reset K D A settings e h = Some (s, e', h')"
    and uninit: "freerds_encoder_uninit K e h = Some (1, e1, h1)"
  shows "enc_grid e' \<noteq> None"
proof -
  obtain s2 e2 h2 where 2: "freerds_encoder_init A e1 h1 = Some (s2, e2, h2)"
    using run uninit by (cases "freerds_encoder_init A e1 h1") (auto simp: freerds_encoder_reset_def)
  then obtain s3 h3 where "freerds_encoder_prepare K D A settings (enc_codecs e) e2 h2 = (s3, e', h3)"
    using run uninit encoder_init_keeps [OF 2] A by (auto simp: freerds_encoder_reset_def split: prod.splits)
  with prepare_grid init_grid_present [OF A 2] show ?thesis by metis
qed

lemma create_frame_grid:
  assumes "freerds_encoder_create_frame_id D A e h = Some (s, e', h')"
  shows "enc_grid e' = enc_grid e"
  using assms
  by (auto simp: freerds_encoder_create_frame_id_def Let_def split: bind_splits option.splits prod.splits if_splits)

context frame_dictionary
begin

lemma encoder_run_grid:
  assumes K: "codec_bits K" and A: "\<forall>k n. A k n"
  shows "encoder_ok K rest e h \<Longrightarrow> enc_grid e \<noteq> None \<Longrightarrow> encoder_run K D A settings ops e h = Some (e', h') \<Longrightarrow>
    enc_grid e' \<noteq> None"
proof (induction ops arbitrary: rest e h)
  case (Cons op ops)
  from Cons.prems(3) obtain s e1 h1 where 1: "encoder_step K D A settings op e h = Some (s, e1, h1)"
    "encoder_run K D A settings ops e1 h1 = Some (e', h')"
    by (auto split: bind_splits)
  obtain new where ok: "encoder_ok K (new + rest) e1 h1"
    using encoder_step_ok [OF K Cons.prems(1) 1(1)] by blast
  have "mset (live_objects h) = encoder_handles e + add_mset (enc_handle e) rest" "codecs_ok K e"
    using Cons.prems(1) by (simp_all add: encoder_ok_def)
  then obtain e2 h2 where "freerds_encoder_uninit K e h = Some (1, e2, h2)"
    using encoder_uninit_ok [OF K] by blast
  with 1(1) Cons.prems(2) have "enc_grid e1 \<noteq> None"
    by (cases op) (auto dest: prepare_grid create_frame_grid reset_grid_present [OF A] split: if_splits)
  from Cons.IH [OF ok this 1(2)] show ?case .
qed simp

end




section \<open>Properties\<close>


definition empty_heap :: enc_heap where
  "empty_heap = \<lparr>next_object = 0, live_objects = []\<rparr>"










text \<open>
  C37.  Acknowledgements do not reach the encoder.  The list of the connection, in which an acknowledged frame is
  looked up, stays empty, so every frame sent counts as in flight for ever, and once 51 frames have been
  sent the frame rate is 1 whatever the client acknowledges.
\<close>

theorem acknowledged_frames_stay_in_flight:
  assumes "frame_dictionary D" and "\<forall>n. A FrameBlock n" and "enc_frameList e = Some (b, ListDictionary_New D)"
    and "enc_frameId e = 0" "enc_frameAck e = 1" "enc_maxFps e = 32" "1 \<le> enc_fps e" "enc_fps e \<le> 32"
    and "frames_sent evs < 2 ^ 32"
  shows "\<exists>e' h' b' d. frame_run D A evs (ListDictionary_New D) e h = Some (ListDictionary_New D, e', h') \<and>
    enc_frameList e' = Some (b', d) \<and> ListDictionary_Count D d = int (frames_sent evs) \<and>
    (51 \<le> frames_sent evs \<longrightarrow> enc_fps e' = 1)"
proof -
  have "in_flight D 0 e"
    using assms(3-8) frame_dictionary.Count_New [OF assms(1)] frame_dictionary.Get_New [OF assms(1)]
    by (simp add: in_flight_def throttled_def)
  from frame_dictionary.frames_pile_up [of D A, OF assms(1,2) this, of evs h] assms(9) show ?thesis
    by (auto simp: in_flight_def throttled_def)
qed

definition sample_encoder :: "(UINT32 \<times> enc_handle) list rds_encoder" where
  "sample_encoder = (encoder_zero (EncoderBlock, 0))\<lparr>enc_frameList := Some ((FrameDictionary, 1), []),
     enc_frameAck := 1, enc_fps := 16, enc_maxFps := 32\<rparr>"

theorem acknowledged_frames_stay_in_flight_witness:
  "\<exists>e' h' b' d. frame_run alist_dictionary (\<lambda>k n. True) (concat (replicate 51 [FrameSent, FrameAcknowledged 1])) []
       sample_encoder empty_heap = Some ([], e', h') \<and>
     enc_frameList e' = Some (b', d) \<and> length d = 51 \<and> enc_fps e' = 1"
proof -
  let ?evs = "concat (replicate 51 [FrameSent, FrameAcknowledged 1])"
  have n: "frames_sent ?evs = 51" by code_simp
  have new: "ListDictionary_New alist_dictionary = []" by (simp add: alist_dictionary_def)
  have count: "ListDictionary_Count alist_dictionary d = int (length d)" for d by (simp add: alist_dictionary_def)
  show ?thesis
    using acknowledged_frames_stay_in_flight [OF alist.frame_dictionary_axioms, of "\<lambda>k n. True" sample_encoder
        "(FrameDictionary, 1)" ?evs empty_heap] n
    by (simp add: sample_encoder_def encoder_zero_def new count)
qed

text \<open>
  The bound on the desktop is needed: the size of the grid buffer of a desktop of 65535 by 65535 pixels,
  which a client may ask for, does not fit an \<open>int\<close>.
\<close>

lemma large_desktop_overflows:
  assumes "A EncoderBlock (next_object h)"
  shows "freerds_encoder_new A 65535 65535 h = None"
  using assms
  by (simp add: freerds_encoder_new_def freerds_encoder_init_def freerds_encoder_init_grid_def enc_new_def Let_def
        c_int_def encoder_zero_def)

end
