(* ===== verification/Spec2Isabelle.thy ===== *)
theory Spec2Isabelle
  imports Rds_Protocol_Properties Rds_Rpc_Properties Rds_Manager_Properties Rds_Unpacker Rds_Encoder
begin

text \<open>
  This library verifies FreeRDS, a remote desktop server: the protocol by which the server process and a
  session process (the X server, the greeter, an RDP proxy) talk to each other over a named pipe, the
  encoder of the server, and the session manager with the messages by which the server talks to it.

  \<^bold>\<open>The program.\<close>  Server and session share one message format (\<open>src/include/freerds/backend.h\<close>): a
  header of type, length and flags, an optional rectangle, and a body per type.
  \<open>src/freerds/backend/protocol.c\<close> reads, writes, copies and frees every message and keeps a table of
  these routines for each direction; \<open>outbound.c\<close> gives a caller one routine per message, which
  measures it, makes room in the outbound stream, writes it and passes the bytes to the pipe;
  \<open>transport.c\<close> reads and writes the pipe, collects the bytes of the next message in the inbound
  stream over as many calls as it takes, and hands it to the callback of its type; \<open>service.c\<close> runs
  that receiver in a loop on a thread.  The session sends drawing orders to the server, which handles
  them with its server interface, and the server sends input events to the session, which handles
  them with its client interface.

  The server core (\<open>src/freerds/core\<close>) sends the picture on to the remote client; its encoder
  (\<open>encoder.c\<close>) owns the codecs, the tile buffers and the frames that the client has not acknowledged.

  Logons go from the server to the session manager (\<open>src/manager\<close>) as management messages
  (\<open>src/freerds/rpc\<close>) in the MessagePack format (\<open>src/external/msgpack\<close>).  The manager keeps a store of
  sessions and a store of connections, authenticates users, starts a module for each session and tells
  the server which pipe to use.

  \<^bold>\<open>Correspondence.\<close>
  \<^item> \<open>Rds_Prelude\<close>: little-endian numbers as byte lists, byte pointers (\<open>None\<close> is the null pointer), loads and
    stores, the named collections of rewrite rules.
  \<^item> \<open>Rds_WStream\<close>: the stream of WinPR, which is not part of this repository, as a record of
    operations.  The locale \<open>wstream\<close> states what the code relies on, and \<open>buffer_ops\<close> is a concrete
    buffer with a position that satisfies it.
  \<^item> \<open>Rds_Messages\<close>: the structs of \<open>backend.h\<close> with the fields and widths of the source.
  \<^item> \<open>Rds_Codec\<close>: the common header and the contracts of readers and writers (\<open>rds_writer\<close>,
    \<open>rds_codec\<close>, \<open>rds_fixed_codec\<close>); \<open>Rds_Client_Protocol\<close>, \<open>Rds_Drawing_Protocol\<close> and
    \<open>Rds_Session_Protocol\<close>: the read, write, copy and free routine of every message, in the order of
    \<open>protocol.c\<close>, each discharging its contract.
  \<^item> \<open>Rds_Dispatch\<close>: a message of any type, \<open>RDS_CLIENT_MSG_DEFINITIONS\<close>, \<open>RDS_SERVER_MSG_DEFINITIONS\<close> and the
    generic routines that go through them.
  \<^item> \<open>Rds_Pipe\<close>: \<open>freerds_named_pipe_read\<close> and \<open>freerds_named_pipe_write\<close> over the calls of the operating
    system, again a record of operations with the locales \<open>named_pipe\<close> and \<open>connected_pipe\<close>; the
    instance \<open>chunk_pipe_ops\<close> moves at most a fixed number of bytes per call.
  \<^item> \<open>Rds_Outbound\<close>: the routines and the two tables of \<open>outbound.c\<close>.
  \<^item> \<open>Rds_Transport\<close>: \<open>freerds_transport_receive\<close>, the two dispatch functions of \<open>transport.c\<close> and the loop
    of \<open>freerds_service_client_thread\<close>.
  \<^item> \<open>Rds_Samples\<close>, \<open>Rds_Protocol_Properties\<close> and this theory: concrete messages, pipes and backends, and the
    properties of the backend protocol.
  \<^item> \<open>Rds_Encoder\<close>: all of \<open>encoder.c\<close> over an explicit heap, and the acknowledgement of a frame of
    \<open>process.c\<close>, with their properties.  The codecs and the dictionary are parameters.
  \<^item> \<open>Rds_Msgpack\<close> and \<open>Rds_Msgpack_Roundtrip\<close>: packing (\<open>pack_template.h\<close>) and the resumable unpacking
    machine (\<open>unpack_template.h\<close>, \<open>unpack.c\<close>); \<open>Rds_Unpacker\<close>: the streaming unpacker of \<open>unpack.c\<close>, with the
    growing buffer, the reference counter at the head of each buffer and the finalizers of the zone.
  \<^item> \<open>Rds_Rpc_Messages\<close>, \<open>Rds_Rpc_Pack\<close>, \<open>Rds_Rpc_Dispatch\<close> and \<open>Rds_Rpc_Properties\<close>: the eighteen management
    messages of \<open>include/freerds/rpc.h\<close>, their routines in \<open>rpc/msg.c\<close> and the table over them in \<open>rpc/pack.c\<close>.
  \<^item> \<open>Rds_Ordered_Map\<close>: the ordered maps of the C++ library, with the contract \<open>key_store\<close>.
    \<open>Rds_Manager_Session\<close>: properties, modules and sessions; \<open>Rds_Manager_Stores\<close>: the two stores;
    \<open>Rds_Manager_Calls\<close>: the calls of the server, the handler of the management service, the tasks, the
    timeout and the loss of the server.  \<open>Rds_Manager_Invariant\<close> and \<open>Rds_Manager_Machine\<close> show that
    each of them keeps the invariant of the manager, and \<open>Rds_Manager_Properties\<close> has the reachable
    states and the properties.

  A routine of the source that stores through a null or dangling pointer, reads outside an array, releases
  an object that is not live or overflows a signed integer has the value \<open>None\<close>; a negative status of the
  source is the same negative number here.  Integers have the width of the C type, so narrowing and
  wrap-around are those of the source.

  \<^bold>\<open>What is shown.\<close>  The delivery theorems compose the whole path of the backend protocol: whatever sequence
  of messages one side passes to its outbound table arrives, decoded and in order, at the callbacks of the
  other side, however the pipe cuts the bytes; at every moment before that, the calls made are a prefix
  of it.  Excluded are the five messages that are never written (palette, glyphs, beep, reset), pattern blts
  and window orders, whose readers do not fit their writers, the request to suppress output, which is
  dropped, and frames larger than the inbound stream.  Below them stand the codec theorems (reading inverts writing, writing is the same in its
  measuring and in its storing phase, truncated messages are rejected), the pipe theorems (the write
  loop ends), the ownership theorems (a copied message can
  be freed), and theorems about the cases in which the code does not do what the rest of
  it expects.

  For MessagePack and the management messages: unpacking inverts packing and truncated input is
  refused.  The streaming unpacker refines a queue of bytes whatever chunks it is
  given and whichever allocations fail, and its reference counts are exact.

  For the session manager, over all reachable states: the stores are well formed, a connection only shows
  a session of the user it was authenticated as (or a greeter), every context of a module is started and
  released at most once, the loss of the server keeps the sessions of users, and a user who disconnects
  gets the same session back.

  For the encoder: every object is released once whichever allocations fail, the frames apart; the tile
  buffers are disjoint and the frame rate stays in its bounds; acknowledgements never reach the list of
  frames in flight.

  \<^bold>\<open>Bounds.\<close>  Frames are shorter than $2^{31}$ bytes because the status of a writer is a C \<open>int\<close>.  The
  write loop of the pipe is a \<open>partial_function\<close> whose value \<open>None\<close> means that it never returns; the
  theorem \<open>pipe_write_terminates\<close> shows that it returns on a connected pipe, because every successful
  write moves at least one byte.  The loop of the service thread is unfolded for an explicit
  number of rounds, and the delivery theorems show that a number of rounds exists.  The doubling loop of
  the unpacker's buffer is a \<open>partial_function\<close> too, shown to end for requests below $2^{62}$ bytes.  The
  manager numbers fewer than $2^{32}$ sessions, after which session ids would be reused.  The grid of the
  encoder has fewer than 131072 tiles; a larger one overflows, as \<open>large_desktop_overflows\<close> shows.

  \<^bold>\<open>Not modelled.\<close>  The \<open>Size\<close> column of the message tables and the two functions that return it, which are
  \<open>sizeof\<close> of the structs; \<open>printf\<close> traces; creation of pipes, events and threads.  The handlers of the
  manager run one at a time: the executor's threads, the RPC engine and the decoding of requests into calls
  are left out, and an allocation made by \<open>msgpack_unpack_cstr\<close> succeeds.  Of the server core, the message
  pipeline, the drawing orders, peers and virtual channels are left out; they are mostly calls of FreeRDP.
  The channel plugins, the session modules, the generated management service and the widgets are calls of
  FUSE, PulseAudio, the X server, Thrift and Qt, none of which is part of this repository.
\<close>

section \<open>Sequences of calls on the sending side\<close>

text \<open>The caller goes through the outbound table once per message, in order.\<close>

fun server_sends ::
  "'s wstream_ops \<Rightarrow> 'p pipe_ops \<Rightarrow> window_order_flags \<Rightarrow> RDS_MSG list \<Rightarrow> ('s, 'p) rdsBackend \<Rightarrow>
   ('s, 'p) rdsBackend option" where
  "server_sends W P K [] b = Some b"
| "server_sends W P K (m # ms) b =
     do {
       f \<leftarrow> freerds_server_outbound_interface_new W P K m;
       (_, b, _) \<leftarrow> f b;
       server_sends W P K ms b
     }"

fun client_sends ::
  "'s wstream_ops \<Rightarrow> 'p pipe_ops \<Rightarrow> rds_locals \<Rightarrow> client_call list \<Rightarrow> ('s, 'p) rdsBackend \<Rightarrow>
   ('s, 'p) rdsBackend option" where
  "client_sends W P loc [] b = Some b"
| "client_sends W P loc (c # cs) b =
     do {
       f \<leftarrow> freerds_client_outbound_interface_new W P loc c;
       (_, b) \<leftarrow> f b;
       client_sends W P loc cs b
     }"

definition sendable :: "window_order_flags \<Rightarrow> RDS_MSG \<Rightarrow> bool" where
  "sendable K m \<longleftrightarrow>
     server_type m \<noteq> 0 \<and> server_type m \<le> 23 \<and> readable (server_retype m) \<and>
     length (msg_frame K (server_retype m)) < 2 ^ 31"

lemma sendable_entry:
  assumes "sendable K m"
  shows "\<exists>f. freerds_server_outbound_interface_new W P K m = Some f"
  using assms by (cases m) (simp_all add: sendable_def)

lemma event_entry: "is_event c \<Longrightarrow> \<exists>f. freerds_client_outbound_interface_new W P loc c = Some f"
  by (cases c) simp_all

context backend_link
begin

lemma server_sends_one:
  assumes "sendable K m" and "freerds_server_outbound_interface_new W P K m = Some f"
  shows "\<exists>s p. f b = Some (int (length (msg_frame K (server_retype m))),
                           b\<lparr>hClientPipe := p, OutboundStream := s\<rparr>, msg_final (server_retype m)) \<and>
               sent p = sent (hClientPipe b) @ msg_frame K (server_retype m) \<and>
               incoming p = incoming (hClientPipe b)"
  using server_out.message_sent [of "server_retype m" K b] assms server_retype_typed [OF assms(2)]
  by (simp add: sendable_def readable_def interface_sends_message [OF assms(2)])

lemma server_sends_frames:
  "list_all (sendable K) ms \<Longrightarrow>
   \<exists>b'. server_sends W P K ms b = Some b' \<and>
        sent (hClientPipe b') = sent (hClientPipe b) @ concat (map (msg_frame K \<circ> server_retype) ms)"
proof (induction ms arbitrary: b)
  case (Cons m ms)
  obtain f where f: "freerds_server_outbound_interface_new W P K m = Some f"
    using sendable_entry Cons.prems by force
  obtain s p where *: "f b = Some (int (length (msg_frame K (server_retype m))),
      b\<lparr>hClientPipe := p, OutboundStream := s\<rparr>, msg_final (server_retype m))"
    "sent p = sent (hClientPipe b) @ msg_frame K (server_retype m)"
    using server_sends_one [OF _ f, of b] Cons.prems by auto
  then show ?case
    using Cons.IH [of "b\<lparr>hClientPipe := p, OutboundStream := s\<rparr>"] Cons.prems f by auto
qed simp

lemma client_sends_frames:
  "list_all is_event cs \<Longrightarrow> 22 \<le> length (Stream_Buffer W (OutboundStream b)) \<Longrightarrow>
   \<exists>b'. client_sends W P loc cs b = Some b' \<and>
        sent (hClientPipe b') = sent (hClientPipe b) @ concat (map client_frame cs)"
proof (induction cs arbitrary: b)
  case (Cons c cs)
  obtain f where f: "freerds_client_outbound_interface_new W P loc c = Some f"
    using event_entry Cons.prems(1) by force
  obtain s p where *: "f b = Some (int (length (client_frame c)), b\<lparr>hClientPipe := p, OutboundStream := s\<rparr>)"
    "sent p = sent (hClientPipe b) @ client_frame c"
    "length (Stream_Buffer W s) = length (Stream_Buffer W (OutboundStream b))"
    using client_event_sent [OF _ Cons.prems(2) f] Cons.prems(1) by auto
  then show ?case
    using Cons.IH [of "b\<lparr>hClientPipe := p, OutboundStream := s\<rparr>"] Cons.prems f by auto
qed simp

end

section \<open>From one backend to the other\<close>



text \<open>
  C2.  Input events from a client to its session.  The client side calls its outbound table once per event;
  every call succeeds, and if the bytes this put on the pipe are what is on its way to the session, then
  the service thread of the session makes exactly these calls, with the same arguments and in the same
  order, after at most as many runs as there are bytes.
\<close>

theorem client_to_server_delivery:
  assumes link: "backend_link W P incoming sent"
    and keeps: "handler_keeps incoming client" and handled: "\<And>c b. client c b \<noteq> None"
    and good: "list_all handled_event cs" and out: "22 \<le> length (Stream_Buffer W (OutboundStream b))"
    and room: "22 \<le> length (Stream_Buffer W (InboundStream d))" "22 \<le> Stream_Length W (InboundStream d)"
    and start: "ServerMode d" "Stream_GetPosition W (InboundStream d) = 0"
    and carried: "\<And>b'. client_sends W P loc cs b = Some b' \<Longrightarrow>
                        sent (hClientPipe b') = sent (hClientPipe b) @ incoming (hClientPipe d)"
  shows "\<exists>b' ready d'. client_sends W P loc cs b = Some b' \<and> ready \<le> length (incoming (hClientPipe d)) \<and>
           freerds_service_client_thread W P K server client loc' ready d = Some (0, d', map ClientCall cs)"
proof -
  have events: "list_all is_event cs" using good by (auto simp: list_all_iff handled_event_def)
  have fit: "\<forall>c \<in> set cs. handled_event c \<and> fits W (InboundStream d) (client_frame c)"
    using good room le_trans [OF length_client_frame(2)] le_less_trans [OF length_client_frame(2), of "2 ^ 31"]
    by (auto simp: list_all_iff fits_def)
  obtain b' where sends: "client_sends W P loc cs b = Some b'"
    and bytes: "incoming (hClientPipe d) = concat (map client_frame cs)"
    using backend_link.client_sends_frames [OF link events out, of loc] carried by auto
  have recv: "client_receiver W P incoming sent client"
    using link keeps handled by (simp add: receiver_defs)
  have "awaiting W incoming client_frame handled_event True cs d"
    using client_receiver.events_start [OF recv] start bytes fit by blast
  from backend_link.events_arrive [OF link keeps handled this, of K server loc'] show ?thesis
    using sends start bytes by auto
qed

theorem client_to_server_delivery_witness:
  "\<exists>b' ready d'.
     client_sends buffer_ops chunk_pipe_ops sample_locals [MouseEvent 1 2 3, VBlankEvent] (sample_backend False []) = Some b' \<and>
     ready \<le> length (cp_in (hClientPipe (sample_backend True (concat (map client_frame [MouseEvent 1 2 3, VBlankEvent]))))) \<and>
     freerds_service_client_thread buffer_ops chunk_pipe_ops sample_flags note_call note_call sample_locals ready
       (sample_backend True (concat (map client_frame [MouseEvent 1 2 3, VBlankEvent]))) =
       Some (0, d', map ClientCall [MouseEvent 1 2 3, VBlankEvent])"
proof (rule client_to_server_delivery [where incoming = cp_in and sent = cp_out])
  show "backend_link buffer_ops chunk_pipe_ops cp_in cp_out" by (rule link.backend_link_axioms)
  fix b' assume "client_sends buffer_ops chunk_pipe_ops sample_locals [MouseEvent 1 2 3, VBlankEvent] (sample_backend False []) = Some b'"
  then show "cp_out (hClientPipe b') = cp_out (hClientPipe (sample_backend False [])) @
      cp_in (hClientPipe (sample_backend True (concat (map client_frame [MouseEvent 1 2 3, VBlankEvent]))))"
    using link.client_sends_frames [of "[MouseEvent 1 2 3, VBlankEvent]" "sample_backend False []" sample_locals] by auto
qed (simp_all add: note_call_keeps handled_event_def)



text \<open>
  C4.  The same for the events of a client other than the request to suppress output, which a session reads
  and drops: when events of these kinds and nothing else are on their way, on a pipe that may fail, the session has at any
  moment handled a prefix of them, each with its arguments.
\<close>

theorem session_receives_events_in_order:
  assumes "wstream W" and "named_pipe P incoming sent" and "handler_keeps incoming client"
    and "\<And>b. client VBlankEvent b \<noteq> None"
    and "ServerMode d" "Stream_GetPosition W (InboundStream d) = 0"
    and "incoming (hClientPipe d) = concat (map client_frame cs)"
    and "list_all (\<lambda>c. handled_event c \<and> fits W (InboundStream d) (client_frame c)) cs"
    and "freerds_service_client_thread W P K server client loc ready d = Some (status, d', calls)"
  shows "\<exists>n \<le> length cs. calls = map ClientCall (take n cs)"
proof -
  have recv: "client_receiver W P incoming sent client"
    using assms(1-4) by (simp add: receiver_defs)
  have "awaiting W incoming client_frame handled_event True cs d"
    using assms(5-8) by (intro client_receiver.events_start [OF recv]) (auto simp: list_all_iff)
  from client_receiver.events_in_order [OF recv this assms(9)] show ?thesis
    by (auto dest: carries_event_calls)
qed

theorem session_receives_events_in_order_witness:
  "\<exists>ready d' calls. calls \<noteq> [] \<and> (\<exists>n \<le> length [VBlankEvent]. calls = map ClientCall (take n [VBlankEvent])) \<and>
     freerds_service_client_thread buffer_ops chunk_pipe_ops sample_flags note_call note_call sample_locals ready
       (sample_backend True (client_frame VBlankEvent)) = Some (0, d', calls)"
proof -
  let ?d = "sample_backend True (client_frame VBlankEvent)"
  have fit: "list_all (\<lambda>c. handled_event c \<and> fits buffer_ops (InboundStream ?d) (client_frame c)) [VBlankEvent]"
    by (simp add: fits_def handled_event_def client_frame_def event_frame_def)
  then have "awaiting buffer_ops cp_in client_frame handled_event True [VBlankEvent] ?d"
    by (intro noted_events.events_start) simp_all
  from link.events_arrive [OF note_call_keeps this, of sample_flags note_call sample_locals]
  obtain ready d' where run: "freerds_service_client_thread buffer_ops chunk_pipe_ops sample_flags note_call note_call
      sample_locals ready ?d = Some (0, d', map ClientCall [VBlankEvent])" by blast
  have "\<exists>n \<le> length [VBlankEvent]. map ClientCall [VBlankEvent] = map ClientCall (take n [VBlankEvent])"
    by (rule session_receives_events_in_order [OF bs.wstream_axioms cp.named_pipe_axioms note_call_keeps _ _ _ fit run]) simp_all
  then show ?thesis using run by (intro exI [of _ ready] exI [of _ d'] exI [of _ "map ClientCall [VBlankEvent]"]) simp
qed

text \<open>
  C8.  One entry of the outbound table.  Every routine of the server interface whose message has a wire format,
  eighteen of the twenty-three (not the palette, the two glyph messages, the beep and the reset, whose writers are empty),
  puts exactly the frame of the message on a connected pipe, with the type of the entry whatever type the
  caller left in the message, and returns the number of bytes; of the backend only the outbound stream and
  the sending side of the pipe change.  The data of the message are in memory at the lengths it announces, and the
  frame is shorter than \<open>2 ^ 31\<close> bytes.
\<close>

theorem server_interface_sends_frame:
  assumes "backend_link W P incoming sent" and "freerds_server_outbound_interface_new W P K m = Some f"
    and "msg_ok (server_retype m)" and "length (msg_frame K (server_retype m)) < 2 ^ 31"
  shows "\<exists>s p. f b = Some (int (length (msg_frame K (server_retype m))),
                           b\<lparr>hClientPipe := p, OutboundStream := s\<rparr>, msg_final (server_retype m)) \<and>
               sent p = sent (hClientPipe b) @ msg_frame K (server_retype m) \<and>
               incoming p = incoming (hClientPipe b)"
  using backend_link.server_message_sent [OF assms(1) server_retype_typed [OF assms(2)] assms(3, 4), of b]
  by (simp add: interface_sends_message [OF assms(2)])

theorem server_interface_sends_frame_witness:
  "\<exists>s p. freerds_server_outbound_begin_update buffer_ops chunk_pipe_ops sample_flags (sample_backend True []) (sample_common 0) =
     Some (int (length (msg_frame sample_flags sample_begin)),
           (sample_backend True [])\<lparr>hClientPipe := p, OutboundStream := s\<rparr>, msg_final sample_begin) \<and>
     cp_out p = cp_out (hClientPipe (sample_backend True [])) @ msg_frame sample_flags sample_begin \<and>
     cp_in p = cp_in (hClientPipe (sample_backend True []))"
proof -
  have retype: "server_retype (BeginUpdate (sample_common 0)) = sample_begin" by (simp add: sample_defs)
  have entry: "freerds_server_outbound_interface_new buffer_ops chunk_pipe_ops sample_flags (BeginUpdate (sample_common 0)) =
      Some (\<lambda>b. freerds_server_outbound_begin_update buffer_ops chunk_pipe_ops sample_flags b (sample_common 0))" by simp
  have "msg_ok sample_begin" "length (msg_frame sample_flags sample_begin) < 2 ^ 31"
    using sample_begin_facts by (simp_all add: readable_def)
  then show ?thesis
    using server_interface_sends_frame [OF link.backend_link_axioms entry, unfolded retype, of "sample_backend True []"] by blast
qed

section \<open>The receiving side, call by call\<close>

text \<open>
  C5.  One call of the transport.  While the stream and the pipe together hold a frame and what follows it,
  and the stream holds less than the frame, a call either fails because the pipe does; or takes some bytes
  of this frame and none beyond it; or takes the last of them and hands over exactly this frame.  The
  capacity and the length of the stream stay the same.
\<close>

theorem transport_collects_frame:
  assumes "wstream W" and "named_pipe P incoming sent" and "is_frame F"
    and "collecting W incoming F rest (InboundStream b) (hClientPipe b)"
    and "Stream_GetPosition W (InboundStream b) < length F"
  shows "(\<exists>b'. freerds_transport_receive W P K server client loc b = Some (-1, b', []) \<and> pipe_fault W P incoming) \<or>
         (\<exists>b'. freerds_transport_receive W P K server client loc b = Some (0, b', []) \<and>
               collecting W incoming F rest (InboundStream b') (hClientPipe b') \<and>
               Stream_GetPosition W (InboundStream b) < Stream_GetPosition W (InboundStream b') \<and>
               Stream_GetPosition W (InboundStream b') < length F \<and> same_shape W b b') \<or>
         (\<exists>b'. freerds_transport_receive W P K server client loc b =
                 receive_frame W K server client loc b' (InboundStream b') \<and>
               collecting W incoming F rest (InboundStream b') (hClientPipe b') \<and>
               Stream_GetPosition W (InboundStream b') = length F \<and> same_shape W b b')"
proof (rule receiving_backend.receive_step)
  show "receiving_backend W P incoming sent" using assms(1, 2) by (simp add: receiving_backend_def)
qed (fact assms)+

theorem transport_collects_frame_witness:
  "(\<exists>b'. freerds_transport_receive buffer_ops chunk_pipe_ops sample_flags note_call note_call sample_locals
           (sample_backend True (client_frame VBlankEvent)) = Some (-1, b', []) \<and> pipe_fault buffer_ops chunk_pipe_ops cp_in) \<or>
   (\<exists>b'. freerds_transport_receive buffer_ops chunk_pipe_ops sample_flags note_call note_call sample_locals
           (sample_backend True (client_frame VBlankEvent)) = Some (0, b', []) \<and>
         collecting buffer_ops cp_in (client_frame VBlankEvent) [] (InboundStream b') (hClientPipe b') \<and>
         Stream_GetPosition buffer_ops (InboundStream (sample_backend True (client_frame VBlankEvent))) <
           Stream_GetPosition buffer_ops (InboundStream b') \<and>
         Stream_GetPosition buffer_ops (InboundStream b') < length (client_frame VBlankEvent) \<and>
         same_shape buffer_ops (sample_backend True (client_frame VBlankEvent)) b') \<or>
   (\<exists>b'. freerds_transport_receive buffer_ops chunk_pipe_ops sample_flags note_call note_call sample_locals
           (sample_backend True (client_frame VBlankEvent)) =
           receive_frame buffer_ops sample_flags note_call note_call sample_locals b' (InboundStream b') \<and>
         collecting buffer_ops cp_in (client_frame VBlankEvent) [] (InboundStream b') (hClientPipe b') \<and>
         Stream_GetPosition buffer_ops (InboundStream b') = length (client_frame VBlankEvent) \<and>
         same_shape buffer_ops (sample_backend True (client_frame VBlankEvent)) b')"
proof (rule transport_collects_frame [OF bs.wstream_axioms cp.named_pipe_axioms client_frame_is_frame])
  show "collecting buffer_ops cp_in (client_frame VBlankEvent) [] (InboundStream (sample_backend True (client_frame VBlankEvent)))
      (hClientPipe (sample_backend True (client_frame VBlankEvent)))"
    by (simp add: collecting_def client_frame_def event_frame_def)
qed (simp add: client_frame_def event_frame_def)

text \<open>
  Suppressing output has no effect.  The client interface sends the request, and the session reads its frame
  and calls no handler.
\<close>

theorem suppress_output_dropped:
  assumes "wstream W" and "ServerMode b"
    and "Stream_Buffer W s = client_frame (ClientSuppressOutput activeOutput) @ stale"
  shows "\<exists>b'. receive_frame W K server client loc b s = Some (0, b', []) \<and>
              Stream_GetPosition W (InboundStream b') = 0 \<and> hClientPipe b' = hClientPipe b"
proof -
  let ?c = "ClientSuppressOutput activeOutput"
  have "Stream_Pointer W (Stream_SetPosition W s 0) = client_frame ?c @ stale"
    using assms(3) by (simp add: Stream_Pointer_def wstream.SetPosition_laws [OF assms(1)])
  note hdr = wstream.read_event_header [OF assms(1) this, of loc]
  show ?thesis
    using assms(2)
    by (simp add: receive_frame_def hdr freerds_receive_message_def freerds_receive_client_message_def
        event_common_def wstream.SetPosition_laws [OF assms(1)])
qed

theorem suppress_output_dropped_witness:
  "\<exists>b'. receive_frame buffer_ops sample_flags note_call note_call sample_locals (sample_backend True [])
          \<lparr>bs_buffer = client_frame (ClientSuppressOutput 1), bs_position = 14, bs_length = 14\<rparr> = Some (0, b', []) \<and>
        Stream_GetPosition buffer_ops (InboundStream b') = 0 \<and> hClientPipe b' = hClientPipe (sample_backend True [])"
  by (rule suppress_output_dropped [OF bs.wstream_axioms, where stale = "[]"]) (simp_all add: buffer_ops_def)

text \<open>
  C17.  Failures of handlers go unreported.  The transport returns only 0 or -1, and -1 only from a call that has
  handed no frame over: what the message reader and the handler return is dropped.
\<close>

theorem transport_status:
  assumes "freerds_transport_receive W P K server client loc b = Some (status, b', calls)"
  shows "status = 0 \<or> status = -1 \<and> calls = []"
proof -
  have "status' = 0" if "receive_frame W K server client loc b1 s1 = Some (status', b1', calls')"
    for b1 s1 status' b1' calls'
    using that by (auto simp: receive_frame_def Let_def Option.bind_eq_Some_conv split: prod.splits)
  then show ?thesis
    using assms by (auto simp: freerds_transport_receive_def Let_def split: prod.splits if_splits)
qed

theorem transport_status_witness:
  "\<exists>status b' calls. freerds_transport_receive buffer_ops chunk_pipe_ops sample_flags note_call note_call sample_locals
     (sample_backend True []) = Some (status, b', calls) \<and> (status = 0 \<or> status = -1 \<and> calls = [])"
proof -
  have "\<exists>b'. freerds_transport_receive buffer_ops chunk_pipe_ops sample_flags note_call note_call sample_locals
      (sample_backend True []) = Some (-1, b', [])"
    by (rule noted_events.events.wait_dry) (simp add: awaiting_def)
  then obtain b' where "freerds_transport_receive buffer_ops chunk_pipe_ops sample_flags note_call note_call sample_locals
      (sample_backend True []) = Some (-1, b', [])" ..
  from this transport_status [OF this] show ?thesis by blast
qed

text \<open>
  C20.  A length field that is too small.  Once the ten bytes of a header have arrived, a length field below
  ten makes the transport ask the pipe for almost \<open>2 ^ 32\<close> bytes more: the difference wraps around.  The
  inbound stream has no room for them.
\<close>

theorem short_length_field_wraps:
  assumes "Stream_GetPosition W s = 10" and "unat (freerds_peek_common_header_length (Stream_Buffer W s)) < 10"
  shows "\<exists>n. receive_body W P s p = read_into W P s p n \<and>
             unat n = 2 ^ 32 - (10 - unat (freerds_peek_common_header_length (Stream_Buffer W s)))"
proof -
  let ?len = "freerds_peek_common_header_length (Stream_Buffer W s)"
  have "\<not> 10 \<le> ?len" using assms(2) by (simp add: word_le_nat_alt)
  then have "unat (missing ?len 10) = 2 ^ 32 + unat ?len - 10"
    by (simp add: missing_def unat_sub_if_size word_le_nat_alt word_size)
  then show ?thesis
    using assms by (intro exI [of _ "missing ?len 10"]) (simp add: receive_body_def RDS_ORDER_HEADER_LENGTH_def Let_def)
qed

theorem short_length_field_wraps_witness:
  "\<exists>n. receive_body buffer_ops chunk_pipe_ops \<lparr>bs_buffer = replicate 64 0, bs_position = 10, bs_length = 64\<rparr> (sample_pipe []) =
         read_into buffer_ops chunk_pipe_ops \<lparr>bs_buffer = replicate 64 0, bs_position = 10, bs_length = 64\<rparr> (sample_pipe []) n \<and>
       unat n = 4294967286"
proof -
  let ?s = "\<lparr>bs_buffer = replicate 64 0, bs_position = 10, bs_length = 64\<rparr>"
  have "freerds_peek_common_header_length (Stream_Buffer buffer_ops ?s) = 0"
    by (simp add: freerds_peek_common_header_length_def buffer_ops_def numeral_eq_Suc)
  then show ?thesis
    using short_length_field_wraps [of buffer_ops ?s chunk_pipe_ops "sample_pipe []"] by (simp add: buffer_ops_def)
qed

end
